(* ===== verification/PyFloat.thy ===== *)
theory PyFloat
  imports PyPrelude
begin

text \<open>
  Python's \<open>float\<close>: an IEEE double as an exact dyadic number \<open>m * 2 ^ e\<close>, with the
  special values. Integers, comparisons, the reading of a decimal text
  (\<open>float(s)\<close>), the shortest representation (\<open>repr\<close>) and the general format
  \<open>format(x, ".6g")\<close> are computed on integers only.
\<close>

section \<open>Values and comparison\<close>

datatype pyfloat = FFin int int | FNegZero | FInf | FNegInf | FNan

text \<open>
  The value of a finite float as a fraction with a positive denominator.
\<close>

fun fin_frac :: "pyfloat \<Rightarrow> (int \<times> int) option" where
  "fin_frac (FFin m e) = Some (if 0 \<le> e then (m * 2 ^ nat e, 1) else (m, 2 ^ nat (- e)))"
| "fin_frac FNegZero = Some (0, 1)"
| "fin_frac FInf = None"
| "fin_frac FNegInf = None"
| "fin_frac FNan = None"

definition frac_le :: "int \<times> int \<Rightarrow> int \<times> int \<Rightarrow> bool" where
  "frac_le a b \<longleftrightarrow> fst a * snd b \<le> fst b * snd a"

definition float_le :: "pyfloat \<Rightarrow> pyfloat \<Rightarrow> bool" where
  "float_le x y =
     (if x = FNan \<or> y = FNan then False
      else if x = FNegInf \<or> y = FInf then True
      else if x = FInf \<or> y = FNegInf then False
      else (case (fin_frac x, fin_frac y) of (Some a, Some b) \<Rightarrow> frac_le a b | _ \<Rightarrow> False))"

definition float_eq :: "pyfloat \<Rightarrow> pyfloat \<Rightarrow> bool" where
  "float_eq x y \<longleftrightarrow> float_le x y \<and> float_le y x"

definition float_lt :: "pyfloat \<Rightarrow> pyfloat \<Rightarrow> bool" where
  "float_lt x y \<longleftrightarrow> float_le x y \<and> \<not> float_le y x"

text \<open>
  A Python comparison of an integer with a float is exact, so an integer takes part in a
  comparison as itself. (It need not be a double.)
\<close>

definition exact_int :: "int \<Rightarrow> pyfloat" where
  "exact_int i = FFin i 0"

lemma float_le_exact_int [simp]: "float_le (exact_int i) (exact_int j) \<longleftrightarrow> i \<le> j"
  by (simp add: float_le_def exact_int_def frac_le_def)

lemma float_eq_exact_int [simp]: "float_eq (exact_int i) (exact_int j) \<longleftrightarrow> i = j"
  by (auto simp: float_eq_def)

lemma float_lt_exact_int [simp]: "float_lt (exact_int i) (exact_int j) \<longleftrightarrow> i < j"
  by (auto simp: float_lt_def)

section \<open>Rounding to a double\<close>

function bitlen :: "int \<Rightarrow> int" where
  "bitlen n = (if n \<le> 0 then 0 else 1 + bitlen (n div 2))"
  by pat_completeness auto
termination
  by (relation "measure nat") auto

declare bitlen.simps [simp del]

text \<open>Division rounded to the nearest, ties to even.\<close>

definition div_half_even :: "int \<Rightarrow> int \<Rightarrow> int" where
  "div_half_even n d =
     (let q = n div d; r = n mod d
      in if 2 * r < d then q else if d < 2 * r then q + 1
         else if q mod 2 = 0 then q else q + 1)"

text \<open>\<open>n / (d * 2 ^ e)\<close> for an exponent of either sign, rounded.\<close>

definition scale_div :: "int \<Rightarrow> int \<Rightarrow> int \<Rightarrow> int" where
  "scale_div n d e =
     (if 0 \<le> e then div_half_even n (d * 2 ^ nat e) else div_half_even (n * 2 ^ nat (- e)) d)"

definition scale_floor :: "int \<Rightarrow> int \<Rightarrow> int \<Rightarrow> int" where
  "scale_floor n d e =
     (if 0 \<le> e then n div (d * 2 ^ nat e) else (n * 2 ^ nat (- e)) div d)"

text \<open>
  The double nearest to the positive fraction \<open>n / d\<close>: 53 significant bits, an exponent
  of at least -1074, infinity from \<open>2 ^ 1024\<close> on.
\<close>

definition round_double :: "int \<Rightarrow> int \<Rightarrow> pyfloat" where
  "round_double n d =
     (if n = 0 then FFin 0 0
      else (let e0 = bitlen n - bitlen d - 53;
                e1 = (if scale_floor n d e0 < 2 ^ 53 then e0 else e0 + 1);
                e = max e1 (- 1074);
                m = scale_div n d e;
                (m', e') = (if m = 2 ^ 53 then (2 ^ 52, e + 1) else (m, e))
            in if 971 < e' then FInf else if m' = 0 then FFin 0 0 else FFin m' e'))"

definition neg_float :: "pyfloat \<Rightarrow> pyfloat" where
  "neg_float x =
     (case x of FFin m e \<Rightarrow> if m = 0 then FNegZero else FFin (- m) e
      | FNegZero \<Rightarrow> FFin 0 0 | FInf \<Rightarrow> FNegInf | FNegInf \<Rightarrow> FInf | FNan \<Rightarrow> FNan)"

text \<open>The double of the decimal \<open>digits * 10 ^ e10\<close>.\<close>

definition decimal_double :: "int \<Rightarrow> int \<Rightarrow> pyfloat" where
  "decimal_double ds e10 =
     (if 0 \<le> e10 then round_double (ds * 10 ^ nat e10) 1
      else round_double ds (10 ^ nat (- e10)))"

text \<open>\<open>float(i)\<close> for an integer in range.\<close>

definition float_of_int :: "int \<Rightarrow> pyfloat" where
  "float_of_int i =
     (if i < 0 then neg_float (round_double (- i) 1) else round_double i 1)"

section \<open>Reading a decimal text\<close>

text \<open>
  Digits with single underscores between them, as \<open>int\<close> and \<open>float\<close> accept them: the
  digits without the underscores, and the rest of the text.
\<close>

fun take_digits :: "string \<Rightarrow> string \<times> string" where
  "take_digits [] = ([], [])"
| "take_digits (c # cs) =
     (if is_digit c then
        (case cs of
           d # e # ds \<Rightarrow>
             if d = CHR ''_'' \<and> is_digit e
             then (let (xs, r) = take_digits (e # ds) in (c # xs, r))
             else (let (xs, r) = take_digits cs in (c # xs, r))
         | _ \<Rightarrow> (let (xs, r) = take_digits cs in (c # xs, r)))
      else ([], c # cs))"

definition split_sign :: "string \<Rightarrow> bool \<times> string" where
  "split_sign s =
     (case s of c # cs \<Rightarrow>
        if c = CHR ''-'' then (True, cs) else if c = CHR ''+'' then (False, cs) else (False, s)
      | [] \<Rightarrow> (False, []))"

text \<open>An optional exponent part; \<open>None\<close> when the text does not end after it.\<close>

definition read_exponent :: "string \<Rightarrow> int option" where
  "read_exponent s =
     (case s of [] \<Rightarrow> Some 0
      | c # cs \<Rightarrow>
          if c = CHR ''e'' \<or> c = CHR ''E'' then
            (let (neg, t) = split_sign cs; (ds, r) = take_digits t
             in if ds = [] \<or> r \<noteq> [] then None
                else Some (if neg then - digits_val ds else digits_val ds))
          else None)"

text \<open>The unsigned decimal forms \<open>12\<close>, \<open>12.\<close>, \<open>.5\<close>, \<open>1.5e3\<close>.\<close>

definition read_decimal :: "string \<Rightarrow> pyfloat option" where
  "read_decimal s =
     (let (ip, r) = take_digits s;
          (fp, r') = (case r of c # cs \<Rightarrow> if c = CHR ''.'' then take_digits cs else ([], r)
                      | [] \<Rightarrow> ([], []))
      in if ip = [] \<and> fp = [] then None
         else (case read_exponent r' of None \<Rightarrow> None
               | Some e \<Rightarrow> Some (decimal_double (digits_val (ip @ fp)) (e - int (length fp)))))"

text \<open>
  \<open>int\<close> and \<open>float\<close> skip white space around a number, but not the separators 0x1c to 0x1f
  that \<open>str.strip\<close> also removes.
\<close>

definition number_space :: "char \<Rightarrow> bool" where
  "number_space c \<longleftrightarrow> c = CHR '' '' \<or> CHR 0x09 \<le> c \<and> c \<le> CHR 0x0D \<or> c = CHR 0x85 \<or> c = CHR 0xA0"

definition number_strip :: "string \<Rightarrow> string" where
  "number_strip s = rev (dropWhile number_space (rev (dropWhile number_space s)))"

text \<open>\<open>float(s)\<close>: white space around, a sign, the names of the special values.\<close>

definition float_of_str :: "string \<Rightarrow> pyfloat option" where
  "float_of_str s =
     (let (neg, t) = split_sign (number_strip s); u = lower_str t;
          v = (if u = ''inf'' \<or> u = ''infinity'' then Some FInf
               else if u = ''nan'' then Some FNan else read_decimal t)
      in map_option (\<lambda>x. if neg then neg_float x else x) v)"

text \<open>
  \<open>int(s)\<close>; \<open>None\<close> is a \<open>ValueError\<close>, also raised for more than 4300 digits.
\<close>

definition int_of_str :: "string \<Rightarrow> int option" where
  "int_of_str s =
     (let (neg, t) = split_sign (number_strip s); (ds, r) = take_digits t
      in if ds = [] \<or> r \<noteq> [] \<or> 4300 < length ds then None
         else Some (if neg then - digits_val ds else digits_val ds))"

text \<open>\<open>int(x)\<close> for a finite float truncates towards zero.\<close>

definition trunc_float :: "pyfloat \<Rightarrow> int option" where
  "trunc_float x =
     (case fin_frac x of None \<Rightarrow> None
      | Some (n, d) \<Rightarrow> Some (if 0 \<le> n then n div d else - ((- n) div d)))"

section \<open>Writing a float\<close>

text \<open>
  \<open>n / d\<close> rounded to \<open>k\<close> significant decimal digits: the digits as a number with
  exactly \<open>k\<close> digits and the decimal exponent of the first digit.
\<close>

definition dec_scale :: "int \<Rightarrow> int \<Rightarrow> int \<Rightarrow> int" where
  "dec_scale n d p =
     (if 0 \<le> p then div_half_even (n * 10 ^ nat p) d else div_half_even n (d * 10 ^ nat (- p)))"

definition dec_floor_exp :: "int \<Rightarrow> int \<Rightarrow> int" where
  "dec_floor_exp n d =
     (let k = int (length (dec_str n)) - int (length (dec_str d))
      in if (if 0 \<le> k then d * 10 ^ nat k \<le> n else d \<le> n * 10 ^ nat (- k)) then k else k - 1)"

definition carry_digit :: "nat \<Rightarrow> int \<Rightarrow> int \<Rightarrow> int \<times> int" where
  "carry_digit k m x = (if m = 10 ^ k then (10 ^ (k - 1), x + 1) else (m, x))"

definition sig_digits :: "nat \<Rightarrow> int \<Rightarrow> int \<Rightarrow> int \<times> int" where
  "sig_digits k n d =
     (let x = dec_floor_exp n d in carry_digit k (dec_scale n d (int k - 1 - x)) x)"

definition drop_trailing_zeros :: "string \<Rightarrow> string" where
  "drop_trailing_zeros s = rev (dropWhile (\<lambda>c. c = CHR ''0'') (rev s))"

definition exp_suffix :: "int \<Rightarrow> string" where
  "exp_suffix x =
     (let t = dec_str \<bar>x\<bar>
      in ''e'' @ (if x < 0 then ''-'' else ''+'') @ (if length t < 2 then ''0'' @ t else t))"

definition with_fraction :: "string \<Rightarrow> string \<Rightarrow> string" where
  "with_fraction ip fp = (if fp = [] then ip else ip @ ''.'' @ fp)"

text \<open>The positional layout of the digits with the decimal exponent \<open>x\<close>.\<close>

definition fixed_layout :: "string \<Rightarrow> int \<Rightarrow> string \<times> string" where
  "fixed_layout ds x =
     (if x < 0 then (''0'', replicate (nat (- x - 1)) (CHR ''0'') @ ds)
      else (let k = Suc (nat x)
            in (take k ds @ replicate (k - length ds) (CHR ''0''), drop k ds)))"

definition g_layout :: "nat \<Rightarrow> int \<Rightarrow> int \<Rightarrow> string" where
  "g_layout p m x =
     (let ds = drop_trailing_zeros (dec_str m)
      in if x < - 4 \<or> int p \<le> x then with_fraction (take 1 ds) (drop 1 ds) @ exp_suffix x
         else (let (ip, fp) = fixed_layout ds x in with_fraction ip fp))"

text \<open>\<open>format(x, ".6g")\<close>.\<close>

definition format_6g :: "pyfloat \<Rightarrow> string" where
  "format_6g x =
     (case x of FInf \<Rightarrow> ''inf'' | FNegInf \<Rightarrow> ''-inf'' | FNan \<Rightarrow> ''nan'' | FNegZero \<Rightarrow> ''-0''
      | FFin _ _ \<Rightarrow>
          (case fin_frac x of None \<Rightarrow> []
           | Some (n, d) \<Rightarrow>
               if n = 0 then ''0''
               else (let (m, e) = sig_digits 6 \<bar>n\<bar> d
                     in (if n < 0 then ''-'' else []) @ g_layout 6 m e)))"

text \<open>
  \<open>repr(x)\<close>: the fewest digits whose value rounds back to the same double (next to a
  power of two this may be the decimal above the nearest one), written with an exponent
  below \<open>1e-4\<close> and from \<open>1e16\<close> on.
\<close>

fun shortest :: "nat list \<Rightarrow> int \<Rightarrow> int \<Rightarrow> pyfloat \<Rightarrow> int \<times> int" where
  "shortest [] n d x = sig_digits 17 n d"
| "shortest (k # ks) n d x =
     (let (m, e) = sig_digits k n d
      in if decimal_double m (e - int k + 1) = x then (m, e)
         else if decimal_double (m + 1) (e - int k + 1) = x then carry_digit k (m + 1) e
         else shortest ks n d x)"

definition repr_layout :: "int \<Rightarrow> int \<Rightarrow> string" where
  "repr_layout m x =
     (let ds = drop_trailing_zeros (dec_str m)
      in if x < - 4 \<or> 16 \<le> x then with_fraction (take 1 ds) (drop 1 ds) @ exp_suffix x
         else (let (ip, fp) = fixed_layout ds x in ip @ ''.'' @ (if fp = [] then ''0'' else fp)))"

definition float_repr :: "pyfloat \<Rightarrow> string" where
  "float_repr x =
     (case x of FInf \<Rightarrow> ''inf'' | FNegInf \<Rightarrow> ''-inf'' | FNan \<Rightarrow> ''nan'' | FNegZero \<Rightarrow> ''-0.0''
      | FFin m e \<Rightarrow>
          if m = 0 then ''0.0''
          else (case fin_frac (FFin \<bar>m\<bar> e) of None \<Rightarrow> []
                | Some (n, d) \<Rightarrow>
                    (let (ds, y) = shortest [1..<18] n d (FFin \<bar>m\<bar> e)
                     in (if m < 0 then ''-'' else []) @ repr_layout ds y)))"

section \<open>The characters of a formatted float\<close>

lemma div_half_even_nonneg: "0 \<le> n \<Longrightarrow> 0 < d \<Longrightarrow> 0 \<le> div_half_even n d"
  by (simp add: div_half_even_def Let_def pos_imp_zdiv_nonneg_iff)

lemma sig_digits_nonneg: "0 \<le> n \<Longrightarrow> 0 < d \<Longrightarrow> 0 \<le> fst (sig_digits k n d)"
  by (simp add: sig_digits_def carry_digit_def dec_scale_def Let_def div_half_even_nonneg)

definition float_char :: "char \<Rightarrow> bool" where
  "float_char c \<longleftrightarrow> is_digit c \<or> c \<in> set ''infa.e+-''"

lemma float_char_dec_str: "0 \<le> n \<Longrightarrow> list_all float_char (dec_str n)"
  using dec_str_digits [of n] by (auto simp: list_all_iff float_char_def)

lemma list_all_drop_zeros: "list_all P s \<Longrightarrow> list_all P (drop_trailing_zeros s)"
  by (auto simp: drop_trailing_zeros_def list_all_iff dest: set_dropWhileD)

lemma float_char_simps [simp]:
  "float_char (CHR ''0'')" "float_char (CHR ''.'')" "float_char (CHR ''e'')" "float_char (CHR ''+'')"
  "float_char (CHR ''-'')" "float_char (CHR ''i'')" "float_char (CHR ''n'')" "float_char (CHR ''f'')"
  "float_char (CHR ''a'')"
  by (simp_all add: float_char_def is_digit_def)

lemma g_layout_chars:
  assumes "0 \<le> m"
  shows "list_all float_char (g_layout p m x)"
proof -
  have "list_all float_char (drop_trailing_zeros (dec_str m))"
    using assms by (intro list_all_drop_zeros float_char_dec_str)
  moreover have "list_all float_char (dec_str \<bar>x\<bar>)" by (simp add: float_char_dec_str)
  ultimately show ?thesis
    by (auto simp: g_layout_def fixed_layout_def with_fraction_def exp_suffix_def Let_def list_all_iff
        dest: in_set_takeD in_set_dropD)
qed

lemma format_6g_chars: "list_all float_char (format_6g x)"
proof (cases x)
  case (FFin m e)
  have "\<exists>n d. fin_frac (FFin m e) = Some (n, d) \<and> 0 < d" by simp
  then obtain n d where nd: "fin_frac (FFin m e) = Some (n, d)" "0 < d" by blast
  have "0 \<le> fst (sig_digits 6 \<bar>n\<bar> d)" using nd by (intro sig_digits_nonneg) auto
  then show ?thesis
    using nd(1) unfolding FFin format_6g_def
    by (auto simp: g_layout_chars split: prod.splits simp del: fin_frac.simps)
qed (simp_all add: format_6g_def)

end
