(* ===== verification/PyValue.thy ===== *)
theory PyValue
  imports PyFloat
begin

text \<open>
  Python values as they come out of \<open>json.loads\<close> and as the client builds them:
  insertion-ordered dictionaries with string keys, lists, numbers, strings. Equality,
  truth value, hashability, \<open>str\<close> and \<open>repr\<close> follow the language: \<open>True == 1\<close>,
  \<open>1 == 1.0\<close>, and a membership test in a set raises \<open>TypeError\<close> for a list or a
  dictionary.
\<close>

section \<open>Values\<close>

datatype pyval =
    PNone
  | PBool bool
  | PInt int
  | PFloat pyfloat
  | PStr string
  | PList "pyval list"
  | PDict "(string \<times> pyval) list"

type_synonym dict = "(string \<times> pyval) list"

text \<open>The type tests of the source. In Python a Boolean is an integer.\<close>

fun is_bool :: "pyval \<Rightarrow> bool" where
  "is_bool (PBool b) = True"
| "is_bool _ = False"

fun is_int :: "pyval \<Rightarrow> bool" where
  "is_int (PBool b) = True"
| "is_int (PInt i) = True"
| "is_int _ = False"

fun is_str :: "pyval \<Rightarrow> bool" where
  "is_str (PStr s) = True"
| "is_str _ = False"

fun is_number :: "pyval \<Rightarrow> bool" where
  "is_number (PFloat x) = True"
| "is_number v = is_int v"

fun is_dict :: "pyval \<Rightarrow> bool" where
  "is_dict (PDict d) = True"
| "is_dict _ = False"

fun is_list :: "pyval \<Rightarrow> bool" where
  "is_list (PList xs) = True"
| "is_list _ = False"

text \<open>\<open>isinstance(v, bool) or not isinstance(v, int)\<close>: not a plain integer.\<close>

definition not_plain_int :: "pyval \<Rightarrow> bool" where
  "not_plain_int v \<longleftrightarrow> is_bool v \<or> \<not> is_int v"

lemma not_plain_int_PInt [simp]: "\<not> not_plain_int v \<longleftrightarrow> (\<exists>i. v = PInt i)"
  by (cases v) (auto simp: not_plain_int_def)

text \<open>The integer a number test sees (\<open>True\<close> counts as 1); 0 where the test failed.\<close>

fun int_val :: "pyval \<Rightarrow> int" where
  "int_val (PBool b) = (if b then 1 else 0)"
| "int_val (PInt i) = i"
| "int_val _ = 0"

fun str_val :: "pyval \<Rightarrow> string" where
  "str_val (PStr s) = s"
| "str_val _ = []"

fun list_val :: "pyval \<Rightarrow> pyval list" where
  "list_val (PList xs) = xs"
| "list_val _ = []"

fun dict_val :: "pyval \<Rightarrow> dict" where
  "dict_val (PDict d) = d"
| "dict_val _ = []"

fun truthy :: "pyval \<Rightarrow> bool" where
  "truthy PNone = False"
| "truthy (PBool b) = b"
| "truthy (PInt i) = (i \<noteq> 0)"
| "truthy (PFloat x) = (\<not> float_eq x (exact_int 0))"
| "truthy (PStr s) = (s \<noteq> [])"
| "truthy (PList xs) = (xs \<noteq> [])"
| "truthy (PDict d) = (d \<noteq> [])"

text \<open>The value of a number in a comparison; \<open>None\<close> for what is not a number.\<close>

fun num_val :: "pyval \<Rightarrow> pyfloat option" where
  "num_val (PBool b) = Some (exact_int (if b then 1 else 0))"
| "num_val (PInt i) = Some (exact_int i)"
| "num_val (PFloat x) = Some x"
| "num_val _ = None"

section \<open>Dictionaries\<close>

text \<open>\<open>d.get(k)\<close> with the default \<open>None\<close>, and \<open>k in d\<close>.\<close>

definition dget :: "dict \<Rightarrow> string \<Rightarrow> pyval" where
  "dget d k = (case map_of d k of None \<Rightarrow> PNone | Some v \<Rightarrow> v)"

definition has_key :: "dict \<Rightarrow> string \<Rightarrow> bool" where
  "has_key d k \<longleftrightarrow> k \<in> set (map fst d)"

text \<open>\<open>d[k] = v\<close>: in place for a present key, else at the end.\<close>

fun dict_set :: "dict \<Rightarrow> string \<Rightarrow> pyval \<Rightarrow> dict" where
  "dict_set [] k v = [(k, v)]"
| "dict_set ((k', v') # d) k v = (if k' = k then (k, v) # d else (k', v') # dict_set d k v)"

text \<open>\<open>d.update(e)\<close> and \<open>d.pop(k, None)\<close>.\<close>

fun dict_update :: "dict \<Rightarrow> dict \<Rightarrow> dict" where
  "dict_update d [] = d"
| "dict_update d ((k, v) # e) = dict_update (dict_set d k v) e"

definition dict_pop :: "dict \<Rightarrow> string \<Rightarrow> dict" where
  "dict_pop d k = filter (\<lambda>(k', v). k' \<noteq> k) d"

definition dict_wf :: "dict \<Rightarrow> bool" where
  "dict_wf d \<longleftrightarrow> distinct (map fst d)"

lemma map_of_dict_set: "map_of (dict_set d k v) = (map_of d)(k \<mapsto> v)"
  by (induction d k v rule: dict_set.induct) (auto simp: fun_eq_iff)

lemma keys_dict_set: "set (map fst (dict_set d k v)) = insert k (set (map fst d))"
  by (induction d k v rule: dict_set.induct) auto

lemma dict_wf_set: "dict_wf d \<Longrightarrow> dict_wf (dict_set d k v)"
proof (induction d k v rule: dict_set.induct)
  case (2 k' v' d k v)
  then show ?case
    using keys_dict_set [of d k v] by (auto simp: dict_wf_def)
qed (simp add: dict_wf_def)

text \<open>
  The interface the rest of the development uses: what a lookup returns after each
  update, as laws of a locale that the dictionaries above satisfy.
\<close>

locale mapping_ops =
  fixes get :: "'d \<Rightarrow> 'k \<Rightarrow> 'v"
    and mem :: "'d \<Rightarrow> 'k \<Rightarrow> bool"
    and put :: "'d \<Rightarrow> 'k \<Rightarrow> 'v \<Rightarrow> 'd"
    and remove :: "'d \<Rightarrow> 'k \<Rightarrow> 'd"
    and empty :: "'d"
    and default :: "'v"
  assumes get_empty: "get empty k = default"
    and mem_empty: "\<not> mem empty k"
    and get_put: "get (put d k v) k' = (if k' = k then v else get d k')"
    and mem_put: "mem (put d k v) k' \<longleftrightarrow> k' = k \<or> mem d k'"
    and get_remove: "get (remove d k) k' = (if k' = k then default else get d k')"
    and mem_remove: "mem (remove d k) k' \<longleftrightarrow> k' \<noteq> k \<and> mem d k'"
begin

fun put_all :: "'d \<Rightarrow> ('k \<times> 'v) list \<Rightarrow> 'd" where
  "put_all d [] = d"
| "put_all d ((k, v) # kvs) = put_all (put d k v) kvs"

lemma put_all_other: "k \<notin> fst ` set kvs \<Longrightarrow> get (put_all d kvs) k = get d k"
  by (induction d kvs rule: put_all.induct) (auto simp: get_put)

lemma mem_put_all: "mem (put_all d kvs) k \<longleftrightarrow> k \<in> fst ` set kvs \<or> mem d k"
  by (induction d kvs rule: put_all.induct) (auto simp: mem_put)

lemma get_put_all:
  "distinct (map fst kvs) \<Longrightarrow> (k, v) \<in> set kvs \<Longrightarrow> get (put_all d kvs) k = v"
proof (induction d kvs rule: put_all.induct)
  case (2 d k' v' kvs)
  show ?case
  proof (cases "k = k'")
    case True
    with "2.prems" have "v = v'" by (auto simp: rev_image_eqI)
    moreover from True "2.prems" have "k \<notin> fst ` set kvs" by auto
    ultimately show ?thesis using True by (simp add: put_all_other get_put)
  next
    case False
    with 2 show ?thesis by auto
  qed
qed simp

lemma put_put_same: "get (put (put d k v) k w) k' = get (put d k w) k'"
  by (simp add: get_put)

lemma remove_put: "get (remove (put d k v) k) k' = get (remove d k) k'"
  by (simp add: get_remove get_put)

end

lemma dget_set [simp, dict_simps]:
  "dget (dict_set d k v) k' = (if k' = k then v else dget d k')"
  by (simp add: dget_def map_of_dict_set)

lemma has_key_set [simp, dict_simps]:
  "has_key (dict_set d k v) k' \<longleftrightarrow> k' = k \<or> has_key d k'"
  using keys_dict_set [of d k v] by (auto simp: has_key_def)

lemma map_of_dict_pop: "map_of (dict_pop d k) k' = (if k' = k then None else map_of d k')"
  unfolding dict_pop_def by (induction d) auto

lemma dget_pop [simp, dict_simps]:
  "dget (dict_pop d k) k' = (if k' = k then PNone else dget d k')"
  by (simp add: dget_def map_of_dict_pop)

lemma has_key_pop [simp, dict_simps]:
  "has_key (dict_pop d k) k' \<longleftrightarrow> k' \<noteq> k \<and> has_key d k'"
  by (auto simp: has_key_def dict_pop_def)

lemma dget_Nil [simp]: "dget [] k = PNone"
  by (simp add: dget_def)

lemma has_key_Nil [simp]: "\<not> has_key [] k"
  by (simp add: has_key_def)

lemma dget_Cons [simp, dict_simps]:
  "dget ((k, v) # d) k' = (if k' = k then v else dget d k')"
  by (simp add: dget_def)

lemma has_key_Cons [simp, dict_simps]: "has_key ((k, v) # d) k' \<longleftrightarrow> k' = k \<or> has_key d k'"
  by (simp add: has_key_def)

lemma has_key_map_of: "has_key d k \<longleftrightarrow> map_of d k \<noteq> None"
  by (auto simp: has_key_def map_of_eq_None_iff)

lemma dget_absent: "\<not> has_key d k \<Longrightarrow> dget d k = PNone"
  by (auto simp: dget_def has_key_map_of)

interpretation pydict: mapping_ops dget has_key dict_set dict_pop "[]" PNone
  by unfold_locales auto

lemma put_all_dict_update: "pydict.put_all d e = dict_update d e"
  by (induction d e rule: dict_update.induct) auto

lemmas dget_update_other = pydict.put_all_other [unfolded put_all_dict_update]
lemmas has_key_update = pydict.mem_put_all [unfolded put_all_dict_update]
lemmas dget_update = pydict.get_put_all [unfolded put_all_dict_update]

lemma dict_wf_update: "dict_wf d \<Longrightarrow> dict_wf (dict_update d e)"
  by (induction d e rule: dict_update.induct) (auto simp: dict_wf_set)

lemma dict_wf_pop: "dict_wf d \<Longrightarrow> dict_wf (dict_pop d k)"
  unfolding dict_wf_def dict_pop_def by (simp add: distinct_map_filter)

section \<open>Equality\<close>

lemma size_dict_value:
  "(k, v) \<in> set d \<Longrightarrow> size v \<le> size_list (size_prod (\<lambda>_. 0) size) d"
  by (rule size_list_estimation' [of "(k, v)"]) simp_all

function py_eq :: "pyval \<Rightarrow> pyval \<Rightarrow> bool" where
  "py_eq v w =
     (case (v, w) of
        (PNone, PNone) \<Rightarrow> True
      | (PStr s, PStr t) \<Rightarrow> s = t
      | (PList xs, PList ys) \<Rightarrow> list_all2 (\<lambda>x y. py_eq x y) xs ys
      | (PDict d, PDict e) \<Rightarrow>
          length d = length e
          \<and> list_all (\<lambda>kv. case map_of e (fst kv) of None \<Rightarrow> False
                          | Some u \<Rightarrow> py_eq (snd kv) u) d
      | _ \<Rightarrow> (case (num_val v, num_val w) of
                (Some x, Some y) \<Rightarrow> float_eq x y | _ \<Rightarrow> False))"
  by pat_completeness auto
termination
  by (relation "measure (\<lambda>(v, w). size v)")
    (auto simp: less_Suc_eq_le intro: size_list_estimation' size_dict_value)

declare py_eq.simps [simp del]

lemma py_eq_PStr [simp]:
  "py_eq v (PStr s) \<longleftrightarrow> v = PStr s" "py_eq (PStr s) v \<longleftrightarrow> v = PStr s"
  by (cases v; auto simp: py_eq.simps)+

lemma py_eq_PNone [simp]:
  "py_eq v PNone \<longleftrightarrow> v = PNone" "py_eq PNone v \<longleftrightarrow> v = PNone"
  by (cases v; auto simp: py_eq.simps)+

lemma py_eq_PInt_PInt [simp]: "py_eq (PInt i) (PInt j) \<longleftrightarrow> i = j"
  by (simp add: py_eq.simps)

lemma py_eq_PBool_PBool [simp]: "py_eq (PBool a) (PBool b) \<longleftrightarrow> a = b"
  by (auto simp: py_eq.simps)

section \<open>Hashing and membership\<close>

fun hashable :: "pyval \<Rightarrow> bool" where
  "hashable (PList xs) = False"
| "hashable (PDict d) = False"
| "hashable _ = True"

text \<open>\<open>v in S\<close> for a set of strings: a list or a dictionary is not hashable.\<close>

definition in_str_set :: "pyval \<Rightarrow> string list \<Rightarrow> bool res" where
  "in_str_set v S = (if hashable v then Inr (is_str v \<and> str_val v \<in> set S) else Inl TypeError)"

lemma in_str_set_PStr [simp]: "in_str_set (PStr s) S = Inr (s \<in> set S)"
  by (simp add: in_str_set_def)

lemma in_str_set_PNone [simp]: "in_str_set PNone S = Inr False"
  by (simp add: in_str_set_def)

lemma in_str_set_eq_True [res_simps]:
  "in_str_set v S = Inr True \<longleftrightarrow> (\<exists>s\<in>set S. v = PStr s)"
  by (cases v) (auto simp: in_str_set_def)

lemma in_str_set_TypeError [res_simps]: "in_str_set v S = Inl e \<longleftrightarrow> \<not> hashable v \<and> e = TypeError"
  by (auto simp: in_str_set_def)

section \<open>Text of a value\<close>

definition hex_digit :: "nat \<Rightarrow> char" where
  "hex_digit d = (if d < 10 then char_of (48 + d) else char_of (87 + d))"

text \<open>\<open>repr\<close> of one character inside the quotes \<open>q\<close>.\<close>

definition repr_char :: "char \<Rightarrow> char \<Rightarrow> string" where
  "repr_char q c =
     (if c = q \<or> c = CHR 0x5C then [CHR 0x5C, c]
      else if c = CHR 0x0A then [CHR 0x5C, CHR ''n'']
      else if c = CHR 0x0D then [CHR 0x5C, CHR ''r'']
      else if c = CHR 0x09 then [CHR 0x5C, CHR ''t'']
      else if c < CHR 0x20 \<or> (CHR 0x7F \<le> c \<and> c \<le> CHR 0xA0) \<or> c = CHR 0xAD
      then [CHR 0x5C, CHR ''x'', hex_digit (of_char c div 16), hex_digit (of_char c mod 16)]
      else [c])"

definition repr_str :: "string \<Rightarrow> string" where
  "repr_str s =
     (let q = (if CHR 0x27 \<in> set s \<and> CHR 0x22 \<notin> set s then CHR 0x22 else CHR 0x27)
      in [q] @ concat (map (repr_char q) s) @ [q])"

fun py_repr :: "pyval \<Rightarrow> string" where
  "py_repr PNone = ''None''"
| "py_repr (PBool b) = (if b then ''True'' else ''False'')"
| "py_repr (PInt i) = int_str i"
| "py_repr (PFloat x) = float_repr x"
| "py_repr (PStr s) = repr_str s"
| "py_repr (PList xs) = ''['' @ join_with '', '' (map (\<lambda>x. py_repr x) xs) @ '']''"
| "py_repr (PDict d) =
     ''{'' @ join_with '', '' (map (\<lambda>kv. repr_str (fst kv) @ '': '' @ py_repr (snd kv)) d) @ ''}''"

text \<open>\<open>str(v)\<close>: a string is its own text.\<close>

definition py_str :: "pyval \<Rightarrow> string" where
  "py_str v = (case v of PStr s \<Rightarrow> s | _ \<Rightarrow> py_repr v)"

lemma py_str_PStr [simp]: "py_str (PStr s) = s"
  by (simp add: py_str_def)

text \<open>\<open>str(v or "")\<close>.\<close>

definition str_or_empty :: "pyval \<Rightarrow> string" where
  "str_or_empty v = (if truthy v then py_str v else [])"

lemma str_or_empty_simps [simp]: "str_or_empty (PStr s) = s" "str_or_empty PNone = []"
  by (auto simp: str_or_empty_def)

text \<open>The text of an optional argument, as a value.\<close>

definition opt_str :: "string option \<Rightarrow> pyval" where
  "opt_str x = (case x of None \<Rightarrow> PNone | Some s \<Rightarrow> PStr s)"

lemma opt_str_simps [simp]: "opt_str None = PNone" "opt_str (Some s) = PStr s"
  by (simp_all add: opt_str_def)

text \<open>Sorted texts without repetition: \<open>sorted(set(xs))\<close> and \<open>sorted(dict.fromkeys(xs))\<close>.\<close>

definition sorted_unique :: "string list \<Rightarrow> string list" where
  "sorted_unique xs = sort (remdups xs)"

lemma set_sorted_unique [simp]: "set (sorted_unique xs) = set xs"
  by (simp add: sorted_unique_def)

lemma sorted_sorted_unique: "sorted (sorted_unique xs)"
  by (simp add: sorted_unique_def)

lemma distinct_sorted_unique: "distinct (sorted_unique xs)"
  by (simp add: sorted_unique_def)

lemma sorted_unique_Nil_iff [simp]: "sorted_unique xs = [] \<longleftrightarrow> xs = []"
  using set_sorted_unique [of xs] by (metis set_empty)

end
