(* ===== verification/PyJson.thy ===== *)
theory PyJson
  imports PyValue
begin

text \<open>
  The part of the \<open>json\<close> module the program uses: \<open>json.loads\<close> on a text, \<open>json.dumps\<close>
  with \<open>indent=2, sort_keys=True\<close>, and the UTF-8 decoding in front of the former. As in
  Python, \<open>loads\<close> accepts \<open>NaN\<close> and the infinities, keeps the last of repeated keys, and
  raises a plain \<open>ValueError\<close> for an integer of more than 4300 digits.
\<close>

section \<open>UTF-8\<close>

definition is_cont :: "char \<Rightarrow> bool" where
  "is_cont c \<longleftrightarrow> CHR 0x80 \<le> c \<and> c \<le> CHR 0xBF"

text \<open>\<open>raw.decode("utf-8")\<close>; a code point above 255 is outside the model.\<close>

fun utf8_decode :: "string \<Rightarrow> string res" where
  "utf8_decode [] = Inr []"
| "utf8_decode (a # r) =
     (if a < CHR 0x80 then rbind (utf8_decode r) (\<lambda>s. Inr (a # s))
      else (case r of
        [] \<Rightarrow> Inl UnicodeDecodeError
      | b # r1 \<Rightarrow>
          if \<not> is_cont b then Inl UnicodeDecodeError
          else if a = CHR 0xC2 \<or> a = CHR 0xC3
          then rbind (utf8_decode r1)
                 (\<lambda>s. Inr (char_of ((of_char a - 192) * 64 + (of_char b - 128 :: nat)) # s))
          else if CHR 0xC4 \<le> a \<and> a \<le> CHR 0xDF then Inl OutsideModel
          else (case r1 of
            [] \<Rightarrow> Inl UnicodeDecodeError
          | c # r2 \<Rightarrow>
              if \<not> is_cont c then Inl UnicodeDecodeError
              else if CHR 0xE0 \<le> a \<and> a \<le> CHR 0xEF
              then Inl (if (a = CHR 0xE0 \<and> b < CHR 0xA0) \<or> (a = CHR 0xED \<and> CHR 0x9F < b)
                        then UnicodeDecodeError else OutsideModel)
              else (case r2 of
                [] \<Rightarrow> Inl UnicodeDecodeError
              | d # r3 \<Rightarrow>
                  Inl (if is_cont d \<and> CHR 0xF0 \<le> a \<and> a \<le> CHR 0xF4
                          \<and> \<not> (a = CHR 0xF0 \<and> b < CHR 0x90) \<and> \<not> (a = CHR 0xF4 \<and> CHR 0x8F < b)
                       then OutsideModel else UnicodeDecodeError)))))"

text \<open>\<open>value.encode("utf-8")\<close>.\<close>

definition utf8_encode_char :: "char \<Rightarrow> string" where
  "utf8_encode_char c =
     (if c < CHR 0x80 then [c]
      else [char_of (192 + of_char c div 64 :: nat), char_of (128 + of_char c mod 64 :: nat)])"

definition utf8_encode :: "string \<Rightarrow> string" where
  "utf8_encode s = concat (map utf8_encode_char s)"

section \<open>Scanning\<close>

definition is_json_ws :: "char \<Rightarrow> bool" where
  "is_json_ws c \<longleftrightarrow> c = CHR '' '' \<or> c = CHR 0x09 \<or> c = CHR 0x0A \<or> c = CHR 0x0D"

definition skip_ws :: "string \<Rightarrow> string" where
  "skip_ws s = dropWhile is_json_ws s"

definition hex_val :: "char \<Rightarrow> nat" where
  "hex_val c =
     (if is_digit c then of_char c - 48
      else if CHR ''a'' \<le> c then of_char c - 87 else of_char c - 55)"

definition simple_escape :: "char \<Rightarrow> char option" where
  "simple_escape c = map_of [(CHR 0x22, CHR 0x22), (CHR 0x5C, CHR 0x5C), (CHR ''/'', CHR ''/''),
     (CHR ''b'', CHR 0x08), (CHR ''f'', CHR 0x0C), (CHR ''n'', CHR 0x0A), (CHR ''r'', CHR 0x0D),
     (CHR ''t'', CHR 0x09)] c"

text \<open>The rest of a string literal after its opening quote.\<close>

fun scan_string :: "string \<Rightarrow> (string \<times> string) res" where
  "scan_string [] = Inl JSONDecodeError"
| "scan_string (c # s) =
     (if c = CHR 0x22 then Inr ([], s)
      else if c < CHR '' '' then Inl JSONDecodeError
      else if c = CHR 0x5C then
        (case s of
           [] \<Rightarrow> Inl JSONDecodeError
         | e # s1 \<Rightarrow>
             if e = CHR ''u'' then
               (case s1 of
                  h1 # h2 # h3 # h4 # s2 \<Rightarrow>
                    if list_all is_hex [h1, h2, h3, h4]
                    then if hex_val h1 = 0 \<and> hex_val h2 = 0
                         then rbind (scan_string s2)
                           (\<lambda>(t, r). Inr (char_of (16 * hex_val h3 + hex_val h4) # t, r))
                         else Inl OutsideModel
                    else Inl JSONDecodeError
                | _ \<Rightarrow> Inl JSONDecodeError)
             else (case simple_escape e of
                     None \<Rightarrow> Inl JSONDecodeError
                   | Some d \<Rightarrow> rbind (scan_string s1) (\<lambda>(t, r). Inr (d # t, r))))
      else rbind (scan_string s) (\<lambda>(t, r). Inr (c # t, r)))"

definition span_digits :: "string \<Rightarrow> string \<times> string" where
  "span_digits s = (takeWhile is_digit s, dropWhile is_digit s)"

text \<open>
  A number: integer part, then a fraction and an exponent if they are complete. Without
  either it is an integer.
\<close>

definition scan_number :: "string \<Rightarrow> (pyval \<times> string) res" where
  "scan_number s =
     (let (neg, t) = (case s of c # cs \<Rightarrow> if c = CHR ''-'' then (True, cs) else (False, s)
                      | [] \<Rightarrow> (False, []));
          (ip, r) = (case t of c # cs \<Rightarrow> if c = CHR ''0'' then ([c], cs) else span_digits t
                     | [] \<Rightarrow> ([], []));
          (fp, r1) = (case r of c # cs \<Rightarrow>
                        if c = CHR ''.'' \<and> fst (span_digits cs) \<noteq> [] then span_digits cs else ([], r)
                      | [] \<Rightarrow> ([], []));
          (ex, r2) = (case r1 of c # cs \<Rightarrow>
                        (let (eneg, u) = split_sign cs; (ds, r') = span_digits u
                         in if (c = CHR ''e'' \<or> c = CHR ''E'') \<and> ds \<noteq> []
                            then (Some (if eneg then - digits_val ds else digits_val ds), r')
                            else (None, r1))
                      | [] \<Rightarrow> (None, []))
      in if ip = [] then Inl JSONDecodeError
         else if fp = [] \<and> ex = None
         then if 4300 < length ip then Inl ValueError
              else Inr (PInt (if neg then - digits_val ip else digits_val ip), r2)
         else (let x = decimal_double (digits_val (ip @ fp))
                         ((case ex of None \<Rightarrow> 0 | Some e \<Rightarrow> e) - int (length fp))
               in Inr (PFloat (if neg then neg_float x else x), r2)))"

definition literals :: "(string \<times> pyval) list" where
  "literals = [(''null'', PNone), (''true'', PBool True), (''false'', PBool False),
     (''NaN'', PFloat FNan), (''Infinity'', PFloat FInf), (''-Infinity'', PFloat FNegInf)]"

fun scan_literal :: "(string \<times> pyval) list \<Rightarrow> string \<Rightarrow> (pyval \<times> string) option" where
  "scan_literal [] s = None"
| "scan_literal ((l, v) # ls) s =
     (if startswith s l then Some (v, drop (length l) s) else scan_literal ls s)"

text \<open>
  The recursive scanner. The first argument bounds the recursion; every call that
  recurs has consumed a character, so one more than the length of the text is enough.
\<close>

fun scan_value :: "nat \<Rightarrow> string \<Rightarrow> (pyval \<times> string) res"
  and scan_elements :: "nat \<Rightarrow> string \<Rightarrow> (pyval list \<times> string) res"
  and scan_members :: "nat \<Rightarrow> dict \<Rightarrow> string \<Rightarrow> (dict \<times> string) res" where
  "scan_value 0 s = Inl JSONDecodeError"
| "scan_value (Suc n) s =
     (case s of
        [] \<Rightarrow> Inl JSONDecodeError
      | c # cs \<Rightarrow>
          if c = CHR 0x22 then rbind (scan_string cs) (\<lambda>(t, r). Inr (PStr t, r))
          else if c = CHR ''{'' then
            (case skip_ws cs of
               d # r \<Rightarrow>
                 if d = CHR ''}'' then Inr (PDict [], r)
                 else rbind (scan_members n [] (d # r)) (\<lambda>(m, r'). Inr (PDict m, r'))
             | [] \<Rightarrow> Inl JSONDecodeError)
          else if c = CHR ''['' then
            (case skip_ws cs of
               d # r \<Rightarrow>
                 if d = CHR '']'' then Inr (PList [], r)
                 else rbind (scan_elements n (d # r)) (\<lambda>(xs, r'). Inr (PList xs, r'))
             | [] \<Rightarrow> Inl JSONDecodeError)
          else (case scan_literal literals s of Some vr \<Rightarrow> Inr vr | None \<Rightarrow> scan_number s))"
| "scan_elements 0 s = Inl JSONDecodeError"
| "scan_elements (Suc n) s =
     rbind (scan_value n s) (\<lambda>(v, r).
       (case skip_ws r of
          d # r' \<Rightarrow>
            if d = CHR '']'' then Inr ([v], r')
            else if d = CHR '','' then
              rbind (scan_elements n (skip_ws r')) (\<lambda>(vs, r''). Inr (v # vs, r''))
            else Inl JSONDecodeError
        | [] \<Rightarrow> Inl JSONDecodeError))"
| "scan_members 0 m s = Inl JSONDecodeError"
| "scan_members (Suc n) m s =
     (case s of
        c # cs \<Rightarrow>
          if c = CHR 0x22 then
            rbind (scan_string cs) (\<lambda>(k, r).
              (case skip_ws r of
                 d # r1 \<Rightarrow>
                   if d = CHR '':'' then
                     rbind (scan_value n (skip_ws r1)) (\<lambda>(v, r2).
                       (case skip_ws r2 of
                          e # r3 \<Rightarrow>
                            if e = CHR ''}'' then Inr (dict_set m k v, r3)
                            else if e = CHR '','' then scan_members n (dict_set m k v) (skip_ws r3)
                            else Inl JSONDecodeError
                        | [] \<Rightarrow> Inl JSONDecodeError))
                   else Inl JSONDecodeError
               | [] \<Rightarrow> Inl JSONDecodeError))
          else Inl JSONDecodeError
      | [] \<Rightarrow> Inl JSONDecodeError)"

definition json_loads :: "string \<Rightarrow> pyval res" where
  "json_loads s =
     rbind (scan_value (2 * length s + 2) (skip_ws s))
       (\<lambda>(v, r). if skip_ws r = [] then Inr v else Inl JSONDecodeError)"

section \<open>Writing\<close>

definition json_char :: "char \<Rightarrow> string" where
  "json_char c =
     (if c = CHR 0x22 then [CHR 0x5C, CHR 0x22]
      else if c = CHR 0x5C then [CHR 0x5C, CHR 0x5C]
      else if c = CHR 0x0A then [CHR 0x5C, CHR ''n'']
      else if c = CHR 0x0D then [CHR 0x5C, CHR ''r'']
      else if c = CHR 0x09 then [CHR 0x5C, CHR ''t'']
      else if c = CHR 0x0C then [CHR 0x5C, CHR ''f'']
      else if c = CHR 0x08 then [CHR 0x5C, CHR ''b'']
      else if c < CHR '' '' \<or> CHR 0x7E < c
      then [CHR 0x5C, CHR ''u'', CHR ''0'', CHR ''0'', hex_digit (of_char c div 16),
            hex_digit (of_char c mod 16)]
      else [c])"

definition json_string :: "string \<Rightarrow> string" where
  "json_string s = [CHR 0x22] @ concat (map json_char s) @ [CHR 0x22]"

definition json_float :: "pyfloat \<Rightarrow> string" where
  "json_float x =
     (case x of FNan \<Rightarrow> ''NaN'' | FInf \<Rightarrow> ''Infinity'' | FNegInf \<Rightarrow> ''-Infinity''
      | _ \<Rightarrow> float_repr x)"

definition indent_line :: "nat \<Rightarrow> string" where
  "indent_line n = NL @ replicate (2 * n) (CHR '' '')"

text \<open>The text of a value at a nesting level, with the keys of every dictionary sorted.\<close>

fun json_text :: "nat \<Rightarrow> pyval \<Rightarrow> string" where
  "json_text n PNone = ''null''"
| "json_text n (PBool b) = (if b then ''true'' else ''false'')"
| "json_text n (PInt i) = int_str i"
| "json_text n (PFloat x) = json_float x"
| "json_text n (PStr s) = json_string s"
| "json_text n (PList xs) =
     (if xs = [] then ''[]''
      else ''['' @ indent_line (Suc n)
        @ join_with ('','' @ indent_line (Suc n)) (map (\<lambda>x. json_text (Suc n) x) xs)
        @ indent_line n @ '']'')"
| "json_text n (PDict d) =
     (if d = [] then ''{}''
      else ''{'' @ indent_line (Suc n)
        @ join_with ('','' @ indent_line (Suc n))
            (map snd (sort_key fst
              (map (\<lambda>kv. (fst kv, json_string (fst kv) @ '': '' @ json_text (Suc n) (snd kv))) d)))
        @ indent_line n @ ''}'')"

definition json_document :: "dict \<Rightarrow> string" where
  "json_document d = json_text 0 (PDict d)"

text \<open>As \<open>int(s)\<close>, \<open>str(i)\<close> refuses an integer of more than 4300 digits.\<close>

fun json_printable :: "pyval \<Rightarrow> bool" where
  "json_printable (PInt i) \<longleftrightarrow> length (dec_str \<bar>i\<bar>) \<le> 4300"
| "json_printable (PList xs) \<longleftrightarrow> list_all (\<lambda>x. json_printable x) xs"
| "json_printable (PDict d) \<longleftrightarrow> list_all (\<lambda>kv. json_printable (snd kv)) d"
| "json_printable v \<longleftrightarrow> True"

definition json_dumps :: "dict \<Rightarrow> string res" where
  "json_dumps d = (if json_printable (PDict d) then Inr (json_document d) else Inl ValueError)"

end
