(* ===== verification/PyRegex.thy ===== *)
theory PyRegex
  imports PyPrelude
begin

text \<open>
  Regular expressions as the source writes them: character classes, sequence,
  alternative, repetition. Matching is by derivatives, which is executable, and is proved
  equivalent to the language of the pattern, so the facts about the patterns of the
  program are proved on their languages. Zero-width conditions (\<open>\\b\<close>, \<open>$\<close>, a
  look-behind) are conditions on the neighbouring characters of a match.
\<close>

section \<open>Patterns and their languages\<close>

datatype rx =
    RNone
  | REps
  | RCls "char \<Rightarrow> bool"
  | RSeq rx rx
  | RAlt rx rx
  | RStar rx

definition star :: "string set \<Rightarrow> string set" where
  "star A = {concat ws | ws. set ws \<subseteq> A}"

fun lang :: "rx \<Rightarrow> string set" where
  "lang RNone = {}"
| "lang REps = {[]}"
| "lang (RCls p) = {[c] | c. p c}"
| "lang (RSeq r s) = {u @ v | u v. u \<in> lang r \<and> v \<in> lang s}"
| "lang (RAlt r s) = lang r \<union> lang s"
| "lang (RStar r) = star (lang r)"

definition ROpt :: "rx \<Rightarrow> rx" where
  "ROpt r = RAlt REps r"

definition RPlus :: "rx \<Rightarrow> rx" where
  "RPlus r = RSeq r (RStar r)"

fun RLit :: "string \<Rightarrow> rx" where
  "RLit [] = REps"
| "RLit (c # cs) = RSeq (RCls (\<lambda>d. d = c)) (RLit cs)"

text \<open>A literal under \<open>re.IGNORECASE\<close>, written in lower case.\<close>

fun RLitI :: "string \<Rightarrow> rx" where
  "RLitI [] = REps"
| "RLitI (c # cs) = RSeq (RCls (\<lambda>d. lower_char d = c)) (RLitI cs)"

text \<open>The counted repetitions \<open>{0,n}\<close> and \<open>{m,m+n}\<close>.\<close>

fun RUpTo :: "nat \<Rightarrow> rx \<Rightarrow> rx" where
  "RUpTo 0 r = REps"
| "RUpTo (Suc n) r = RAlt REps (RSeq r (RUpTo n r))"

fun RRep :: "nat \<Rightarrow> nat \<Rightarrow> rx \<Rightarrow> rx" where
  "RRep 0 n r = RUpTo n r"
| "RRep (Suc m) n r = RSeq r (RRep m n r)"

fun RAlts :: "rx list \<Rightarrow> rx" where
  "RAlts [] = RNone"
| "RAlts [r] = r"
| "RAlts (r # s # rs) = RAlt r (RAlts (s # rs))"

fun RSeqs :: "rx list \<Rightarrow> rx" where
  "RSeqs [] = REps"
| "RSeqs [r] = r"
| "RSeqs (r # s # rs) = RSeq r (RSeqs (s # rs))"

section \<open>Matching\<close>

fun nullable :: "rx \<Rightarrow> bool" where
  "nullable RNone = False"
| "nullable REps = True"
| "nullable (RCls p) = False"
| "nullable (RSeq r s) = (nullable r \<and> nullable s)"
| "nullable (RAlt r s) = (nullable r \<or> nullable s)"
| "nullable (RStar r) = True"

text \<open>Constructors that drop the units, so that derivatives stay small.\<close>

fun mk_seq :: "rx \<Rightarrow> rx \<Rightarrow> rx" where
  "mk_seq RNone s = RNone"
| "mk_seq REps s = s"
| "mk_seq r s = RSeq r s"

fun mk_alt :: "rx \<Rightarrow> rx \<Rightarrow> rx" where
  "mk_alt RNone s = s"
| "mk_alt r RNone = r"
| "mk_alt r s = RAlt r s"

fun deriv :: "char \<Rightarrow> rx \<Rightarrow> rx" where
  "deriv c RNone = RNone"
| "deriv c REps = RNone"
| "deriv c (RCls p) = (if p c then REps else RNone)"
| "deriv c (RSeq r s) =
     (if nullable r then mk_alt (mk_seq (deriv c r) s) (deriv c s) else mk_seq (deriv c r) s)"
| "deriv c (RAlt r s) = mk_alt (deriv c r) (deriv c s)"
| "deriv c (RStar r) = mk_seq (deriv c r) (RStar r)"

text \<open>\<open>p.fullmatch(s)\<close>.\<close>

fun fullmatch :: "rx \<Rightarrow> string \<Rightarrow> bool" where
  "fullmatch r [] = nullable r"
| "fullmatch r (c # cs) = fullmatch (deriv c r) cs"

text \<open>A match of a prefix whose rest satisfies a zero-width condition.\<close>

fun match_then :: "(string \<Rightarrow> bool) \<Rightarrow> rx \<Rightarrow> string \<Rightarrow> bool" where
  "match_then k r [] = (nullable r \<and> k [])"
| "match_then k r (c # cs) = (nullable r \<and> k (c # cs) \<or> match_then k (deriv c r) cs)"

text \<open>
  \<open>p.search(s)\<close>: some position whose preceding character satisfies \<open>b\<close>
  (\<open>None\<close> at the start of the text).
\<close>

fun search_from :: "(char option \<Rightarrow> bool) \<Rightarrow> (string \<Rightarrow> bool) \<Rightarrow> rx \<Rightarrow> char option \<Rightarrow> string \<Rightarrow> bool" where
  "search_from b k r prev [] = (b prev \<and> match_then k r [])"
| "search_from b k r prev (c # cs) =
     (b prev \<and> match_then k r (c # cs) \<or> search_from b k r (Some c) cs)"

section \<open>Matching decides the language\<close>

lemma nullable_lang: "nullable r \<longleftrightarrow> [] \<in> lang r"
proof (induction r)
  case (RStar r)
  have "concat [] \<in> star (lang r)" unfolding star_def by (rule CollectI, rule exI [of _ "[]"]) simp
  then show ?case by simp
qed auto

lemma lang_mk_seq [simp]: "lang (mk_seq r s) = lang (RSeq r s)"
  by (cases "(r, s)" rule: mk_seq.cases) auto

lemma lang_mk_alt [simp]: "lang (mk_alt r s) = lang r \<union> lang s"
  by (cases "(r, s)" rule: mk_alt.cases) auto

lemma star_append: "u \<in> A \<Longrightarrow> v \<in> star A \<Longrightarrow> u @ v \<in> star A"
  unfolding star_def by clarsimp (metis concat.simps(2) insert_subset list.simps(15))

lemma star_Cons_iff: "c # w \<in> star A \<longleftrightarrow> (\<exists>u v. w = u @ v \<and> c # u \<in> A \<and> v \<in> star A)"
proof
  assume "c # w \<in> star A"
  then obtain ws where "c # w = concat ws" "set ws \<subseteq> A" by (auto simp: star_def)
  then show "\<exists>u v. w = u @ v \<and> c # u \<in> A \<and> v \<in> star A"
  proof (induction ws)
    case (Cons x ws)
    then show ?case by (cases x) (auto simp: star_def)
  qed simp
next
  assume "\<exists>u v. w = u @ v \<and> c # u \<in> A \<and> v \<in> star A"
  then show "c # w \<in> star A" using star_append [of "c # _" A] by auto
qed

lemma lang_deriv: "lang (deriv c r) = {w. c # w \<in> lang r}"
proof (induction r)
  case (RSeq r s)
  show ?case
    by (auto simp: RSeq nullable_lang Cons_eq_append_conv)
next
  case (RStar r)
  then show ?case by (auto simp: star_Cons_iff)
qed auto

theorem fullmatch_lang: "fullmatch r s \<longleftrightarrow> s \<in> lang r"
  by (induction r s rule: fullmatch.induct) (auto simp: nullable_lang lang_deriv)

lemma match_then_lang: "match_then k r s \<longleftrightarrow> (\<exists>u v. s = u @ v \<and> u \<in> lang r \<and> k v)"
proof (induction k r s rule: match_then.induct)
  case (1 k r)
  then show ?case by (auto simp: nullable_lang)
next
  case (2 k r c cs)
  then show ?case
    by (auto simp: nullable_lang lang_deriv Cons_eq_append_conv)
qed

section \<open>Languages of the derived forms\<close>

lemma lang_ROpt [simp]: "lang (ROpt r) = insert [] (lang r)"
  by (auto simp: ROpt_def)

lemma lang_RSeq_cls [simp]:
  "lang (RSeq (RCls p) r) = {c # cs | c cs. p c \<and> cs \<in> lang r}"
proof -
  have "c # cs \<in> lang (RSeq (RCls p) r)" if "p c" "cs \<in> lang r" for c cs
    using that by (simp, metis append_Cons append_Nil)
  then show ?thesis by auto
qed

declare lang.simps(4) [simp del]

lemmas lang_RSeq = lang.simps(4)

lemma lang_RLit [simp]: "lang (RLit s) = {s}"
  by (induction s) auto

lemma lang_RLitI [simp]: "lang (RLitI s) = {u. lower_str u = s}"
  by (induction s) (auto simp: lower_str_def map_eq_Cons_conv)

lemma star_RCls: "star {[c] | c. p c} = {s. list_all p s}"
proof (rule set_eqI)
  fix s
  show "s \<in> star {[c] | c. p c} \<longleftrightarrow> s \<in> {s. list_all p s}"
  proof (induction s)
    case Nil
    have "concat [] \<in> star {[c] | c. p c}"
      unfolding star_def by (rule CollectI, rule exI [of _ "[]"]) simp
    then show ?case by simp
  next
    case (Cons c s)
    then show ?case by (auto simp: star_Cons_iff)
  qed
qed

lemma lang_RUpTo_cls [simp]:
  "lang (RUpTo n (RCls p)) = {s. length s \<le> n \<and> list_all p s}"
proof (induction n)
  case (Suc n)
  show ?case
  proof (rule set_eqI)
    fix s
    show "s \<in> lang (RUpTo (Suc n) (RCls p)) \<longleftrightarrow> s \<in> {s. length s \<le> Suc n \<and> list_all p s}"
      by (cases s) (auto simp: Suc)
  qed
qed auto

lemma lang_RRep_cls [simp]:
  "lang (RRep m n (RCls p)) = {s. m \<le> length s \<and> length s \<le> m + n \<and> list_all p s}"
proof (induction m)
  case (Suc m)
  show ?case
  proof (rule set_eqI)
    fix s
    show "s \<in> lang (RRep (Suc m) n (RCls p))
      \<longleftrightarrow> s \<in> {s. Suc m \<le> length s \<and> length s \<le> Suc m + n \<and> list_all p s}"
      by (cases s) (auto simp: Suc)
  qed
qed simp

lemma lang_RStar_cls [simp]: "lang (RStar (RCls p)) = {s. list_all p s}"
  by (simp add: star_RCls)

lemma lang_RPlus_cls [simp]: "lang (RPlus (RCls p)) = {s. s \<noteq> [] \<and> list_all p s}"
proof (rule set_eqI)
  fix s
  show "s \<in> lang (RPlus (RCls p)) \<longleftrightarrow> s \<in> {s. s \<noteq> [] \<and> list_all p s}"
    by (cases s) (auto simp: RPlus_def star_RCls)
qed

declare lang.simps(6) [simp del]

lemmas lang_star_simps = lang.simps(6)

section \<open>Zero-width conditions\<close>

text \<open>\<open>\\b\<close> before and after a match that starts and ends with word characters.\<close>

definition not_word_before :: "char option \<Rightarrow> bool" where
  "not_word_before p \<longleftrightarrow> (case p of None \<Rightarrow> True | Some c \<Rightarrow> \<not> is_word c)"

definition not_word_after :: "string \<Rightarrow> bool" where
  "not_word_after s \<longleftrightarrow> (case s of [] \<Rightarrow> True | c # _ \<Rightarrow> \<not> is_word c)"

text \<open>\<open>^\<close> under \<open>re.MULTILINE\<close>, and \<open>$\<close>, which also holds before a final line feed.\<close>

definition at_line_start :: "char option \<Rightarrow> bool" where
  "at_line_start p \<longleftrightarrow> (case p of None \<Rightarrow> True | Some c \<Rightarrow> c = CHR 0x0A)"

definition at_end :: "string \<Rightarrow> bool" where
  "at_end s \<longleftrightarrow> s = [] \<or> s = NL"

end
