(* ===== verification/PyUrl.thy ===== *)
theory PyUrl
  imports PyRegex PyFloat
begin

text \<open>
  The URL functions of \<open>urllib.parse\<close> that the program calls: \<open>urlsplit\<close> with the
  derived \<open>hostname\<close>, \<open>port\<close>, \<open>username\<close> and \<open>password\<close>, and \<open>urlunsplit\<close>. A malformed
  bracketed host is a \<open>ValueError\<close>. (On the code points 0 to 255 the normalisation check
  of the library never fails.)
\<close>

record split_result =
  sr_scheme :: string
  sr_netloc :: string
  sr_path :: string
  sr_query :: string
  sr_fragment :: string

section \<open>Bracketed hosts\<close>

definition octet_ok :: "string \<Rightarrow> bool" where
  "octet_ok s \<longleftrightarrow> s \<noteq> [] \<and> list_all is_digit s \<and> length s \<le> 3
     \<and> (s = ''0'' \<or> hd s \<noteq> CHR ''0'') \<and> digits_val s \<le> 255"

definition ipv4_ok :: "string \<Rightarrow> bool" where
  "ipv4_ok s \<longleftrightarrow> (let os = split_on (CHR ''.'') s in length os = 4 \<and> list_all octet_ok os)"

definition hextet_ok :: "string \<Rightarrow> bool" where
  "hextet_ok s \<longleftrightarrow> s \<noteq> [] \<and> list_all is_hex s \<and> length s \<le> 4"

text \<open>
  The parts of the address with an IPv4 tail counted as two hextets, and the number of
  inner empty parts (\<open>::\<close>).
\<close>

definition ipv6_ok :: "string \<Rightarrow> bool" where
  "ipv6_ok s =
     (let (addr, has_scope, scope_id) = partition_at (CHR ''%'') s;
          parts0 = split_on (CHR '':'') addr;
          v4 = CHR ''.'' \<in> set (last parts0);
          parts = (if v4 then butlast parts0 @ [''0'', ''0''] else parts0);
          n = length parts;
          skips = filter (\<lambda>i. parts ! i = []) [1..<n - 1]
      in \<not> (has_scope \<and> (scope_id = [] \<or> CHR ''%'' \<in> set scope_id))
         \<and> CHR ''/'' \<notin> set s
         \<and> addr \<noteq> [] \<and> 3 \<le> length parts0 \<and> (v4 \<longrightarrow> ipv4_ok (last parts0)) \<and> n \<le> 9
         \<and> (case skips of
              [] \<Rightarrow> n = 8 \<and> list_all hextet_ok parts
            | [i] \<Rightarrow>
                (let hi = (if hd parts = [] then i - 1 else i);
                     lo = (if last parts = [] then n - i - 2 else n - i - 1)
                 in (hd parts = [] \<longrightarrow> hi = 0) \<and> (last parts = [] \<longrightarrow> lo = 0)
                    \<and> hi + lo < 8
                    \<and> list_all hextet_ok (take hi parts)
                    \<and> list_all hextet_ok (drop (n - lo) parts))
            | _ \<Rightarrow> False))"

definition ipvfuture_ok :: "string \<Rightarrow> bool" where
  "ipvfuture_ok s =
     fullmatch (RSeqs [RLit ''v'', RPlus (RCls is_hex), RLit ''.'',
       RPlus (RCls (\<lambda>c. c \<noteq> CHR 0x0A))]) s"

definition bracketed_host_ok :: "string \<Rightarrow> bool" where
  "bracketed_host_ok h = (if startswith h ''v'' then ipvfuture_ok h else ipv6_ok h)"

section \<open>Splitting\<close>

definition is_scheme_char :: "char \<Rightarrow> bool" where
  "is_scheme_char c \<longleftrightarrow> is_alnum_ascii c \<or> c = CHR ''+'' \<or> c = CHR ''-'' \<or> c = CHR ''.''"

definition is_netloc_end :: "char \<Rightarrow> bool" where
  "is_netloc_end c \<longleftrightarrow> c = CHR ''/'' \<or> c = CHR ''?'' \<or> c = CHR ''#''"

text \<open>Leading control characters and spaces are dropped, tabs and line ends removed.\<close>

definition clean_url :: "string \<Rightarrow> string" where
  "clean_url u =
     filter (\<lambda>c. c \<noteq> CHR 0x09 \<and> c \<noteq> CHR 0x0D \<and> c \<noteq> CHR 0x0A) (dropWhile (\<lambda>c. c \<le> CHR '' '') u)"

definition split_scheme :: "string \<Rightarrow> string \<times> string" where
  "split_scheme u =
     (let (pre, found, rest) = partition_at (CHR '':'') u
      in if found \<and> pre \<noteq> [] \<and> is_alpha_ascii (hd u) \<and> list_all is_scheme_char pre
         then (lower_str pre, rest) else ([], u))"

definition split_netloc :: "string \<Rightarrow> string \<times> string" where
  "split_netloc u =
     (if startswith u ''//''
      then (takeWhile (\<lambda>c. \<not> is_netloc_end c) (drop 2 u), dropWhile (\<lambda>c. \<not> is_netloc_end c) (drop 2 u))
      else ([], u))"

definition netloc_bad :: "string \<Rightarrow> bool" where
  "netloc_bad n =
     (let o' = CHR ''['' \<in> set n; c' = CHR '']'' \<in> set n
      in o' \<noteq> c'
         \<or> (o' \<and> c' \<and> \<not> bracketed_host_ok
              (fst (partition_at (CHR '']'') (snd (snd (partition_at (CHR ''['') n)))))))"

definition urlsplit :: "string \<Rightarrow> split_result res" where
  "urlsplit url =
     (let (sch, u1) = split_scheme (clean_url url);
          (nl, u2) = split_netloc u1;
          (u3, _, frag) = partition_at (CHR ''#'') u2;
          (p, _, q) = partition_at (CHR ''?'') u3
      in if netloc_bad nl then Inl ValueError
         else Inr \<lparr>sr_scheme = sch, sr_netloc = nl, sr_path = p, sr_query = q, sr_fragment = frag\<rparr>)"

section \<open>Authority\<close>

definition url_userinfo :: "split_result \<Rightarrow> string option \<times> string option" where
  "url_userinfo r =
     (let (info, found, _) = rpartition_at (CHR ''@'') (sr_netloc r)
      in if found
         then (let (u, has_pw, pw) = partition_at (CHR '':'') info
               in (Some u, if has_pw then Some pw else None))
         else (None, None))"

definition url_username :: "split_result \<Rightarrow> string option" where
  "url_username r = fst (url_userinfo r)"

definition url_password :: "split_result \<Rightarrow> string option" where
  "url_password r = snd (url_userinfo r)"

definition url_hostinfo :: "split_result \<Rightarrow> string \<times> string option" where
  "url_hostinfo r =
     (let hi = snd (snd (rpartition_at (CHR ''@'') (sr_netloc r)));
          (_, br, bracketed) = partition_at (CHR ''['') hi;
          (host, p) =
            (if br
             then (let (h, _, after) = partition_at (CHR '']'') bracketed
                   in (h, snd (snd (partition_at (CHR '':'') after))))
             else (let (h, _, p) = partition_at (CHR '':'') hi in (h, p)))
      in (host, if p = [] then None else Some p))"

definition url_hostname :: "split_result \<Rightarrow> string option" where
  "url_hostname r =
     (let h = fst (url_hostinfo r); (a, pct, z) = partition_at (CHR ''%'') h
      in if h = [] then None else Some (lower_str a @ (if pct then ''%'' else []) @ z))"

definition url_port :: "split_result \<Rightarrow> int option res" where
  "url_port r =
     (case snd (url_hostinfo r) of None \<Rightarrow> Inr None
      | Some p \<Rightarrow>
          if list_all is_digit p \<and> length p \<le> 4300 \<and> digits_val p \<le> 65535
          then Inr (Some (digits_val p)) else Inl ValueError)"

section \<open>Joining\<close>

definition uses_netloc :: "string list" where
  "uses_netloc =
     ['''', ''ftp'', ''http'', ''gopher'', ''nntp'', ''telnet'', ''imap'', ''wais'', ''file'',
      ''mms'', ''https'', ''shttp'', ''snews'', ''prospero'', ''rtsp'', ''rtsps'', ''rtspu'',
      ''rsync'', ''svn'', ''svn+ssh'', ''sftp'', ''nfs'', ''git'', ''git+ssh'', ''ws'', ''wss'']"

definition urlunsplit :: "split_result \<Rightarrow> string" where
  "urlunsplit r =
     (let u1 = (if sr_netloc r \<noteq> [] \<or> (sr_scheme r \<noteq> [] \<and> sr_scheme r \<in> set uses_netloc)
                   \<or> startswith (sr_path r) ''//''
                then ''//'' @ sr_netloc r
                  @ (if sr_path r \<noteq> [] \<and> \<not> startswith (sr_path r) ''/'' then ''/'' else []) @ sr_path r
                else sr_path r);
          u2 = (if sr_scheme r \<noteq> [] then sr_scheme r @ '':'' @ u1 else u1);
          u3 = (if sr_query r \<noteq> [] then u2 @ ''?'' @ sr_query r else u2)
      in if sr_fragment r \<noteq> [] then u3 @ ''#'' @ sr_fragment r else u3)"

end
