(* ===== verification/PySha256.thy ===== *)
theory PySha256
  imports PyPrelude "HOL-Library.Word"
begin

unbundle bit_operations_syntax

text \<open>
  \<open>hashlib.sha256(data).hexdigest()\<close> on a list of bytes: the FIPS 180-4 compression
  function on 32-bit words. The development relies on the shape of the digest only
  (64 lower-case hexadecimal digits), which is proved here.
\<close>

type_synonym u32 = "32 word"

text \<open>
  The constants of the standard are the first 32 bits of the fractional parts of the cube
  roots of the first 64 primes, and of the square roots of the first eight. The root is
  computed bit by bit: the largest \<open>r\<close> below \<open>2 ^ b\<close> with \<open>r ^ k \<le> n\<close>.
\<close>

definition sha_primes :: "int list" where
  "sha_primes =
     [2, 3, 5, 7, 11, 13, 17, 19, 23, 29, 31, 37, 41, 43, 47, 53,
      59, 61, 67, 71, 73, 79, 83, 89, 97, 101, 103, 107, 109, 113, 127, 131,
      137, 139, 149, 151, 157, 163, 167, 173, 179, 181, 191, 193, 197, 199, 211, 223,
      227, 229, 233, 239, 241, 251, 257, 263, 269, 271, 277, 281, 283, 293, 307, 311]"

fun int_root :: "nat \<Rightarrow> nat \<Rightarrow> int \<Rightarrow> int \<Rightarrow> int" where
  "int_root k 0 n r = r"
| "int_root k (Suc b) n r = int_root k b n (if (r + 2 ^ b) ^ k \<le> n then r + 2 ^ b else r)"

definition sha_k :: "u32 list" where
  "sha_k = map (\<lambda>p. word_of_int (int_root 3 36 (p * 2 ^ 96) 0)) sha_primes"

definition sha_h0 :: "u32 list" where
  "sha_h0 = map (\<lambda>p. word_of_int (int_root 2 36 (p * 2 ^ 64) 0)) (take 8 sha_primes)"

definition rotr :: "nat \<Rightarrow> u32 \<Rightarrow> u32" where
  "rotr n x = drop_bit n x OR push_bit (32 - n) x"

definition big_sigma0 :: "u32 \<Rightarrow> u32" where
  "big_sigma0 x = rotr 2 x XOR rotr 13 x XOR rotr 22 x"

definition big_sigma1 :: "u32 \<Rightarrow> u32" where
  "big_sigma1 x = rotr 6 x XOR rotr 11 x XOR rotr 25 x"

definition small_sigma0 :: "u32 \<Rightarrow> u32" where
  "small_sigma0 x = rotr 7 x XOR rotr 18 x XOR drop_bit 3 x"

definition small_sigma1 :: "u32 \<Rightarrow> u32" where
  "small_sigma1 x = rotr 17 x XOR rotr 19 x XOR drop_bit 10 x"

text \<open>The message schedule, built backwards: the last word first.\<close>

fun schedule :: "nat \<Rightarrow> u32 list \<Rightarrow> u32 list" where
  "schedule 0 ws = rev ws"
| "schedule (Suc n) ws =
     schedule n ((small_sigma1 (ws ! 1) + ws ! 6 + small_sigma0 (ws ! 14) + ws ! 15) # ws)"

fun sha_round :: "u32 list \<Rightarrow> u32 \<times> u32 \<Rightarrow> u32 list" where
  "sha_round [a, b, c, d, e, f, g, h] (k, w) =
     (let t1 = h + big_sigma1 e + ((e AND f) XOR (NOT e AND g)) + k + w;
          t2 = big_sigma0 a + ((a AND b) XOR (a AND c) XOR (b AND c))
      in [t1 + t2, a, b, c, d + t1, e, f, g])"
| "sha_round st _ = st"

definition sha_block :: "u32 list \<Rightarrow> u32 list \<Rightarrow> u32 list" where
  "sha_block h block = map2 (+) h (foldl sha_round h (zip sha_k (schedule 48 (rev block))))"

definition byte_word :: "char \<Rightarrow> u32" where
  "byte_word c = word_of_int (of_char c)"

fun words_of :: "string \<Rightarrow> u32 list" where
  "words_of (a # b # c # d # r) =
     (push_bit 24 (byte_word a) OR push_bit 16 (byte_word b) OR push_bit 8 (byte_word c)
        OR byte_word d) # words_of r"
| "words_of _ = []"

text \<open>The padding: the bit 1, zeros, and the length of the message in bits.\<close>

definition sha_pad :: "string \<Rightarrow> string" where
  "sha_pad m =
     (let n = length m; z = (119 - n mod 64) mod 64
      in m @ [CHR 0x80] @ replicate z (CHR 0x00)
         @ map (\<lambda>i. char_of ((8 * int n) div 256 ^ (7 - i))) [0..<8])"

fun sha_blocks :: "nat \<Rightarrow> u32 list \<Rightarrow> u32 list \<Rightarrow> u32 list" where
  "sha_blocks 0 h ws = h"
| "sha_blocks (Suc n) h ws = sha_blocks n (sha_block h (take 16 ws)) (drop 16 ws)"

definition nibble_char :: "int \<Rightarrow> char" where
  "nibble_char d = (if d < 10 then char_of (48 + d) else char_of (87 + d))"

definition word_hex :: "u32 \<Rightarrow> string" where
  "word_hex w = map (\<lambda>i. nibble_char (uint w div 16 ^ (7 - i) mod 16)) [0..<8]"

definition sha256_hex :: "string \<Rightarrow> string" where
  "sha256_hex m =
     (let p = sha_pad m
      in concat (map word_hex (sha_blocks (length p div 64) sha_h0 (words_of p))))"

section \<open>The shape of a digest\<close>

lemma length_sha_round: "length (sha_round st kw) = length st"
  by (cases "(st, kw)" rule: sha_round.cases) (auto simp: Let_def)

lemma length_foldl_sha_round: "length (foldl sha_round st kws) = length st"
  by (induction kws arbitrary: st) (auto simp: length_sha_round)

lemma length_sha_blocks: "length (sha_blocks n h ws) = length h"
  by (induction n h ws rule: sha_blocks.induct) (auto simp: sha_block_def length_foldl_sha_round)

lemma nibble_char_hex: "0 \<le> d \<Longrightarrow> d < 16 \<Longrightarrow> is_hex_lower (nibble_char d)"
  by (cases "d < 10") (simp_all add: nibble_char_def is_hex_lower_def is_digit_def char_le_int)

lemma word_hex_shape: "length (word_hex w) = 8" "list_all is_hex_lower (word_hex w)"
  by (auto simp: word_hex_def list_all_iff intro!: nibble_char_hex)

lemma length_concat_word_hex: "length (concat (map word_hex ws)) = 8 * length ws"
  by (induction ws) (auto simp: word_hex_shape)

lemma length_sha256_hex [simp]: "length (sha256_hex m) = 64"
  by (simp add: sha256_hex_def Let_def length_concat_word_hex length_sha_blocks sha_h0_def sha_primes_def)

lemma sha256_hex_chars: "list_all is_hex_lower (sha256_hex m)"
  using word_hex_shape by (auto simp: sha256_hex_def Let_def list_all_iff)

text \<open>What the clients of a digest function rely on.\<close>

locale hex_digest =
  fixes digest :: "string \<Rightarrow> string"
  assumes digest_length: "length (digest m) = 64"
    and digest_hex: "list_all is_hex_lower (digest m)"
begin

lemma digest_prefix: "n \<le> 64 \<Longrightarrow> length (take n (digest m)) = n \<and> list_all is_hex_lower (take n (digest m))"
  using digest_hex [of m] by (auto simp: digest_length list_all_iff dest: in_set_takeD)

end

interpretation sha256: hex_digest sha256_hex
  by unfold_locales (simp_all add: sha256_hex_chars)

end
