(* ===== verification/ClientConfig.thy ===== *)
theory ClientConfig
  imports PyJson PyUrl PySha256
begin

text \<open>
  The configuration of the protocol client (\<^verbatim>\<open>src/ci/checks/protocol/protocol_client.py\<close>):
  its constants and data classes, the validation of a configuration, the token of the
  follow-up request and the hash of the target authority.
\<close>

section \<open>Constants\<close>

definition CANONICAL_PROTOCOLS :: "string list" where
  "CANONICAL_PROTOCOLS = [''http1'', ''h2'', ''h2c'', ''h3'']"

definition CANONICAL_TRANSPORTS :: "string list" where
  "CANONICAL_TRANSPORTS = [''tcp'', ''tls_tcp'', ''quic_udp'']"

definition OBSERVATION_STATUSES :: "string list" where
  "OBSERVATION_STATUSES = [''PASS'', ''FAIL'', ''BLOCKED'', ''NOT_EXECUTED'', ''UNSUPPORTED_BY_HOST'']"

definition MAX_ARTIFACT_TEXT_BYTES :: nat where
  "MAX_ARTIFACT_TEXT_BYTES = 64 * 1024"

definition MAX_SIDECAR_BYTES :: nat where
  "MAX_SIDECAR_BYTES = 64 * 1024"

definition token_char :: "char \<Rightarrow> bool" where
  "token_char c \<longleftrightarrow> is_alnum_ascii c \<or> c = CHR ''.'' \<or> c = CHR ''_'' \<or> c = CHR '':'' \<or> c = CHR ''-''"

definition BOUNDED_TOKEN :: rx where
  "BOUNDED_TOKEN = RSeq (RCls is_alnum_ascii) (RUpTo 63 (RCls token_char))"

definition BOUNDED_TEXT :: rx where
  "BOUNDED_TEXT = RRep 1 255 (RCls (\<lambda>c. \<not> is_ctl c))"

definition SHA256_TOKEN :: rx where
  "SHA256_TOKEN = RSeq (RLit ''sha256:'') (RRep 64 0 (RCls is_hex_lower))"

text \<open>The token characters of an HTTP field name (39 is the apostrophe, 96 the back quote).\<close>

definition field_name_char :: "char \<Rightarrow> bool" where
  "field_name_char c \<longleftrightarrow> is_alnum_ascii c \<or> c \<in> set ''!#$%&*+-.^_|~'' \<or> c = CHR 0x27 \<or> c = CHR 0x60"

definition HTTP_FIELD_NAME :: rx where
  "HTTP_FIELD_NAME = RPlus (RCls field_name_char)"

definition TRANSPORT_CASE_ID_ERROR :: string where
  "TRANSPORT_CASE_ID_ERROR = ''transport_case_id must be a bounded token''"

lemma fullmatch_BOUNDED_TOKEN:
  "fullmatch BOUNDED_TOKEN s \<longleftrightarrow>
     (\<exists>c cs. s = c # cs \<and> is_alnum_ascii c \<and> length cs \<le> 63 \<and> list_all token_char cs)"
  by (auto simp: fullmatch_lang BOUNDED_TOKEN_def)

lemma fullmatch_BOUNDED_TEXT:
  "fullmatch BOUNDED_TEXT s \<longleftrightarrow> s \<noteq> [] \<and> length s \<le> 256 \<and> list_all (\<lambda>c. \<not> is_ctl c) s"
  by (cases s) (auto simp: fullmatch_lang BOUNDED_TEXT_def)

lemma fullmatch_SHA256_TOKEN:
  "fullmatch SHA256_TOKEN s \<longleftrightarrow>
     (\<exists>h. s = ''sha256:'' @ h \<and> length h = 64 \<and> list_all is_hex_lower h)"
  by (auto simp: fullmatch_lang SHA256_TOKEN_def lang_RSeq)

lemma fullmatch_HTTP_FIELD_NAME:
  "fullmatch HTTP_FIELD_NAME s \<longleftrightarrow> s \<noteq> [] \<and> list_all field_name_char s"
  by (simp add: fullmatch_lang HTTP_FIELD_NAME_def)

section \<open>Data classes\<close>

record curl_inspection =
  ci_executable :: string
  ci_version_text :: string
  ci_version :: "(int \<times> int \<times> int) option"
  ci_features :: "string list"
  ci_options :: "string list"
  ci_version_returncode :: "int option"
  ci_help_returncode :: "int option"
  ci_error :: "string option"

record preflight =
  pf_status :: string
  pf_reason :: "string option"
  pf_required_features :: "string list"
  pf_required_options :: "string list"
  pf_missing_features :: "string list"
  pf_missing_options :: "string list"
  pf_writeout_mode :: string

text \<open>A path is the list of its components below the root.\<close>

type_synonym fpath = "string list"

record client_config =
  cc_url :: string
  cc_protocol :: string
  cc_artifact_dir :: fpath
  cc_curl :: string
  cc_timeout :: pyfloat
  cc_connect_timeout :: "pyfloat option"
  cc_insecure :: bool
  cc_request :: string
  cc_headers :: "string list"
  cc_data_file :: "string option"
  cc_cacert :: "string option"
  cc_resolve :: "string list"
  cc_connector :: "string option"
  cc_integration_mode :: "string option"
  cc_run_id :: "string option"
  cc_transaction_id :: "string option"
  cc_transport_case_id :: "string option"
  cc_rule_id :: "string option"
  cc_phase :: "string option"
  cc_stream_id :: "int option"
  cc_upstream_protocol :: "string option"
  cc_quic_udp_observed :: bool
  cc_observation_sidecar :: "fpath option"
  cc_followup_url :: "string option"
  cc_followup_protocol :: "string option"

record client_run_result =
  rr_observation :: dict
  rr_inspection :: curl_inspection
  rr_preflight :: preflight
  rr_command :: "string list"

section \<open>Validation\<close>

definition normalize_protocol :: "string \<Rightarrow> string res" where
  "normalize_protocol value =
     (let protocol = lower_str (strip value)
      in if protocol \<notin> set CANONICAL_PROTOCOLS
         then Inl (ProtocolClientError ''protocol must be one of http1, h2, h2c, h3'')
         else Inr protocol)"

definition normalize_transport :: "string \<Rightarrow> string res" where
  "normalize_transport value =
     (let transport = lower_str (strip value)
      in if transport \<notin> set CANONICAL_TRANSPORTS
         then Inl (ProtocolClientError ''transport must be one of tcp, tls_tcp, quic_udp'')
         else Inr transport)"

definition validate_text_argument :: "string option \<Rightarrow> string \<Rightarrow> string option res" where
  "validate_text_argument value name =
     (case value of
        None \<Rightarrow> Inr None
      | Some v \<Rightarrow>
          (let text = strip v
           in if \<not> fullmatch BOUNDED_TEXT text
              then Inl (ProtocolClientError (name @ '' must be bounded printable text''))
              else Inr (Some text)))"

definition validate_timeouts :: "client_config \<Rightarrow> unit res" where
  "validate_timeouts config =
     rbind (raise_if (float_le (cc_timeout config) (exact_int 0))
              (ProtocolClientError ''timeout must be greater than zero''))
       (\<lambda>_. raise_if (case cc_connect_timeout config of None \<Rightarrow> False
                      | Some t \<Rightarrow> float_le t (exact_int 0))
              (ProtocolClientError ''connect_timeout must be greater than zero''))"

text \<open>\<open>any(character in s for character in "\\r\\n\\x00")\<close>.\<close>

definition has_line_control :: "string \<Rightarrow> bool" where
  "has_line_control s \<longleftrightarrow> CHR 0x0D \<in> set s \<or> CHR 0x0A \<in> set s \<or> CHR 0x00 \<in> set s"

definition validate_request :: "string \<Rightarrow> unit res" where
  "validate_request request =
     raise_if (request = [] \<or> has_line_control request)
       (ProtocolClientError ''request must be a non-empty HTTP method'')"

definition validate_protocol_url_scheme :: "string \<Rightarrow> string \<Rightarrow> unit res" where
  "validate_protocol_url_scheme protocol sch =
     (if protocol = ''h2'' \<and> sch \<noteq> ''https''
      then Inl (ProtocolClientError ''h2 requires an https URL for TLS/ALPN evidence'')
      else if protocol = ''h2c'' \<and> sch \<noteq> ''http''
      then Inl (ProtocolClientError ''h2c requires an http URL'')
      else if protocol = ''h3'' \<and> sch \<noteq> ''https''
      then Inl (ProtocolClientError ''h3 requires an https URL'')
      else Inr ())"

definition validate_url :: "string \<Rightarrow> string \<Rightarrow> string res" where
  "validate_url url protocol =
     rbind (urlsplit url) (\<lambda>parsed.
     rbind (raise_if (sr_scheme parsed \<notin> {''http'', ''https''} \<or> sr_netloc parsed = [])
              (ProtocolClientError ''url must be an absolute http or https URL'')) (\<lambda>_.
     rbind (raise_if (has_line_control url)
              (ProtocolClientError ''url contains a control character'')) (\<lambda>_.
     rbind (raise_if (sr_fragment parsed \<noteq> [])
              (ProtocolClientError ''url must not include a fragment'')) (\<lambda>_.
     rbind (case url_port parsed of
              Inl _ \<Rightarrow> Inl (ProtocolClientError ''url contains an invalid port'')
            | Inr _ \<Rightarrow> Inr ()) (\<lambda>_.
     rbind (validate_protocol_url_scheme protocol (sr_scheme parsed)) (\<lambda>_.
     Inr (sr_scheme parsed)))))))"

definition has_invalid_stream_id :: "pyval \<Rightarrow> bool" where
  "has_invalid_stream_id value \<longleftrightarrow> is_bool value \<or> \<not> is_int value \<or> int_val value < 0"

lemma has_invalid_stream_id_iff: "\<not> has_invalid_stream_id v \<longleftrightarrow> (\<exists>i\<ge>0. v = PInt i)"
  by (cases v) (auto simp: has_invalid_stream_id_def)

definition validate_stream_id :: "int option \<Rightarrow> unit res" where
  "validate_stream_id stream_id =
     (case stream_id of
        None \<Rightarrow> Inr ()
      | Some i \<Rightarrow> raise_if (has_invalid_stream_id (PInt i))
          (ProtocolClientError ''stream_id must be an integer greater than or equal to zero''))"

text \<open>The attributes of \<open>_PROVENANCE_TEXT_FIELDS\<close>, read by name from the configuration.\<close>

definition provenance_text_fields :: "client_config \<Rightarrow> (string \<times> string option) list" where
  "provenance_text_fields config =
     [(''connector'', cc_connector config), (''integration_mode'', cc_integration_mode config),
      (''run_id'', cc_run_id config), (''transaction_id'', cc_transaction_id config),
      (''rule_id'', cc_rule_id config), (''phase'', cc_phase config)]"

fun validate_texts :: "(string \<times> string option) list \<Rightarrow> unit res" where
  "validate_texts [] = Inr ()"
| "validate_texts ((name, value) # fs) =
     rbind (validate_text_argument value name) (\<lambda>_. validate_texts fs)"

definition validate_provenance_text :: "client_config \<Rightarrow> unit res" where
  "validate_provenance_text config = validate_texts (provenance_text_fields config)"

definition has_invalid_bounded_token :: "pyval \<Rightarrow> bool" where
  "has_invalid_bounded_token value \<longleftrightarrow> \<not> is_str value \<or> \<not> fullmatch BOUNDED_TOKEN (str_val value)"

lemma has_invalid_bounded_token_iff:
  "\<not> has_invalid_bounded_token v \<longleftrightarrow> (\<exists>s. v = PStr s \<and> fullmatch BOUNDED_TOKEN s)"
  by (cases v) (auto simp: has_invalid_bounded_token_def)

definition validate_transport_case_id :: "client_config \<Rightarrow> string \<Rightarrow> unit res" where
  "validate_transport_case_id config protocol =
     rbind (raise_if (case cc_transport_case_id config of None \<Rightarrow> False
                      | Some t \<Rightarrow> has_invalid_bounded_token (PStr t))
              (ProtocolClientError TRANSPORT_CASE_ID_ERROR))
       (\<lambda>_. raise_if (protocol \<in> {''h2'', ''h2c'', ''h3''}
                       \<and> (cc_transport_case_id config = None \<or> cc_transport_case_id config = Some []))
              (ProtocolClientError ''modern protocol probes require a transport_case_id''))"

definition validate_header :: "string \<Rightarrow> unit res" where
  "validate_header header =
     rbind (raise_if (header = [] \<or> has_line_control header)
              (ProtocolClientError ''headers must be single-line strings''))
       (\<lambda>_. let (raw_name, separator, _) = partition_at (CHR '':'') header;
                header_name = strip raw_name
            in rbind (raise_if (\<not> separator \<or> \<not> fullmatch HTTP_FIELD_NAME header_name)
                        (ProtocolClientError ''headers must use a valid name:value form''))
                 (\<lambda>_. raise_if (lower_str header_name = ''x-msconnector-transport-case'')
                        (ProtocolClientError ''transport correlation header is helper-owned'')))"

fun validate_headers :: "string list \<Rightarrow> unit res" where
  "validate_headers [] = Inr ()"
| "validate_headers (h # hs) = rbind (validate_header h) (\<lambda>_. validate_headers hs)"

definition validate_config :: "client_config \<Rightarrow> (string \<times> string) res" where
  "validate_config config =
     rbind (normalize_protocol (cc_protocol config)) (\<lambda>protocol.
     rbind (validate_timeouts config) (\<lambda>_.
     rbind (validate_request (cc_request config)) (\<lambda>_.
     rbind (validate_url (cc_url config) protocol) (\<lambda>sch.
     rbind (validate_stream_id (cc_stream_id config)) (\<lambda>_.
     rbind (case cc_upstream_protocol config of None \<Rightarrow> Inr []
            | Some p \<Rightarrow> normalize_protocol p) (\<lambda>_.
     rbind (validate_provenance_text config) (\<lambda>_.
     rbind (validate_transport_case_id config protocol) (\<lambda>_.
     rbind (validate_headers (cc_headers config)) (\<lambda>_.
     Inr (protocol, sch))))))))))"

section \<open>Derived tokens\<close>

definition derive_followup_transport_case_id :: "string option \<Rightarrow> string option res" where
  "derive_followup_transport_case_id primary =
     (case primary of
        None \<Rightarrow> Inr None
      | Some p \<Rightarrow>
          if has_invalid_bounded_token (PStr p)
          then Inl (ProtocolClientError TRANSPORT_CASE_ID_ERROR)
          else (let candidate = ''followup-'' @ take 32 (sha256_hex (''msconnector-followup:'' @ p))
                in Inr (Some (if candidate = p
                     then ''followup2-'' @ take 31 (sha256_hex (''msconnector-followup2:'' @ p))
                     else candidate))))"

definition target_authority_sha256 :: "string \<Rightarrow> string option" where
  "target_authority_sha256 url =
     (case rbind (urlsplit url) (\<lambda>parsed. rbind (url_port parsed) (\<lambda>p. Inr (parsed, p))) of
        Inl _ \<Rightarrow> None
      | Inr (parsed, p) \<Rightarrow>
          (let sch = lower_str (sr_scheme parsed);
               host = (case url_hostname parsed of None \<Rightarrow> [] | Some h \<Rightarrow> lower_str h)
           in if sch \<notin> {''http'', ''https''} \<or> host = [] then None
              else (let port_number = (case p of Some n \<Rightarrow> n
                                       | None \<Rightarrow> if sch = ''https'' then 443 else 80);
                        authority = sch @ ''://'' @ host @ '':'' @ int_str port_number
                    in Some (''sha256:'' @ sha256_hex (utf8_encode authority)))))"

end
