(* ===== verification/CurlInspect.thy ===== *)
theory CurlInspect
  imports ClientConfig
begin

text \<open>
  The inspection of the curl executable and the preflight of a protocol profile
  (\<^verbatim>\<open>src/ci/checks/protocol/protocol_client.py\<close>). Running a command is the environment: a
  function from the number of the call and the command to what \<open>subprocess.run\<close> does.
\<close>

section \<open>Processes\<close>

text \<open>
  \<open>subprocess.run\<close> raises an \<open>OSError\<close>, its timeout or another exception (\<open>ValueError\<close> for a
  NUL in the command, \<open>OverflowError\<close> for a timeout out of range), or the process ends.
\<close>

datatype proc_outcome =
    PErrOS
  | PTimeout
  | PRaised exn
  | PDone (returncode: int) (stdout: string) (stderr: string)

type_synonym proc_env = "nat \<Rightarrow> string list \<Rightarrow> proc_outcome"

text \<open>The calls of one run, in their order.\<close>

abbreviation call_version :: nat where "call_version \<equiv> 0"
abbreviation call_help :: nat where "call_help \<equiv> 1"
abbreviation call_primary :: nat where "call_primary \<equiv> 2"
abbreviation call_followup :: nat where "call_followup \<equiv> 3"

section \<open>Reading curl's output\<close>

definition utf8_size :: "char \<Rightarrow> nat" where
  "utf8_size c = (if c < CHR 0x80 then 1 else 2)"

definition utf8_length :: "string \<Rightarrow> nat" where
  "utf8_length s = sum_list (map utf8_size s)"

text \<open>The longest prefix whose encoding has at most \<open>n\<close> bytes.\<close>

fun clip_bytes :: "nat \<Rightarrow> string \<Rightarrow> string" where
  "clip_bytes n [] = []"
| "clip_bytes n (c # cs) = (if utf8_size c \<le> n then c # clip_bytes (n - utf8_size c) cs else [])"

definition truncate_text :: "string \<Rightarrow> string" where
  "truncate_text value =
     (if utf8_length value \<le> MAX_ARTIFACT_TEXT_BYTES then value
      else clip_bytes MAX_ARTIFACT_TEXT_BYTES value @ NL @ ''[truncated]'' @ NL)"

text \<open>
  The groups of \<^verbatim>\<open>\bcurl\s+(\d+)\.(\d+)(?:\.(\d+))?\b\<close> after the word: the third group
  is kept only where a word boundary follows it, otherwise the boundary must follow the
  second.
\<close>

definition version_groups :: "string \<Rightarrow> (string \<times> string \<times> string) option" where
  "version_groups s =
     (let t = dropWhile is_space s;
          (d1, r1) = (takeWhile is_digit t, dropWhile is_digit t)
      in if t = s \<or> d1 = [] then None
         else (case r1 of
           [] \<Rightarrow> None
         | dot # r2 \<Rightarrow>
             (let (d2, r3) = (takeWhile is_digit r2, dropWhile is_digit r2)
              in if dot \<noteq> CHR ''.'' \<or> d2 = [] then None
                 else (let d3 = (case r3 of c # r4 \<Rightarrow>
                                   if c = CHR ''.'' then takeWhile is_digit r4 else [] | [] \<Rightarrow> []);
                           after3 = drop (Suc (length d3)) r3
                       in if d3 \<noteq> [] \<and> not_word_after after3 then Some (d1, d2, d3)
                          else if not_word_after r3 then Some (d1, d2, [])
                          else None))))"

fun find_version :: "char option \<Rightarrow> string \<Rightarrow> (string \<times> string \<times> string) option" where
  "find_version prev [] = None"
| "find_version prev (c # cs) =
     (case (if not_word_before prev \<and> lower_str (take 4 (c # cs)) = ''curl''
            then version_groups (drop 4 (c # cs)) else None) of
        Some g \<Rightarrow> Some g
      | None \<Rightarrow> find_version (Some c) cs)"

text \<open>\<open>int\<close> of a text of digits.\<close>

definition int_of_digits :: "string \<Rightarrow> int res" where
  "int_of_digits s = (if length s \<le> 4300 then Inr (digits_val s) else Inl ValueError)"

definition parse_version :: "string \<Rightarrow> (int \<times> int \<times> int) option res" where
  "parse_version version_text =
     (case find_version None version_text of
        None \<Rightarrow> Inr None
      | Some (a, b, c) \<Rightarrow>
          rbind (int_of_digits a) (\<lambda>x. rbind (int_of_digits b) (\<lambda>y.
          rbind (int_of_digits (if c = [] then ''0'' else c)) (\<lambda>z. Inr (Some (x, y, z))))))"

fun features_of_lines :: "string list \<Rightarrow> string list" where
  "features_of_lines [] = []"
| "features_of_lines (l # ls) =
     (if startswith (lower_str l) ''features:''
      then map upper_str (split_ws (snd (snd (partition_at (CHR '':'') l))))
      else features_of_lines ls)"

definition parse_features :: "string \<Rightarrow> string list" where
  "parse_features version_text = features_of_lines (splitlines version_text)"

definition option_char :: "char \<Rightarrow> bool" where
  "option_char c \<longleftrightarrow> is_alnum_ascii c \<or> c = CHR ''.'' \<or> c = CHR ''-''"

definition option_start :: "char option \<Rightarrow> bool" where
  "option_start prev \<longleftrightarrow>
     (case prev of None \<Rightarrow> True
      | Some c \<Rightarrow> \<not> (is_alnum_ascii c \<or> c = CHR ''_'' \<or> c = CHR ''-''))"

definition opens_option :: "string \<Rightarrow> bool" where
  "opens_option s = (case s of c # d # e # r \<Rightarrow> c = CHR ''-'' \<and> d = CHR ''-'' \<and> is_alnum_ascii e | _ \<Rightarrow> False)"

text \<open>
  The matches of the option pattern, from left to right and without overlap: outside a
  match, or inside one with its characters so far in reverse. The character that ends a
  match is no hyphen, so it cannot start the next one.
\<close>

fun scan_options :: "char option \<Rightarrow> string option \<Rightarrow> string \<Rightarrow> string list" where
  "scan_options prev None [] = []"
| "scan_options prev (Some acc) [] = [lower_str (rev acc)]"
| "scan_options prev None (c # cs) =
     (if option_start prev \<and> opens_option (c # cs) then scan_options (Some c) (Some [c]) cs
      else scan_options (Some c) None cs)"
| "scan_options prev (Some acc) (c # cs) =
     (if option_char c then scan_options (Some c) (Some (c # acc)) cs
      else lower_str (rev acc) # scan_options (Some c) None cs)"

definition parse_options :: "string \<Rightarrow> string list" where
  "parse_options help_text = scan_options None None help_text"

section \<open>Inspection\<close>

definition failed_inspection :: "string \<Rightarrow> string \<Rightarrow> string \<Rightarrow> curl_inspection" where
  "failed_inspection curl text err =
     \<lparr>ci_executable = curl, ci_version_text = text, ci_version = None, ci_features = [],
      ci_options = [], ci_version_returncode = None, ci_help_returncode = None,
      ci_error = Some err\<rparr>"

definition inspect_curl :: "proc_env \<Rightarrow> string \<Rightarrow> curl_inspection res" where
  "inspect_curl run curl =
     (case run call_version [curl, ''--version''] of
        PErrOS \<Rightarrow> Inr (failed_inspection curl (''curl executable unavailable'' @ NL)
                     ''curl_executable_unavailable'')
      | PTimeout \<Rightarrow> Inr (failed_inspection curl (''curl version probe timed out'' @ NL)
                     ''curl_version_probe_timeout'')
      | PRaised e \<Rightarrow> Inl e
      | PDone rc out _ \<Rightarrow>
          (let version_text = truncate_text out
           in rbind (parse_version version_text) (\<lambda>v.
              let base = \<lparr>ci_executable = curl, ci_version_text = version_text, ci_version = v,
                          ci_features = parse_features version_text, ci_options = [],
                          ci_version_returncode = Some rc, ci_help_returncode = None,
                          ci_error = None\<rparr>
              in if rc \<noteq> 0 then
                   Inr (base\<lparr>ci_version_text :=
                          (if version_text = [] then ''curl --version failed'' @ NL else version_text),
                        ci_error := Some ''curl_version_probe_failed''\<rparr>)
                 else (case run call_help [curl, ''--help'', ''all''] of
                    PErrOS \<Rightarrow> Inr (base\<lparr>ci_error := Some ''curl_help_probe_unavailable''\<rparr>)
                  | PTimeout \<Rightarrow> Inr (base\<lparr>ci_error := Some ''curl_help_probe_timeout''\<rparr>)
                  | PRaised e \<Rightarrow> Inl e
                  | PDone hrc hout _ \<Rightarrow>
                      if hrc \<noteq> 0
                      then Inr (base\<lparr>ci_help_returncode := Some hrc,
                                     ci_error := Some ''curl_help_probe_failed''\<rparr>)
                      else Inr (base\<lparr>ci_options := parse_options hout,
                                     ci_help_returncode := Some hrc\<rparr>)))))"

section \<open>Preflight\<close>

definition PROTOCOL_REQUIREMENTS :: "(string \<times> (string list \<times> string list)) list" where
  "PROTOCOL_REQUIREMENTS =
     [(''http1'', ([], [''--http1.1''])),
      (''h2'', ([''HTTP2''], [''--http2''])),
      (''h2c'', ([''HTTP2''], [''--http2-prior-knowledge''])),
      (''h3'', ([''HTTP3''], [''--http3-only'']))]"

definition COMMON_CURL_OPTIONS :: "string list" where
  "COMMON_CURL_OPTIONS =
     [''--fail-with-body'', ''--max-time'', ''--output'', ''--request'', ''--show-error'',
      ''--silent'', ''--write-out'']"

definition optional_curl_options :: "client_config \<Rightarrow> string list" where
  "optional_curl_options config =
     (if cc_connect_timeout config \<noteq> None then [''--connect-timeout''] else [])
     @ (if cc_insecure config then [''--insecure''] else [])
     @ (if cc_data_file config \<noteq> None then [''--data-binary''] else [])
     @ (if cc_cacert config \<noteq> None then [''--cacert''] else [])
     @ (if cc_resolve config \<noteq> [] then [''--resolve''] else [])
     @ (if cc_headers config \<noteq> [] \<or> cc_transport_case_id config \<noteq> None then [''--header''] else [])"

text \<open>Lexicographic order of the version triples: at least 7.70.0.\<close>

definition json_version :: "(int \<times> int \<times> int) option \<Rightarrow> bool" where
  "json_version v =
     (case v of None \<Rightarrow> False
      | Some (a, b, c) \<Rightarrow> a > 7 \<or> (a = 7 \<and> (b > 70 \<or> (b = 70 \<and> c \<ge> 0))))"

definition preflight_curl :: "string \<Rightarrow> curl_inspection \<Rightarrow> client_config \<Rightarrow> preflight res" where
  "preflight_curl protocol inspection config =
     rbind (normalize_protocol protocol) (\<lambda>normalized.
     (case map_of PROTOCOL_REQUIREMENTS normalized of
        None \<Rightarrow> Inl KeyError
      | Some (feature_requirements, profile_options) \<Rightarrow>
          (let required_options =
                 sorted_unique (COMMON_CURL_OPTIONS @ profile_options @ optional_curl_options config);
               required_features = sort feature_requirements
           in case ci_error inspection of
                Some err \<Rightarrow>
                  Inr \<lparr>pf_status = ''BLOCKED'', pf_reason = Some err,
                       pf_required_features = required_features,
                       pf_required_options = required_options,
                       pf_missing_features = required_features,
                       pf_missing_options = required_options,
                       pf_writeout_mode = ''none''\<rparr>
              | None \<Rightarrow>
                  (let missing_features =
                         filter (\<lambda>f. upper_str f \<notin> set (ci_features inspection)) required_features;
                       missing_options =
                         filter (\<lambda>opt. lower_str opt \<notin> set (ci_options inspection)) required_options;
                       (status, reason) =
                         (if missing_features \<noteq> [] then
                            (''BLOCKED'',
                             Some (if normalized = ''h3'' \<and> ''HTTP3'' \<in> set missing_features
                                   then ''client_http3_unsupported''
                                   else ''client_required_feature_unavailable''))
                          else if missing_options \<noteq> []
                          then (''BLOCKED'', Some ''client_required_option_unavailable'')
                          else (''READY'', None))
                   in Inr \<lparr>pf_status = status, pf_reason = reason,
                           pf_required_features = required_features,
                           pf_required_options = required_options,
                           pf_missing_features = missing_features,
                           pf_missing_options = missing_options,
                           pf_writeout_mode =
                             (if json_version (ci_version inspection) then ''json'' else ''fields'')\<rparr>))))"

end
