(* ===== verification/Codec.thy ===== *)
theory Codec
  imports PyPrelude
begin

text \<open>
  The contract of a writer and its reader: what was written from a value in the writer's
  domain is read back as the canonical form of that value, without an error. Two codecs
  stack, which is how an artifact is written: a value as JSON text, the text as UTF-8.
\<close>

locale codec =
  fixes enc :: "'a \<Rightarrow> 'b"
    and dec :: "'b \<Rightarrow> 'a res"
    and valid :: "'a \<Rightarrow> bool"
    and canon :: "'a \<Rightarrow> 'a"
  assumes dec_enc: "valid x \<Longrightarrow> dec (enc x) = Inr (canon x)"
begin

text \<open>What was written determines the value up to its canonical form.\<close>

lemma enc_determines:
  assumes "valid x" "valid y" "enc x = enc y"
  shows "canon x = canon y"
proof -
  have "Inr (canon x) = dec (enc y)" using dec_enc [OF assms(1)] assms(3) by simp
  then show ?thesis using dec_enc [OF assms(2)] by simp
qed

end

locale stacked_codec = inner: codec enc dec valid canon + outer: codec enc' dec' "\<lambda>_. True" "\<lambda>y. y"
  for enc :: "'a \<Rightarrow> 'b" and dec valid canon and enc' :: "'b \<Rightarrow> 'c" and dec'
begin

lemma dec_enc_stacked: "valid x \<Longrightarrow> rbind (dec' (enc' (enc x))) dec = Inr (canon x)"
  by (simp add: inner.dec_enc outer.dec_enc)

end

sublocale stacked_codec \<subseteq> stack: codec "\<lambda>x. enc' (enc x)" "\<lambda>z. rbind (dec' z) dec" valid canon
  by unfold_locales (rule dec_enc_stacked)

end
