(* ===== verification/PyShlex.thy ===== *)
theory PyShlex
  imports Codec
begin

text \<open>
  The shell-word functions of \<open>shlex\<close> that both sides of the protocol evidence use: the
  client renders its command with \<open>shlex.join\<close>, the checker reads it back with
  \<open>shlex.split\<close> (POSIX mode, no comments). The main result is that the second inverts
  the first on every list of arguments.
\<close>

section \<open>Quoting and joining\<close>

abbreviation sq :: char where "sq \<equiv> CHR 0x27"
abbreviation dq :: char where "dq \<equiv> CHR 0x22"
abbreviation bs :: char where "bs \<equiv> CHR 0x5C"

text \<open>The complement of the class \<open>[^\\w@%+=:,./-]\<close> under \<open>re.ASCII\<close>.\<close>

definition shell_safe :: "char \<Rightarrow> bool" where
  "shell_safe c \<longleftrightarrow> is_alnum_ascii c \<or> c \<in> set ''_@%+=:,./-''"

definition shlex_quote :: "string \<Rightarrow> string" where
  "shlex_quote s =
     (if s = [] then [sq, sq]
      else if list_all shell_safe s then s
      else [sq] @ replace_char sq [sq, dq, sq, dq, sq] s @ [sq])"

definition shlex_join :: "string list \<Rightarrow> string" where
  "shlex_join args = join_with '' '' (map shlex_quote args)"

section \<open>Splitting\<close>

text \<open>
  The states of \<open>shlex.read_token\<close>: between tokens, inside a word, inside quotes, after
  the escape character. The last one remembers the state to return to: a word, or the
  double quotes.
\<close>

datatype lex_state = Between | Word | Quoted char | Escaped "char option"

definition is_shell_space :: "char \<Rightarrow> bool" where
  "is_shell_space c \<longleftrightarrow> c = CHR '' '' \<or> c = CHR 0x09 \<or> c = CHR 0x0D \<or> c = CHR 0x0A"

text \<open>
  The lexer with the token read so far and whether part of it was quoted (an empty
  quoted token is emitted, an empty unquoted one is the end of the text).
\<close>

fun sh_lex :: "lex_state \<Rightarrow> string \<Rightarrow> bool \<Rightarrow> string \<Rightarrow> string list res" where
  "sh_lex Between tok q [] = Inr []"
| "sh_lex Between tok q (c # cs) =
     (if is_shell_space c then sh_lex Between tok q cs
      else if c = bs then sh_lex (Escaped None) tok q cs
      else if c = sq \<or> c = dq then sh_lex (Quoted c) tok q cs
      else sh_lex Word [c] q cs)"
| "sh_lex Word tok q [] = Inr (if tok = [] \<and> \<not> q then [] else [tok])"
| "sh_lex Word tok q (c # cs) =
     (if is_shell_space c then
        (if tok = [] \<and> \<not> q then sh_lex Between [] False cs
         else rbind (sh_lex Between [] False cs) (\<lambda>ts. Inr (tok # ts)))
      else if c = sq \<or> c = dq then sh_lex (Quoted c) tok q cs
      else if c = bs then sh_lex (Escaped None) tok q cs
      else sh_lex Word (tok @ [c]) q cs)"
| "sh_lex (Quoted d) tok q [] = Inl ValueError"
| "sh_lex (Quoted d) tok q (c # cs) =
     (if c = d then sh_lex Word tok True cs
      else if c = bs \<and> d = dq then sh_lex (Escaped (Some d)) tok True cs
      else sh_lex (Quoted d) (tok @ [c]) True cs)"
| "sh_lex (Escaped e) tok q [] = Inl ValueError"
| "sh_lex (Escaped e) tok q (c # cs) =
     (case e of
        None \<Rightarrow> sh_lex Word (tok @ [c]) q cs
      | Some d \<Rightarrow> sh_lex (Quoted d) (tok @ (if c \<noteq> bs \<and> c \<noteq> d then [bs, c] else [c])) q cs)"

definition shlex_split :: "string \<Rightarrow> string list res" where
  "shlex_split s = sh_lex Between [] False s"

section \<open>Splitting inverts joining\<close>

lemma shell_space_simps [simp]:
  "\<not> is_shell_space sq" "\<not> is_shell_space dq" "\<not> is_shell_space bs"
  "is_shell_space (CHR '' '')" "is_shell_space (CHR 0x0A)"
  by (simp_all add: is_shell_space_def)

lemma shell_safe_plain:
  assumes "shell_safe c"
  shows "\<not> is_shell_space c" "c \<noteq> sq" "c \<noteq> dq" "c \<noteq> bs"
  using assms
  by (auto simp: shell_safe_def is_shell_space_def is_alnum_ascii_def is_alpha_ascii_def
      is_upper_ascii_def is_lower_ascii_def is_digit_def)

lemma lex_word_safe: "list_all shell_safe s \<Longrightarrow> sh_lex Word tok q (s @ rest) = sh_lex Word (tok @ s) q rest"
  by (induction s arbitrary: tok) (simp_all add: shell_safe_plain)

text \<open>Inside single quotes the escaped text of \<open>s\<close> adds exactly \<open>s\<close> to the token.\<close>

lemma lex_single_quoted:
  "sh_lex (Quoted sq) tok True (replace_char sq [sq, dq, sq, dq, sq] s @ sq # rest)
     = sh_lex Word (tok @ s) True rest"
proof (induction s arbitrary: tok)
  case Nil
  then show ?case by (simp add: replace_char_def)
next
  case (Cons c s)
  then show ?case
    by (cases "c = sq") (simp_all add: replace_char_def)
qed

lemma lex_quoted_word:
  "\<exists>q. (s = [] \<longrightarrow> q) \<and> sh_lex Between [] False (shlex_quote s @ rest) = sh_lex Word s q rest"
proof (cases "s \<noteq> [] \<and> list_all shell_safe s")
  case True
  then obtain c cs where s: "s = c # cs" "shell_safe c" "list_all shell_safe cs"
    by (cases s) auto
  then have "sh_lex Between [] False (shlex_quote s @ rest) = sh_lex Word s False rest"
    using lex_word_safe [of cs "[c]" False rest]
    by (simp add: shlex_quote_def shell_safe_plain)
  with True show ?thesis by blast
next
  case False
  have "sh_lex Between [] False (shlex_quote s @ rest) = sh_lex Word s True rest"
  proof (cases "s = []")
    case True
    then show ?thesis by (simp add: shlex_quote_def is_shell_space_def)
  next
    case nonempty: False
    with False have "shlex_quote s = sq # replace_char sq [sq, dq, sq, dq, sq] s @ [sq]"
      by (simp add: shlex_quote_def)
    then have "sh_lex Between [] False (shlex_quote s @ rest)
      = sh_lex (Quoted sq) [] False (replace_char sq [sq, dq, sq, dq, sq] s @ sq # rest)"
      by (simp add: is_shell_space_def)
    also have "\<dots> = sh_lex (Quoted sq) [] True (replace_char sq [sq, dq, sq, dq, sq] s @ sq # rest)"
      by (cases "replace_char sq [sq, dq, sq, dq, sq] s") auto
    also have "\<dots> = sh_lex Word s True rest"
      using lex_single_quoted [of "[]" s rest] by simp
    finally show ?thesis .
  qed
  then show ?thesis by blast
qed

lemma shlex_split_join: "shlex_split (shlex_join args) = Inr args"
  unfolding shlex_split_def shlex_join_def
proof (induction args rule: induct_list012)
  case 1
  then show ?case by simp
next
  case (2 a)
  obtain q where "a = [] \<longrightarrow> q" "sh_lex Between [] False (shlex_quote a @ []) = sh_lex Word a q []"
    using lex_quoted_word [of a "[]"] by blast
  then show ?case by simp
next
  case (3 a b args)
  let ?rest = "join_with '' '' (map shlex_quote (b # args))"
  obtain q where q: "a = [] \<longrightarrow> q"
    and eq: "sh_lex Between [] False (shlex_quote a @ '' '' @ ?rest)
      = sh_lex Word a q ('' '' @ ?rest)"
    using lex_quoted_word [of a "'' '' @ ?rest"] by blast
  have "sh_lex Word a q ('' '' @ ?rest) = Inr (a # b # args)"
    using "3.IH"(2) q by simp
  with eq show ?case by simp
qed

text \<open>A final line feed, as the client writes one, changes nothing.\<close>

lemma lex_trailing_space:
  assumes "is_shell_space b"
  shows "sh_lex st tok q s = Inr ts \<Longrightarrow> sh_lex st tok q (s @ [b]) = Inr ts"
proof (induction st tok q s arbitrary: ts rule: sh_lex.induct)
  case (4 tok q c cs)
  then show ?case
    by (cases "is_shell_space c"; cases "tok = [] \<and> \<not> q"; cases "c = sq \<or> c = dq"; cases "c = bs")
      (auto simp: rbind_eq_Inr)
next
  case (8 e tok q c cs)
  then show ?case by (cases e) auto
qed (use assms in \<open>auto split: if_splits\<close>)

lemma shlex_split_join_line: "shlex_split (shlex_join args @ NL) = Inr args"
  using lex_trailing_space [of "CHR 0x0A" Between "[]" False] shlex_split_join [of args]
  by (simp add: shlex_split_def NL_def is_shell_space_def)

text \<open>The rendered command as a codec: the line is read back as the words it was made of.\<close>

interpretation command_line: codec "\<lambda>args. shlex_join args @ NL" shlex_split "\<lambda>_. True" "\<lambda>args. args"
  by unfold_locales (rule shlex_split_join_line)

end
