(* ===== verification/CurlCommand.thy ===== *)
theory CurlCommand
  imports CurlInspect PyShlex
begin

text \<open>
  The curl command of one forced protocol profile and its redacted rendering for the
  command artifact (\<^verbatim>\<open>src/ci/checks/protocol/protocol_client.py\<close>: \<open>build_curl_command\<close>,
  \<open>_safe_url_for_command\<close>, \<open>_redacted_command\<close>).
\<close>

section \<open>Redaction\<close>

definition SAFE_PATHS :: "string list" where
  "SAFE_PATHS = [''/'', ''/health'', ''/healthz'', ''/ready'', ''/readyz'']"

definition safe_url_for_command :: "string \<Rightarrow> string res" where
  "safe_url_for_command url =
     rbind (urlsplit url) (\<lambda>parsed.
     rbind (url_port parsed) (\<lambda>p.
       let host0 = (case url_hostname parsed of None \<Rightarrow> [] | Some h \<Rightarrow> h);
           host = (if CHR '':'' \<in> set host0 \<and> \<not> startswith host0 ''[''
                   then ''['' @ host0 @ '']'' else host0);
           netloc = (case p of None \<Rightarrow> host | Some n \<Rightarrow> host @ '':'' @ int_str n);
           path0 = (if sr_path parsed = [] then ''/'' else sr_path parsed);
           safe_path = (if path0 \<notin> set SAFE_PATHS then ''/[redacted-path]'' else path0);
           q = (if sr_query parsed \<noteq> [] then ''[redacted]'' else [])
       in Inr (urlunsplit \<lparr>sr_scheme = sr_scheme parsed, sr_netloc = netloc, sr_path = safe_path,
                           sr_query = q, sr_fragment = []\<rparr>)))"

definition REDACTED_OPTIONS :: "string list" where
  "REDACTED_OPTIONS = [''--header'', ''--data-binary'', ''--cacert'', ''--resolve'']"

text \<open>The inner loop: the first option that the value spells in the \<open>--option=value\<close> form.\<close>

fun redact_inline :: "string list \<Rightarrow> string \<Rightarrow> string" where
  "redact_inline [] value = value"
| "redact_inline (opt # opts) value =
     (if startswith value (opt @ ''='') then opt @ ''=[redacted]'' else redact_inline opts value)"

fun redact_values :: "bool \<Rightarrow> string \<Rightarrow> string list \<Rightarrow> string list res" where
  "redact_values redact_next url [] = Inr []"
| "redact_values redact_next url (value # values) =
     (if redact_next then rbind (redact_values False url values) (\<lambda>r. Inr (''[redacted]'' # r))
      else if value \<in> set REDACTED_OPTIONS
      then rbind (redact_values True url values) (\<lambda>r. Inr (value # r))
      else if value = url
      then rbind (safe_url_for_command url) (\<lambda>u.
           rbind (redact_values False url values) (\<lambda>r. Inr (u # r)))
      else rbind (redact_values False url values) (\<lambda>r. Inr (redact_inline REDACTED_OPTIONS value # r)))"

definition redacted_command :: "string list \<Rightarrow> string \<Rightarrow> string res" where
  "redacted_command command url =
     rbind (redact_values False url command) (\<lambda>rendered. Inr (shlex_join rendered @ NL))"

section \<open>The command\<close>

definition format_timeout :: "pyfloat \<Rightarrow> string" where
  "format_timeout value = format_6g value"

definition PROTOCOL_FLAGS :: "(string \<times> string) list" where
  "PROTOCOL_FLAGS = [(''http1'', ''--http1.1''), (''h2'', ''--http2''),
     (''h2c'', ''--http2-prior-knowledge''), (''h3'', ''--http3-only'')]"

definition writeout_format :: "string \<Rightarrow> string" where
  "writeout_format mode =
     (if mode = ''json'' then ''%{json}'' @ NL
      else ''PROTOCOL_CLIENT'' @ TAB @ ''%{http_code}'' @ TAB @ ''%{http_version}'' @ TAB
        @ ''%{size_download}'' @ TAB @ ''%{exitcode}'' @ NL)"

definition TRANSPORT_CASE_HEADER :: string where
  "TRANSPORT_CASE_HEADER = ''X-MSConnector-Transport-Case: ''"

text \<open>The options between the fixed head and the forced selector.\<close>

definition optional_arguments :: "client_config \<Rightarrow> string list" where
  "optional_arguments config =
     (case cc_connect_timeout config of None \<Rightarrow> []
      | Some t \<Rightarrow> [''--connect-timeout'', format_timeout t])
     @ (if cc_insecure config then [''--insecure''] else [])
     @ (case cc_cacert config of None \<Rightarrow> [] | Some p \<Rightarrow> [''--cacert'', p])
     @ concat (map (\<lambda>item. [''--resolve'', item]) (cc_resolve config))
     @ concat (map (\<lambda>header. [''--header'', header]) (cc_headers config))
     @ (case cc_transport_case_id config of None \<Rightarrow> []
        | Some t \<Rightarrow> [''--header'', TRANSPORT_CASE_HEADER @ t])
     @ (case cc_data_file config of None \<Rightarrow> [] | Some p \<Rightarrow> [''--data-binary'', ''@'' @ p])"

definition curl_arguments :: "client_config \<Rightarrow> string \<Rightarrow> string \<Rightarrow> string list" where
  "curl_arguments config protocol_flag writeout =
     [cc_curl config, ''--silent'', ''--show-error'', ''--fail-with-body'', ''--output'', ''/dev/null'',
      ''--request'', cc_request config, ''--max-time'', format_timeout (cc_timeout config)]
     @ optional_arguments config
     @ [protocol_flag, ''--write-out'', writeout, cc_url config]"

definition build_curl_command :: "client_config \<Rightarrow> preflight \<Rightarrow> string list res" where
  "build_curl_command config pf =
     rbind (validate_config config) (\<lambda>(protocol, _).
     rbind (raise_if (pf_status pf \<noteq> ''READY'')
              (ProtocolClientError ''cannot build a command before a ready preflight'')) (\<lambda>_.
     (case map_of PROTOCOL_FLAGS protocol of
        None \<Rightarrow> Inl KeyError
      | Some protocol_flag \<Rightarrow>
          (let command = curl_arguments config protocol_flag (writeout_format (pf_writeout_mode pf))
           in rbind (raise_if (protocol = ''h3'' \<and> ''--http3-only'' \<notin> set command)
                       (ProtocolClientError ''h3 command lost its required --http3-only flag'')) (\<lambda>_.
              rbind (raise_if (''--http3'' \<in> set command)
                       (ProtocolClientError ''fallback-capable --http3 is forbidden'')) (\<lambda>_.
              Inr command))))))"

section \<open>Properties of a built command\<close>

lemma normalize_protocol_canonical:
  "normalize_protocol p = Inr q \<Longrightarrow> q \<in> set CANONICAL_PROTOCOLS"
  by (auto simp: normalize_protocol_def Let_def split: if_splits)

lemma validate_config_protocol:
  "validate_config config = Inr (p, sch) \<Longrightarrow> normalize_protocol (cc_protocol config) = Inr p"
  by (auto simp: validate_config_def rbind_eq_Inr)

lemma validate_url_scheme:
  "validate_url url p = Inr sch \<Longrightarrow>
     sch \<in> {''http'', ''https''} \<and> (p \<in> {''h2'', ''h3''} \<longrightarrow> sch = ''https'') \<and> (p = ''h2c'' \<longrightarrow> sch = ''http'')"
  by (auto simp: validate_url_def validate_protocol_url_scheme_def rbind_eq_Inr raise_if_eq
      split: if_splits)

lemma validate_config_scheme:
  "validate_config config = Inr (p, sch) \<Longrightarrow>
     sch \<in> {''http'', ''https''} \<and> (p \<in> {''h2'', ''h3''} \<longrightarrow> sch = ''https'') \<and> (p = ''h2c'' \<longrightarrow> sch = ''http'')"
  by (auto simp: validate_config_def rbind_eq_Inr dest: validate_url_scheme)

lemma build_curl_command_ok:
  assumes "build_curl_command config pf = Inr cmd"
  obtains p sch flag where "validate_config config = Inr (p, sch)" and "pf_status pf = ''READY''"
    and "map_of PROTOCOL_FLAGS p = Some flag"
    and "cmd = curl_arguments config flag (writeout_format (pf_writeout_mode pf))"
    and "''--http3'' \<notin> set cmd"
  using assms
  by (auto simp: build_curl_command_def rbind_eq_Inr raise_if_eq Let_def split: option.splits)

lemma redact_values_length: "redact_values b url vs = Inr ws \<Longrightarrow> length ws = length vs"
  by (induction b url vs arbitrary: ws rule: redact_values.induct) (auto simp: rbind_eq_Inr split: if_splits)

text \<open>
  Two argument lists that differ only in what is redacted: the value after a redacted
  option, and the target URL.
\<close>

fun same_visible :: "bool \<Rightarrow> string \<Rightarrow> string \<Rightarrow> string list \<Rightarrow> string list \<Rightarrow> bool" where
  "same_visible hide u v [] [] \<longleftrightarrow> True"
| "same_visible hide u v (x # xs) (y # ys) \<longleftrightarrow>
     (if hide then same_visible False u v xs ys
      else if x = u \<and> y = v \<and> x \<notin> set REDACTED_OPTIONS \<and> y \<notin> set REDACTED_OPTIONS
      then same_visible False u v xs ys
      else x = y \<and> x \<noteq> u \<and> x \<noteq> v \<and> same_visible (x \<in> set REDACTED_OPTIONS) u v xs ys)"
| "same_visible hide u v _ _ \<longleftrightarrow> False"

lemma redact_values_same_visible:
  assumes "safe_url_for_command u = safe_url_for_command v"
  shows "same_visible hide u v xs ys \<Longrightarrow> redact_values hide u xs = redact_values hide v ys"
  using assms by (induction hide u v xs ys rule: same_visible.induct) (auto split: if_splits)

text \<open>Every validated URL has a colon; the fixed words of the command have none.\<close>

lemma partition_at_found: "partition_at c s = (a, True, b) \<Longrightarrow> c \<in> set s"
  by (induction s arbitrary: a) (auto split: if_splits prod.splits)

lemma urlsplit_scheme_colon:
  assumes "urlsplit url = Inr r" and "sr_scheme r \<noteq> []"
  shows "CHR '':'' \<in> set url"
proof -
  from assms have "fst (split_scheme (clean_url url)) \<noteq> []"
    by (auto simp: urlsplit_def Let_def split: prod.splits if_splits)
  then have "CHR '':'' \<in> set (clean_url url)"
    by (auto simp: split_scheme_def Let_def split: prod.splits if_splits dest: partition_at_found)
  then show ?thesis by (auto simp: clean_url_def dest: set_dropWhileD)
qed

lemma validate_config_colon:
  assumes "validate_config config = Inr (p, sch)"
  shows "CHR '':'' \<in> set (cc_url config)"
proof -
  from assms obtain r where "urlsplit (cc_url config) = Inr r" "sr_scheme r \<in> {''http'', ''https''}"
    by (auto simp: validate_config_def validate_url_def rbind_eq_Inr raise_if_eq)
  then show ?thesis by (auto intro: urlsplit_scheme_colon)
qed

lemma format_timeout_visible:
  "format_timeout t \<notin> set REDACTED_OPTIONS" "CHR '':'' \<notin> set (format_timeout t)"
proof -
  have l: "list_all float_char (format_timeout t)" by (simp add: format_timeout_def format_6g_chars)
  have n: "\<not> float_char (CHR ''r'')" "\<not> float_char (CHR ''y'')" "\<not> float_char (CHR '':'')"
    by (simp_all add: float_char_def is_digit_def)
  show "format_timeout t \<notin> set REDACTED_OPTIONS"
    using l n by (auto simp: REDACTED_OPTIONS_def)
  show "CHR '':'' \<notin> set (format_timeout t)"
    using l n by (auto simp: list_all_iff)
qed

text \<open>
  What the rendered URL may show, stated over the parts of the URL and independent of the
  rendering: the scheme, the host, the port, whether there is a query, and the path when it
  is one of the health endpoints. User information, the contents of the query, the fragment
  and every other path are not among them.
\<close>

definition shown_path :: "string \<Rightarrow> string option" where
  "shown_path p =
     (if p = [] then Some ''/''
      else if p \<in> {''/'', ''/health'', ''/healthz'', ''/ready'', ''/readyz''} then Some p else None)"

definition same_target :: "string \<Rightarrow> string \<Rightarrow> bool" where
  "same_target u v \<longleftrightarrow>
     (case (urlsplit u, urlsplit v) of
        (Inr a, Inr b) \<Rightarrow> sr_scheme a = sr_scheme b \<and> url_hostname a = url_hostname b
          \<and> url_port a = url_port b \<and> (sr_query a = [] \<longleftrightarrow> sr_query b = [])
          \<and> shown_path (sr_path a) = shown_path (sr_path b)
      | _ \<Rightarrow> False)"

lemma shown_path_rendered:
  assumes "shown_path p = shown_path q"
  shows "(if (if p = [] then ''/'' else p) \<notin> set SAFE_PATHS then ''/[redacted-path]'' else if p = [] then ''/'' else p)
    = (if (if q = [] then ''/'' else q) \<notin> set SAFE_PATHS then ''/[redacted-path]'' else if q = [] then ''/'' else q)"
  using assms by (auto simp: shown_path_def SAFE_PATHS_def split: if_splits)

lemma same_target_rendered:
  assumes "same_target u v"
  shows "safe_url_for_command u = safe_url_for_command v"
proof -
  obtain a b where u: "urlsplit u = Inr a" and v: "urlsplit v = Inr b"
    and ab: "sr_scheme a = sr_scheme b" "url_hostname a = url_hostname b" "url_port a = url_port b"
      "sr_query a = [] \<longleftrightarrow> sr_query b = []" "shown_path (sr_path a) = shown_path (sr_path b)"
    using assms by (auto simp: same_target_def split: sum.splits)
  show ?thesis
    unfolding safe_url_for_command_def Let_def u v rbind_Inr ab(1-3) using ab(4) by (simp only: shown_path_rendered [OF ab(5)])
qed

text \<open>Two configurations whose visible parts agree.\<close>

definition same_public :: "client_config \<Rightarrow> client_config \<Rightarrow> bool" where
  "same_public c d \<longleftrightarrow>
     cc_protocol c = cc_protocol d \<and> cc_curl c = cc_curl d \<and> cc_request c = cc_request d
     \<and> cc_timeout c = cc_timeout d \<and> cc_connect_timeout c = cc_connect_timeout d
     \<and> cc_insecure c = cc_insecure d
     \<and> (cc_cacert c = None \<longleftrightarrow> cc_cacert d = None)
     \<and> length (cc_resolve c) = length (cc_resolve d)
     \<and> length (cc_headers c) = length (cc_headers d)
     \<and> (cc_transport_case_id c = None \<longleftrightarrow> cc_transport_case_id d = None)
     \<and> (cc_data_file c = None \<longleftrightarrow> cc_data_file d = None)
     \<and> same_target (cc_url c) (cc_url d)"

lemma same_visible_pairs:
  assumes "length xs = length ys" and "opt \<in> set REDACTED_OPTIONS" and "opt \<noteq> u" "opt \<noteq> v"
    and "same_visible False u v rs ss"
  shows "same_visible False u v (concat (map (\<lambda>x. [opt, f x]) xs) @ rs) (concat (map (\<lambda>x. [opt, f x]) ys) @ ss)"
  using assms by (induction xs ys rule: list_induct2) auto

lemma same_visible_option:
  assumes "x = None \<longleftrightarrow> y = None" and "opt \<in> set REDACTED_OPTIONS" and "opt \<noteq> u" "opt \<noteq> v"
    and "same_visible False u v rs ss"
  shows "same_visible False u v ((case x of None \<Rightarrow> [] | Some a \<Rightarrow> [opt, f a]) @ rs)
    ((case y of None \<Rightarrow> [] | Some a \<Rightarrow> [opt, f a]) @ ss)"
  using assms by (auto split: option.splits)

lemma same_visible_prefix:
  assumes "\<And>w. w \<in> set ws \<Longrightarrow> w \<noteq> u \<and> w \<noteq> v \<and> w \<notin> set REDACTED_OPTIONS"
    and "same_visible False u v rs ss"
  shows "same_visible False u v (ws @ rs) (ws @ ss)"
  using assms by (induction ws) auto

lemma colon_neq: "CHR '':'' \<in> set u \<Longrightarrow> CHR '':'' \<notin> set w \<Longrightarrow> w \<noteq> u"
  by auto

lemma same_visible_arguments:
  assumes "same_public c d" and u: "CHR '':'' \<in> set (cc_url c)" and v: "CHR '':'' \<in> set (cc_url d)"
    and curl: "cc_curl c \<noteq> cc_url c" "cc_curl c \<noteq> cc_url d"
    and req: "cc_request c \<noteq> cc_url c" "cc_request c \<noteq> cc_url d"
    and flag: "CHR '':'' \<notin> set flag" "flag \<notin> set REDACTED_OPTIONS"
    and out: "CHR '':'' \<notin> set out" "out \<notin> set REDACTED_OPTIONS"
  shows "same_visible False (cc_url c) (cc_url d) (curl_arguments c flag out) (curl_arguments d flag out)"
proof -
  have pub: "cc_connect_timeout c = cc_connect_timeout d" "cc_insecure c = cc_insecure d"
    "cc_cacert c = None \<longleftrightarrow> cc_cacert d = None" "length (cc_resolve c) = length (cc_resolve d)"
    "length (cc_headers c) = length (cc_headers d)"
    "cc_transport_case_id c = None \<longleftrightarrow> cc_transport_case_id d = None"
    "cc_data_file c = None \<longleftrightarrow> cc_data_file d = None"
    and head: "cc_curl d = cc_curl c" "cc_request d = cc_request c" "cc_timeout d = cc_timeout c"
    using assms(1) by (auto simp: same_public_def)
  note tv = format_timeout_visible(1) [unfolded REDACTED_OPTIONS_def, simplified]
  note ne = colon_neq [OF u] colon_neq [OF v] format_timeout_visible
  have urls: "cc_url c \<notin> set REDACTED_OPTIONS" "cc_url d \<notin> set REDACTED_OPTIONS"
    using u v by (auto simp: REDACTED_OPTIONS_def)
  have opts: "opt \<noteq> cc_url c" "opt \<noteq> cc_url d" if "opt \<in> set REDACTED_OPTIONS" for opt
    using urls that by auto
  have tail: "same_visible False (cc_url c) (cc_url d) [flag, ''--write-out'', out, cc_url c]
      [flag, ''--write-out'', out, cc_url d]"
    using flag out urls by (auto simp: ne REDACTED_OPTIONS_def)
  have optional: "same_visible False (cc_url c) (cc_url d)
      (optional_arguments c @ [flag, ''--write-out'', out, cc_url c])
      (optional_arguments d @ [flag, ''--write-out'', out, cc_url d])"
    unfolding optional_arguments_def append_assoc pub(1,2) [symmetric]
    by (intro same_visible_prefix same_visible_option same_visible_pairs opts tail pub)
      (auto simp: ne tv REDACTED_OPTIONS_def split: option.splits)
  show ?thesis
    using curl req optional ne(3,4)
    by (simp add: curl_arguments_def head ne)
qed

lemma redacted_command_hides:
  assumes "same_public c d"
    and c: "build_curl_command c pf = Inr cmd" and d: "build_curl_command d pf = Inr cmd'"
    and "cc_curl c \<noteq> cc_url c" "cc_curl c \<noteq> cc_url d"
    and "cc_request c \<noteq> cc_url c" "cc_request c \<noteq> cc_url d"
  shows "redacted_command cmd (cc_url c) = redacted_command cmd' (cc_url d)"
proof -
  obtain p sch flag where vc: "validate_config c = Inr (p, sch)" "map_of PROTOCOL_FLAGS p = Some flag"
    and cmd: "cmd = curl_arguments c flag (writeout_format (pf_writeout_mode pf))"
    using c by (rule build_curl_command_ok)
  obtain p' sch' flag' where vd: "validate_config d = Inr (p', sch')" "map_of PROTOCOL_FLAGS p' = Some flag'"
    and cmd': "cmd' = curl_arguments d flag' (writeout_format (pf_writeout_mode pf))"
    using d by (rule build_curl_command_ok)
  have "p' = p"
    using validate_config_protocol [OF vc(1)] validate_config_protocol [OF vd(1)] assms(1)
    by (simp add: same_public_def)
  with vc vd have flag: "flag' = flag" by simp
  have f: "CHR '':'' \<notin> set flag" "flag \<notin> set REDACTED_OPTIONS"
    using vc(2) by (auto simp: PROTOCOL_FLAGS_def REDACTED_OPTIONS_def split: if_splits)
  have w: "CHR '':'' \<notin> set (writeout_format m)" "writeout_format m \<notin> set REDACTED_OPTIONS" for m
    by (simp_all add: writeout_format_def REDACTED_OPTIONS_def NL_def TAB_def)
  have "same_visible False (cc_url c) (cc_url d) cmd cmd'"
    unfolding cmd cmd' flag
    using assms f w by (intro same_visible_arguments validate_config_colon [OF vc(1)]
        validate_config_colon [OF vd(1)])
  moreover have "safe_url_for_command (cc_url c) = safe_url_for_command (cc_url d)"
    using assms(1) by (simp add: same_public_def same_target_rendered)
  ultimately show ?thesis
    by (simp add: redacted_command_def redact_values_same_visible)
qed

end
