(* ===== verification/BoundedFiles.thy ===== *)
theory BoundedFiles
  imports PyJson
begin

text \<open>
  File access of the protocol client (\<^verbatim>\<open>src/ci/checks/protocol/protocol_client.py\<close>): the
  bounded read of a regular file through descriptors that follow no link, and the atomic
  replacement of an artifact. The operating system is a tree of nodes and a table of open
  descriptors; a regular file carries the size that \<open>fstat\<close> reports and the data a later
  \<open>read\<close> returns, which may differ because the file can grow in between.
\<close>

section \<open>The operating system\<close>

datatype errno = ELOOP | ENOTDIR | ENOENT | EACCES

datatype fsnode =
    FDir bool "(string \<times> fsnode) list"
  | FReg bool nat "string option"
  | FLink string
  | FSpecial bool

record os_state =
  next_fd :: nat
  open_fds :: "(nat \<times> fsnode) list"

definition os_wf :: "os_state \<Rightarrow> bool" where
  "os_wf s \<longleftrightarrow> (\<forall>(fd, n)\<in>set (open_fds s). fd < next_fd s) \<and> distinct (map fst (open_fds s))"

text \<open>The kernel's answer to \<open>O_NOFOLLOW\<close>, with or without \<open>O_DIRECTORY\<close>, on a node.\<close>

definition open_answer :: "bool \<Rightarrow> fsnode option \<Rightarrow> errno + fsnode" where
  "open_answer as_dir node =
     (case node of
        None \<Rightarrow> Inl ENOENT
      | Some (FLink t) \<Rightarrow> Inl (if as_dir then ENOTDIR else ELOOP)
      | Some (FDir ok es) \<Rightarrow> if ok then Inr (FDir ok es) else Inl EACCES
      | Some (FReg ok sz data) \<Rightarrow>
          if as_dir then Inl ENOTDIR else if ok then Inr (FReg ok sz data) else Inl EACCES
      | Some (FSpecial ok) \<Rightarrow>
          if as_dir then Inl ENOTDIR else if ok then Inr (FSpecial ok) else Inl EACCES)"

definition os_open :: "bool \<Rightarrow> fsnode option \<Rightarrow> os_state \<Rightarrow> (errno + nat) \<times> os_state" where
  "os_open as_dir node s =
     (case open_answer as_dir node of
        Inl e \<Rightarrow> (Inl e, s)
      | Inr n \<Rightarrow> (Inr (next_fd s),
                  s\<lparr>next_fd := Suc (next_fd s), open_fds := (next_fd s, n) # open_fds s\<rparr>))"

definition fd_node :: "os_state \<Rightarrow> nat \<Rightarrow> fsnode option" where
  "fd_node s fd = map_of (open_fds s) fd"

definition dir_entry :: "fsnode option \<Rightarrow> string \<Rightarrow> fsnode option" where
  "dir_entry n c = (case n of Some (FDir _ es) \<Rightarrow> map_of es c | _ \<Rightarrow> None)"

definition os_close :: "nat \<Rightarrow> os_state \<Rightarrow> os_state" where
  "os_close fd s = s\<lparr>open_fds := filter (\<lambda>(f, n). f \<noteq> fd) (open_fds s)\<rparr>"

section \<open>The bounded read\<close>

definition bounded_file_read_reason :: "errno \<Rightarrow> string" where
  "bounded_file_read_reason e = (if e = ELOOP \<or> e = ENOTDIR then ''unsafe'' else ''unavailable'')"

text \<open>
  The walk of \<open>_open_no_follow_file\<close> below an open parent directory. Every way out closes
  the parent; the last component is opened with the caller's flags.
\<close>

fun open_walk :: "nat \<Rightarrow> string list \<Rightarrow> os_state \<Rightarrow> nat res \<times> os_state" where
  "open_walk parent [] s = (Inl (BoundedFileReadError ''unsafe''), os_close parent s)"
| "open_walk parent [c] s =
     (case os_open False (dir_entry (fd_node s parent) c) s of
        (Inl e, s') \<Rightarrow> (Inl (BoundedFileReadError (bounded_file_read_reason e)), os_close parent s')
      | (Inr fd, s') \<Rightarrow> (Inr fd, os_close parent s'))"
| "open_walk parent (c # d # cs) s =
     (case os_open True (dir_entry (fd_node s parent) c) s of
        (Inl e, s') \<Rightarrow> (Inl (BoundedFileReadError (bounded_file_read_reason e)), os_close parent s')
      | (Inr child, s') \<Rightarrow>
          (case fd_node s' child of
             Some (FDir _ _) \<Rightarrow> open_walk child (d # cs) (os_close parent s')
           | _ \<Rightarrow> (Inl (BoundedFileReadError ''unsafe''), os_close parent (os_close child s'))))"

definition open_no_follow_file :: "fsnode \<Rightarrow> string list \<Rightarrow> os_state \<Rightarrow> nat res \<times> os_state" where
  "open_no_follow_file root components s =
     (if components = [] then (Inl (BoundedFileReadError ''unsafe''), s)
      else (case os_open True (Some root) s of
              (Inl e, s') \<Rightarrow> (Inl (BoundedFileReadError (bounded_file_read_reason e)), s')
            | (Inr fd, s') \<Rightarrow> open_walk fd components s'))"

text \<open>
  The checks on the opened descriptor. The read asks for one byte more than the limit.
\<close>

definition read_checked :: "nat \<Rightarrow> fsnode option \<Rightarrow> string res" where
  "read_checked maximum node =
     (case node of
        Some (FReg _ sz data) \<Rightarrow>
          if maximum < sz then Inl (BoundedFileReadError ''oversized'')
          else (case data of
                  None \<Rightarrow> Inl (BoundedFileReadError ''unavailable'')
                | Some raw \<Rightarrow> Inr (take (maximum + 1) raw))
      | _ \<Rightarrow> Inl (BoundedFileReadError ''unsafe''))"

definition read_bounded_regular_bytes ::
    "fsnode \<Rightarrow> string list \<Rightarrow> nat \<Rightarrow> os_state \<Rightarrow> string res \<times> os_state" where
  "read_bounded_regular_bytes root components maximum s =
     (case open_no_follow_file root components s of
        (Inl e, s') \<Rightarrow> (Inl e, s')
      | (Inr fd, s') \<Rightarrow>
          (rbind (read_checked maximum (fd_node s' fd)) (\<lambda>raw.
             if maximum < length raw then Inl (BoundedFileReadError ''oversized'') else Inr raw),
           os_close fd s'))"

text \<open>What a path names when no component may be a link.\<close>

fun resolve :: "fsnode \<Rightarrow> string list \<Rightarrow> fsnode option" where
  "resolve n [] = Some n"
| "resolve n (c # cs) =
     (case n of
        FDir True es \<Rightarrow> (case map_of es c of None \<Rightarrow> None | Some m \<Rightarrow> resolve m cs)
      | _ \<Rightarrow> None)"

section \<open>Descriptors\<close>

lemma os_wf_fresh: "os_wf s \<Longrightarrow> next_fd s \<notin> fst ` set (open_fds s)"
  by (auto simp: os_wf_def)

lemma os_open_fail: "os_open b n s = (Inl e, s') \<Longrightarrow> s' = s \<and> open_answer b n = Inl e"
  by (auto simp: os_open_def split: sum.splits)

lemma os_open_ok:
  "os_open b n s = (Inr fd, s') \<Longrightarrow> \<exists>m. open_answer b n = Inr m \<and> fd = next_fd s
     \<and> s' = s\<lparr>next_fd := Suc (next_fd s), open_fds := (fd, m) # open_fds s\<rparr>"
  by (auto simp: os_open_def split: sum.splits)

lemma os_wf_open: "os_wf s \<Longrightarrow> os_wf (snd (os_open b n s))"
  using os_wf_fresh [of s]
  by (auto simp: os_open_def os_wf_def less_Suc_eq split: sum.splits)

lemma os_wf_close: "os_wf s \<Longrightarrow> os_wf (os_close fd s)"
  by (auto simp: os_close_def os_wf_def distinct_map_filter)

lemma filter_other_fds: "fd \<notin> fst ` set xs \<Longrightarrow> filter (\<lambda>(f, n). f \<noteq> fd) xs = xs"
  by (induction xs) auto

lemma open_answer_ok: "open_answer b n = Inr m \<Longrightarrow> n = Some m"
  by (auto simp: open_answer_def split: option.splits fsnode.splits if_splits)

lemma open_answer_dir:
  "open_answer True n = Inr m \<longleftrightarrow> (\<exists>es. n = Some (FDir True es) \<and> m = FDir True es)"
  by (auto simp: open_answer_def split: option.splits fsnode.splits if_splits)

text \<open>
  The walk as a function on the tree alone, which the descriptor version refines: it
  returns the same node or the same error, leaves the parent closed and, on success, one
  new descriptor.
\<close>

fun walk_node :: "fsnode \<Rightarrow> string list \<Rightarrow> fsnode res" where
  "walk_node n [] = Inl (BoundedFileReadError ''unsafe'')"
| "walk_node n [c] =
     (case open_answer False (dir_entry (Some n) c) of
        Inl e \<Rightarrow> Inl (BoundedFileReadError (bounded_file_read_reason e)) | Inr m \<Rightarrow> Inr m)"
| "walk_node n (c # d # cs) =
     (case open_answer True (dir_entry (Some n) c) of
        Inl e \<Rightarrow> Inl (BoundedFileReadError (bounded_file_read_reason e))
      | Inr m \<Rightarrow> walk_node m (d # cs))"

definition walk_outcome ::
    "(nat \<times> fsnode) list \<Rightarrow> fsnode res \<Rightarrow> nat res \<times> os_state \<Rightarrow> bool" where
  "walk_outcome fds r out \<longleftrightarrow>
     os_wf (snd out) \<and>
     (case r of
        Inl e \<Rightarrow> fst out = Inl e \<and> open_fds (snd out) = fds
      | Inr m \<Rightarrow> \<exists>fd. fst out = Inr fd \<and> open_fds (snd out) = (fd, m) # fds)"

text \<open>Closing the parent after one more descriptor was or was not opened.\<close>

lemma close_parent:
  assumes "os_wf s" and "open_fds s = (parent, n) # fds"
  shows "os_wf (os_close parent s) \<and> open_fds (os_close parent s) = fds"
    and "os_wf (os_close parent (s\<lparr>next_fd := Suc (next_fd s), open_fds := (next_fd s, m) # open_fds s\<rparr>))
      \<and> open_fds (os_close parent (s\<lparr>next_fd := Suc (next_fd s), open_fds := (next_fd s, m) # open_fds s\<rparr>))
        = (next_fd s, m) # fds"
  using assms by (auto simp: os_close_def os_wf_def filter_other_fds less_Suc_eq)

lemma open_walk_refines:
  assumes "os_wf s" and "open_fds s = (parent, n) # fds"
  shows "walk_outcome fds (walk_node n cs) (open_walk parent cs s)"
  using assms
proof (induction n cs arbitrary: parent s rule: walk_node.induct)
  case (1 n)
  then show ?case using close_parent(1) by (auto simp: walk_outcome_def)
next
  case (2 n c)
  note cl = close_parent [OF "2.prems"]
  have "fd_node s parent = Some n" using "2.prems"(2) by (simp add: fd_node_def)
  then show ?case
    using cl by (auto simp: walk_outcome_def os_open_def split: sum.splits)
next
  case (3 n c d cs)
  note cl = close_parent [OF "3.prems"]
  have node: "fd_node s parent = Some n" using "3.prems"(2) by (simp add: fd_node_def)
  show ?case
  proof (cases "open_answer True (dir_entry (Some n) c)")
    case (Inl e)
    then show ?thesis using cl(1) node by (simp add: walk_outcome_def os_open_def)
  next
    case (Inr m)
    then obtain es where m: "m = FDir True es" by (auto simp: open_answer_dir)
    let ?s' = "s\<lparr>next_fd := Suc (next_fd s), open_fds := (next_fd s, m) # open_fds s\<rparr>"
    have "walk_outcome fds (walk_node m (d # cs)) (open_walk (next_fd s) (d # cs) (os_close parent ?s'))"
      using "3.IH" [OF Inr] cl(2) [of m] by blast
    then show ?thesis
      using Inr m node by (simp add: os_open_def fd_node_def)
  qed
qed

lemma open_no_follow_refines:
  assumes "os_wf s"
  shows "walk_outcome (open_fds s)
    (if cs = [] then Inl (BoundedFileReadError ''unsafe'')
     else (case open_answer True (Some root) of
             Inl e \<Rightarrow> Inl (BoundedFileReadError (bounded_file_read_reason e))
           | Inr m \<Rightarrow> walk_node m cs))
    (open_no_follow_file root cs s)"
proof -
  let ?s' = "\<lambda>m. s\<lparr>next_fd := Suc (next_fd s), open_fds := (next_fd s, m) # open_fds s\<rparr>"
  have "os_wf (?s' m)" for m
    using assms os_wf_fresh [OF assms] by (auto simp: os_wf_def less_Suc_eq)
  then have walk: "walk_outcome (open_fds s) (walk_node m cs) (open_walk (next_fd s) cs (?s' m))" for m
    by (rule open_walk_refines) simp
  show ?thesis
  proof (cases "cs = []")
    case True
    then show ?thesis using assms by (simp add: open_no_follow_file_def walk_outcome_def)
  next
    case False
    then show ?thesis
      using assms walk
      by (cases "open_answer True (Some root)")
        (simp_all add: open_no_follow_file_def os_open_def walk_outcome_def [of _ "Inl e" for e])
  qed
qed

text \<open>The whole read as a function of the tree, and what the descriptors are afterwards.\<close>

definition read_spec :: "fsnode \<Rightarrow> string list \<Rightarrow> nat \<Rightarrow> string res" where
  "read_spec root cs maximum =
     rbind (if cs = [] then Inl (BoundedFileReadError ''unsafe'')
            else (case open_answer True (Some root) of
                    Inl e \<Rightarrow> Inl (BoundedFileReadError (bounded_file_read_reason e))
                  | Inr m \<Rightarrow> walk_node m cs)) (\<lambda>m.
     rbind (read_checked maximum (Some m)) (\<lambda>raw.
       if maximum < length raw then Inl (BoundedFileReadError ''oversized'') else Inr raw))"

lemma read_bounded_refines:
  assumes "os_wf s"
  shows "fst (read_bounded_regular_bytes root cs maximum s) = read_spec root cs maximum"
    and "open_fds (snd (read_bounded_regular_bytes root cs maximum s)) = open_fds s"
proof -
  let ?r = "if cs = [] then Inl (BoundedFileReadError ''unsafe'')
     else (case open_answer True (Some root) of
             Inl e \<Rightarrow> Inl (BoundedFileReadError (bounded_file_read_reason e))
           | Inr m \<Rightarrow> walk_node m cs)"
  have out: "walk_outcome (open_fds s) ?r (open_no_follow_file root cs s)"
    by (rule open_no_follow_refines [OF assms])
  obtain x s' where xs: "open_no_follow_file root cs s = (x, s')" by (cases "open_no_follow_file root cs s")
  have *: "fst (read_bounded_regular_bytes root cs maximum s) = read_spec root cs maximum
    \<and> open_fds (snd (read_bounded_regular_bytes root cs maximum s)) = open_fds s"
  proof (cases ?r)
    case (Inl e)
    with out xs have "x = Inl e" "open_fds s' = open_fds s" by (auto simp: walk_outcome_def)
    then show ?thesis unfolding read_spec_def Inl by (simp add: read_bounded_regular_bytes_def xs)
  next
    case (Inr m)
    with out xs obtain fd where "x = Inr fd" and fds: "open_fds s' = (fd, m) # open_fds s" "os_wf s'"
      by (auto simp: walk_outcome_def)
    then have "fd_node s' fd = Some m" "open_fds (os_close fd s') = open_fds s"
      using close_parent(1) [of s' fd m "open_fds s"] by (auto simp: fd_node_def)
    with \<open>x = Inr fd\<close> show ?thesis
      unfolding read_spec_def Inr by (simp add: read_bounded_regular_bytes_def xs)
  qed
  then show "fst (read_bounded_regular_bytes root cs maximum s) = read_spec root cs maximum"
    and "open_fds (snd (read_bounded_regular_bytes root cs maximum s)) = open_fds s"
    by simp_all
qed

section \<open>What a successful read means\<close>

lemma walk_node_resolve:
  "n = FDir True es \<Longrightarrow> walk_node n cs = Inr m \<Longrightarrow> resolve n cs = Some m \<and> cs \<noteq> []"
proof (induction n cs arbitrary: es rule: walk_node.induct)
  case (2 n c)
  then show ?case
    by (auto simp: dir_entry_def split: sum.splits option.splits dest!: open_answer_ok)
next
  case (3 n c d cs)
  then show ?case
    by (auto simp: dir_entry_def open_answer_dir split: sum.splits)
qed simp

lemma resolve_walk_node:
  "resolve n cs = Some (FReg True sz data) \<Longrightarrow> cs \<noteq> [] \<Longrightarrow> walk_node n cs = Inr (FReg True sz data)"
proof (induction n cs rule: walk_node.induct)
  case (2 n c)
  then show ?case
    by (auto simp: dir_entry_def open_answer_def split: fsnode.splits bool.splits option.splits)
next
  case (3 n c d cs)
  from "3.prems" obtain es m where "n = FDir True es" "map_of es c = Some m"
    and r: "resolve m (d # cs) = Some (FReg True sz data)"
    by (auto split: fsnode.splits bool.splits option.splits)
  moreover from r obtain es' where "m = FDir True es'"
    by (auto split: fsnode.splits bool.splits)
  ultimately show ?case
    using "3.IH" [of m] by (simp add: dir_entry_def open_answer_def)
qed simp

lemma read_spec_success:
  "read_spec root cs maximum = Inr raw \<longleftrightarrow>
     cs \<noteq> [] \<and> length raw \<le> maximum
     \<and> (\<exists>ok sz. resolve root cs = Some (FReg ok sz (Some raw)) \<and> sz \<le> maximum \<and> ok)"
  (is "?L \<longleftrightarrow> ?R")
proof
  assume ?L
  then obtain m where w: "cs \<noteq> []" "open_answer True (Some root) = Inr root" "walk_node root cs = Inr m"
    and r: "read_checked maximum (Some m) = Inr raw" "length raw \<le> maximum"
    by (auto simp: read_spec_def rbind_eq_Inr open_answer_dir split: if_splits sum.splits
        dest: open_answer_ok)
  from r obtain ok sz where m: "m = FReg ok sz (Some raw)" "sz \<le> maximum"
    by (fastforce simp: read_checked_def min_def split: fsnode.splits if_splits option.splits)
  from w have "resolve root cs = Some m"
    using walk_node_resolve [of root _ cs m] by (auto simp: open_answer_dir)
  moreover have ok
    using w(3) unfolding m(1)
    by (induction root cs rule: walk_node.induct)
      (auto simp: open_answer_def split: sum.splits option.splits fsnode.splits if_splits)
  ultimately show ?R using w m r by blast
next
  assume R: ?R
  then obtain sz where "cs \<noteq> []" and res: "resolve root cs = Some (FReg True sz (Some raw))"
    and "sz \<le> maximum" "length raw \<le> maximum" by auto
  moreover from this obtain es where "root = FDir True es"
    by (cases cs) (auto split: fsnode.splits bool.splits)
  ultimately show ?L
    using resolve_walk_node [OF res]
    by (simp add: read_spec_def open_answer_def read_checked_def)
qed

end
