(* ===== verification/Sidecar.thy ===== *)
theory Sidecar
  imports ClientConfig BoundedFiles
begin

text \<open>
  The observation sidecar of the protocol client
  (\<^verbatim>\<open>src/ci/checks/protocol/protocol_client.py\<close>): a bounded JSON file from which only a
  fixed vocabulary of typed fields is taken over.
\<close>

definition SIDECAR_KEYS :: "string list" where
  "SIDECAR_KEYS = [''stream_id'', ''connection_reused'', ''quic_udp_observed'',
     ''quic_connection_id_present'', ''quic_version'', ''alpn'', ''stream_reset'',
     ''stream_reset_code'']"

definition RAW_CONNECTION_ID_KEYS :: "string list" where
  "RAW_CONNECTION_ID_KEYS = [''cid'', ''connection_id'', ''quic_cid'', ''quic_connection_id'']"

definition SIDECAR_BOOLEAN_KEYS :: "string list" where
  "SIDECAR_BOOLEAN_KEYS = [''connection_reused'', ''quic_udp_observed'',
     ''quic_connection_id_present'', ''stream_reset'']"

definition read_observation_sidecar :: "fsnode \<Rightarrow> fpath \<Rightarrow> os_state \<Rightarrow> string res \<times> os_state" where
  "read_observation_sidecar root path s =
     (case read_bounded_regular_bytes root path MAX_SIDECAR_BYTES s of
        (Inr raw, s') \<Rightarrow> (Inr raw, s')
      | (Inl (BoundedFileReadError reason), s') \<Rightarrow>
          (if reason = ''oversized''
           then Inl (ProtocolClientError ''observation sidecar exceeds bounded size'')
           else Inl (ProtocolClientError ''observation sidecar is unavailable''), s')
      | (Inl e, s') \<Rightarrow> (Inl e, s'))"

text \<open>The handler catches the two decoding errors; everything else passes through.\<close>

definition decode_observation_sidecar :: "string \<Rightarrow> dict res" where
  "decode_observation_sidecar raw =
     (case rbind (utf8_decode raw) json_loads of
        Inl UnicodeDecodeError \<Rightarrow> Inl (ProtocolClientError ''observation sidecar is not valid JSON'')
      | Inl JSONDecodeError \<Rightarrow> Inl (ProtocolClientError ''observation sidecar is not valid JSON'')
      | Inl e \<Rightarrow> Inl e
      | Inr (PDict loaded) \<Rightarrow> Inr loaded
      | Inr _ \<Rightarrow> Inl (ProtocolClientError ''observation sidecar must be a JSON object''))"

definition validate_observation_sidecar_keys :: "dict \<Rightarrow> unit res" where
  "validate_observation_sidecar_keys loaded =
     rbind (raise_if (list_ex (\<lambda>k. k \<in> set RAW_CONNECTION_ID_KEYS) (map fst loaded))
              (ProtocolClientError ''raw connection identifiers are not accepted''))
       (\<lambda>_. raise_if (list_ex (\<lambda>k. k \<notin> set SIDECAR_KEYS) (map fst loaded))
              (ProtocolClientError ''observation sidecar contains unsupported fields''))"

definition copy_sidecar_stream_id :: "dict \<Rightarrow> dict \<Rightarrow> dict res" where
  "copy_sidecar_stream_id loaded result =
     (if has_key loaded ''stream_id'' then
        (let value = dget loaded ''stream_id''
         in if has_invalid_stream_id value
            then Inl (ProtocolClientError ''sidecar stream_id must be an integer >= 0'')
            else Inr (dict_set result ''stream_id'' value))
      else Inr result)"

fun copy_booleans :: "string list \<Rightarrow> dict \<Rightarrow> dict \<Rightarrow> dict res" where
  "copy_booleans [] loaded result = Inr result"
| "copy_booleans (key # keys) loaded result =
     (if has_key loaded key then
        if \<not> is_bool (dget loaded key)
        then Inl (ProtocolClientError (''sidecar '' @ key @ '' must be boolean''))
        else copy_booleans keys loaded (dict_set result key (dget loaded key))
      else copy_booleans keys loaded result)"

definition copy_sidecar_booleans :: "dict \<Rightarrow> dict \<Rightarrow> dict res" where
  "copy_sidecar_booleans loaded result = copy_booleans SIDECAR_BOOLEAN_KEYS loaded result"

definition copy_sidecar_quic_version :: "dict \<Rightarrow> dict \<Rightarrow> dict res" where
  "copy_sidecar_quic_version loaded result =
     (if has_key loaded ''quic_version'' then
        (let value = dget loaded ''quic_version''
         in if has_invalid_bounded_token value
            then Inl (ProtocolClientError ''sidecar quic_version must be a bounded token'')
            else Inr (dict_set result ''quic_version'' value))
      else Inr result)"

text \<open>The membership test in a set raises \<open>TypeError\<close> for a JSON array or object.\<close>

definition copy_sidecar_alpn :: "dict \<Rightarrow> dict \<Rightarrow> dict res" where
  "copy_sidecar_alpn loaded result =
     (if has_key loaded ''alpn'' then
        (let value = dget loaded ''alpn''
         in rbind (in_str_set value [''h2'', ''h3'']) (\<lambda>known.
            if \<not> known then Inl (ProtocolClientError ''sidecar alpn must be h2 or h3'')
            else Inr (dict_set result ''alpn'' value)))
      else Inr result)"

definition copy_sidecar_stream_reset_code :: "dict \<Rightarrow> dict \<Rightarrow> dict res" where
  "copy_sidecar_stream_reset_code loaded result =
     (if has_key loaded ''stream_reset_code'' then
        (let value = dget loaded ''stream_reset_code''
         in if is_bool value
            then Inl (ProtocolClientError ''sidecar stream_reset_code must be numeric or bounded token'')
            else if is_int value \<and> int_val value < 0
            then Inl (ProtocolClientError ''sidecar stream_reset_code must be non-negative'')
            else if \<not> is_int value \<and> (\<not> is_str value \<or> \<not> fullmatch BOUNDED_TOKEN (str_val value))
            then Inl (ProtocolClientError ''sidecar stream_reset_code must be numeric or bounded token'')
            else Inr (dict_set result ''stream_reset_code'' value))
      else Inr result)"

text \<open>The part of \<open>_load_observation_sidecar\<close> after the file has been decoded.\<close>

definition copy_sidecar :: "dict \<Rightarrow> dict res" where
  "copy_sidecar loaded =
     rbind (validate_observation_sidecar_keys loaded) (\<lambda>_.
     rbind (copy_sidecar_stream_id loaded []) (\<lambda>r1.
     rbind (copy_sidecar_booleans loaded r1) (\<lambda>r2.
     rbind (copy_sidecar_quic_version loaded r2) (\<lambda>r3.
     rbind (copy_sidecar_alpn loaded r3) (\<lambda>r4.
     copy_sidecar_stream_reset_code loaded r4)))))"

definition load_observation_sidecar :: "fsnode \<Rightarrow> fpath \<Rightarrow> os_state \<Rightarrow> dict res \<times> os_state" where
  "load_observation_sidecar root path s =
     (case read_observation_sidecar root path s of
        (Inl e, s') \<Rightarrow> (Inl e, s')
      | (Inr raw, s') \<Rightarrow> (rbind (decode_observation_sidecar raw) copy_sidecar, s'))"

section \<open>The vocabulary of a loaded sidecar\<close>

text \<open>The type each field of a sidecar has when it is taken over.\<close>

definition sidecar_field_ok :: "string \<Rightarrow> pyval \<Rightarrow> bool" where
  "sidecar_field_ok k v =
     (if k = ''stream_id'' then \<not> has_invalid_stream_id v
      else if k \<in> set SIDECAR_BOOLEAN_KEYS then is_bool v
      else if k = ''quic_version'' then \<not> has_invalid_bounded_token v
      else if k = ''alpn'' then v \<in> {PStr ''h2'', PStr ''h3''}
      else if k = ''stream_reset_code'' then
        \<not> is_bool v \<and> (if is_int v then 0 \<le> int_val v else \<not> has_invalid_bounded_token v)
      else False)"

definition sidecar_ok :: "dict \<Rightarrow> bool" where
  "sidecar_ok d \<longleftrightarrow> (\<forall>(k, v)\<in>set d. sidecar_field_ok k v) \<and> dict_wf d"

text \<open>The fields of \<open>d\<close> on a list of keys are exactly those of \<open>loaded\<close>, and well typed.\<close>

definition copied :: "string list \<Rightarrow> dict \<Rightarrow> dict \<Rightarrow> bool" where
  "copied ks loaded d \<longleftrightarrow>
     (\<forall>k. has_key d k \<longleftrightarrow> k \<in> set ks \<and> has_key loaded k)
     \<and> (\<forall>k. has_key d k \<longrightarrow> dget d k = dget loaded k \<and> sidecar_field_ok k (dget d k))
     \<and> dict_wf d"

lemma copied_Nil: "copied [] loaded []"
  by (simp add: copied_def dict_wf_def)

lemma copied_skip: "copied ks loaded d \<Longrightarrow> \<not> has_key loaded k \<Longrightarrow> copied (k # ks) loaded d"
  by (auto simp: copied_def)

lemma copied_put:
  "copied ks loaded d \<Longrightarrow> has_key loaded k \<Longrightarrow> sidecar_field_ok k (dget loaded k)
     \<Longrightarrow> copied (k # ks) loaded (dict_set d k (dget loaded k))"
  by (auto simp: copied_def dict_wf_set)

lemma copied_set: "copied ks loaded d \<Longrightarrow> set ks = set ks' \<Longrightarrow> copied ks' loaded d"
  by (auto simp: copied_def)

lemma copy_booleans_copied:
  "copy_booleans keys loaded d = Inr d' \<Longrightarrow> copied ks loaded d
     \<Longrightarrow> set keys \<subseteq> set SIDECAR_BOOLEAN_KEYS \<Longrightarrow> copied (rev keys @ ks) loaded d'"
proof (induction keys loaded d arbitrary: ks rule: copy_booleans.induct)
  case (2 key keys loaded d)
  have ty: "is_bool v \<Longrightarrow> sidecar_field_ok key v" for v
    using "2.prems"(3) by (auto simp: sidecar_field_ok_def SIDECAR_BOOLEAN_KEYS_def)
  show ?case
  proof (cases "has_key loaded key")
    case True
    with "2.prems"(1) have b: "is_bool (dget loaded key)"
      and rest: "copy_booleans keys loaded (dict_set d key (dget loaded key)) = Inr d'"
      by (auto split: if_splits)
    have "copied (key # ks) loaded (dict_set d key (dget loaded key))"
      using copied_put [OF "2.prems"(2) True ty [OF b]] .
    with "2.IH"(1) [OF True _ rest] b "2.prems"(3) show ?thesis by simp
  next
    case False
    then show ?thesis
      using "2.IH"(2) [OF False _ copied_skip [OF "2.prems"(2) False]] "2.prems" by simp
  qed
qed simp

lemma copy_sidecar_copied:
  assumes "copy_sidecar loaded = Inr d"
  shows "copied SIDECAR_KEYS loaded d"
proof -
  from assms obtain r1 r2 r3 r4 where s1: "copy_sidecar_stream_id loaded [] = Inr r1"
    and s2: "copy_sidecar_booleans loaded r1 = Inr r2"
    and s3: "copy_sidecar_quic_version loaded r2 = Inr r3"
    and s4: "copy_sidecar_alpn loaded r3 = Inr r4"
    and s5: "copy_sidecar_stream_reset_code loaded r4 = Inr d"
    by (auto simp: copy_sidecar_def rbind_eq_Inr)
  have c1: "copied [''stream_id''] loaded r1"
    using s1 copied_put [OF copied_Nil [of loaded], of "''stream_id''"]
      copied_skip [OF copied_Nil [of loaded], of "''stream_id''"]
    by (auto simp: copy_sidecar_stream_id_def sidecar_field_ok_def Let_def split: if_splits)
  have c2: "copied (rev SIDECAR_BOOLEAN_KEYS @ [''stream_id'']) loaded r2"
    using copy_booleans_copied [OF s2 [unfolded copy_sidecar_booleans_def] c1] by simp
  have c3: "copied (''quic_version'' # rev SIDECAR_BOOLEAN_KEYS @ [''stream_id'']) loaded r3"
    using s3 copied_put [OF c2, of "''quic_version''"] copied_skip [OF c2, of "''quic_version''"]
    by (auto simp: copy_sidecar_quic_version_def sidecar_field_ok_def SIDECAR_BOOLEAN_KEYS_def
        Let_def split: if_splits)
  have c4: "copied (''alpn'' # ''quic_version'' # rev SIDECAR_BOOLEAN_KEYS @ [''stream_id'']) loaded r4"
    using s4 copied_put [OF c3, of "''alpn''"] copied_skip [OF c3, of "''alpn''"]
    by (auto simp: copy_sidecar_alpn_def sidecar_field_ok_def SIDECAR_BOOLEAN_KEYS_def rbind_eq_Inr
        in_str_set_eq_True Let_def split: if_splits)
  have c5: "copied (''stream_reset_code'' # ''alpn'' # ''quic_version'' # rev SIDECAR_BOOLEAN_KEYS
      @ [''stream_id'']) loaded d"
    using s5 copied_put [OF c4, of "''stream_reset_code''"]
      copied_skip [OF c4, of "''stream_reset_code''"]
    by (auto simp: copy_sidecar_stream_reset_code_def sidecar_field_ok_def SIDECAR_BOOLEAN_KEYS_def
        has_invalid_bounded_token_def Let_def split: if_splits)
  show ?thesis
    by (rule copied_set [OF c5]) (simp add: SIDECAR_KEYS_def SIDECAR_BOOLEAN_KEYS_def insert_commute)
qed

lemma copied_sidecar_ok: "copied ks loaded d \<Longrightarrow> sidecar_ok d"
proof -
  assume c: "copied ks loaded d"
  then have wf: "distinct (map fst d)" by (simp add: copied_def dict_wf_def)
  have "sidecar_field_ok k v" if kv: "(k, v) \<in> set d" for k v
  proof -
    from kv wf have "map_of d k = Some v" by simp
    then have "dget d k = v" "has_key d k" by (simp_all add: dget_def has_key_map_of)
    with c show ?thesis by (auto simp: copied_def)
  qed
  with wf show ?thesis by (auto simp: sidecar_ok_def dict_wf_def)
qed

lemma sidecar_ok_field: "sidecar_ok d \<Longrightarrow> has_key d k \<Longrightarrow> sidecar_field_ok k (dget d k)"
  by (fastforce simp: sidecar_ok_def dget_def has_key_map_of dest: map_of_SomeD)

lemma sidecar_ok_Nil [simp]: "sidecar_ok []"
  by (simp add: sidecar_ok_def dict_wf_def)

lemma copy_sidecar_ok: "copy_sidecar loaded = Inr d \<Longrightarrow> sidecar_ok d"
  by (rule copied_sidecar_ok [OF copy_sidecar_copied])

lemma copy_sidecar_faithful:
  assumes "copy_sidecar loaded = Inr d"
  shows "map_of d = map_of loaded"
proof
  fix k
  have c: "copied SIDECAR_KEYS loaded d" using assms by (rule copy_sidecar_copied)
  have "\<forall>k\<in>set (map fst loaded). k \<in> set SIDECAR_KEYS"
    using assms
    by (auto simp: copy_sidecar_def validate_observation_sidecar_keys_def rbind_eq_Inr raise_if_eq
        list_ex_iff)
  then have "has_key d k \<longleftrightarrow> has_key loaded k"
    using c by (auto simp: copied_def has_key_def)
  moreover have "has_key d k \<longrightarrow> dget d k = dget loaded k"
    using c by (auto simp: copied_def)
  ultimately show "map_of d k = map_of loaded k"
    by (auto simp: has_key_map_of dget_def split: option.splits)
qed

lemma load_observation_sidecar_ok:
  "fst (load_observation_sidecar root path s) = Inr d \<Longrightarrow> sidecar_ok d"
  by (auto simp: load_observation_sidecar_def rbind_eq_Inr copy_sidecar_ok
      split: prod.splits sum.splits)

lemma sidecar_load_facts:
  assumes "os_wf s" and "load_observation_sidecar root path s = (Inr sidecar, s')"
  shows "\<exists>sz raw tx loaded. resolve root path = Some (FReg True sz (Some raw)) \<and> length raw \<le> 65536
    \<and> utf8_decode raw = Inr tx \<and> json_loads tx = Inr (PDict loaded)
    \<and> map_of sidecar = map_of loaded \<and> sidecar_ok sidecar \<and> open_fds s' = open_fds s"
proof -
  let ?r = "read_bounded_regular_bytes root path MAX_SIDECAR_BYTES s"
  from assms(2) obtain raw loaded where "?r = (Inr raw, s')" and dec: "decode_observation_sidecar raw = Inr loaded"
    and cp: "copy_sidecar loaded = Inr sidecar"
    by (auto simp: load_observation_sidecar_def read_observation_sidecar_def rbind_eq_Inr
        split: prod.splits sum.splits exn.splits if_splits)
  then have "read_spec root path MAX_SIDECAR_BYTES = Inr raw" "open_fds s' = open_fds s"
    using read_bounded_refines [OF assms(1), of root path MAX_SIDECAR_BYTES] by auto
  moreover from dec obtain tx where "utf8_decode raw = Inr tx" "json_loads tx = Inr (PDict loaded)"
    by (auto simp: decode_observation_sidecar_def rbind_eq_Inr split: sum.splits exn.splits pyval.splits)
  ultimately show ?thesis
    using copy_sidecar_faithful [OF cp] copy_sidecar_ok [OF cp]
    by (auto simp: read_spec_success MAX_SIDECAR_BYTES_def)
qed

end
