(* ===== verification/Observation.thy ===== *)
theory Observation
  imports CurlInspect Sidecar
begin

text \<open>
  The observation of one probe (\<^verbatim>\<open>src/ci/checks/protocol/protocol_client.py\<close>): reading
  curl's write-out, classifying the outcome, the provenance fields, the evidence a PASS
  needs, the validation of an observation, and its final status.
\<close>

section \<open>The write-out\<close>

definition parse_number :: "pyval \<Rightarrow> pyval" where
  "parse_number value =
     (case value of
        PInt i \<Rightarrow> if 0 \<le> i then value else PNone
      | PFloat x \<Rightarrow> if float_le (exact_int 0) x then value else PNone
      | PStr s \<Rightarrow>
          (case float_of_str s of
             None \<Rightarrow> PNone
           | Some x \<Rightarrow> if float_le (exact_int 0) x then PFloat x else PNone)
      | _ \<Rightarrow> PNone)"

text \<open>\<open>int(value)\<close>; the errors are those that \<open>int\<close> raises.\<close>

definition py_int :: "pyval \<Rightarrow> int res" where
  "py_int value =
     (case value of
        PBool b \<Rightarrow> Inr (if b then 1 else 0)
      | PInt i \<Rightarrow> Inr i
      | PFloat x \<Rightarrow>
          if x = FInf \<or> x = FNegInf then Inl OverflowError
          else (case trunc_float x of None \<Rightarrow> Inl ValueError | Some i \<Rightarrow> Inr i)
      | PStr s \<Rightarrow> (case int_of_str s of None \<Rightarrow> Inl ValueError | Some i \<Rightarrow> Inr i)
      | _ \<Rightarrow> Inl TypeError)"

definition coerce_status :: "pyval \<Rightarrow> pyval res" where
  "coerce_status value =
     (if is_bool value \<or> value = PNone then Inr PNone
      else (case py_int value of
              Inl TypeError \<Rightarrow> Inr PNone
            | Inl ValueError \<Rightarrow> Inr PNone
            | Inl e \<Rightarrow> Inl e
            | Inr status \<Rightarrow> Inr (if 100 \<le> status \<and> status \<le> 999 then PInt status else PNone)))"

text \<open>\<open>payload.get(k, payload.get(k'))\<close>.\<close>

definition dget_or :: "dict \<Rightarrow> string \<Rightarrow> string \<Rightarrow> pyval" where
  "dget_or d k k' = (if has_key d k then dget d k else dget d k')"

definition outcome_fields :: "pyval \<Rightarrow> pyval \<Rightarrow> pyval \<Rightarrow> pyval \<Rightarrow> dict" where
  "outcome_fields status version size_download len =
     [(''http_status'', status), (''http_version'', version), (''downloaded_bytes'', size_download),
      (''content_length_download'', len)]"

definition parse_writeout :: "string \<Rightarrow> string \<Rightarrow> dict res" where
  "parse_writeout out mode =
     (if mode = ''json'' then
        (case json_loads (strip out) of
           Inl JSONDecodeError \<Rightarrow> Inr []
         | Inl e \<Rightarrow> Inl e
         | Inr (PDict payload) \<Rightarrow>
             (let version = dget payload ''http_version''
              in rbind (coerce_status (dget_or payload ''response_code'' ''http_code'')) (\<lambda>status.
                 Inr (outcome_fields status
                        (if version = PNone then PNone else PStr (py_str version))
                        (parse_number (dget payload ''size_download''))
                        (parse_number (dget_or payload ''content_length_download''
                           ''content_length_download_t'')))))
         | Inr _ \<Rightarrow> Inr [])
      else
        (let parts = split_on (CHR 0x09) (strip out)
         in if length parts \<noteq> 5 \<or> parts ! 0 \<noteq> ''PROTOCOL_CLIENT'' then Inr []
            else rbind (coerce_status (PStr (parts ! 1))) (\<lambda>status.
                 Inr (outcome_fields status
                        (if parts ! 2 = [] then PNone else PStr (parts ! 2))
                        (parse_number (PStr (parts ! 3))) PNone))))"

section \<open>Classification\<close>

text \<open>The negotiated protocol as a value: \<open>None\<close> when curl reports no known version.\<close>

definition negotiated_protocol :: "pyval \<Rightarrow> string \<Rightarrow> string \<Rightarrow> pyval" where
  "negotiated_protocol http_version requested sch =
     (if http_version = PNone then PNone
      else (let normalized = lower_str (strip (str_val http_version))
            in if normalized \<in> {''1'', ''1.0'', ''1.1'', ''http/1.0'', ''http/1.1''} then PStr ''http1''
               else if normalized \<in> {''2'', ''2.0'', ''http/2'', ''http/2.0''}
               then PStr (if requested = ''h2c'' \<and> sch = ''http'' then ''h2c'' else ''h2'')
               else if normalized \<in> {''3'', ''3.0'', ''http/3'', ''http/3.0''} then PStr ''h3''
               else PNone))"

definition CURL_RETURN_CODE_TRANSPORT_ERRORS :: "(int \<times> string) list" where
  "CURL_RETURN_CODE_TRANSPORT_ERRORS =
     [(6, ''dns_failure''), (7, ''connection_failure''), (18, ''transfer_incomplete''),
      (28, ''timeout''), (16, ''h2_failure''), (92, ''h2_failure''), (95, ''h3_failure''),
      (96, ''h3_failure''), (35, ''tls_failure''), (51, ''tls_failure''), (58, ''tls_failure''),
      (59, ''tls_failure''), (60, ''tls_failure''), (64, ''tls_failure''), (66, ''tls_failure''),
      (77, ''tls_failure''), (80, ''tls_failure''), (82, ''tls_failure''), (83, ''tls_failure''),
      (90, ''tls_failure''), (91, ''tls_failure'')]"

definition returncode_transport_error :: "int \<Rightarrow> pyval \<Rightarrow> string option" where
  "returncode_transport_error rc http_status =
     (if rc = 0 then Some ''none''
      else if rc = 22 \<and> http_status \<noteq> PNone then Some ''http_response_error''
      else map_of CURL_RETURN_CODE_TRANSPORT_ERRORS rc)"

definition stderr_transport_error :: "string \<Rightarrow> string \<Rightarrow> string" where
  "stderr_transport_error err requested_protocol =
     (let lower = lower_str err
      in if contains lower ''timed out'' \<or> contains lower ''timeout'' then ''timeout''
         else if contains lower ''certificate'' \<or> contains lower ''ssl'' \<or> contains lower ''tls''
         then ''tls_failure''
         else if contains lower ''quic'' \<or> contains lower ''http/3'' \<or> contains lower ''http3''
         then (if requested_protocol = ''h3'' then ''h3_failure'' else ''protocol_failure'')
         else if contains lower ''http/2'' \<or> contains lower ''http2''
         then (if requested_protocol \<in> {''h2'', ''h2c''} then ''h2_failure'' else ''protocol_failure'')
         else ''client_or_network_failure'')"

definition classify_transport_error :: "int \<Rightarrow> string \<Rightarrow> string \<Rightarrow> pyval \<Rightarrow> string" where
  "classify_transport_error rc err requested_protocol http_status =
     (case returncode_transport_error rc http_status of
        Some categorized \<Rightarrow> categorized
      | None \<Rightarrow> stderr_transport_error err requested_protocol)"

definition expected_transport :: "string \<Rightarrow> string \<Rightarrow> string" where
  "expected_transport protocol sch =
     (if protocol = ''h3'' then ''quic_udp''
      else if protocol = ''h2'' then ''tls_tcp''
      else if protocol = ''h2c'' then ''tcp''
      else if sch = ''https'' then ''tls_tcp'' else ''tcp'')"

definition derive_transport :: "pyval \<Rightarrow> string \<Rightarrow> string \<Rightarrow> dict \<Rightarrow> bool \<Rightarrow> pyval" where
  "derive_transport negotiated requested sch sidecar quic_udp_observed =
     (if negotiated \<noteq> PStr requested then PNone
      else if negotiated = PStr ''h3''
      then (if quic_udp_observed \<or> dget sidecar ''quic_udp_observed'' = PBool True
            then PStr ''quic_udp'' else PNone)
      else PStr (expected_transport (str_val negotiated) sch))"

section \<open>Provenance\<close>

fun provenance_texts :: "(string \<times> string option) list \<Rightarrow> dict \<Rightarrow> dict res" where
  "provenance_texts [] parts = Inr parts"
| "provenance_texts ((name, value) # rest) parts =
     rbind (validate_text_argument value name) (\<lambda>text.
       provenance_texts rest (case text of None \<Rightarrow> parts | Some t \<Rightarrow> dict_set parts name (PStr t)))"

fun copy_present :: "string list \<Rightarrow> dict \<Rightarrow> dict \<Rightarrow> dict" where
  "copy_present [] sidecar parts = parts"
| "copy_present (name # names) sidecar parts =
     copy_present names sidecar
       (if has_key sidecar name then dict_set parts name (dget sidecar name) else parts)"

definition PROVENANCE_SIDECAR_FIELDS :: "string list" where
  "PROVENANCE_SIDECAR_FIELDS = [''connection_reused'', ''quic_connection_id_present'',
     ''quic_version'', ''alpn'', ''stream_reset'', ''stream_reset_code'']"

definition provenance_case_id :: "client_config \<Rightarrow> dict \<Rightarrow> dict res" where
  "provenance_case_id config parts =
     (case cc_transport_case_id config of
        None \<Rightarrow> Inr parts
      | Some t \<Rightarrow>
          if \<not> fullmatch BOUNDED_TOKEN t then Inl (ProtocolClientError TRANSPORT_CASE_ID_ERROR)
          else Inr (dict_set parts ''transport_case_id'' (PStr t)))"

definition provenance_authority :: "client_config \<Rightarrow> dict \<Rightarrow> dict" where
  "provenance_authority config parts =
     (case target_authority_sha256 (cc_url config) of
        None \<Rightarrow> parts
      | Some h \<Rightarrow> dict_set parts ''target_authority_sha256'' (PStr h))"

definition provenance_upstream :: "client_config \<Rightarrow> dict \<Rightarrow> dict res" where
  "provenance_upstream config parts =
     (case cc_upstream_protocol config of
        None \<Rightarrow> Inr parts
      | Some u \<Rightarrow> rbind (normalize_protocol u) (\<lambda>p. Inr (dict_set parts ''upstream_protocol'' (PStr p))))"

definition provenance_stream :: "client_config \<Rightarrow> dict \<Rightarrow> dict \<Rightarrow> dict res" where
  "provenance_stream config sidecar parts =
     (let stream_id = (case cc_stream_id config of None \<Rightarrow> PNone | Some i \<Rightarrow> PInt i);
          sidecar_stream_id = dget sidecar ''stream_id''
      in if stream_id \<noteq> PNone \<and> sidecar_stream_id \<noteq> PNone \<and> \<not> py_eq stream_id sidecar_stream_id
         then Inl (ProtocolClientError ''stream_id conflicts with observation sidecar'')
         else (let value = (if stream_id = PNone then sidecar_stream_id else stream_id)
               in Inr (if value \<noteq> PNone then dict_set parts ''stream_id'' value else parts)))"

definition provenance :: "client_config \<Rightarrow> dict \<Rightarrow> dict res" where
  "provenance config sidecar =
     rbind (provenance_texts (provenance_text_fields config) []) (\<lambda>f1.
     rbind (provenance_case_id config f1) (\<lambda>f2.
     rbind (provenance_upstream config (provenance_authority config f2)) (\<lambda>f3.
     rbind (provenance_stream config sidecar f3) (\<lambda>f4.
     Inr (copy_present PROVENANCE_SIDECAR_FIELDS sidecar f4)))))"

section \<open>Evidence gaps\<close>

definition observation_expected_transport :: "dict \<Rightarrow> pyval \<Rightarrow> pyval res" where
  "observation_expected_transport observation requested =
     (let expected = dget observation ''expected_transport''
      in if expected \<noteq> PNone then Inr expected
         else if \<not> hashable requested then Inl TypeError
         else Inr (if requested = PStr ''h2'' then PStr ''tls_tcp''
                   else if requested = PStr ''h2c'' then PStr ''tcp''
                   else if requested = PStr ''h3'' then PStr ''quic_udp''
                   else PNone))"

type_synonym gaps = "string list \<times> string list"

definition append_transport_evidence_gaps :: "dict \<Rightarrow> pyval \<Rightarrow> gaps \<Rightarrow> gaps" where
  "append_transport_evidence_gaps observation expected gaps =
     (let (missing, contradictory) = gaps; transport = dget observation ''transport''
      in if transport = PNone then (missing @ [''transport''], contradictory)
         else if expected \<noteq> PNone \<and> \<not> py_eq transport expected
         then (missing, contradictory @ [''transport''])
         else gaps)"

definition append_stream_evidence_gaps :: "dict \<Rightarrow> pyval \<Rightarrow> gaps \<Rightarrow> gaps res" where
  "append_stream_evidence_gaps observation requested gaps =
     rbind (in_str_set requested [''h2'', ''h2c'', ''h3'']) (\<lambda>modern.
       let (missing, contradictory) = gaps; stream_id = dget observation ''stream_id''
       in Inr (if \<not> modern then gaps
               else if stream_id = PNone then (missing @ [''stream_id''], contradictory)
               else if has_invalid_stream_id stream_id then (missing, contradictory @ [''stream_id''])
               else gaps))"

definition append_alpn_evidence_gap :: "dict \<Rightarrow> string \<Rightarrow> gaps \<Rightarrow> gaps" where
  "append_alpn_evidence_gap observation expected_alpn gaps =
     (let (missing, contradictory) = gaps; alpn = dget observation ''alpn''
      in if alpn = PNone then (missing @ [''alpn''], contradictory)
         else if alpn \<noteq> PStr expected_alpn then (missing, contradictory @ [''alpn''])
         else gaps)"

definition append_h3_evidence_gaps :: "dict \<Rightarrow> gaps \<Rightarrow> gaps" where
  "append_h3_evidence_gaps observation gaps =
     (fst gaps
        @ err_if (dget observation ''quic_udp_observed'' \<noteq> PBool True) ''quic_udp_observed''
        @ err_if (dget observation ''quic_connection_id_present'' \<noteq> PBool True)
            ''quic_connection_id_present'',
      snd gaps)"

definition evidence_gaps :: "dict \<Rightarrow> gaps res" where
  "evidence_gaps observation =
     (let requested = dget observation ''requested_protocol'';
          negotiated = dget observation ''negotiated_protocol''
      in if \<not> py_eq negotiated requested then Inr ([], [''negotiated_protocol''])
         else rbind (observation_expected_transport observation requested) (\<lambda>expected.
              rbind (append_stream_evidence_gaps observation requested
                       (append_transport_evidence_gaps observation expected ([], []))) (\<lambda>gaps.
              Inr (if requested = PStr ''h2'' then append_alpn_evidence_gap observation ''h2'' gaps
                   else if requested = PStr ''h3''
                   then append_h3_evidence_gaps observation (append_alpn_evidence_gap observation ''h3'' gaps)
                   else gaps))))"

section \<open>Validation of an observation\<close>

definition has_invalid_sha256_token :: "pyval \<Rightarrow> bool" where
  "has_invalid_sha256_token value \<longleftrightarrow> \<not> is_str value \<or> \<not> fullmatch SHA256_TOKEN (str_val value)"

definition has_invalid_stream_reset_code :: "pyval \<Rightarrow> bool" where
  "has_invalid_stream_reset_code value =
     (if is_bool value then True else if is_int value then False else has_invalid_bounded_token value)"

text \<open>A value that must be in a set of texts, and one that may also be \<open>None\<close>.\<close>

definition not_in_set :: "pyval \<Rightarrow> string list \<Rightarrow> string \<Rightarrow> string list res" where
  "not_in_set v S message = rbind (in_str_set v S) (\<lambda>known. Inr (err_if (\<not> known) message))"

definition optional_not_in_set :: "pyval \<Rightarrow> string list \<Rightarrow> string \<Rightarrow> string list res" where
  "optional_not_in_set v S message = (if v = PNone then Inr [] else not_in_set v S message)"

definition validate_observation_protocol_fields :: "dict \<Rightarrow> string list res" where
  "validate_observation_protocol_fields observation =
     rbind (not_in_set (dget observation ''requested_protocol'') CANONICAL_PROTOCOLS
              ''requested_protocol is not canonical'') (\<lambda>e1.
     rbind (not_in_set (dget observation ''downstream_protocol'') CANONICAL_PROTOCOLS
              ''downstream_protocol is not canonical'') (\<lambda>e2.
     rbind (optional_not_in_set (dget observation ''upstream_protocol'') CANONICAL_PROTOCOLS
              ''upstream_protocol is not canonical'') (\<lambda>e3.
     rbind (optional_not_in_set (dget observation ''negotiated_protocol'') CANONICAL_PROTOCOLS
              ''negotiated_protocol is not canonical'') (\<lambda>e4.
     rbind (optional_not_in_set (dget observation ''transport'') CANONICAL_TRANSPORTS
              ''transport is not canonical'') (\<lambda>e5.
     Inr (e1 @ e2 @ e3 @ e4 @ e5))))))"

definition invalid_if_present :: "dict \<Rightarrow> string \<Rightarrow> (pyval \<Rightarrow> bool) \<Rightarrow> string \<Rightarrow> string list" where
  "invalid_if_present observation key invalid message =
     err_if (has_key observation key \<and> invalid (dget observation key)) message"

definition validate_observation_request_fields :: "dict \<Rightarrow> string list" where
  "validate_observation_request_fields observation =
     err_if (\<not> is_bool (dget observation ''fallback_used'')) ''fallback_used must be boolean''
     @ invalid_if_present observation ''stream_id'' has_invalid_stream_id ''stream_id must be an integer >= 0''
     @ invalid_if_present observation ''transport_case_id'' has_invalid_bounded_token TRANSPORT_CASE_ID_ERROR
     @ invalid_if_present observation ''target_authority_sha256'' has_invalid_sha256_token
         ''target_authority_sha256 must be a SHA-256 token''"

definition validate_observation_connection_fields :: "dict \<Rightarrow> string list res" where
  "validate_observation_connection_fields observation =
     (let e1 = invalid_if_present observation ''connection_reused'' (\<lambda>v. \<not> is_bool v)
                 ''connection_reused must be boolean''
            @ invalid_if_present observation ''quic_connection_id_present'' (\<lambda>v. \<not> is_bool v)
                 ''quic_connection_id_present must be boolean''
            @ invalid_if_present observation ''quic_udp_observed'' (\<lambda>v. \<not> is_bool v)
                 ''quic_udp_observed must be boolean''
            @ invalid_if_present observation ''quic_version'' has_invalid_bounded_token
                 ''quic_version must be a bounded token''
      in rbind (if has_key observation ''alpn''
                then not_in_set (dget observation ''alpn'') [''h2'', ''h3''] ''alpn must be h2 or h3''
                else Inr []) (\<lambda>e2. Inr (e1 @ e2)))"

definition validate_observation_stream_fields :: "dict \<Rightarrow> string list" where
  "validate_observation_stream_fields observation =
     invalid_if_present observation ''stream_reset'' (\<lambda>v. \<not> is_bool v) ''stream_reset must be boolean''
     @ invalid_if_present observation ''stream_reset_code'' has_invalid_stream_reset_code
         ''stream_reset_code must be numeric or bounded token''
     @ err_if (list_ex (has_key observation) RAW_CONNECTION_ID_KEYS)
         ''raw connection identifiers must not be persisted''"

definition validate_pass_evidence :: "dict \<Rightarrow> string list res" where
  "validate_pass_evidence observation =
     rbind (evidence_gaps observation) (\<lambda>(missing, contradictory).
       Inr (err_if (dget observation ''fallback_used'' \<noteq> PBool False) ''PASS cannot use fallback''
            @ map (\<lambda>f. ''missing '' @ f) missing
            @ map (\<lambda>f. ''contradictory '' @ f) contradictory))"

definition validate_protocol_observation :: "dict \<Rightarrow> bool \<Rightarrow> string list res" where
  "validate_protocol_observation observation require_pass_evidence =
     rbind (validate_observation_protocol_fields observation) (\<lambda>e1.
     rbind (validate_observation_connection_fields observation) (\<lambda>e3.
     rbind (if require_pass_evidence then validate_pass_evidence observation else Inr []) (\<lambda>e5.
     Inr (e1 @ validate_observation_request_fields observation @ e3
          @ validate_observation_stream_fields observation @ e5))))"

section \<open>Building an observation\<close>

definition base_observation :: "string \<Rightarrow> dict" where
  "base_observation protocol =
     [(''schema_version'', PInt 1), (''status'', PStr ''NOT_EXECUTED''),
      (''requested_protocol'', PStr protocol), (''downstream_protocol'', PStr protocol),
      (''negotiated_protocol'', PNone), (''transport'', PNone), (''fallback_used'', PBool False),
      (''http_status'', PNone), (''downloaded_bytes'', PNone), (''content_length_download'', PNone),
      (''response_committed'', PBool False), (''client_first_body_byte_visible'', PBool False),
      (''response_complete'', PBool False), (''curl_exit_code'', PNone),
      (''transport_error'', PStr ''not_executed'')]"

definition initial_observation ::
    "string \<Rightarrow> string option \<Rightarrow> client_config \<Rightarrow> dict \<Rightarrow> dict res" where
  "initial_observation protocol sch config sidecar =
     (let o1 = (case sch of None \<Rightarrow> base_observation protocol
                | Some s \<Rightarrow> dict_set (base_observation protocol) ''expected_transport''
                              (PStr (expected_transport protocol s)))
      in rbind (provenance config sidecar) (\<lambda>parts.
         let o2 = dict_update o1 parts
         in Inr (if protocol = ''h3''
                 then dict_set o2 ''quic_udp_observed''
                        (PBool (cc_quic_udp_observed config
                                \<or> dget sidecar ''quic_udp_observed'' = PBool True))
                 else o2)))"

text \<open>Comparisons of two numbers; \<open>False\<close> where one of them is not a number.\<close>

definition num_le :: "pyval \<Rightarrow> pyval \<Rightarrow> bool" where
  "num_le v w = (case (num_val v, num_val w) of (Some x, Some y) \<Rightarrow> float_le x y | _ \<Rightarrow> False)"

definition num_pos :: "pyval \<Rightarrow> bool" where
  "num_pos v = (case num_val v of Some x \<Rightarrow> float_lt (exact_int 0) x | None \<Rightarrow> False)"

definition apply_outcome ::
    "dict \<Rightarrow> dict \<Rightarrow> int \<Rightarrow> string \<Rightarrow> string \<Rightarrow> string \<Rightarrow> client_config \<Rightarrow> dict \<Rightarrow> dict" where
  "apply_outcome observation outcome rc err requested sch config sidecar =
     (let http_status = dget outcome ''http_status'';
          downloaded = dget outcome ''downloaded_bytes'';
          content_length = dget outcome ''content_length_download'';
          negotiated = negotiated_protocol (dget outcome ''http_version'') requested sch;
          o1 = dict_update observation
            [(''http_status'', http_status), (''downloaded_bytes'', downloaded),
             (''content_length_download'', content_length),
             (''response_committed'', PBool (http_status \<noteq> PNone)),
             (''client_first_body_byte_visible'', PBool (is_number downloaded \<and> num_pos downloaded)),
             (''curl_exit_code'', PInt rc),
             (''transport_error'', PStr (classify_transport_error rc err requested http_status)),
             (''negotiated_protocol'', negotiated),
             (''fallback_used'', PBool (negotiated \<noteq> PNone \<and> negotiated \<noteq> PStr requested))];
          o2 = dict_set o1 ''transport''
            (derive_transport negotiated requested sch sidecar (cc_quic_udp_observed config));
          response_complete =
            (http_status \<noteq> PNone \<and> rc \<in> {0, 22} \<and> is_number downloaded
             \<and> is_number content_length \<and> num_le content_length downloaded)
      in dict_set o2 ''response_complete'' (PBool response_complete))"

text \<open>\<open>v in {0, 22}\<close>: equality of numbers, \<open>TypeError\<close> for an unhashable value.\<close>

definition in_int_set :: "pyval \<Rightarrow> int list \<Rightarrow> bool res" where
  "in_int_set v S = (if hashable v then Inr (list_ex (\<lambda>i. py_eq v (PInt i)) S) else Inl TypeError)"

definition set_status :: "dict \<Rightarrow> string \<Rightarrow> string \<Rightarrow> dict" where
  "set_status observation status reason =
     dict_set (dict_set observation ''status'' (PStr status)) ''reason'' (PStr reason)"

definition str_list :: "string list \<Rightarrow> pyval" where
  "str_list xs = PList (map PStr xs)"

definition finalize_status :: "dict \<Rightarrow> string \<Rightarrow> dict res" where
  "finalize_status observation requested =
     (if dget observation ''fallback_used'' = PBool True
      then Inr (set_status observation ''FAIL'' ''protocol_fallback_observed'')
      else if dget observation ''negotiated_protocol'' \<noteq> PStr requested then
        rbind (in_str_set (dget observation ''transport_error'') [''h2_failure'', ''h3_failure'']) (\<lambda>host.
          Inr (set_status observation (if host then ''UNSUPPORTED_BY_HOST'' else ''FAIL'')
                 ''requested_protocol_not_observed''))
      else
        rbind (in_int_set (dget observation ''curl_exit_code'') [0, 22]) (\<lambda>transferred.
          if \<not> transferred
          then Inr (set_status observation ''FAIL'' ''curl_transfer_failed_after_protocol_observation'')
          else
            rbind (evidence_gaps observation) (\<lambda>(missing, contradictory).
              if contradictory \<noteq> []
              then Inr (dict_set (set_status observation ''FAIL'' ''contradictory_protocol_observation'')
                          ''missing_evidence'' (str_list (sort contradictory)))
              else if missing \<noteq> []
              then Inr (dict_set (set_status observation ''NOT_EXECUTED'' ''incomplete_protocol_provenance'')
                          ''missing_evidence'' (str_list (sort missing)))
              else
                rbind (validate_protocol_observation observation True) (\<lambda>errors.
                  if errors \<noteq> []
                  then Inr (dict_set (set_status observation ''FAIL'' ''invalid_protocol_observation'')
                              ''validation_errors'' (str_list (sort errors)))
                  else Inr (dict_set observation ''status'' (PStr ''PASS''))))))"

end
