(* ===== verification/ArtifactStore.thy ===== *)
theory ArtifactStore
  imports ClientConfig
begin

text \<open>
  The atomic replacement of one artifact (\<open>atomic_write_text\<close> and \<open>atomic_write_json\<close> of
  \<^verbatim>\<open>src/ci/checks/protocol/protocol_client.py\<close>). The disk is a map from paths to contents.
  What the operating system answers at each step of a write is a record: a step that is
  refused raises \<open>OSError\<close>, and a refused write may leave any prefix of the data behind.
  Besides its result the operation returns every disk it passes through, so that the
  properties also speak about a process that stops half way.
\<close>

type_synonym disk = "fpath \<rightharpoonup> string"

record write_answers =
  wa_mkdir :: bool
  wa_is_dir :: bool
  wa_mkstemp :: "string option"
  wa_write :: "nat option"
  wa_fsync :: bool
  wa_replace :: bool
  wa_dir_open :: bool
  wa_dir_fsync :: bool
  wa_unlink :: bool

text \<open>The name \<open>mkstemp\<close> builds from its prefix, a random part and its suffix.\<close>

definition temporary_path :: "fpath \<Rightarrow> string \<Rightarrow> fpath" where
  "temporary_path path rnd = butlast path @ [''.'' @ last path @ ''.'' @ rnd @ ''.tmp'']"

text \<open>
  The three effects of a write: the empty temporary file, its contents, the rename. The
  synchronisation of the directory after the rename is best effort: neither a refused
  \<open>open\<close> nor a refused \<open>fsync\<close> is reported.
\<close>

definition sync_directory :: "write_answers \<Rightarrow> unit res" where
  "sync_directory a =
     (let opened = (if wa_dir_open a then Inr () else Inl OSError) :: unit res
      in case opened of
           Inl _ \<Rightarrow> Inr ()
         | Inr _ \<Rightarrow> (case (if wa_dir_fsync a then Inr () else Inl OSError) :: unit res of
                       Inl _ \<Rightarrow> Inr () | Inr _ \<Rightarrow> Inr ()))"

definition discard_temporary :: "write_answers \<Rightarrow> fpath \<Rightarrow> disk \<Rightarrow> disk" where
  "discard_temporary a temporary d = (if wa_unlink a then d(temporary := None) else d)"

text \<open>\<open>handle.write\<close> and \<open>fsync\<close> on the temporary file: the outcome and its new contents.\<close>

definition fill_temporary :: "write_answers \<Rightarrow> string \<Rightarrow> unit res \<times> string" where
  "fill_temporary a raw =
     (case wa_write a of
        Some n \<Rightarrow> (Inl OSError, take n raw)
      | None \<Rightarrow> (if wa_fsync a then Inr () else Inl OSError, raw))"

definition atomic_write_text ::
    "write_answers \<Rightarrow> fpath \<Rightarrow> string \<Rightarrow> disk \<Rightarrow> unit res \<times> disk list" where
  "atomic_write_text a path value d =
     (if \<not> wa_mkdir a then (Inl OSError, [d])
      else if \<not> wa_is_dir a
      then (Inl (ProtocolClientError ''artifact parent is not a directory''), [d])
      else (case wa_mkstemp a of
        None \<Rightarrow> (Inl OSError, [d])
      | Some rnd \<Rightarrow>
          (let temporary = temporary_path path rnd;
               d1 = d(temporary \<mapsto> []);
               (filled, raw) = fill_temporary a (utf8_encode value);
               d2 = d1(temporary \<mapsto> raw)
           in case filled of
                Inl e \<Rightarrow> (Inl e, [d, d1, d2, discard_temporary a temporary d2])
              | Inr _ \<Rightarrow>
                  if \<not> wa_replace a
                  then (Inl OSError, [d, d1, d2, discard_temporary a temporary d2])
                  else (let d3 = (d2(path \<mapsto> raw))(temporary := None)
                        in case sync_directory a of
                             Inl e \<Rightarrow> (Inl e, [d, d1, d2, d3, discard_temporary a temporary d3])
                           | Inr _ \<Rightarrow> (Inr (), [d, d1, d2, d3])))))"

definition atomic_write_json ::
    "write_answers \<Rightarrow> fpath \<Rightarrow> dict \<Rightarrow> disk \<Rightarrow> unit res \<times> disk list" where
  "atomic_write_json a path value d =
     (case json_dumps value of
        Inl e \<Rightarrow> (Inl e, [d])
      | Inr rendered \<Rightarrow> atomic_write_text a path (rendered @ NL) d)"

section \<open>Laws\<close>

lemma sync_directory_never_fails [simp]: "sync_directory a = Inr ()"
  by (simp add: sync_directory_def Let_def)

lemma temporary_path_neq: "path \<noteq> [] \<Longrightarrow> temporary_path path rnd \<noteq> path"
proof
  assume "path \<noteq> []" and eq: "temporary_path path rnd = path"
  have "last (temporary_path path rnd) = ''.'' @ last path @ ''.'' @ rnd @ ''.tmp''"
    by (simp add: temporary_path_def)
  with eq have "length (last path) = length (''.'' @ last path @ ''.'' @ rnd @ ''.tmp'')"
    by simp
  then show False by simp
qed

lemmas temporary_path_distinct [simp] = temporary_path_neq temporary_path_neq [symmetric]

text \<open>The last disk of a write.\<close>

definition final_disk :: "unit res \<times> disk list \<Rightarrow> disk" where
  "final_disk out = last (snd out)"

lemma atomic_write_nonempty: "snd (atomic_write_text a path value d) \<noteq> []"
  by (auto simp: atomic_write_text_def Let_def split: option.splits prod.splits sum.splits)

lemma fill_temporary_ok:
  "fill_temporary a raw = (Inr u, raw') \<Longrightarrow> raw' = raw"
  by (auto simp: fill_temporary_def split: option.splits if_splits)

lemma atomic_write_cases:
  assumes "path \<noteq> []" and "e \<in> set (snd (atomic_write_text a path value d))"
  shows "e path = d path \<or> e path = Some (utf8_encode value)"
  using assms
  by (auto simp: atomic_write_text_def Let_def discard_temporary_def
      dest: fill_temporary_ok split: option.splits prod.splits sum.splits if_splits)

lemma atomic_write_other:
  assumes "e \<in> set (snd (atomic_write_text a path value d))" and "p \<noteq> path"
    and "\<And>rnd. wa_mkstemp a = Some rnd \<Longrightarrow> p \<noteq> temporary_path path rnd"
  shows "e p = d p"
  using assms
  by (auto simp: atomic_write_text_def Let_def discard_temporary_def
      split: option.splits prod.splits sum.splits if_splits)

lemma atomic_write_success:
  assumes "path \<noteq> []" and "fst (atomic_write_text a path value d) = Inr ()"
  shows "final_disk (atomic_write_text a path value d) path = Some (utf8_encode value)"
  using assms
  by (auto simp: atomic_write_text_def final_disk_def Let_def
      dest: fill_temporary_ok split: option.splits prod.splits sum.splits if_splits)

lemma atomic_write_failure:
  assumes "path \<noteq> []" and "fst (atomic_write_text a path value d) = Inl e"
  shows "final_disk (atomic_write_text a path value d) path = d path"
  using assms
  by (auto simp: atomic_write_text_def final_disk_def Let_def discard_temporary_def
      split: option.splits prod.splits sum.splits if_splits)

lemma atomic_write_no_temporary:
  assumes "path \<noteq> []" and "wa_unlink a" and "wa_mkstemp a = Some rnd"
    and "d (temporary_path path rnd) = None"
  shows "final_disk (atomic_write_text a path value d) (temporary_path path rnd) = None"
  using assms
  by (auto simp: atomic_write_text_def final_disk_def Let_def discard_temporary_def
      split: prod.splits sum.splits)

text \<open>A write is complete exactly when no step before the directory synchronisation is refused.\<close>

definition write_accepted :: "write_answers \<Rightarrow> bool" where
  "write_accepted a \<longleftrightarrow> wa_mkdir a \<and> wa_is_dir a \<and> wa_mkstemp a \<noteq> None \<and> wa_write a = None
     \<and> wa_fsync a \<and> wa_replace a"

lemma atomic_write_ok_iff: "fst (atomic_write_text a path value d) = Inr () \<longleftrightarrow> write_accepted a"
  by (auto simp: atomic_write_text_def write_accepted_def fill_temporary_def Let_def
      split: option.splits prod.splits sum.splits if_splits)

text \<open>A JSON artifact is written when its value has a text; otherwise the disk is untouched.\<close>

lemma atomic_write_json_success:
  assumes "path \<noteq> []" and "fst (atomic_write_json a path v d) = Inr ()"
  shows "json_printable (PDict v)"
    and "atomic_write_json a path v d = atomic_write_text a path (json_document v @ NL) d"
    and "final_disk (atomic_write_json a path v d) path = Some (utf8_encode (json_document v @ NL))"
  using assms atomic_write_success [OF assms(1)]
  by (auto simp: atomic_write_json_def json_dumps_def split: if_splits)

end
