(* ===== verification/ClientRun.thy ===== *)
theory ClientRun
  imports CurlCommand Observation ArtifactStore
begin

text \<open>
  One run of the protocol client (\<^verbatim>\<open>src/ci/checks/protocol/protocol_client.py\<close>): the
  artifacts it writes, the independent follow-up request, and \<open>run_protocol_client\<close> with
  every early return. A step takes the disk and returns an exception or a result with the
  new disk; what curl and the file system answer is the environment.
\<close>

section \<open>Steps on the disk\<close>

type_synonym 'a step = "disk \<Rightarrow> 'a res \<times> disk"

definition sbind :: "'a step \<Rightarrow> ('a \<Rightarrow> 'b step) \<Rightarrow> 'b step" where
  "sbind m f d = (case m d of (Inl e, d') \<Rightarrow> (Inl e, d') | (Inr x, d') \<Rightarrow> f x d')"

definition sreturn :: "'a \<Rightarrow> 'a step" where
  "sreturn x d = (Inr x, d)"

definition slift :: "'a res \<Rightarrow> 'a step" where
  "slift r d = (r, d)"

text \<open>The answers of curl, the tree the sidecar is read from, and the answers to each write.\<close>

record client_env =
  ce_run :: proc_env
  ce_root :: fsnode
  ce_os :: os_state
  ce_writes :: "nat \<Rightarrow> write_answers"

definition put_text :: "client_env \<Rightarrow> nat \<Rightarrow> fpath \<Rightarrow> string \<Rightarrow> unit step" where
  "put_text env i path value d =
     (let out = atomic_write_text (ce_writes env i) path value d in (fst out, final_disk out))"

definition put_json :: "client_env \<Rightarrow> nat \<Rightarrow> fpath \<Rightarrow> dict \<Rightarrow> unit step" where
  "put_json env i path value d =
     (let out = atomic_write_json (ce_writes env i) path value d in (fst out, final_disk out))"

section \<open>Artifacts\<close>

definition version_string :: "(int \<times> int \<times> int) option \<Rightarrow> string" where
  "version_string v =
     (case v of None \<Rightarrow> ''unknown''
      | Some (a, b, c) \<Rightarrow> join_with ''.'' [int_str a, int_str b, int_str c])"

definition feature_lines :: "curl_inspection \<Rightarrow> preflight \<Rightarrow> string \<Rightarrow> (string \<times> string) list" where
  "feature_lines inspection pf protocol =
     [(''curl_executable'', ci_executable inspection),
      (''curl_version'', version_string (ci_version inspection)),
      (''protocol'', protocol),
      (''features'', join_with '','' (sorted_unique (ci_features inspection))),
      (''required_features'', join_with '','' (pf_required_features pf)),
      (''missing_features'', join_with '','' (pf_missing_features pf)),
      (''required_options'', join_with '','' (pf_required_options pf)),
      (''missing_options'', join_with '','' (pf_missing_options pf)),
      (''preflight_status'', pf_status pf),
      (''preflight_reason'', (case pf_reason pf of None \<Rightarrow> [] | Some r \<Rightarrow> r)),
      (''writeout_mode'', pf_writeout_mode pf)]"

definition features_report :: "curl_inspection \<Rightarrow> preflight \<Rightarrow> string \<Rightarrow> string" where
  "features_report inspection pf protocol =
     join_with NL (map (\<lambda>(k, v). k @ ''='' @ v) (feature_lines inspection pf protocol)) @ NL"

definition write_artifacts ::
    "client_env \<Rightarrow> client_config \<Rightarrow> curl_inspection \<Rightarrow> preflight \<Rightarrow> string list \<Rightarrow> dict \<Rightarrow> unit step" where
  "write_artifacts env config inspection pf command observation =
     (let directory = cc_artifact_dir config
      in sbind (put_text env 0 (directory @ [''client-version.txt''])
                  (truncate_text (ci_version_text inspection))) (\<lambda>_.
         sbind (put_text env 1 (directory @ [''client-features.txt''])
                  (features_report inspection pf
                     (if has_key observation ''requested_protocol''
                      then py_str (dget observation ''requested_protocol'') else []))) (\<lambda>_.
         sbind (slift (if command \<noteq> [] then redacted_command command (cc_url config)
                       else Inr (''not executed'' @ NL))) (\<lambda>command_text.
         sbind (put_text env 2 (directory @ [''client-command.txt'']) command_text) (\<lambda>_.
         put_json env 3 (directory @ [''client-protocol-observation.json'']) observation)))))"

section \<open>The follow-up request\<close>

definition followup_configuration :: "client_config \<Rightarrow> string \<Rightarrow> string \<Rightarrow> client_config res" where
  "followup_configuration config url protocol =
     rbind (derive_followup_transport_case_id (cc_transport_case_id config)) (\<lambda>case_id.
       Inr (config\<lparr>cc_url := url, cc_protocol := protocol, cc_request := ''GET'', cc_headers := [],
                   cc_data_file := None, cc_transaction_id := None,
                   cc_transport_case_id := case_id, cc_rule_id := None, cc_phase := None,
                   cc_stream_id := None, cc_observation_sidecar := None\<rparr>))"

definition followup_observation :: "string \<Rightarrow> string \<Rightarrow> string option \<Rightarrow> dict" where
  "followup_observation status reason requested_protocol =
     [(''schema_version'', PInt 1), (''status'', PStr status), (''reason'', PStr reason)]
     @ (case requested_protocol of None \<Rightarrow> [] | Some p \<Rightarrow> [(''requested_protocol'', PStr p)])"

definition update_status :: "dict \<Rightarrow> string \<Rightarrow> string \<Rightarrow> dict" where
  "update_status observation status reason =
     dict_update observation [(''status'', PStr status), (''reason'', PStr reason)]"

definition finalize_followup_status :: "dict \<Rightarrow> int \<Rightarrow> string \<Rightarrow> dict" where
  "finalize_followup_status observation rc requested_protocol =
     (if dget observation ''fallback_used'' = PBool True
      then update_status observation ''FAIL'' ''followup_protocol_fallback''
      else if dget observation ''negotiated_protocol'' \<noteq> PStr requested_protocol
      then update_status observation ''FAIL'' ''followup_protocol_not_observed''
      else if is_int (dget observation ''http_status'')
              \<and> 200 \<le> int_val (dget observation ''http_status'')
              \<and> int_val (dget observation ''http_status'') < 400 \<and> rc = 0
      then update_status observation ''PASS'' ''healthy_independent_request''
      else update_status observation ''FAIL'' ''followup_unhealthy_response'')"

definition execute_followup_observation ::
    "client_env \<Rightarrow> client_config \<Rightarrow> string list \<Rightarrow> preflight \<Rightarrow> string \<Rightarrow> string \<Rightarrow> dict res" where
  "execute_followup_observation env followup command pf requested_protocol sch =
     rbind (initial_observation requested_protocol (Some sch) followup []) (\<lambda>observation.
       (case ce_run env call_followup command of
          PTimeout \<Rightarrow>
            Inr (dict_update observation
              [(''status'', PStr ''FAIL''), (''reason'', PStr ''followup_timeout''),
               (''transport_error'', PStr ''timeout'')])
        | PErrOS \<Rightarrow>
            Inr (dict_update observation
              [(''status'', PStr ''BLOCKED''), (''reason'', PStr ''followup_client_unavailable''),
               (''transport_error'', PStr ''client_unavailable'')])
        | PRaised e \<Rightarrow> Inl e
        | PDone rc out err \<Rightarrow>
            rbind (parse_writeout out (pf_writeout_mode pf)) (\<lambda>outcome.
              Inr (finalize_followup_status
                     (apply_outcome observation outcome rc err requested_protocol sch followup [])
                     rc requested_protocol))))"

definition FOLLOWUP_FIELDS :: "string list" where
  "FOLLOWUP_FIELDS = [''schema_version'', ''status'', ''reason'', ''requested_protocol'',
     ''downstream_protocol'', ''negotiated_protocol'', ''transport'', ''fallback_used'',
     ''http_status'', ''response_complete'', ''curl_exit_code'', ''transport_error'', ''connector'',
     ''integration_mode'', ''run_id'', ''transport_case_id'', ''target_authority_sha256'']"

definition followup_artifact_observation :: "dict \<Rightarrow> dict" where
  "followup_artifact_observation observation =
     filter (\<lambda>(k, v). k \<in> set FOLLOWUP_FIELDS) (dict_pop observation ''expected_transport'')"

text \<open>\<open>config.followup_protocol or config.protocol\<close>.\<close>

definition effective_followup_protocol :: "client_config \<Rightarrow> string" where
  "effective_followup_protocol config =
     (case cc_followup_protocol config of
        Some p \<Rightarrow> if p \<noteq> [] then p else cc_protocol config
      | None \<Rightarrow> cc_protocol config)"

text \<open>The part of \<open>_run_followup_observation\<close> after its configuration has been accepted.\<close>

definition followup_request ::
    "client_env \<Rightarrow> curl_inspection \<Rightarrow> client_config \<Rightarrow> string \<Rightarrow> string \<Rightarrow> dict res" where
  "followup_request env inspection followup normalized sch =
     rbind (preflight_curl normalized inspection followup) (\<lambda>pf.
       if pf_status pf \<noteq> ''READY'' then
         Inr (followup_observation ''BLOCKED''
           (case pf_reason pf of Some r \<Rightarrow> if r \<noteq> [] then r else ''followup_client_preflight_blocked''
            | None \<Rightarrow> ''followup_client_preflight_blocked'') (Some normalized))
       else (case build_curl_command followup pf of
           Inl (ProtocolClientError _) \<Rightarrow>
             Inr (followup_observation ''NOT_EXECUTED'' ''invalid_followup_configuration'' (Some normalized))
         | Inl e \<Rightarrow> Inl e
         | Inr command \<Rightarrow>
             rbind (execute_followup_observation env followup command pf normalized sch)
               (\<lambda>observation. Inr (followup_artifact_observation observation))))"

definition run_followup_observation ::
    "client_env \<Rightarrow> client_config \<Rightarrow> curl_inspection \<Rightarrow> dict option res" where
  "run_followup_observation env config inspection =
     (case cc_followup_url config of
        None \<Rightarrow> Inr None
      | Some url \<Rightarrow>
          rbind (followup_configuration config url (effective_followup_protocol config)) (\<lambda>followup.
            (case validate_config followup of
               Inl (ProtocolClientError _) \<Rightarrow>
                 Inr (Some (followup_observation ''NOT_EXECUTED'' ''invalid_followup_configuration'' None))
             | Inl e \<Rightarrow> Inl e
             | Inr (normalized, sch) \<Rightarrow>
                 rbind (followup_request env inspection followup normalized sch)
                   (\<lambda>observation. Inr (Some observation)))))"

section \<open>The run\<close>

definition blocked_observation ::
    "client_config \<Rightarrow> string \<Rightarrow> string option \<Rightarrow> dict \<Rightarrow> string \<Rightarrow> string \<Rightarrow> dict res" where
  "blocked_observation config protocol sch sidecar status reason =
     rbind (initial_observation protocol sch config sidecar) (\<lambda>observation.
       let o1 = set_status observation status reason
       in Inr (if status = ''BLOCKED''
               then dict_set o1 ''transport_error'' (PStr ''client_unavailable'') else o1))"

definition validated_config_or_default ::
    "client_config \<Rightarrow> (string \<times> string option \<times> string option) res" where
  "validated_config_or_default config =
     (case validate_config config of
        Inr (protocol, sch) \<Rightarrow> Inr (protocol, Some sch, None)
      | Inl (ProtocolClientError _) \<Rightarrow>
          (case normalize_protocol (cc_protocol config) of
             Inr protocol \<Rightarrow> Inr (protocol, None, Some ''invalid_client_configuration'')
           | Inl _ \<Rightarrow> Inr (''http1'', None, Some ''invalid_client_configuration''))
      | Inl e \<Rightarrow> Inl e)"

definition load_config_sidecar :: "client_env \<Rightarrow> client_config \<Rightarrow> (dict \<times> string option) res" where
  "load_config_sidecar env config =
     (case cc_observation_sidecar config of
        None \<Rightarrow> Inr ([], None)
      | Some path \<Rightarrow>
          (case fst (load_observation_sidecar (ce_root env) path (ce_os env)) of
             Inr sidecar \<Rightarrow> Inr (sidecar, None)
           | Inl (ProtocolClientError _) \<Rightarrow> Inr ([], Some ''invalid_observation_sidecar'')
           | Inl e \<Rightarrow> Inl e))"

definition write_client_result ::
    "client_env \<Rightarrow> client_config \<Rightarrow> curl_inspection \<Rightarrow> preflight \<Rightarrow> string list \<Rightarrow> dict
       \<Rightarrow> client_run_result step" where
  "write_client_result env config inspection pf command observation =
     sbind (write_artifacts env config inspection pf command observation) (\<lambda>_.
       sreturn \<lparr>rr_observation = observation, rr_inspection = inspection, rr_preflight = pf,
                rr_command = command\<rparr>)"

definition blocked_client_result ::
    "client_env \<Rightarrow> client_config \<Rightarrow> curl_inspection \<Rightarrow> preflight \<Rightarrow> string list \<Rightarrow> string
       \<Rightarrow> string option \<Rightarrow> dict \<Rightarrow> string \<Rightarrow> string \<Rightarrow> client_run_result step" where
  "blocked_client_result env config inspection pf command protocol sch sidecar status reason =
     sbind (slift (blocked_observation config protocol sch sidecar status reason)) (\<lambda>observation.
       write_client_result env config inspection pf command observation)"

definition execute_primary_observation ::
    "client_env \<Rightarrow> client_config \<Rightarrow> string list \<Rightarrow> preflight \<Rightarrow> string \<Rightarrow> string option \<Rightarrow> dict
       \<Rightarrow> dict res" where
  "execute_primary_observation env config command pf protocol sch sidecar =
     rbind (initial_observation protocol sch config sidecar) (\<lambda>observation.
       (case ce_run env call_primary command of
          PTimeout \<Rightarrow>
            Inr (dict_update observation
              [(''status'', PStr ''FAIL''), (''reason'', PStr ''curl_execution_timeout''),
               (''curl_exit_code'', PNone), (''transport_error'', PStr ''timeout'')])
        | PErrOS \<Rightarrow>
            Inr (dict_update observation
              [(''status'', PStr ''BLOCKED''), (''reason'', PStr ''curl_execution_unavailable''),
               (''transport_error'', PStr ''client_unavailable'')])
        | PRaised e \<Rightarrow> Inl e
        | PDone rc out err \<Rightarrow>
            rbind (parse_writeout out (pf_writeout_mode pf)) (\<lambda>outcome.
              finalize_status
                (apply_outcome observation outcome rc err protocol
                   (case sch of Some s \<Rightarrow> if s \<noteq> [] then s else ''http'' | None \<Rightarrow> ''http'')
                   config sidecar)
                protocol)))"

text \<open>The end of a run that reached curl.\<close>

definition finish_run ::
    "client_env \<Rightarrow> client_config \<Rightarrow> curl_inspection \<Rightarrow> preflight \<Rightarrow> string list \<Rightarrow> dict
       \<Rightarrow> client_run_result step" where
  "finish_run env config inspection pf command observation =
     sbind (write_artifacts env config inspection pf command observation) (\<lambda>_.
     sbind (slift (run_followup_observation env config inspection)) (\<lambda>followup.
     sbind (case followup of
              None \<Rightarrow> sreturn ()
            | Some f \<Rightarrow>
                put_json env 4 (cc_artifact_dir config @ [''client-followup-observation.json'']) f) (\<lambda>_.
     sreturn \<lparr>rr_observation = observation, rr_inspection = inspection, rr_preflight = pf,
              rr_command = command\<rparr>)))"

definition run_protocol_client :: "client_env \<Rightarrow> client_config \<Rightarrow> client_run_result step" where
  "run_protocol_client env config =
     sbind (slift (inspect_curl (ce_run env) (cc_curl config))) (\<lambda>inspection.
     sbind (slift (validated_config_or_default config)) (\<lambda>(protocol, sch, config_error).
     sbind (slift (load_config_sidecar env config)) (\<lambda>(sidecar, sidecar_error).
     sbind (slift (preflight_curl protocol inspection config)) (\<lambda>pf.
     (case config_error of
        Some err \<Rightarrow>
          blocked_client_result env config inspection pf [] protocol sch sidecar ''NOT_EXECUTED'' err
      | None \<Rightarrow>
          if pf_status pf \<noteq> ''READY'' then
            blocked_client_result env config inspection pf [] protocol sch sidecar ''BLOCKED''
              (case pf_reason pf of Some r \<Rightarrow> if r \<noteq> [] then r else ''client_preflight_blocked''
               | None \<Rightarrow> ''client_preflight_blocked'')
          else (case sidecar_error of
            Some err \<Rightarrow>
              blocked_client_result env config inspection pf [] protocol sch sidecar ''NOT_EXECUTED'' err
          | None \<Rightarrow>
              (case build_curl_command config pf of
                 Inl (ProtocolClientError _) \<Rightarrow>
                   blocked_client_result env config inspection pf [] protocol sch sidecar
                     ''NOT_EXECUTED'' ''invalid_client_configuration''
               | Inl e \<Rightarrow> slift (Inl e)
               | Inr command \<Rightarrow>
                   sbind (slift (execute_primary_observation env config command pf protocol sch sidecar))
                     (\<lambda>observation.
                        finish_run env config inspection pf command
                          (dict_pop observation ''expected_transport''))))))))) "

text \<open>The exit status of the command.\<close>

definition main :: "client_env \<Rightarrow> client_config \<Rightarrow> int step" where
  "main env config =
     sbind (run_protocol_client env config) (\<lambda>result.
       sreturn (if dget (rr_observation result) ''status'' = PStr ''PASS'' then 0 else 1))"

end
