(* ===== verification/ObservationFacts.thy ===== *)
theory ObservationFacts
  imports Observation
begin

text \<open>
  What the observation functions guarantee: a declarative reading of the strict PASS
  evidence and its equivalence with the validator, the closed vocabularies, the fields an
  observation can have, and when the final status is PASS.
\<close>

section \<open>Closed vocabularies\<close>

definition TRANSPORT_ERRORS :: "string list" where
  "TRANSPORT_ERRORS = [''none'', ''http_response_error'', ''dns_failure'', ''connection_failure'',
     ''transfer_incomplete'', ''timeout'', ''h2_failure'', ''h3_failure'', ''tls_failure'',
     ''protocol_failure'', ''client_or_network_failure'', ''not_executed'', ''client_unavailable'']"

lemma returncode_transport_error_range:
  assumes "returncode_transport_error rc st = Some e"
  shows "e \<in> set TRANSPORT_ERRORS"
proof -
  have "\<forall>e\<in>snd ` set CURL_RETURN_CODE_TRANSPORT_ERRORS. e \<in> set TRANSPORT_ERRORS"
    by (simp add: CURL_RETURN_CODE_TRANSPORT_ERRORS_def TRANSPORT_ERRORS_def)
  moreover have "map_of CURL_RETURN_CODE_TRANSPORT_ERRORS rc = Some e
      \<Longrightarrow> e \<in> snd ` set CURL_RETURN_CODE_TRANSPORT_ERRORS"
    by (auto dest!: map_of_SomeD simp: rev_image_eqI)
  ultimately show ?thesis
    using assms
    by (auto simp: returncode_transport_error_def split: if_splits)
      (auto simp: TRANSPORT_ERRORS_def)
qed

lemma classify_transport_error_range: "classify_transport_error rc err p st \<in> set TRANSPORT_ERRORS"
proof (cases "returncode_transport_error rc st")
  case None
  then show ?thesis
    by (simp add: classify_transport_error_def stderr_transport_error_def TRANSPORT_ERRORS_def Let_def)
next
  case (Some e)
  then show ?thesis
    by (simp add: classify_transport_error_def returncode_transport_error_range)
qed

lemma negotiated_protocol_range:
  "negotiated_protocol v p sch = PNone
     \<or> (\<exists>q\<in>set CANONICAL_PROTOCOLS. negotiated_protocol v p sch = PStr q)"
  by (simp add: negotiated_protocol_def CANONICAL_PROTOCOLS_def Let_def)

lemma expected_transport_range: "expected_transport p sch \<in> set CANONICAL_TRANSPORTS"
  by (simp add: expected_transport_def CANONICAL_TRANSPORTS_def)

lemma parse_number_nonneg:
  "parse_number v = PNone \<or> (\<exists>x. num_val (parse_number v) = Some x \<and> float_le (exact_int 0) x
     \<and> \<not> is_bool (parse_number v))"
  by (auto simp: parse_number_def split: pyval.splits option.splits)

lemma coerce_status_range:
  "coerce_status v = Inr w \<Longrightarrow> w = PNone \<or> (\<exists>i. w = PInt i \<and> 100 \<le> i \<and> i \<le> 999)"
  by (auto simp: coerce_status_def split: sum.splits exn.splits if_splits)

text \<open>The four fields of a parsed write-out.\<close>

definition outcome_ok :: "dict \<Rightarrow> bool" where
  "outcome_ok out \<longleftrightarrow>
     (dget out ''http_status'' = PNone
       \<or> (\<exists>i. dget out ''http_status'' = PInt i \<and> 100 \<le> i \<and> i \<le> 999))
     \<and> (dget out ''http_version'' = PNone \<or> is_str (dget out ''http_version''))
     \<and> (\<forall>k\<in>{''downloaded_bytes'', ''content_length_download''}.
          dget out k = PNone \<or> (\<exists>x. num_val (dget out k) = Some x \<and> float_le (exact_int 0) x
            \<and> \<not> is_bool (dget out k)))
     \<and> fst ` set out \<subseteq> {''http_status'', ''http_version'', ''downloaded_bytes'', ''content_length_download''}"

lemma outcome_fields_ok:
  assumes "coerce_status w = Inr st" and "ver = PNone \<or> is_str ver"
  shows "outcome_ok (outcome_fields st ver (parse_number a) (parse_number b))"
  using assms coerce_status_range [OF assms(1)] parse_number_nonneg [of a] parse_number_nonneg [of b]
  by (auto simp: outcome_ok_def outcome_fields_def)

lemma parse_writeout_ok: "parse_writeout out mode = Inr o' \<Longrightarrow> outcome_ok o'"
proof -
  have nil: "outcome_ok []" by (simp add: outcome_ok_def)
  have none: "PNone = parse_number PNone" by (simp add: parse_number_def)
  show "parse_writeout out mode = Inr o' \<Longrightarrow> outcome_ok o'"
    unfolding parse_writeout_def
    by (auto simp: rbind_eq_Inr Let_def nil intro: outcome_fields_ok
        outcome_fields_ok [where b = PNone, folded none]
        split: if_splits sum.splits exn.splits pyval.splits)
qed

section \<open>The evidence of a PASS\<close>

definition pass_evidence :: "dict \<Rightarrow> bool" where
  "pass_evidence obs \<longleftrightarrow>
     (let requested = dget obs ''requested_protocol''; expected = dget obs ''expected_transport''
      in py_eq (dget obs ''negotiated_protocol'') requested
       \<and> dget obs ''transport'' \<noteq> PNone
       \<and> (expected \<noteq> PNone \<longrightarrow> py_eq (dget obs ''transport'') expected)
       \<and> (expected = PNone \<longrightarrow>
            (requested = PStr ''h2'' \<longrightarrow> dget obs ''transport'' = PStr ''tls_tcp'')
            \<and> (requested = PStr ''h2c'' \<longrightarrow> dget obs ''transport'' = PStr ''tcp'')
            \<and> (requested = PStr ''h3'' \<longrightarrow> dget obs ''transport'' = PStr ''quic_udp''))
       \<and> (requested \<in> {PStr ''h2'', PStr ''h2c'', PStr ''h3''} \<longrightarrow> (\<exists>i\<ge>0. dget obs ''stream_id'' = PInt i))
       \<and> (requested \<in> {PStr ''h2'', PStr ''h3''} \<longrightarrow> dget obs ''alpn'' = requested)
       \<and> (requested = PStr ''h3'' \<longrightarrow> dget obs ''quic_udp_observed'' = PBool True
            \<and> dget obs ''quic_connection_id_present'' = PBool True))"

lemma in_modern:
  "in_str_set v [''h2'', ''h2c'', ''h3''] = Inr m \<longleftrightarrow>
     hashable v \<and> (m \<longleftrightarrow> v \<in> {PStr ''h2'', PStr ''h2c'', PStr ''h3''})"
  by (cases v) (auto simp: in_str_set_def)

lemma append_transport_empty:
  "append_transport_evidence_gaps obs expected ([], []) = ([], []) \<longleftrightarrow>
     dget obs ''transport'' \<noteq> PNone \<and> (expected \<noteq> PNone \<longrightarrow> py_eq (dget obs ''transport'') expected)"
  by (simp add: append_transport_evidence_gaps_def Let_def)

lemma append_alpn_empty:
  "append_alpn_evidence_gap obs a g = ([], []) \<longleftrightarrow> g = ([], []) \<and> dget obs ''alpn'' = PStr a"
  by (auto simp: append_alpn_evidence_gap_def Let_def split: prod.splits)

lemma append_h3_empty:
  "append_h3_evidence_gaps obs g = ([], []) \<longleftrightarrow> g = ([], [])
     \<and> dget obs ''quic_udp_observed'' = PBool True \<and> dget obs ''quic_connection_id_present'' = PBool True"
  by (cases g) (auto simp: append_h3_evidence_gaps_def)

lemma append_stream_empty:
  "append_stream_evidence_gaps obs requested g = Inr ([], []) \<longleftrightarrow>
     hashable requested \<and> g = ([], [])
     \<and> (requested \<in> {PStr ''h2'', PStr ''h2c'', PStr ''h3''} \<longrightarrow> (\<exists>i\<ge>0. dget obs ''stream_id'' = PInt i))"
  using has_invalid_stream_id_iff [of "dget obs ''stream_id''"]
  by (cases g)
    (auto simp: append_stream_evidence_gaps_def rbind_eq_Inr in_modern Let_def split: if_splits)

lemma observation_expected_transport_ok:
  "observation_expected_transport obs r = Inr e \<longleftrightarrow>
     (if dget obs ''expected_transport'' \<noteq> PNone then e = dget obs ''expected_transport''
      else hashable r \<and>
        e = (if r = PStr ''h2'' then PStr ''tls_tcp'' else if r = PStr ''h2c'' then PStr ''tcp''
             else if r = PStr ''h3'' then PStr ''quic_udp'' else PNone))"
  by (auto simp: observation_expected_transport_def Let_def)

lemma evidence_gaps_empty:
  assumes "hashable (dget obs ''requested_protocol'')"
  shows "evidence_gaps obs = Inr ([], []) \<longleftrightarrow> pass_evidence obs"
proof (cases "py_eq (dget obs ''negotiated_protocol'') (dget obs ''requested_protocol'')")
  case False
  then show ?thesis by (simp add: evidence_gaps_def pass_evidence_def)
next
  case True
  obtain e where e: "observation_expected_transport obs (dget obs ''requested_protocol'') = Inr e"
    using assms by (cases "dget obs ''expected_transport'' = PNone")
      (auto simp: observation_expected_transport_ok)
  have gaps: "evidence_gaps obs = Inr ([], []) \<longleftrightarrow>
      (\<exists>g. append_stream_evidence_gaps obs (dget obs ''requested_protocol'')
             (append_transport_evidence_gaps obs e ([], [])) = Inr g
         \<and> g = ([], [])
         \<and> (dget obs ''requested_protocol'' \<in> {PStr ''h2'', PStr ''h3''}
             \<longrightarrow> dget obs ''alpn'' = dget obs ''requested_protocol'')
         \<and> (dget obs ''requested_protocol'' = PStr ''h3'' \<longrightarrow> dget obs ''quic_udp_observed'' = PBool True
             \<and> dget obs ''quic_connection_id_present'' = PBool True))"
    using True e
    by (cases "dget obs ''requested_protocol'' = PStr ''h2''";
        cases "dget obs ''requested_protocol'' = PStr ''h3''")
      (auto simp: evidence_gaps_def rbind_eq_Inr append_alpn_empty append_h3_empty Let_def)
  show ?thesis
    unfolding gaps
    using True assms e
    by (auto simp: append_stream_empty append_transport_empty pass_evidence_def
        observation_expected_transport_ok Let_def split: if_splits)
qed

section \<open>Well-formed observations\<close>

text \<open>The type of each optional field of an observation.\<close>

definition observation_field_ok :: "string \<Rightarrow> pyval \<Rightarrow> bool" where
  "observation_field_ok k v =
     (if k = ''stream_id'' then \<not> has_invalid_stream_id v
      else if k \<in> {''transport_case_id'', ''quic_version''} then \<not> has_invalid_bounded_token v
      else if k = ''target_authority_sha256'' then \<not> has_invalid_sha256_token v
      else if k \<in> {''connection_reused'', ''quic_connection_id_present'', ''quic_udp_observed'', ''stream_reset''}
      then is_bool v
      else if k = ''alpn'' then v \<in> {PStr ''h2'', PStr ''h3''}
      else if k = ''stream_reset_code'' then \<not> has_invalid_stream_reset_code v
      else if k \<in> set RAW_CONNECTION_ID_KEYS then False
      else True)"

definition one_of :: "string list \<Rightarrow> pyval \<Rightarrow> bool" where
  "one_of S v \<longleftrightarrow> (\<exists>s\<in>set S. v = PStr s)"

definition observation_wf :: "dict \<Rightarrow> bool" where
  "observation_wf obs \<longleftrightarrow>
     one_of CANONICAL_PROTOCOLS (dget obs ''requested_protocol'')
     \<and> one_of CANONICAL_PROTOCOLS (dget obs ''downstream_protocol'')
     \<and> (dget obs ''upstream_protocol'' = PNone \<or> one_of CANONICAL_PROTOCOLS (dget obs ''upstream_protocol''))
     \<and> (dget obs ''negotiated_protocol'' = PNone \<or> one_of CANONICAL_PROTOCOLS (dget obs ''negotiated_protocol''))
     \<and> (dget obs ''transport'' = PNone \<or> one_of CANONICAL_TRANSPORTS (dget obs ''transport''))
     \<and> is_bool (dget obs ''fallback_used'')
     \<and> (\<forall>k. has_key obs k \<longrightarrow> observation_field_ok k (dget obs k))"

lemma not_in_set_Nil: "not_in_set v S m = Inr [] \<longleftrightarrow> one_of S v"
  by (auto simp: not_in_set_def rbind_eq_Inr one_of_def in_str_set_eq_True [symmetric])

lemma optional_not_in_set_Nil: "optional_not_in_set v S m = Inr [] \<longleftrightarrow> v = PNone \<or> one_of S v"
  by (auto simp: optional_not_in_set_def not_in_set_Nil)

lemma invalid_if_present_Nil:
  "invalid_if_present obs k P m = [] \<longleftrightarrow> (has_key obs k \<longrightarrow> \<not> P (dget obs k))"
  by (auto simp: invalid_if_present_def)

lemma observation_fields_ok_iff:
  "(\<forall>k. has_key obs k \<longrightarrow> observation_field_ok k (dget obs k)) \<longleftrightarrow>
     (has_key obs ''stream_id'' \<longrightarrow> \<not> has_invalid_stream_id (dget obs ''stream_id''))
     \<and> (has_key obs ''transport_case_id'' \<longrightarrow> \<not> has_invalid_bounded_token (dget obs ''transport_case_id''))
     \<and> (has_key obs ''target_authority_sha256'' \<longrightarrow>
          \<not> has_invalid_sha256_token (dget obs ''target_authority_sha256''))
     \<and> (has_key obs ''connection_reused'' \<longrightarrow> is_bool (dget obs ''connection_reused''))
     \<and> (has_key obs ''quic_connection_id_present'' \<longrightarrow> is_bool (dget obs ''quic_connection_id_present''))
     \<and> (has_key obs ''quic_udp_observed'' \<longrightarrow> is_bool (dget obs ''quic_udp_observed''))
     \<and> (has_key obs ''quic_version'' \<longrightarrow> \<not> has_invalid_bounded_token (dget obs ''quic_version''))
     \<and> (has_key obs ''alpn'' \<longrightarrow> one_of [''h2'', ''h3''] (dget obs ''alpn''))
     \<and> (has_key obs ''stream_reset'' \<longrightarrow> is_bool (dget obs ''stream_reset''))
     \<and> (has_key obs ''stream_reset_code'' \<longrightarrow> \<not> has_invalid_stream_reset_code (dget obs ''stream_reset_code''))
     \<and> (\<forall>k\<in>set RAW_CONNECTION_ID_KEYS. \<not> has_key obs k)" (is "?L \<longleftrightarrow> ?R")
proof
  assume L: ?L
  have raw: "\<forall>k\<in>set RAW_CONNECTION_ID_KEYS. \<not> has_key obs k"
    using L by (auto simp: observation_field_ok_def RAW_CONNECTION_ID_KEYS_def)
  show ?R
    using raw L [rule_format, of "''stream_id''"] L [rule_format, of "''transport_case_id''"]
      L [rule_format, of "''target_authority_sha256''"] L [rule_format, of "''connection_reused''"]
      L [rule_format, of "''quic_connection_id_present''"] L [rule_format, of "''quic_udp_observed''"]
      L [rule_format, of "''quic_version''"] L [rule_format, of "''alpn''"]
      L [rule_format, of "''stream_reset''"] L [rule_format, of "''stream_reset_code''"]
    by (simp add: observation_field_ok_def one_of_def)
next
  assume ?R
  then show ?L by (auto simp: observation_field_ok_def one_of_def)
qed

lemma protocol_fields_Nil:
  "validate_observation_protocol_fields obs = Inr [] \<longleftrightarrow>
     one_of CANONICAL_PROTOCOLS (dget obs ''requested_protocol'')
     \<and> one_of CANONICAL_PROTOCOLS (dget obs ''downstream_protocol'')
     \<and> (dget obs ''upstream_protocol'' = PNone \<or> one_of CANONICAL_PROTOCOLS (dget obs ''upstream_protocol''))
     \<and> (dget obs ''negotiated_protocol'' = PNone \<or> one_of CANONICAL_PROTOCOLS (dget obs ''negotiated_protocol''))
     \<and> (dget obs ''transport'' = PNone \<or> one_of CANONICAL_TRANSPORTS (dget obs ''transport''))"
  by (simp add: validate_observation_protocol_fields_def rbind_eq_Inr not_in_set_Nil optional_not_in_set_Nil)

lemma request_fields_Nil:
  "validate_observation_request_fields obs = [] \<longleftrightarrow>
     is_bool (dget obs ''fallback_used'')
     \<and> (has_key obs ''stream_id'' \<longrightarrow> \<not> has_invalid_stream_id (dget obs ''stream_id''))
     \<and> (has_key obs ''transport_case_id'' \<longrightarrow> \<not> has_invalid_bounded_token (dget obs ''transport_case_id''))
     \<and> (has_key obs ''target_authority_sha256'' \<longrightarrow>
          \<not> has_invalid_sha256_token (dget obs ''target_authority_sha256''))"
  by (simp add: validate_observation_request_fields_def invalid_if_present_Nil)

lemma connection_fields_Nil:
  "validate_observation_connection_fields obs = Inr [] \<longleftrightarrow>
     (has_key obs ''connection_reused'' \<longrightarrow> is_bool (dget obs ''connection_reused''))
     \<and> (has_key obs ''quic_connection_id_present'' \<longrightarrow> is_bool (dget obs ''quic_connection_id_present''))
     \<and> (has_key obs ''quic_udp_observed'' \<longrightarrow> is_bool (dget obs ''quic_udp_observed''))
     \<and> (has_key obs ''quic_version'' \<longrightarrow> \<not> has_invalid_bounded_token (dget obs ''quic_version''))
     \<and> (has_key obs ''alpn'' \<longrightarrow> one_of [''h2'', ''h3''] (dget obs ''alpn''))"
  by (cases "has_key obs ''alpn''")
    (simp_all add: validate_observation_connection_fields_def rbind_eq_Inr not_in_set_Nil
      invalid_if_present_Nil conj_ac)

lemma stream_fields_Nil:
  "validate_observation_stream_fields obs = [] \<longleftrightarrow>
     (has_key obs ''stream_reset'' \<longrightarrow> is_bool (dget obs ''stream_reset''))
     \<and> (has_key obs ''stream_reset_code'' \<longrightarrow> \<not> has_invalid_stream_reset_code (dget obs ''stream_reset_code''))
     \<and> (\<forall>k\<in>set RAW_CONNECTION_ID_KEYS. \<not> has_key obs k)"
  by (simp add: validate_observation_stream_fields_def invalid_if_present_Nil list_ex_iff)

lemma pass_evidence_Nil:
  "hashable (dget obs ''requested_protocol'') \<Longrightarrow> validate_pass_evidence obs = Inr [] \<longleftrightarrow>
     dget obs ''fallback_used'' = PBool False \<and> pass_evidence obs"
  by (auto simp: validate_pass_evidence_def rbind_eq_Inr evidence_gaps_empty [symmetric]
      split: prod.splits)

lemma one_of_hashable: "one_of S v \<Longrightarrow> hashable v"
  by (auto simp: one_of_def)

lemma validate_Nil:
  "validate_protocol_observation obs strict = Inr [] \<longleftrightarrow>
     validate_observation_protocol_fields obs = Inr []
     \<and> validate_observation_request_fields obs = []
     \<and> validate_observation_connection_fields obs = Inr []
     \<and> validate_observation_stream_fields obs = []
     \<and> (strict \<longrightarrow> validate_pass_evidence obs = Inr [])"
  by (auto simp: validate_protocol_observation_def rbind_eq_Inr)

lemma validate_observation_iff:
  "validate_protocol_observation obs strict = Inr [] \<longleftrightarrow>
     observation_wf obs \<and> (strict \<longrightarrow> dget obs ''fallback_used'' = PBool False \<and> pass_evidence obs)"
proof -
  have wf: "observation_wf obs \<longleftrightarrow>
     validate_observation_protocol_fields obs = Inr []
     \<and> validate_observation_request_fields obs = []
     \<and> validate_observation_connection_fields obs = Inr []
     \<and> validate_observation_stream_fields obs = []"
    unfolding observation_wf_def observation_fields_ok_iff protocol_fields_Nil request_fields_Nil
      connection_fields_Nil stream_fields_Nil
    by argo
  have "observation_wf obs \<Longrightarrow> hashable (dget obs ''requested_protocol'')"
    by (auto simp: observation_wf_def dest: one_of_hashable)
  then show ?thesis
    unfolding validate_Nil using wf pass_evidence_Nil by blast
qed

section \<open>The final status\<close>

definition FINAL_FIELDS :: "string list" where
  "FINAL_FIELDS = [''status'', ''reason'', ''missing_evidence'', ''validation_errors'']"

lemma set_status_other: "k \<noteq> ''status'' \<Longrightarrow> k \<noteq> ''reason'' \<Longrightarrow> dget (set_status obs st r) k = dget obs k"
  by (simp add: set_status_def)

lemma set_status_status [simp]:
  "dget (set_status obs st r) ''status'' = PStr st" "dget (set_status obs st r) ''reason'' = PStr r"
  by (simp_all add: set_status_def)

lemma has_key_set_status [simp]:
  "has_key (set_status obs st r) k \<longleftrightarrow> k \<in> {''status'', ''reason''} \<or> has_key obs k"
  by (auto simp: set_status_def)

definition FINAL_STATUSES :: "string list" where
  "FINAL_STATUSES = [''PASS'', ''FAIL'', ''NOT_EXECUTED'', ''UNSUPPORTED_BY_HOST'']"

text \<open>Only the status fields differ, and the status is one of the four.\<close>

definition final_frame :: "dict \<Rightarrow> dict \<Rightarrow> bool" where
  "final_frame obs obs' \<longleftrightarrow>
     (\<forall>k. k \<notin> set FINAL_FIELDS \<longrightarrow> dget obs' k = dget obs k \<and> (has_key obs' k \<longleftrightarrow> has_key obs k))
     \<and> one_of FINAL_STATUSES (dget obs' ''status'')"

lemma final_frame_set_status: "st \<in> set FINAL_STATUSES \<Longrightarrow> final_frame obs (set_status obs st r)"
  by (auto simp: final_frame_def set_status_other FINAL_FIELDS_def one_of_def)

lemma final_frame_more:
  "final_frame obs obs' \<Longrightarrow> k \<in> set FINAL_FIELDS \<Longrightarrow> k \<noteq> ''status'' \<Longrightarrow> final_frame obs (dict_set obs' k v)"
  by (auto simp: final_frame_def)

lemma final_frame_pass: "final_frame obs (dict_set obs ''status'' (PStr ''PASS''))"
  by (auto simp: final_frame_def FINAL_FIELDS_def FINAL_STATUSES_def one_of_def)

lemma finalize_status_frame: "finalize_status obs p = Inr obs' \<Longrightarrow> final_frame obs obs'"
proof -
  have st: "''FAIL'' \<in> set FINAL_STATUSES" "''NOT_EXECUTED'' \<in> set FINAL_STATUSES"
    "''UNSUPPORTED_BY_HOST'' \<in> set FINAL_STATUSES"
    by (simp_all add: FINAL_STATUSES_def)
  have k: "''missing_evidence'' \<in> set FINAL_FIELDS" "''validation_errors'' \<in> set FINAL_FIELDS"
    by (simp_all add: FINAL_FIELDS_def)
  show "finalize_status obs p = Inr obs' \<Longrightarrow> final_frame obs obs'"
    unfolding finalize_status_def
    by (auto simp: rbind_eq_Inr st k final_frame_set_status final_frame_more final_frame_pass
        split: if_splits prod.splits)
qed

lemma finalize_status_pass:
  assumes "finalize_status obs p = Inr obs'"
  shows "dget obs' ''status'' = PStr ''PASS'' \<longleftrightarrow>
    dget obs ''negotiated_protocol'' = PStr p \<and> in_int_set (dget obs ''curl_exit_code'') [0, 22] = Inr True
    \<and> observation_wf obs \<and> dget obs ''fallback_used'' = PBool False \<and> pass_evidence obs"
    (is "?pass \<longleftrightarrow> ?spec")
proof
  assume ?pass
  with assms show ?spec
    by (auto simp: finalize_status_def rbind_eq_Inr validate_observation_iff split: if_splits prod.splits)
next
  assume R: ?spec
  then have "evidence_gaps obs = Inr ([], [])"
    by (intro evidence_gaps_empty [THEN iffD2]) (auto simp: observation_wf_def dest: one_of_hashable)
  moreover from R have "validate_protocol_observation obs True = Inr []"
    by (simp add: validate_observation_iff)
  ultimately show ?pass using assms R by (auto simp: finalize_status_def)
qed

section \<open>Fields of the provenance\<close>

definition keys_in :: "string list \<Rightarrow> dict \<Rightarrow> bool" where
  "keys_in S d \<longleftrightarrow> fst ` set d \<subseteq> set S"

lemma keys_in_has_key: "keys_in S d \<longleftrightarrow> (\<forall>k. has_key d k \<longrightarrow> k \<in> set S)"
  by (auto simp: keys_in_def has_key_def)

lemma keys_in_Nil [simp]: "keys_in S []"
  by (simp add: keys_in_def)

lemma keys_in_set [simp, intro]: "keys_in S d \<Longrightarrow> k \<in> set S \<Longrightarrow> keys_in S (dict_set d k v)"
  by (auto simp: keys_in_has_key)

lemma keys_in_update [simp, intro]: "keys_in S d \<Longrightarrow> keys_in S e \<Longrightarrow> keys_in S (dict_update d e)"
  by (auto simp: keys_in_has_key has_key_update) (auto simp: has_key_def)

lemma keys_in_pop [simp, intro]: "keys_in S d \<Longrightarrow> keys_in S (dict_pop d k)"
  by (auto simp: keys_in_has_key)

lemma keys_in_mono: "keys_in S d \<Longrightarrow> set S \<subseteq> set T \<Longrightarrow> keys_in T d"
  by (auto simp: keys_in_def)

definition PROVENANCE_FIELDS :: "string list" where
  "PROVENANCE_FIELDS = [''connector'', ''integration_mode'', ''run_id'', ''transaction_id'', ''rule_id'',
     ''phase'', ''transport_case_id'', ''target_authority_sha256'', ''upstream_protocol'', ''stream_id'']
     @ PROVENANCE_SIDECAR_FIELDS"

lemma keys_in_provenance_texts:
  "provenance_texts fs acc = Inr d \<Longrightarrow> keys_in S acc \<Longrightarrow> fst ` set fs \<subseteq> set S \<Longrightarrow> keys_in S d"
proof (induction fs arbitrary: acc)
  case (Cons f fs)
  obtain name v where f: "f = (name, v)" by (cases f)
  with Cons.prems(1) obtain tx where
    "provenance_texts fs (case tx of None \<Rightarrow> acc | Some t \<Rightarrow> dict_set acc name (PStr t)) = Inr d"
    by (auto simp: rbind_eq_Inr)
  then show ?case using Cons.IH Cons.prems f by (cases tx) auto
qed simp

lemma keys_in_copy_present:
  "keys_in S acc \<Longrightarrow> set names \<subseteq> set S \<Longrightarrow> keys_in S (copy_present names sidecar acc)"
  by (induction names sidecar acc rule: copy_present.induct) auto

lemma provenance_keys:
  assumes "provenance config sidecar = Inr d"
  shows "keys_in PROVENANCE_FIELDS d"
proof -
  let ?S = PROVENANCE_FIELDS
  from assms obtain f1 f2 f3 f4 where
    p1: "provenance_texts (provenance_text_fields config) [] = Inr f1"
    and p2: "provenance_case_id config f1 = Inr f2"
    and p3: "provenance_upstream config (provenance_authority config f2) = Inr f3"
    and p4: "provenance_stream config sidecar f3 = Inr f4"
    and d: "d = copy_present PROVENANCE_SIDECAR_FIELDS sidecar f4"
    by (auto simp: provenance_def rbind_eq_Inr)
  have mem: "''transport_case_id'' \<in> set ?S" "''target_authority_sha256'' \<in> set ?S"
    "''upstream_protocol'' \<in> set ?S" "''stream_id'' \<in> set ?S"
    by (simp_all add: PROVENANCE_FIELDS_def)
  have "keys_in ?S f1"
    using keys_in_provenance_texts [OF p1 keys_in_Nil]
    by (simp add: provenance_text_fields_def PROVENANCE_FIELDS_def)
  then have "keys_in ?S f2"
    using p2 mem by (auto simp: provenance_case_id_def split: option.splits if_splits)
  then have "keys_in ?S f3"
    using p3 mem by (auto simp: provenance_upstream_def provenance_authority_def rbind_eq_Inr
        split: option.splits)
  then have "keys_in ?S f4"
    using p4 mem by (auto simp: provenance_stream_def Let_def split: if_splits)
  then show ?thesis
    unfolding d by (rule keys_in_copy_present) (auto simp: PROVENANCE_FIELDS_def)
qed

end
