(* ===== verification/CurlFacts.thy ===== *)
theory CurlFacts
  imports CurlCommand
begin

text \<open>
  The command line as curl reads it: which options it has, which were checked by the
  preflight, and which correlation header it sends.
\<close>

section \<open>Reading a command line\<close>

definition VALUE_OPTIONS :: "string list" where
  "VALUE_OPTIONS = [''--output'', ''--request'', ''--max-time'', ''--connect-timeout'', ''--cacert'',
     ''--resolve'', ''--header'', ''--data-binary'', ''--write-out'']"

text \<open>Options with their value, flags with an empty one; a target has the empty name.\<close>

fun curl_parse :: "string list \<Rightarrow> (string \<times> string) list" where
  "curl_parse [] = []"
| "curl_parse [w] = (if startswith w ''--'' then [(w, [])] else [([], w)])"
| "curl_parse (w # v # ws) =
     (if w \<in> set VALUE_OPTIONS then (w, v) # curl_parse ws
      else if startswith w ''--'' then (w, []) # curl_parse (v # ws)
      else ([], w) # curl_parse (v # ws))"

lemma curl_parse_pairs:
  "opt \<in> set VALUE_OPTIONS \<Longrightarrow>
     curl_parse (concat (map (\<lambda>x. [opt, f x]) xs) @ rest) = map (\<lambda>x. (opt, f x)) xs @ curl_parse rest"
  by (induction xs) auto

lemma curl_parse_option:
  "opt \<in> set VALUE_OPTIONS \<Longrightarrow>
     curl_parse ((case x of None \<Rightarrow> [] | Some a \<Rightarrow> [opt, f a]) @ rest)
     = (case x of None \<Rightarrow> [] | Some a \<Rightarrow> [(opt, f a)]) @ curl_parse rest"
  by (auto split: option.splits)

lemma curl_parse_flag:
  "w \<notin> set VALUE_OPTIONS \<Longrightarrow> startswith w ''--'' \<Longrightarrow> curl_parse (w # rest) = (w, []) # curl_parse rest"
  by (cases rest) auto

text \<open>A URL with a scheme does not look like an option.\<close>

lemma urlsplit_not_option:
  assumes "urlsplit url = Inr r" and "sr_scheme r \<noteq> []"
  shows "\<not> startswith url ''--''"
proof
  assume "startswith url ''--''"
  then obtain rest where url: "url = CHR ''-'' # rest"
    by (auto simp: startswith_def take_Suc split: list.splits) (metis append_take_drop_id append_Cons list.sel(3) take_Suc)
  have "\<not> CHR ''-'' \<le> CHR '' ''" by (simp add: less_eq_char_def)
  then obtain rest' where c: "clean_url url = CHR ''-'' # rest'"
    by (simp add: clean_url_def url)
  moreover have "\<not> is_alpha_ascii (CHR ''-'')"
    by (simp add: is_alpha_ascii_def is_upper_ascii_def is_lower_ascii_def less_eq_char_def)
  ultimately have "fst (split_scheme (clean_url url)) = []"
    by (auto simp: split_scheme_def Let_def split: prod.splits)
  with assms show False
    by (auto simp: urlsplit_def Let_def split: prod.splits if_splits)
qed

definition SELECTORS :: "string list" where
  "SELECTORS = [''--http1.0'', ''--http1.1'', ''--http2'', ''--http2-prior-knowledge'', ''--http3'', ''--http3-only'']"

definition optional_options :: "client_config \<Rightarrow> (string \<times> string) list" where
  "optional_options config =
     (case cc_connect_timeout config of None \<Rightarrow> []
      | Some t \<Rightarrow> [(''--connect-timeout'', format_timeout t)])
     @ (if cc_insecure config then [(''--insecure'', [])] else [])
     @ (case cc_cacert config of None \<Rightarrow> [] | Some p \<Rightarrow> [(''--cacert'', p)])
     @ map (\<lambda>item. (''--resolve'', item)) (cc_resolve config)
     @ map (\<lambda>header. (''--header'', header)) (cc_headers config)
     @ (case cc_transport_case_id config of None \<Rightarrow> []
        | Some t \<Rightarrow> [(''--header'', TRANSPORT_CASE_HEADER @ t)])
     @ (case cc_data_file config of None \<Rightarrow> [] | Some p \<Rightarrow> [(''--data-binary'', ''@'' @ p)])"

lemma curl_parse_arguments:
  assumes "flag \<notin> set VALUE_OPTIONS" "startswith flag ''--''" "\<not> startswith (cc_url config) ''--''"
  shows "curl_parse (tl (curl_arguments config flag out)) =
    [(''--silent'', []), (''--show-error'', []), (''--fail-with-body'', []), (''--output'', ''/dev/null''),
     (''--request'', cc_request config), (''--max-time'', format_timeout (cc_timeout config))]
    @ optional_options config @ [(flag, []), (''--write-out'', out), ([], cc_url config)]"
proof -
  have v: "''--connect-timeout'' \<in> set VALUE_OPTIONS" "''--cacert'' \<in> set VALUE_OPTIONS"
    "''--resolve'' \<in> set VALUE_OPTIONS" "''--header'' \<in> set VALUE_OPTIONS" "''--data-binary'' \<in> set VALUE_OPTIONS"
    "''--insecure'' \<notin> set VALUE_OPTIONS" "startswith ''--insecure'' ''--''"
    by (simp_all add: VALUE_OPTIONS_def startswith_def)
  have tail: "curl_parse [flag, ''--write-out'', out, cc_url config] = [(flag, []), (''--write-out'', out), ([], cc_url config)]"
    using assms by (simp add: curl_parse_flag VALUE_OPTIONS_def)
  have "curl_parse (optional_arguments config @ rest) = optional_options config @ curl_parse rest" for rest
    unfolding optional_arguments_def optional_options_def
    by (simp add: curl_parse_option curl_parse_pairs v curl_parse_flag del: curl_parse.simps)
  then show ?thesis
    using tail by (simp add: curl_arguments_def curl_parse_flag startswith_def VALUE_OPTIONS_def)
qed

lemma validate_config_url:
  assumes "validate_config config = Inr (p, sch)"
  shows "\<not> startswith (cc_url config) ''--''"
proof -
  from assms obtain r where "urlsplit (cc_url config) = Inr r" "sr_scheme r \<in> {''http'', ''https''}"
    by (auto simp: validate_config_def validate_url_def rbind_eq_Inr raise_if_eq)
  then show ?thesis by (auto dest: urlsplit_not_option)
qed

lemma protocol_flag_facts:
  assumes "map_of PROTOCOL_FLAGS p = Some flag"
  shows "flag \<in> set SELECTORS" "flag \<noteq> ''--http3''" "flag \<notin> set VALUE_OPTIONS" "startswith flag ''--''"
    "map_of PROTOCOL_REQUIREMENTS p = Some (fst (the (map_of PROTOCOL_REQUIREMENTS p)), [flag])"
    "p \<in> set CANONICAL_PROTOCOLS"
  using assms
  by (auto simp: PROTOCOL_FLAGS_def SELECTORS_def VALUE_OPTIONS_def startswith_def
      PROTOCOL_REQUIREMENTS_def CANONICAL_PROTOCOLS_def split: if_splits)

lemma build_curl_command_parse:
  assumes "build_curl_command config pf = Inr cmd"
  obtains p sch flag where "validate_config config = Inr (p, sch)" and "map_of PROTOCOL_FLAGS p = Some flag"
    and "curl_parse (tl cmd) =
      [(''--silent'', []), (''--show-error'', []), (''--fail-with-body'', []), (''--output'', ''/dev/null''),
       (''--request'', cc_request config), (''--max-time'', format_timeout (cc_timeout config))]
      @ optional_options config
      @ [(flag, []), (''--write-out'', writeout_format (pf_writeout_mode pf)), ([], cc_url config)]"
proof -
  from assms obtain p sch flag where c: "validate_config config = Inr (p, sch)"
    "map_of PROTOCOL_FLAGS p = Some flag"
    "cmd = curl_arguments config flag (writeout_format (pf_writeout_mode pf))"
    by (rule build_curl_command_ok)
  with curl_parse_arguments [of flag config] protocol_flag_facts [OF c(2)] validate_config_url [OF c(1)]
  show thesis by (intro that) auto
qed

lemma optional_options_checked: "fst ` set (optional_options config) \<subseteq> set (optional_curl_options config)"
proof -
  have case_option: "fst ` set (case x of None \<Rightarrow> [] | Some a \<Rightarrow> [(opt, f a)]) = (if x = None then {} else {opt})"
    for x :: "'z option" and opt :: string and f :: "'z \<Rightarrow> string"
    by (cases x) auto
  have mapped: "fst ` set (map (\<lambda>x. (opt, x)) xs) = (if xs = [] then {} else {opt})"
    for opt :: string and xs :: "string list"
    by (cases xs) (auto simp: image_image)
  show ?thesis
    unfolding optional_options_def optional_curl_options_def set_append image_Un case_option mapped
    by (cases "cc_insecure config") simp_all
qed

lemma optional_options_names: "(opt, v) \<in> set (optional_options config) \<Longrightarrow>
    opt \<in> {''--connect-timeout'', ''--insecure'', ''--data-binary'', ''--cacert'', ''--resolve'', ''--header''}"
  using optional_options_checked [of config]
  by (auto simp: optional_curl_options_def image_subset_iff dest!: bspec split: if_splits)

lemma optional_options_selectors: "filter (\<lambda>(opt, v). opt \<in> set SELECTORS) (optional_options config) = []"
  by (auto simp: SELECTORS_def filter_empty_conv dest!: optional_options_names)

lemma optional_options_named: "filter (\<lambda>(opt, v). opt = []) (optional_options config) = []"
  by (auto simp: filter_empty_conv dest!: optional_options_names)

section \<open>The preflight covers the command\<close>

lemma preflight_ready:
  assumes "preflight_curl p insp config = Inr pf" and "pf_status pf = ''READY''"
  obtains q feats opts where "normalize_protocol p = Inr q"
    and "map_of PROTOCOL_REQUIREMENTS q = Some (feats, opts)" and "ci_error insp = None"
    and "\<forall>f\<in>set feats. upper_str f \<in> set (ci_features insp)"
    and "\<forall>opt\<in>set (COMMON_CURL_OPTIONS @ opts @ optional_curl_options config). lower_str opt \<in> set (ci_options insp)"
proof -
  from assms obtain q feats opts where q: "normalize_protocol p = Inr q"
    "map_of PROTOCOL_REQUIREMENTS q = Some (feats, opts)"
    by (auto simp: preflight_curl_def rbind_eq_Inr split: option.splits)
  with assms show thesis
    by (intro that [OF q])
      (auto simp: preflight_curl_def Let_def filter_empty_conv split: option.splits if_splits)
qed

lemma normalize_protocol_idem:
  assumes "normalize_protocol p = Inr q"
  shows "normalize_protocol q = Inr q"
proof -
  have "q \<in> set CANONICAL_PROTOCOLS" using assms by (rule normalize_protocol_canonical)
  moreover have "list_all (\<lambda>q. lower_str (strip q) = q) CANONICAL_PROTOCOLS" by code_simp
  ultimately have "lower_str (strip q) = q" by (simp add: list_all_iff)
  with \<open>q \<in> set CANONICAL_PROTOCOLS\<close> show ?thesis by (simp add: normalize_protocol_def)
qed

lemma command_options_checked:
  assumes build: "build_curl_command config pf = Inr cmd"
    and vc: "validate_config config = Inr (p, sch)" and pre: "preflight_curl p insp config = Inr pf"
    and opt: "(opt, v) \<in> set (curl_parse (tl cmd))" "opt \<noteq> []"
  shows "lower_str opt \<in> set (ci_options insp)"
proof -
  obtain p' sch' flag where c: "validate_config config = Inr (p', sch')" "map_of PROTOCOL_FLAGS p' = Some flag"
    and parse: "curl_parse (tl cmd) =
      [(''--silent'', []), (''--show-error'', []), (''--fail-with-body'', []), (''--output'', ''/dev/null''),
       (''--request'', cc_request config), (''--max-time'', format_timeout (cc_timeout config))]
      @ optional_options config
      @ [(flag, []), (''--write-out'', writeout_format (pf_writeout_mode pf)), ([], cc_url config)]"
    using build by (rule build_curl_command_parse)
  have "pf_status pf = ''READY''" using build by (auto elim: build_curl_command_ok)
  with pre obtain q feats opts where q: "normalize_protocol p = Inr q"
    "map_of PROTOCOL_REQUIREMENTS q = Some (feats, opts)"
    and ok: "\<forall>opt\<in>set (COMMON_CURL_OPTIONS @ opts @ optional_curl_options config). lower_str opt \<in> set (ci_options insp)"
    by (rule preflight_ready)
  have "q = p" "p' = p"
    using q(1) c(1) vc normalize_protocol_idem [OF validate_config_protocol [OF vc]] by auto
  then have "opts = [flag]"
    using q(2) c(2) protocol_flag_facts(5) by fastforce
  then have "set [''--silent'', ''--show-error'', ''--fail-with-body'', ''--output'', ''--request'', ''--max-time'',
      ''--write-out'', flag] \<union> fst ` set (optional_options config)
      \<subseteq> set (COMMON_CURL_OPTIONS @ opts @ optional_curl_options config)"
    using optional_options_checked [of config] by (auto simp: COMMON_CURL_OPTIONS_def)
  moreover have "opt \<in> set [''--silent'', ''--show-error'', ''--fail-with-body'', ''--output'', ''--request'', ''--max-time'',
      ''--write-out'', flag] \<union> fst ` set (optional_options config)"
    using opt unfolding parse by (auto simp: rev_image_eqI)
  ultimately show ?thesis using ok by blast
qed

section \<open>The correlation header\<close>

definition header_name :: "string \<Rightarrow> string" where
  "header_name h = lower_str (strip (fst (partition_at (CHR '':'') h)))"

lemma validate_headers_names:
  "validate_headers hs = Inr u \<Longrightarrow> h \<in> set hs \<Longrightarrow> header_name h \<noteq> ''x-msconnector-transport-case''"
  by (induction hs)
    (auto simp: validate_header_def header_name_def rbind_eq_Inr raise_if_eq Let_def split: prod.splits)

lemma transport_case_header_name: "header_name (TRANSPORT_CASE_HEADER @ t) = ''x-msconnector-transport-case''"
proof -
  have "lower_str (strip ''X-MSConnector-Transport-Case'') = ''x-msconnector-transport-case''"
    by code_simp
  then show ?thesis by (simp add: header_name_def TRANSPORT_CASE_HEADER_def)
qed

lemma command_correlation_header:
  assumes "build_curl_command config pf = Inr cmd"
  shows "filter (\<lambda>(opt, v). opt = ''--header'' \<and> header_name v = ''x-msconnector-transport-case'') (curl_parse (tl cmd))
    = (case cc_transport_case_id config of None \<Rightarrow> []
       | Some t \<Rightarrow> [(''--header'', TRANSPORT_CASE_HEADER @ t)])"
proof -
  obtain p sch flag where c: "validate_config config = Inr (p, sch)" "map_of PROTOCOL_FLAGS p = Some flag"
    and parse: "curl_parse (tl cmd) =
      [(''--silent'', []), (''--show-error'', []), (''--fail-with-body'', []), (''--output'', ''/dev/null''),
       (''--request'', cc_request config), (''--max-time'', format_timeout (cc_timeout config))]
      @ optional_options config
      @ [(flag, []), (''--write-out'', writeout_format (pf_writeout_mode pf)), ([], cc_url config)]"
    using assms by (rule build_curl_command_parse)
  have flag: "flag \<noteq> ''--header''" using protocol_flag_facts(3) [OF c(2)] by (auto simp: VALUE_OPTIONS_def)
  have "validate_headers (cc_headers config) = Inr ()"
    using c(1) by (auto simp: validate_config_def rbind_eq_Inr)
  then have "filter (\<lambda>(opt, v). opt = ''--header'' \<and> header_name v = ''x-msconnector-transport-case'')
      (map (\<lambda>header. (''--header'', header)) (cc_headers config)) = []"
    by (auto simp: filter_empty_conv dest: validate_headers_names)
  then show ?thesis
    unfolding parse using flag
    by (simp add: optional_options_def transport_case_header_name filter_empty_conv split: option.splits)
qed

end
