(* ===== verification/ClientFacts.thy ===== *)
theory ClientFacts
  imports ClientRun ObservationFacts CurlFacts
begin

text \<open>
  What one run of the protocol client guarantees: which runs return a result, what their
  observation holds, and what is on the disk afterwards.
\<close>

section \<open>Sequencing\<close>

lemma sbind_returns [res_simps]:
  "sbind m f d = (Inr y, d') \<longleftrightarrow> (\<exists>x d1. m d = (Inr x, d1) \<and> f x d1 = (Inr y, d'))"
  by (auto simp: sbind_def split: prod.splits sum.splits)

lemma slift_returns [res_simps]: "slift r d = (Inr x, d') \<longleftrightarrow> r = Inr x \<and> d' = d"
  by (auto simp: slift_def)

lemma sreturn_returns [res_simps]: "sreturn x d = (Inr y, d') \<longleftrightarrow> y = x \<and> d' = d"
  by (auto simp: sreturn_def)

section \<open>Shape of a run that returns\<close>

definition blocked_run :: "client_env \<Rightarrow> client_config \<Rightarrow> disk \<Rightarrow> client_run_result \<Rightarrow> disk \<Rightarrow> bool" where
  "blocked_run env config d r d' \<longleftrightarrow>
     (\<exists>p sch sidecar st reason. st \<in> {''NOT_EXECUTED'', ''BLOCKED''} \<and> p \<in> set CANONICAL_PROTOCOLS
        \<and> blocked_observation config p sch sidecar st reason = Inr (rr_observation r)
        \<and> rr_command r = []
        \<and> write_artifacts env config (rr_inspection r) (rr_preflight r) [] (rr_observation r) d = (Inr (), d'))"

definition executed_run ::
    "client_env \<Rightarrow> client_config \<Rightarrow> disk \<Rightarrow> client_run_result \<Rightarrow> disk \<Rightarrow> string \<Rightarrow> string \<Rightarrow> dict \<Rightarrow> dict \<Rightarrow> bool" where
  "executed_run env config d r d' p sch sidecar obs \<longleftrightarrow>
     validate_config config = Inr (p, sch)
     \<and> load_config_sidecar env config = Inr (sidecar, None)
     \<and> inspect_curl (ce_run env) (cc_curl config) = Inr (rr_inspection r)
     \<and> preflight_curl p (rr_inspection r) config = Inr (rr_preflight r)
     \<and> pf_status (rr_preflight r) = ''READY''
     \<and> build_curl_command config (rr_preflight r) = Inr (rr_command r)
     \<and> execute_primary_observation env config (rr_command r) (rr_preflight r) p (Some sch) sidecar = Inr obs
     \<and> rr_observation r = dict_pop obs ''expected_transport''
     \<and> finish_run env config (rr_inspection r) (rr_preflight r) (rr_command r) (rr_observation r) d = (Inr r, d')"

lemma validated_config_or_default_ok:
  assumes "validated_config_or_default config = Inr (p, sch, err)"
  shows "p \<in> set CANONICAL_PROTOCOLS"
    and "err = None \<Longrightarrow> \<exists>s. sch = Some s \<and> validate_config config = Inr (p, s)"
  using assms
  by (auto simp: validated_config_or_default_def CANONICAL_PROTOCOLS_def [symmetric]
      split: sum.splits exn.splits
      dest: validate_config_protocol normalize_protocol_canonical)
    (auto simp: CANONICAL_PROTOCOLS_def)

lemma blocked_client_result_returns:
  assumes "blocked_client_result env config insp pf [] p sch sidecar st reason d = (Inr r, d')"
    and "st \<in> {''NOT_EXECUTED'', ''BLOCKED''}" and "p \<in> set CANONICAL_PROTOCOLS"
  shows "blocked_run env config d r d'"
proof -
  from assms(1) obtain obs where obs: "blocked_observation config p sch sidecar st reason = Inr obs"
    "write_artifacts env config insp pf [] obs d = (Inr (), d')"
    "r = \<lparr>rr_observation = obs, rr_inspection = insp, rr_preflight = pf, rr_command = []\<rparr>"
    by (auto simp: blocked_client_result_def write_client_result_def
        sbind_returns slift_returns sreturn_returns)
  show ?thesis
    unfolding blocked_run_def
    by (rule exI [of _ p], rule exI [of _ sch], rule exI [of _ sidecar], rule exI [of _ st],
        rule exI [of _ reason]) (use obs assms(2,3) in simp)
qed

lemma finish_run_result:
  "finish_run env config insp pf cmd obs d = (Inr r, d') \<Longrightarrow>
     r = \<lparr>rr_observation = obs, rr_inspection = insp, rr_preflight = pf, rr_command = cmd\<rparr>"
  by (auto simp: finish_run_def sbind_returns sreturn_returns)

lemma run_returns:
  assumes "run_protocol_client env config d = (Inr r, d')"
  shows "blocked_run env config d r d' \<or> (\<exists>p sch sidecar obs. executed_run env config d r d' p sch sidecar obs)"
proof -
  from assms obtain insp p sch err sidecar serr pf where
    insp: "inspect_curl (ce_run env) (cc_curl config) = Inr insp"
    and cfg: "validated_config_or_default config = Inr (p, sch, err)"
    and side: "load_config_sidecar env config = Inr (sidecar, serr)"
    and pf: "preflight_curl p insp config = Inr pf"
    and rest: "(case err of
        Some e \<Rightarrow> blocked_client_result env config insp pf [] p sch sidecar ''NOT_EXECUTED'' e
      | None \<Rightarrow>
          if pf_status pf \<noteq> ''READY'' then
            blocked_client_result env config insp pf [] p sch sidecar ''BLOCKED''
              (case pf_reason pf of Some r \<Rightarrow> if r \<noteq> [] then r else ''client_preflight_blocked''
               | None \<Rightarrow> ''client_preflight_blocked'')
          else (case serr of
            Some e \<Rightarrow> blocked_client_result env config insp pf [] p sch sidecar ''NOT_EXECUTED'' e
          | None \<Rightarrow>
              (case build_curl_command config pf of
                 Inl (ProtocolClientError _) \<Rightarrow>
                   blocked_client_result env config insp pf [] p sch sidecar
                     ''NOT_EXECUTED'' ''invalid_client_configuration''
               | Inl e \<Rightarrow> slift (Inl e)
               | Inr command \<Rightarrow>
                   sbind (slift (execute_primary_observation env config command pf p sch sidecar))
                     (\<lambda>observation.
                        finish_run env config insp pf command
                          (dict_pop observation ''expected_transport''))))) d = (Inr r, d')"
    unfolding run_protocol_client_def by (auto simp: sbind_returns slift_returns)
  note p = validated_config_or_default_ok(1) [OF cfg]
  have blocked: "blocked_run env config d r d'"
    if "blocked_client_result env config insp pf [] p sch sidecar st reason d = (Inr r, d')"
      "st \<in> {''NOT_EXECUTED'', ''BLOCKED''}" for st reason
    by (rule blocked_client_result_returns [OF that p])
  show ?thesis
  proof (cases "err = None \<and> pf_status pf = ''READY'' \<and> serr = None \<and> (\<exists>c. build_curl_command config pf = Inr c)")
    case False
    with rest show ?thesis
      by (auto simp: slift_returns split: option.splits if_splits sum.splits exn.splits intro: blocked)
  next
    case True
    then obtain c s where "build_curl_command config pf = Inr c" "sch = Some s"
      "validate_config config = Inr (p, s)"
      using validated_config_or_default_ok(2) [OF cfg] by blast
    moreover from this True rest obtain obs where
      "execute_primary_observation env config c pf p sch sidecar = Inr obs"
      "finish_run env config insp pf c (dict_pop obs ''expected_transport'') d = (Inr r, d')"
      by (auto simp: sbind_returns slift_returns)
    ultimately have "executed_run env config d r d' p s sidecar obs"
      using True insp side pf finish_run_result [of env config insp pf c "dict_pop obs ''expected_transport''" d r d']
      by (simp add: executed_run_def)
    then show ?thesis by blast
  qed
qed

section \<open>The observation of a run\<close>

definition BASE_FIELDS :: "string list" where
  "BASE_FIELDS = [''schema_version'', ''status'', ''requested_protocol'', ''downstream_protocol'',
     ''negotiated_protocol'', ''transport'', ''fallback_used'', ''http_status'', ''downloaded_bytes'',
     ''content_length_download'', ''response_committed'', ''client_first_body_byte_visible'',
     ''response_complete'', ''curl_exit_code'', ''transport_error'']"

text \<open>Every field a persisted observation may have.\<close>

definition OBSERVATION_FIELDS :: "string list" where
  "OBSERVATION_FIELDS = BASE_FIELDS @ PROVENANCE_FIELDS @ [''quic_udp_observed''] @ FINAL_FIELDS"

lemma base_observation_keys: "keys_in BASE_FIELDS (base_observation p)"
  by (simp add: keys_in_def base_observation_def BASE_FIELDS_def)

text \<open>The last step of \<open>initial_observation\<close>: the QUIC flag of an HTTP/3 probe.\<close>

definition with_quic :: "string \<Rightarrow> client_config \<Rightarrow> dict \<Rightarrow> dict \<Rightarrow> dict" where
  "with_quic p config sidecar obs =
     (if p = ''h3'' then dict_set obs ''quic_udp_observed''
        (PBool (cc_quic_udp_observed config \<or> dget sidecar ''quic_udp_observed'' = PBool True)) else obs)"

lemma initial_observation_split:
  assumes "initial_observation p (Some sch) config sidecar = Inr obs"
  obtains prov where "provenance config sidecar = Inr prov"
    and "obs = with_quic p config sidecar (dict_update (dict_set (base_observation p)
        ''expected_transport'' (PStr (expected_transport p sch))) prov)"
  using assms by (auto simp: initial_observation_def with_quic_def rbind_eq_Inr Let_def)

lemma initial_observation_get:
  assumes "initial_observation p (Some sch) config sidecar = Inr obs" and "k \<in> set BASE_FIELDS"
  shows "dget obs k = dget (base_observation p) k"
proof -
  obtain prov where prov: "provenance config sidecar = Inr prov"
    and obs: "obs = with_quic p config sidecar (dict_update (dict_set (base_observation p)
        ''expected_transport'' (PStr (expected_transport p sch))) prov)"
    using assms(1) by (rule initial_observation_split)
  have "\<forall>k\<in>set BASE_FIELDS. k \<notin> set PROVENANCE_FIELDS \<and> k \<noteq> ''expected_transport'' \<and> k \<noteq> ''quic_udp_observed''"
    by (simp add: BASE_FIELDS_def PROVENANCE_FIELDS_def PROVENANCE_SIDECAR_FIELDS_def)
  with assms(2) have k: "k \<notin> set PROVENANCE_FIELDS" "k \<noteq> ''expected_transport''" "k \<noteq> ''quic_udp_observed''"
    by auto
  then have "k \<notin> fst ` set prov"
    using provenance_keys [OF prov] by (auto simp: keys_in_def)
  then show ?thesis
    using k by (simp add: obs with_quic_def dget_update_other)
qed

lemma initial_observation_requested:
  assumes "initial_observation p (Some sch) config sidecar = Inr obs"
  shows "dget obs ''requested_protocol'' = PStr p"
  using initial_observation_get [OF assms, of "''requested_protocol''"]
  by (simp add: BASE_FIELDS_def base_observation_def)

lemma initial_observation_expected:
  assumes "initial_observation p (Some sch) config sidecar = Inr obs"
  shows "dget obs ''expected_transport'' = PStr (expected_transport p sch)"
proof -
  obtain prov where prov: "provenance config sidecar = Inr prov"
    and obs: "obs = with_quic p config sidecar (dict_update (dict_set (base_observation p)
        ''expected_transport'' (PStr (expected_transport p sch))) prov)"
    using assms by (rule initial_observation_split)
  have "''expected_transport'' \<notin> set PROVENANCE_FIELDS"
    by (simp add: PROVENANCE_FIELDS_def PROVENANCE_SIDECAR_FIELDS_def)
  then have "''expected_transport'' \<notin> fst ` set prov"
    using provenance_keys [OF prov] by (auto simp: keys_in_def)
  then show ?thesis by (simp add: obs with_quic_def dget_update_other)
qed

lemma initial_observation_keys:
  assumes "initial_observation p sch config sidecar = Inr obs"
  shows "keys_in (''expected_transport'' # OBSERVATION_FIELDS) obs"
proof -
  let ?S = "''expected_transport'' # OBSERVATION_FIELDS"
  have mono: "set BASE_FIELDS \<subseteq> set ?S" "set PROVENANCE_FIELDS \<subseteq> set ?S" "''quic_udp_observed'' \<in> set OBSERVATION_FIELDS"
    by (auto simp: OBSERVATION_FIELDS_def)
  have "keys_in ?S (base_observation p)" using keys_in_mono [OF base_observation_keys mono(1)] .
  moreover have "keys_in ?S prov" if "provenance config sidecar = Inr prov" for prov
    using keys_in_mono [OF provenance_keys [OF that] mono(2)] .
  ultimately show ?thesis
    using assms mono(3)
    by (auto simp: initial_observation_def rbind_eq_Inr Let_def split: option.splits if_splits)
qed

lemma blocked_observation_facts:
  assumes "blocked_observation config p sch sidecar st reason = Inr obs"
  shows "dget obs ''status'' = PStr st" and "keys_in (''expected_transport'' # OBSERVATION_FIELDS) obs"
proof -
  from assms obtain o1 where o1: "initial_observation p sch config sidecar = Inr o1"
    and obs: "obs = (if st = ''BLOCKED'' then dict_set (set_status o1 st reason) ''transport_error''
      (PStr ''client_unavailable'') else set_status o1 st reason)"
    by (auto simp: blocked_observation_def rbind_eq_Inr Let_def)
  show "dget obs ''status'' = PStr st" by (simp add: obs)
  have "''status'' \<in> set OBSERVATION_FIELDS" "''reason'' \<in> set OBSERVATION_FIELDS"
    "''transport_error'' \<in> set OBSERVATION_FIELDS"
    by (simp_all add: OBSERVATION_FIELDS_def BASE_FIELDS_def FINAL_FIELDS_def)
  then show "keys_in (''expected_transport'' # OBSERVATION_FIELDS) obs"
    using initial_observation_keys [OF o1] by (simp add: obs set_status_def)
qed

section \<open>The outcome of curl\<close>

definition OUTCOME_FIELDS :: "string list" where
  "OUTCOME_FIELDS = [''http_status'', ''downloaded_bytes'', ''content_length_download'',
     ''response_committed'', ''client_first_body_byte_visible'', ''curl_exit_code'', ''transport_error'',
     ''negotiated_protocol'', ''fallback_used'', ''transport'', ''response_complete'']"

lemma apply_outcome_other:
  "k \<notin> set OUTCOME_FIELDS \<Longrightarrow>
     dget (apply_outcome obs out rc err p sch config sidecar) k = dget obs k
     \<and> (has_key (apply_outcome obs out rc err p sch config sidecar) k \<longleftrightarrow> has_key obs k)"
  by (simp add: apply_outcome_def Let_def OUTCOME_FIELDS_def)

lemma apply_outcome_get [simp]:
  fixes obs out :: dict and rc :: int and err p sch :: string and config :: client_config and sidecar :: dict
  defines "A \<equiv> apply_outcome obs out rc err p sch config sidecar"
  defines "N \<equiv> negotiated_protocol (dget out ''http_version'') p sch"
  shows "dget A ''curl_exit_code'' = PInt rc"
    and "dget A ''negotiated_protocol'' = N"
    and "dget A ''fallback_used'' = PBool (N \<noteq> PNone \<and> N \<noteq> PStr p)"
    and "dget A ''transport'' = derive_transport N p sch sidecar (cc_quic_udp_observed config)"
    and "dget A ''transport_error'' = PStr (classify_transport_error rc err p (dget out ''http_status''))"
    and "dget A ''http_status'' = dget out ''http_status''"
    and "dget A ''downloaded_bytes'' = dget out ''downloaded_bytes''"
  unfolding A_def N_def by (simp_all add: apply_outcome_def Let_def)

text \<open>How the observation of a run that reached curl came about.\<close>

lemma execute_primary_cases:
  assumes "execute_primary_observation env config cmd pf p (Some sch) sidecar = Inr obs"
    and "sch \<noteq> []"
  obtains (no_answer) o1 st reason upd where "initial_observation p (Some sch) config sidecar = Inr o1"
      and "st \<in> {''FAIL'', ''BLOCKED''}"
      and "obs = dict_update o1 ([(''status'', PStr st), (''reason'', PStr reason)] @ upd)"
      and "fst ` set upd \<subseteq> {''curl_exit_code'', ''transport_error''}"
  | (answer) o1 rc out err outcome where "initial_observation p (Some sch) config sidecar = Inr o1"
      and "ce_run env call_primary cmd = PDone rc out err"
      and "parse_writeout out (pf_writeout_mode pf) = Inr outcome"
      and "finalize_status (apply_outcome o1 outcome rc err p sch config sidecar) p = Inr obs"
proof -
  from assms(1) obtain o1 where o1: "initial_observation p (Some sch) config sidecar = Inr o1"
    by (auto simp: execute_primary_observation_def rbind_eq_Inr)
  show thesis
  proof (cases "ce_run env call_primary cmd")
    case PErrOS
    with assms o1 show thesis
      by (intro no_answer [OF o1, of "''BLOCKED''" "''curl_execution_unavailable''"
            "[(''transport_error'', PStr ''client_unavailable'')]"])
        (auto simp: execute_primary_observation_def)
  next
    case PTimeout
    with assms o1 show thesis
      by (intro no_answer [OF o1, of "''FAIL''" "''curl_execution_timeout''"
            "[(''curl_exit_code'', PNone), (''transport_error'', PStr ''timeout'')]"])
        (auto simp: execute_primary_observation_def)
  next
    case (PRaised e)
    with assms o1 show thesis by (simp add: execute_primary_observation_def)
  next
    case (PDone rc out err)
    with assms o1 show thesis
      by (auto simp: execute_primary_observation_def rbind_eq_Inr intro: answer)
  qed
qed

lemma executed_run_scheme:
  "executed_run env config d r d' p sch sidecar obs \<Longrightarrow> sch \<noteq> [] \<and> p \<in> set CANONICAL_PROTOCOLS"
  using validate_config_scheme [of config p sch] validate_config_protocol [of config p sch]
    normalize_protocol_canonical [of "cc_protocol config" p]
  by (auto simp: executed_run_def)

lemma load_config_sidecar_ok: "load_config_sidecar env config = Inr (sidecar, e) \<Longrightarrow> sidecar_ok sidecar"
  by (auto simp: load_config_sidecar_def dest: load_observation_sidecar_ok
      split: option.splits sum.splits exn.splits)

lemma execute_primary_status:
  assumes "execute_primary_observation env config cmd pf p (Some sch) sidecar = Inr obs" "sch \<noteq> []"
  shows "one_of OBSERVATION_STATUSES (dget obs ''status'')"
  using assms
proof (cases rule: execute_primary_cases)
  case (no_answer o1 st reason upd)
  then have "''status'' \<notin> fst ` set upd" by auto
  then have "dget obs ''status'' = PStr st"
    by (simp add: no_answer(3) dget_update_other)
  then show ?thesis using no_answer(2) by (auto simp: one_of_def OBSERVATION_STATUSES_def)
next
  case (answer o1 rc out err outcome)
  then have "one_of FINAL_STATUSES (dget obs ''status'')"
    using finalize_status_frame by (auto simp: final_frame_def)
  then show ?thesis by (auto simp: one_of_def FINAL_STATUSES_def OBSERVATION_STATUSES_def)
qed

lemma final_frame_keys:
  assumes "final_frame obs obs'" and "keys_in S obs" and "set FINAL_FIELDS \<subseteq> set S"
  shows "keys_in S obs'"
  using assms by (auto simp: final_frame_def keys_in_has_key)

lemma apply_outcome_keys:
  assumes "keys_in S obs" and "set OUTCOME_FIELDS \<subseteq> set S"
  shows "keys_in S (apply_outcome obs out rc err p sch config sidecar)"
  using assms apply_outcome_other [of _ obs out rc err p sch config sidecar]
  by (auto simp: keys_in_has_key)

lemma execute_primary_keys:
  assumes "execute_primary_observation env config cmd pf p (Some sch) sidecar = Inr obs" "sch \<noteq> []"
  shows "keys_in (''expected_transport'' # OBSERVATION_FIELDS) obs"
  using assms
proof (cases rule: execute_primary_cases)
  case (no_answer o1 st reason upd)
  have "{''status'', ''reason'', ''curl_exit_code'', ''transport_error''} \<subseteq> set OBSERVATION_FIELDS"
    by (simp add: OBSERVATION_FIELDS_def BASE_FIELDS_def FINAL_FIELDS_def)
  then have "keys_in (''expected_transport'' # OBSERVATION_FIELDS) ([(''status'', PStr st), (''reason'', PStr reason)] @ upd)"
    using no_answer(4) by (auto simp: keys_in_def)
  then show ?thesis
    unfolding no_answer(3) by (intro keys_in_update initial_observation_keys [OF no_answer(1)])
next
  case (answer o1 rc out err outcome)
  have sub: "set FINAL_FIELDS \<subseteq> set (''expected_transport'' # OBSERVATION_FIELDS)"
    "set OUTCOME_FIELDS \<subseteq> set (''expected_transport'' # OBSERVATION_FIELDS)"
    by (auto simp: OBSERVATION_FIELDS_def OUTCOME_FIELDS_def BASE_FIELDS_def)
  show ?thesis
    by (rule final_frame_keys [OF finalize_status_frame [OF answer(4)]
          apply_outcome_keys [OF initial_observation_keys [OF answer(1)] sub(2)] sub(1)])
qed

text \<open>Every writer of \<open>transport_error\<close> uses a word of the vocabulary.\<close>

lemma initial_observation_error:
  assumes "initial_observation p sch config sidecar = Inr obs"
  shows "dget obs ''transport_error'' = PStr ''not_executed''"
proof -
  obtain prov where prov: "provenance config sidecar = Inr prov"
    and obs: "obs = with_quic p config sidecar (dict_update (case sch of None \<Rightarrow> base_observation p
        | Some s \<Rightarrow> dict_set (base_observation p) ''expected_transport'' (PStr (expected_transport p s))) prov)"
    using assms by (auto simp: initial_observation_def with_quic_def rbind_eq_Inr Let_def)
  have "''transport_error'' \<notin> set PROVENANCE_FIELDS"
    by (simp add: PROVENANCE_FIELDS_def PROVENANCE_SIDECAR_FIELDS_def)
  then have "''transport_error'' \<notin> fst ` set prov"
    using provenance_keys [OF prov] by (auto simp: keys_in_def)
  then show ?thesis
    by (simp add: obs with_quic_def dget_update_other base_observation_def split: option.split)
qed

lemma transport_error_words:
  "PStr ''not_executed'' \<in> PStr ` set TRANSPORT_ERRORS" "PStr ''timeout'' \<in> PStr ` set TRANSPORT_ERRORS"
  "PStr ''client_unavailable'' \<in> PStr ` set TRANSPORT_ERRORS"
  by (simp_all add: TRANSPORT_ERRORS_def)

lemma apply_outcome_error:
  "dget (apply_outcome obs out rc err p sch config sidecar) ''transport_error'' \<in> PStr ` set TRANSPORT_ERRORS"
  by (simp add: classify_transport_error_range)

lemma execute_primary_error:
  assumes "execute_primary_observation env config cmd pf p sch sidecar = Inr obs"
  shows "dget obs ''transport_error'' \<in> PStr ` set TRANSPORT_ERRORS"
proof -
  from assms obtain o1 where o1: "initial_observation p sch config sidecar = Inr o1"
    by (auto simp: execute_primary_observation_def rbind_eq_Inr)
  note unfold = assms [unfolded execute_primary_observation_def o1 rbind_Inr]
  have final: "''transport_error'' \<notin> set FINAL_FIELDS" by (simp add: FINAL_FIELDS_def)
  show ?thesis
  proof (cases "ce_run env call_primary cmd")
    case (PDone rc out err)
    with unfold show ?thesis
      using final apply_outcome_error
      by (auto simp: rbind_eq_Inr final_frame_def dest!: finalize_status_frame)
  qed (use unfold in \<open>auto simp: transport_error_words simp del: image_eqI\<close>)
qed

lemma blocked_observation_error:
  assumes "blocked_observation config p sch sidecar st reason = Inr obs"
  shows "dget obs ''transport_error'' \<in> PStr ` set TRANSPORT_ERRORS"
  using assms initial_observation_error [of p sch config sidecar]
  by (auto simp: blocked_observation_def rbind_eq_Inr Let_def set_status_other transport_error_words)

lemma run_transport_error:
  assumes "run_protocol_client env config d = (Inr r, d')"
  shows "dget (rr_observation r) ''transport_error'' \<in> PStr ` set TRANSPORT_ERRORS"
  using run_returns [OF assms]
  by (auto simp: blocked_run_def executed_run_def blocked_observation_error
      dest: execute_primary_error)

section \<open>A run with status PASS\<close>

lemma provenance_case_id_kept:
  assumes "provenance config sidecar = Inr prov" and "cc_transport_case_id config = Some t"
  shows "dget prov ''transport_case_id'' = PStr t"
proof -
  from assms obtain f1 f3 f4 where
    p3: "provenance_upstream config (provenance_authority config
           (dict_set f1 ''transport_case_id'' (PStr t))) = Inr f3"
    and p4: "provenance_stream config sidecar f3 = Inr f4"
    and d: "prov = copy_present PROVENANCE_SIDECAR_FIELDS sidecar f4"
    by (auto simp: provenance_def provenance_case_id_def rbind_eq_Inr split: if_splits)
  have "dget f3 ''transport_case_id'' = PStr t"
    using p3 by (auto simp: provenance_upstream_def provenance_authority_def rbind_eq_Inr
        split: option.splits)
  then have "dget f4 ''transport_case_id'' = PStr t"
    using p4 by (auto simp: provenance_stream_def Let_def split: if_splits)
  then show ?thesis
    by (simp add: d PROVENANCE_SIDECAR_FIELDS_def)
qed

lemma provenance_texts_wf:
  "provenance_texts fs acc = Inr d \<Longrightarrow> dict_wf acc \<Longrightarrow> dict_wf d"
proof (induction fs arbitrary: acc)
  case (Cons f fs)
  obtain name v where f: "f = (name, v)" by (cases f)
  with Cons.prems(1) obtain tx where
    "provenance_texts fs (case tx of None \<Rightarrow> acc | Some t \<Rightarrow> dict_set acc name (PStr t)) = Inr d"
    by (auto simp: rbind_eq_Inr)
  then show ?case using Cons.IH Cons.prems by (cases tx) (auto simp: dict_wf_set)
qed simp

lemma copy_present_wf: "dict_wf acc \<Longrightarrow> dict_wf (copy_present names sidecar acc)"
  by (induction names sidecar acc rule: copy_present.induct) (simp_all add: dict_wf_set)

lemma provenance_wf:
  assumes "provenance config sidecar = Inr prov"
  shows "dict_wf prov"
proof -
  from assms obtain f1 f2 f3 f4 where
    p1: "provenance_texts (provenance_text_fields config) [] = Inr f1"
    and p2: "provenance_case_id config f1 = Inr f2"
    and p3: "provenance_upstream config (provenance_authority config f2) = Inr f3"
    and p4: "provenance_stream config sidecar f3 = Inr f4"
    and d: "prov = copy_present PROVENANCE_SIDECAR_FIELDS sidecar f4"
    by (auto simp: provenance_def rbind_eq_Inr)
  have "dict_wf f1" using provenance_texts_wf [OF p1] by (simp add: dict_wf_def)
  then have "dict_wf f2"
    using p2 by (auto simp: provenance_case_id_def dict_wf_set split: option.splits if_splits)
  then have "dict_wf f3"
    using p3 by (auto simp: provenance_upstream_def provenance_authority_def rbind_eq_Inr dict_wf_set
        split: option.splits)
  then have "dict_wf f4"
    using p4 by (auto simp: provenance_stream_def Let_def dict_wf_set split: if_splits)
  then show ?thesis unfolding d by (rule copy_present_wf)
qed

lemma initial_observation_case_id:
  assumes "initial_observation p (Some sch) config sidecar = Inr obs"
    and "cc_transport_case_id config = Some t"
  shows "dget obs ''transport_case_id'' = PStr t"
proof -
  obtain prov where prov: "provenance config sidecar = Inr prov"
    and obs: "obs = with_quic p config sidecar (dict_update (dict_set (base_observation p)
        ''expected_transport'' (PStr (expected_transport p sch))) prov)"
    using assms(1) by (rule initial_observation_split)
  have "map_of prov ''transport_case_id'' = Some (PStr t)"
    using provenance_case_id_kept [OF prov assms(2)] by (auto simp: dget_def split: option.splits)
  then have "(''transport_case_id'', PStr t) \<in> set prov" by (rule map_of_SomeD)
  then show ?thesis
    using provenance_wf [OF prov] by (simp add: obs with_quic_def dict_wf_def dget_update)
qed

lemma validate_config_case_id:
  "validate_config config = Inr (p, sch) \<Longrightarrow> p \<in> {''h2'', ''h2c'', ''h3''} \<Longrightarrow>
     \<exists>t. cc_transport_case_id config = Some t \<and> fullmatch BOUNDED_TOKEN t"
  by (auto simp: validate_config_def validate_transport_case_id_def rbind_eq_Inr raise_if_eq
      has_invalid_bounded_token_def split: option.splits)

lemma executed_pass:
  assumes run: "executed_run env config d r d' p sch sidecar obs"
    and pass: "dget (rr_observation r) ''status'' = PStr ''PASS''"
  shows "\<exists>rc out err. ce_run env call_primary (rr_command r) = PDone rc out err \<and> rc \<in> {0, 22}"
    and "dget (rr_observation r) ''requested_protocol'' = PStr p"
    and "dget (rr_observation r) ''negotiated_protocol'' = PStr p"
    and "dget (rr_observation r) ''transport'' = PStr (expected_transport p sch)"
    and "dget (rr_observation r) ''fallback_used'' = PBool False"
    and "p \<in> {''h2'', ''h2c'', ''h3''} \<longrightarrow> (\<exists>i\<ge>0. dget (rr_observation r) ''stream_id'' = PInt i)
           \<and> dget (rr_observation r) ''transport_case_id'' = opt_str (cc_transport_case_id config)"
    and "p \<in> {''h2'', ''h3''} \<longrightarrow> dget (rr_observation r) ''alpn'' = PStr p"
    and "p = ''h3'' \<longrightarrow> dget (rr_observation r) ''quic_udp_observed'' = PBool True
           \<and> dget (rr_observation r) ''quic_connection_id_present'' = PBool True"
proof -
  have exec: "execute_primary_observation env config (rr_command r) (rr_preflight r) p (Some sch) sidecar = Inr obs"
    and vc: "validate_config config = Inr (p, sch)"
    and ro: "rr_observation r = dict_pop obs ''expected_transport''"
    using run by (auto simp: executed_run_def)
  have sch: "sch \<noteq> []" using executed_run_scheme [OF run] by simp
  have st: "dget obs ''status'' = PStr ''PASS''" using pass ro by simp
  from exec sch obtain o1 rc out err outcome where o1: "initial_observation p (Some sch) config sidecar = Inr o1"
    and curl: "ce_run env call_primary (rr_command r) = PDone rc out err"
    and fin: "finalize_status (apply_outcome o1 outcome rc err p sch config sidecar) p = Inr obs"
  proof (cases rule: execute_primary_cases)
    case (no_answer o1 st' reason upd)
    then have "''status'' \<notin> fst ` set upd" by auto
    then have "dget obs ''status'' = PStr st'"
      by (simp add: no_answer(3) dget_update_other)
    with st no_answer(2) show ?thesis by auto
  qed blast
  let ?A = "apply_outcome o1 outcome rc err p sch config sidecar"
  have keep: "dget (rr_observation r) k = dget ?A k" if "k \<notin> set FINAL_FIELDS" "k \<noteq> ''expected_transport''" for k
    using finalize_status_frame [OF fin] that by (simp add: ro final_frame_def)
  have neg: "dget ?A ''negotiated_protocol'' = PStr p"
    and exitc: "in_int_set (PInt rc) [0, 22] = Inr True" and ev: "pass_evidence ?A"
    and fb: "dget ?A ''fallback_used'' = PBool False"
    using finalize_status_pass [OF fin] st by auto
  have req: "dget ?A ''requested_protocol'' = PStr p"
    using initial_observation_requested [OF o1] by (simp add: apply_outcome_other OUTCOME_FIELDS_def)
  have expct: "dget ?A ''expected_transport'' = PStr (expected_transport p sch)"
    using initial_observation_expected [OF o1] by (simp add: apply_outcome_other OUTCOME_FIELDS_def)
  show "\<exists>rc out err. ce_run env call_primary (rr_command r) = PDone rc out err \<and> rc \<in> {0, 22}"
    using curl exitc by (auto simp: in_int_set_def)
  show "dget (rr_observation r) ''requested_protocol'' = PStr p"
    "dget (rr_observation r) ''negotiated_protocol'' = PStr p"
    "dget (rr_observation r) ''fallback_used'' = PBool False"
    using neg req fb by (simp_all add: keep FINAL_FIELDS_def)
  show "dget (rr_observation r) ''transport'' = PStr (expected_transport p sch)"
    using ev expct by (simp add: keep FINAL_FIELDS_def pass_evidence_def Let_def)
  show "p \<in> {''h2'', ''h2c'', ''h3''} \<longrightarrow> (\<exists>i\<ge>0. dget (rr_observation r) ''stream_id'' = PInt i)
           \<and> dget (rr_observation r) ''transport_case_id'' = opt_str (cc_transport_case_id config)"
  proof
    assume p: "p \<in> {''h2'', ''h2c'', ''h3''}"
    with vc obtain t where t: "cc_transport_case_id config = Some t"
      using validate_config_case_id by blast
    have "dget ?A ''transport_case_id'' = PStr t"
      using initial_observation_case_id [OF o1 t] by (simp add: apply_outcome_other OUTCOME_FIELDS_def)
    moreover have "\<exists>i\<ge>0. dget ?A ''stream_id'' = PInt i"
      using ev req p by (auto simp: pass_evidence_def Let_def)
    ultimately show "(\<exists>i\<ge>0. dget (rr_observation r) ''stream_id'' = PInt i)
           \<and> dget (rr_observation r) ''transport_case_id'' = opt_str (cc_transport_case_id config)"
      using t by (simp add: keep FINAL_FIELDS_def)
  qed
  show "p \<in> {''h2'', ''h3''} \<longrightarrow> dget (rr_observation r) ''alpn'' = PStr p"
    "p = ''h3'' \<longrightarrow> dget (rr_observation r) ''quic_udp_observed'' = PBool True
           \<and> dget (rr_observation r) ''quic_connection_id_present'' = PBool True"
    using ev req by (auto simp: keep FINAL_FIELDS_def pass_evidence_def Let_def)
qed

section \<open>The disk after a run\<close>

definition ARTIFACT_NAMES :: "string list" where
  "ARTIFACT_NAMES = [''client-version.txt'', ''client-features.txt'', ''client-command.txt'',
     ''client-protocol-observation.json'', ''client-followup-observation.json'']"

text \<open>Temporary files have names that start with a dot.\<close>

definition visible_path :: "fpath \<Rightarrow> bool" where
  "visible_path q \<longleftrightarrow> q \<noteq> [] \<and> \<not> startswith (last q) ''.''"

lemma visible_path_temporary: "visible_path q \<Longrightarrow> q \<noteq> temporary_path p rnd"
  by (auto simp: visible_path_def temporary_path_def startswith_def)

lemma artifact_visible: "n \<in> set ARTIFACT_NAMES \<Longrightarrow> visible_path (dir @ [n])"
  by (auto simp: visible_path_def ARTIFACT_NAMES_def startswith_def)

lemma final_disk_in: "final_disk (atomic_write_text a p v d) \<in> set (snd (atomic_write_text a p v d))"
  unfolding final_disk_def by (rule last_in_set [OF atomic_write_nonempty])

lemma put_text_other:
  "visible_path q \<Longrightarrow> q \<noteq> p \<Longrightarrow> snd (put_text env i p v d) q = d q"
  using atomic_write_other [OF final_disk_in, of q p "ce_writes env i" v d] visible_path_temporary
  by (auto simp: put_text_def Let_def)

lemma put_json_cases:
  "put_json env i p v =
     (if json_printable (PDict v) then put_text env i p (json_document v @ NL) else slift (Inl ValueError))"
  by (simp add: fun_eq_iff put_json_def put_text_def atomic_write_json_def json_dumps_def final_disk_def slift_def)

lemma put_text_result:
  "put_text env i p v d = (Inr (), d') \<Longrightarrow> p \<noteq> [] \<Longrightarrow> d' p = Some (utf8_encode v)"
  using atomic_write_success [of p "ce_writes env i" v d] by (auto simp: put_text_def Let_def)

text \<open>A step that changes no visible path but the artifacts of a directory.\<close>

definition only_artifacts :: "fpath \<Rightarrow> 'a step \<Rightarrow> bool" where
  "only_artifacts dir m \<longleftrightarrow>
     (\<forall>d q. visible_path q \<longrightarrow> q \<notin> (\<lambda>n. dir @ [n]) ` set ARTIFACT_NAMES \<longrightarrow> snd (m d) q = d q)"

lemma only_artifacts_slift [simp]: "only_artifacts dir (slift r)"
  by (simp add: only_artifacts_def slift_def)

lemma only_artifacts_sreturn [simp]: "only_artifacts dir (sreturn x)"
  by (simp add: only_artifacts_def sreturn_def)

lemma only_artifacts_sbind [intro]:
  "only_artifacts dir m \<Longrightarrow> (\<And>x. only_artifacts dir (f x)) \<Longrightarrow> only_artifacts dir (sbind m f)"
  by (auto simp: only_artifacts_def sbind_def split: prod.splits sum.splits) (metis snd_conv)+

lemma only_artifacts_put [simp]:
  "n \<in> set ARTIFACT_NAMES \<Longrightarrow> only_artifacts dir (put_text env i (dir @ [n]) v)"
  unfolding only_artifacts_def by (intro allI impI put_text_other) auto

lemma artifact_names [simp]:
  "''client-version.txt'' \<in> set ARTIFACT_NAMES" "''client-features.txt'' \<in> set ARTIFACT_NAMES"
  "''client-command.txt'' \<in> set ARTIFACT_NAMES" "''client-protocol-observation.json'' \<in> set ARTIFACT_NAMES"
  "''client-followup-observation.json'' \<in> set ARTIFACT_NAMES"
  by (simp_all add: ARTIFACT_NAMES_def)

lemma only_artifacts_write: "only_artifacts (cc_artifact_dir config) (write_artifacts env config insp pf cmd obs)"
  unfolding write_artifacts_def Let_def put_json_cases by (intro only_artifacts_sbind) simp_all

lemma only_artifacts_blocked:
  "only_artifacts (cc_artifact_dir config) (blocked_client_result env config insp pf cmd p sch sc st reason)"
  unfolding blocked_client_result_def write_client_result_def
  by (intro only_artifacts_sbind only_artifacts_write) simp_all

lemma only_artifacts_finish:
  "only_artifacts (cc_artifact_dir config) (finish_run env config insp pf cmd obs)"
  unfolding finish_run_def put_json_cases
  by (intro only_artifacts_sbind only_artifacts_write) (simp_all split: option.splits)

lemma only_artifacts_run: "only_artifacts (cc_artifact_dir config) (run_protocol_client env config)"
  unfolding run_protocol_client_def
  by (intro only_artifacts_sbind; auto simp: only_artifacts_blocked intro!: only_artifacts_sbind only_artifacts_finish
      split: option.splits sum.splits exn.splits prod.splits)

lemma write_artifacts_disk:
  assumes "write_artifacts env config insp pf cmd obs d = (Inr (), d')"
  defines "dir \<equiv> cc_artifact_dir config"
  shows "d' (dir @ [''client-version.txt'']) = Some (utf8_encode (truncate_text (ci_version_text insp)))"
    and "d' (dir @ [''client-features.txt'']) =
      Some (utf8_encode (features_report insp pf (if has_key obs ''requested_protocol''
        then py_str (dget obs ''requested_protocol'') else [])))"
    and "\<exists>ct. (if cmd \<noteq> [] then redacted_command cmd (cc_url config) else Inr (''not executed'' @ NL)) = Inr ct
      \<and> d' (dir @ [''client-command.txt'']) = Some (utf8_encode ct)"
    and "d' (dir @ [''client-protocol-observation.json'']) = Some (utf8_encode (json_document obs @ NL))"
proof -
  let ?rep = "features_report insp pf (if has_key obs ''requested_protocol''
        then py_str (dget obs ''requested_protocol'') else [])"
  from assms(1) obtain d1 d2 d3 ct where
    w1: "put_text env 0 (dir @ [''client-version.txt'']) (truncate_text (ci_version_text insp)) d = (Inr (), d1)"
    and w2: "put_text env 1 (dir @ [''client-features.txt'']) ?rep d1 = (Inr (), d2)"
    and ct: "(if cmd \<noteq> [] then redacted_command cmd (cc_url config) else Inr (''not executed'' @ NL)) = Inr ct"
    and w3: "put_text env 2 (dir @ [''client-command.txt'']) ct d2 = (Inr (), d3)"
    and w4: "put_text env 3 (dir @ [''client-protocol-observation.json'']) (json_document obs @ NL) d3 = (Inr (), d')"
    unfolding write_artifacts_def Let_def dir_def put_json_cases
    by (auto simp: sbind_returns slift_returns split: if_splits)
  have other: "d'' (dir @ [m]) = d0 (dir @ [m])"
    if "put_text env i (dir @ [n]) v d0 = (Inr (), d'')" "m \<noteq> n" "m \<in> set ARTIFACT_NAMES" for i n m v d0 d''
    using put_text_other [OF artifact_visible [OF that(3)], of dir "dir @ [n]" env i v d0] that by simp
  show "d' (dir @ [''client-version.txt'']) = Some (utf8_encode (truncate_text (ci_version_text insp)))"
    using put_text_result [OF w1] by (simp add: other [OF w4] other [OF w3] other [OF w2])
  show "d' (dir @ [''client-features.txt'']) = Some (utf8_encode ?rep)"
    using put_text_result [OF w2] by (simp add: other [OF w4] other [OF w3])
  show "\<exists>ct. (if cmd \<noteq> [] then redacted_command cmd (cc_url config) else Inr (''not executed'' @ NL)) = Inr ct
      \<and> d' (dir @ [''client-command.txt'']) = Some (utf8_encode ct)"
    using ct put_text_result [OF w3] by (simp add: other [OF w4])
  show "d' (dir @ [''client-protocol-observation.json'']) = Some (utf8_encode (json_document obs @ NL))"
    using put_text_result [OF w4] by simp
qed

lemma finish_run_write:
  assumes "finish_run env config insp pf cmd obs d = (Inr r, d')"
  shows "\<exists>d1. write_artifacts env config insp pf cmd obs d = (Inr (), d1)
    \<and> (\<forall>n\<in>set ARTIFACT_NAMES. n \<noteq> ''client-followup-observation.json''
         \<longrightarrow> d' (cc_artifact_dir config @ [n]) = d1 (cc_artifact_dir config @ [n]))"
proof -
  let ?dir = "cc_artifact_dir config"
  from assms obtain d1 f where w: "write_artifacts env config insp pf cmd obs d = (Inr (), d1)"
    and rest: "(case f of None \<Rightarrow> sreturn ()
       | Some f \<Rightarrow> put_json env 4 (?dir @ [''client-followup-observation.json'']) f) d1 = (Inr (), d')"
    by (auto simp: finish_run_def sbind_returns slift_returns sreturn_returns)
  have "d' (?dir @ [n]) = d1 (?dir @ [n])"
    if n: "n \<in> set ARTIFACT_NAMES" "n \<noteq> ''client-followup-observation.json''" for n
  proof (cases f)
    case None
    with rest show ?thesis by (simp add: sreturn_def)
  next
    case (Some g)
    with rest put_text_other [OF artifact_visible [OF n(1)], of ?dir "?dir @ [''client-followup-observation.json'']"
        env 4 "json_document g @ NL" d1] n
    show ?thesis by (simp add: put_json_cases slift_def split: if_splits)
  qed
  with w show ?thesis by blast
qed

lemma run_returns_write:
  assumes "run_protocol_client env config d = (Inr r, d')"
  shows "\<exists>d1. write_artifacts env config (rr_inspection r) (rr_preflight r) (rr_command r) (rr_observation r) d
      = (Inr (), d1)
    \<and> (\<forall>n\<in>set ARTIFACT_NAMES. n \<noteq> ''client-followup-observation.json''
         \<longrightarrow> d' (cc_artifact_dir config @ [n]) = d1 (cc_artifact_dir config @ [n]))"
  using run_returns [OF assms]
proof
  assume "blocked_run env config d r d'"
  then show ?thesis by (auto simp: blocked_run_def)
next
  assume "\<exists>p sch sidecar obs. executed_run env config d r d' p sch sidecar obs"
  then have "finish_run env config (rr_inspection r) (rr_preflight r) (rr_command r) (rr_observation r) d = (Inr r, d')"
    by (auto simp: executed_run_def)
  then show ?thesis by (rule finish_run_write)
qed

end
