(* ===== verification/FollowupFacts.thy ===== *)
theory FollowupFacts
  imports ClientFacts
begin

text \<open>
  The follow-up request: its token and target hash, the fields of its artifact, and when
  it reports PASS.
\<close>

section \<open>Tokens\<close>

lemma hex_lower_token: "is_hex_lower c \<Longrightarrow> token_char c"
  by (auto simp: is_hex_lower_def token_char_def is_alnum_ascii_def is_alpha_ascii_def is_lower_ascii_def
      char_le_int)

lemma token_char_simps [simp]:
  "token_char (CHR ''f'')" "token_char (CHR ''o'')" "token_char (CHR ''l'')" "token_char (CHR ''w'')"
  "token_char (CHR ''u'')" "token_char (CHR ''p'')" "token_char (CHR ''2'')" "token_char (CHR ''-'')"
  by (simp_all add: token_char_def is_alnum_ascii_def is_alpha_ascii_def is_lower_ascii_def is_digit_def char_le_int)

lemma followup_token_ok:
  assumes "length h \<le> 32" and "list_all is_hex_lower h"
  shows "fullmatch BOUNDED_TOKEN (''followup-'' @ h)" "fullmatch BOUNDED_TOKEN (''followup2-'' @ h)"
proof -
  have f: "is_alnum_ascii (CHR ''f'')"
    by (simp add: is_alnum_ascii_def is_alpha_ascii_def is_lower_ascii_def char_le_int)
  have h: "list_all token_char h"
    using assms(2) by (auto simp: list_all_iff dest: hex_lower_token)
  show "fullmatch BOUNDED_TOKEN (''followup-'' @ h)" "fullmatch BOUNDED_TOKEN (''followup2-'' @ h)"
    unfolding fullmatch_BOUNDED_TOKEN using f h assms(1) by auto
qed

lemma followup_token:
  assumes "fullmatch BOUNDED_TOKEN p"
  shows "\<exists>t. derive_followup_transport_case_id (Some p) = Inr (Some t) \<and> fullmatch BOUNDED_TOKEN t \<and> t \<noteq> p"
proof -
  let ?a = "take 32 (sha256_hex (''msconnector-followup:'' @ p))"
  let ?b = "take 31 (sha256_hex (''msconnector-followup2:'' @ p))"
  have a: "fullmatch BOUNDED_TOKEN (''followup-'' @ ?a)"
    using sha256.digest_prefix [of 32 "''msconnector-followup:'' @ p"] by (intro followup_token_ok) auto
  have b: "fullmatch BOUNDED_TOKEN (''followup2-'' @ ?b)"
    using sha256.digest_prefix [of 31 "''msconnector-followup2:'' @ p"] by (intro followup_token_ok) auto
  have ne: "''followup2-'' @ ?b \<noteq> ''followup-'' @ ?a" by simp
  have ok: "\<not> has_invalid_bounded_token (PStr p)"
    using assms by (simp add: has_invalid_bounded_token_def)
  show ?thesis
  proof (cases "''followup-'' @ ?a = p")
    case True
    then have "derive_followup_transport_case_id (Some p) = Inr (Some (''followup2-'' @ ?b))"
      using ok by (simp add: derive_followup_transport_case_id_def Let_def del: append.simps)
    with b ne True show ?thesis by metis
  next
    case False
    then have "derive_followup_transport_case_id (Some p) = Inr (Some (''followup-'' @ ?a))"
      using ok by (simp add: derive_followup_transport_case_id_def Let_def del: append.simps)
    with a False show ?thesis by metis
  qed
qed

text \<open>The port of an authority, explicit or by its scheme.\<close>

definition effective_port :: "split_result \<Rightarrow> int option \<Rightarrow> int" where
  "effective_port r p = (case p of Some n \<Rightarrow> n | None \<Rightarrow> if lower_str (sr_scheme r) = ''https'' then 443 else 80)"

section \<open>The follow-up artifact\<close>

lemma keys_in_filter: "keys_in S (filter (\<lambda>(k, v). k \<in> set S) d)"
  by (auto simp: keys_in_def)

lemma dget_filter: "k \<in> set S \<Longrightarrow> dget (filter (\<lambda>(k, v). k \<in> set S) d) k = dget d k"
  by (induction d) (auto simp: dget_def)

lemma followup_artifact_get:
  "k \<in> set FOLLOWUP_FIELDS \<Longrightarrow> dget (followup_artifact_observation obs) k = dget obs k"
  by (simp add: followup_artifact_observation_def dget_filter) (auto simp: FOLLOWUP_FIELDS_def)

lemma followup_observation_facts:
  "keys_in FOLLOWUP_FIELDS (followup_observation st reason p)"
  "dget (followup_observation st reason p) ''status'' = PStr st"
  by (auto simp: followup_observation_def keys_in_def FOLLOWUP_FIELDS_def split: option.splits)

text \<open>The ways a follow-up ends: without a request, or with an executed one.\<close>

lemma followup_request_cases:
  assumes "followup_request env insp followup p sch = Inr f"
  obtains (skipped) st reason where "st \<in> {''NOT_EXECUTED'', ''BLOCKED''}"
      and "f = followup_observation st reason (Some p)"
  | (executed) pf cmd obs where "build_curl_command followup pf = Inr cmd"
      and "execute_followup_observation env followup cmd pf p sch = Inr obs"
      and "f = followup_artifact_observation obs"
proof -
  from assms obtain pf where pf: "preflight_curl p insp followup = Inr pf"
    by (auto simp: followup_request_def rbind_eq_Inr)
  note unfold = assms [unfolded followup_request_def pf rbind_Inr]
  show thesis
  proof (cases "pf_status pf = ''READY''")
    case False
    with unfold have "\<exists>reason. f = followup_observation ''BLOCKED'' reason (Some p)" by auto
    then show thesis using skipped [of "''BLOCKED''"] by blast
  next
    case True
    show thesis
    proof (cases "build_curl_command followup pf")
      case (Inl e)
      with unfold True have "f = followup_observation ''NOT_EXECUTED'' ''invalid_followup_configuration'' (Some p)"
        by (cases e) simp_all
      then show thesis using skipped [of "''NOT_EXECUTED''"] by blast
    next
      case (Inr cmd)
      with unfold True obtain obs where
        "execute_followup_observation env followup cmd pf p sch = Inr obs" "f = followup_artifact_observation obs"
        by (auto simp: rbind_eq_Inr)
      with Inr show thesis by (rule executed)
    qed
  qed
qed

lemma followup_cases:
  assumes "run_followup_observation env config insp = Inr (Some f)"
  obtains (skipped) st reason p where "st \<in> {''NOT_EXECUTED'', ''BLOCKED''}"
      and "f = followup_observation st reason p"
  | (executed) url followup p sch pf cmd obs where "cc_followup_url config = Some url"
      and "followup_configuration config url (effective_followup_protocol config) = Inr followup"
      and "validate_config followup = Inr (p, sch)"
      and "build_curl_command followup pf = Inr cmd"
      and "execute_followup_observation env followup cmd pf p sch = Inr obs"
      and "f = followup_artifact_observation obs"
proof -
  from assms obtain url followup where url: "cc_followup_url config = Some url"
    and fc: "followup_configuration config url (effective_followup_protocol config) = Inr followup"
    by (auto simp: run_followup_observation_def rbind_eq_Inr split: option.splits)
  note unfold = assms [unfolded run_followup_observation_def url option.case fc rbind_Inr]
  show thesis
  proof (cases "validate_config followup")
    case (Inl e)
    with unfold have "f = followup_observation ''NOT_EXECUTED'' ''invalid_followup_configuration'' None"
      by (cases e) simp_all
    then show thesis using skipped [of "''NOT_EXECUTED''"] by blast
  next
    case (Inr ps)
    then obtain p sch where vc: "validate_config followup = Inr (p, sch)" by (cases ps) auto
    with unfold have "followup_request env insp followup p sch = Inr f"
      by (auto simp: rbind_eq_Inr)
    then show thesis
    proof (cases rule: followup_request_cases)
      case (skipped st reason)
      then show thesis by (rule that(1))
    next
      case (executed pf cmd obs)
      then show thesis by (rule that(2) [OF url fc vc])
    qed
  qed
qed

lemma update_status_get:
  "dget (update_status obs st r) ''status'' = PStr st"
  "k \<noteq> ''status'' \<Longrightarrow> k \<noteq> ''reason'' \<Longrightarrow> dget (update_status obs st r) k = dget obs k"
  by (simp_all add: update_status_def)

lemma finalize_followup_pass:
  assumes "dget (finalize_followup_status obs rc p) ''status'' = PStr ''PASS''"
  shows "dget obs ''fallback_used'' \<noteq> PBool True" "dget obs ''negotiated_protocol'' = PStr p" "rc = 0"
    "is_int (dget obs ''http_status'')" "200 \<le> int_val (dget obs ''http_status'')"
    "int_val (dget obs ''http_status'') < 400"
    "\<And>k. k \<noteq> ''status'' \<Longrightarrow> k \<noteq> ''reason'' \<Longrightarrow> dget (finalize_followup_status obs rc p) k = dget obs k"
  using assms
  by (auto simp: finalize_followup_status_def update_status_get split: if_splits)

lemma initial_observation_fallback:
  assumes "initial_observation p (Some sch) config sidecar = Inr obs"
  shows "dget obs ''fallback_used'' = PBool False"
  using initial_observation_get [OF assms, of "''fallback_used''"]
  by (simp add: BASE_FIELDS_def base_observation_def)

lemma execute_followup_pass:
  assumes "execute_followup_observation env followup cmd pf p sch = Inr obs"
    and "dget obs ''status'' = PStr ''PASS''"
  shows "\<exists>out err st. ce_run env call_followup cmd = PDone 0 out err
      \<and> dget obs ''http_status'' = PInt st \<and> 200 \<le> st \<and> st < 400
      \<and> dget obs ''requested_protocol'' = PStr p \<and> dget obs ''negotiated_protocol'' = PStr p
      \<and> dget obs ''fallback_used'' = PBool False"
proof -
  from assms(1) obtain o1 where o1: "initial_observation p (Some sch) followup [] = Inr o1"
    by (auto simp: execute_followup_observation_def rbind_eq_Inr)
  show ?thesis
  proof (cases "ce_run env call_followup cmd")
    case PErrOS
    with assms o1 show ?thesis by (auto simp: execute_followup_observation_def)
  next
    case PTimeout
    with assms o1 show ?thesis by (auto simp: execute_followup_observation_def)
  next
    case (PRaised e)
    with assms o1 show ?thesis by (auto simp: execute_followup_observation_def)
  next
    case (PDone rc out err)
    with assms(1) o1 obtain outcome where pw: "parse_writeout out (pf_writeout_mode pf) = Inr outcome"
      and obs: "obs = finalize_followup_status (apply_outcome o1 outcome rc err p sch followup []) rc p"
      by (auto simp: execute_followup_observation_def rbind_eq_Inr)
    note pass = finalize_followup_pass [OF assms(2) [unfolded obs]]
    have "outcome_ok outcome" using pw by (rule parse_writeout_ok)
    then obtain st where st: "dget outcome ''http_status'' = PInt st"
      using pass(4) by (auto simp: outcome_ok_def)
    have req: "dget o1 ''requested_protocol'' = PStr p"
      using o1 by (rule initial_observation_requested)
    have keep: "dget obs k = dget (apply_outcome o1 outcome rc err p sch followup []) k"
      if "k \<noteq> ''status''" "k \<noteq> ''reason''" for k
      using pass(7) [OF that] by (simp add: obs)
    have "dget obs ''http_status'' = PInt st" "dget obs ''requested_protocol'' = PStr p"
      "dget obs ''negotiated_protocol'' = PStr p" "dget obs ''fallback_used'' = PBool False"
      using pass(1,2) st req by (simp_all add: keep apply_outcome_other OUTCOME_FIELDS_def)
    then show ?thesis
      using PDone pass(3,5,6) st by simp
  qed
qed

lemma execute_followup_error:
  assumes "execute_followup_observation env followup cmd pf p sch = Inr obs"
  shows "dget obs ''transport_error'' \<in> PStr ` set TRANSPORT_ERRORS"
proof -
  from assms obtain o1 where o1: "initial_observation p (Some sch) followup [] = Inr o1"
    by (auto simp: execute_followup_observation_def rbind_eq_Inr)
  note unfold = assms [unfolded execute_followup_observation_def o1 rbind_Inr]
  show ?thesis
  proof (cases "ce_run env call_followup cmd")
    case (PDone rc out err)
    have "dget (finalize_followup_status o2 rc p) ''transport_error'' = dget o2 ''transport_error''" for o2
      by (simp add: finalize_followup_status_def update_status_get)
    with unfold PDone show ?thesis
      using apply_outcome_error by (auto simp: rbind_eq_Inr)
  qed (use unfold in \<open>auto simp: transport_error_words\<close>)
qed

lemma followup_transport_error:
  assumes "run_followup_observation env config insp = Inr (Some f)"
  shows "dget f ''transport_error'' \<in> insert PNone (PStr ` set TRANSPORT_ERRORS)"
  using assms
proof (cases rule: followup_cases)
  case (skipped st reason p)
  then show ?thesis by (simp add: followup_observation_def split: option.split)
next
  case (executed url followup p sch pf cmd obs)
  then show ?thesis
    using execute_followup_error [OF executed(5)] by (simp add: followup_artifact_get FOLLOWUP_FIELDS_def)
qed

lemma followup_configuration_facts:
  assumes "followup_configuration config url q = Inr followup"
  shows "cc_url followup = url" "cc_request followup = ''GET''" "cc_headers followup = []" "cc_data_file followup = None"
    "derive_followup_transport_case_id (cc_transport_case_id config) = Inr (cc_transport_case_id followup)"
  using assms by (auto simp: followup_configuration_def rbind_eq_Inr)

lemma followup_keys:
  assumes "run_followup_observation env config insp = Inr (Some f)"
  shows "keys_in FOLLOWUP_FIELDS f"
  using assms
  by (cases rule: followup_cases)
    (auto simp: followup_observation_facts followup_artifact_observation_def keys_in_filter)

lemma followup_pass:
  assumes run: "run_followup_observation env config insp = Inr (Some f)"
    and pass: "dget f ''status'' = PStr ''PASS''"
  obtains url followup p sch cmd pf out err st where "cc_followup_url config = Some url"
    and "cc_url followup = url" and "cc_headers followup = []" and "cc_data_file followup = None"
    and "derive_followup_transport_case_id (cc_transport_case_id config) = Inr (cc_transport_case_id followup)"
    and "validate_config followup = Inr (p, sch)" and "build_curl_command followup pf = Inr cmd"
    and "ce_run env call_followup cmd = PDone 0 out err"
    and "dget f ''http_status'' = PInt st" and "200 \<le> st" and "st < 400"
    and "dget f ''requested_protocol'' = PStr p" and "dget f ''negotiated_protocol'' = PStr p"
    and "dget f ''fallback_used'' = PBool False"
  using run
proof (cases rule: followup_cases)
  case (skipped st reason p)
  then have "dget f ''status'' = PStr st" by (simp add: followup_observation_facts)
  with pass skipped(1) show thesis by auto
next
  case (executed url followup p sch pf cmd obs)
  have k: "''status'' \<in> set FOLLOWUP_FIELDS" "''http_status'' \<in> set FOLLOWUP_FIELDS"
    "''requested_protocol'' \<in> set FOLLOWUP_FIELDS" "''negotiated_protocol'' \<in> set FOLLOWUP_FIELDS"
    "''fallback_used'' \<in> set FOLLOWUP_FIELDS"
    by (simp_all add: FOLLOWUP_FIELDS_def)
  have "dget obs ''status'' = PStr ''PASS''"
    using pass executed(6) k by (simp add: followup_artifact_get)
  with executed(5) obtain out err st where
    "ce_run env call_followup cmd = PDone 0 out err" "dget obs ''http_status'' = PInt st" "200 \<le> st" "st < 400"
    "dget obs ''requested_protocol'' = PStr p" "dget obs ''negotiated_protocol'' = PStr p"
    "dget obs ''fallback_used'' = PBool False"
    using execute_followup_pass by blast
  then show thesis
    using followup_configuration_facts [OF executed(2)] executed k
    by (intro that [of url followup p sch pf cmd out err st]) (simp_all add: followup_artifact_get)
qed

end
