(* ===== verification/ClientExamples.thy ===== *)
theory ClientExamples
  imports FollowupFacts
begin

text \<open>
  A concrete environment and configuration: an HTTP/2 probe of a health endpoint, with a
  sidecar that reports the ALPN value and a curl that answers in its JSON format. The
  evaluation of each step on it is a lemma.
\<close>

definition demo_writes :: write_answers where
  "demo_writes = \<lparr>wa_mkdir = True, wa_is_dir = True, wa_mkstemp = Some ''x1'', wa_write = None, wa_fsync = True,
     wa_replace = True, wa_dir_open = True, wa_dir_fsync = True, wa_unlink = True\<rparr>"

definition demo_curl :: proc_env where
  "demo_curl i cmd =
     (if i = call_version then PDone 0 (''curl 8.5.0'' @ NL @ ''Features: HTTP2 HTTP3'' @ NL) []
      else if i = call_help
      then PDone 0 (''--cacert --connect-timeout --data-binary --fail-with-body --header --http1.1 --http2 ''
        @ ''--http2-prior-knowledge --http3-only --insecure --max-time --output --request --resolve ''
        @ ''--show-error --silent --write-out'') []
      else PDone 0 (''{\"response_code\": 200, \"http_version\": \"2\", \"size_download\": 2, \"content_length_download\": 2}'') [])"

definition demo_config :: client_config where
  "demo_config = \<lparr>cc_url = ''https://example.test/health'', cc_protocol = ''h2'', cc_artifact_dir = [''out''],
     cc_curl = ''curl'', cc_timeout = exact_int 30, cc_connect_timeout = None, cc_insecure = False,
     cc_request = ''GET'', cc_headers = [''Accept: text/plain''], cc_data_file = None, cc_cacert = None, cc_resolve = [],
     cc_connector = Some ''nginx'', cc_integration_mode = None, cc_run_id = Some ''run-1'',
     cc_transaction_id = None, cc_transport_case_id = Some ''case-1'', cc_rule_id = None, cc_phase = None,
     cc_stream_id = Some 1, cc_upstream_protocol = None, cc_quic_udp_observed = False,
     cc_observation_sidecar = Some [''run'', ''sidecar.json''],
     cc_followup_url = None, cc_followup_protocol = None\<rparr>"

definition demo_env :: client_env where
  "demo_env = \<lparr>ce_run = demo_curl,
     ce_root = FDir True [(''run'', FDir True [(''sidecar.json'', FReg True 14 (Some ''{\"alpn\": \"h2\"}''))])],
     ce_os = \<lparr>next_fd = 3, open_fds = []\<rparr>, ce_writes = (\<lambda>i. demo_writes)\<rparr>"



section \<open>Validation and sidecar\<close>

lemma demo_normalize: "normalize_protocol ''h2'' = Inr ''h2''"
  by code_simp

lemma demo_url: "validate_url ''https://example.test/health'' ''h2'' = Inr ''https''"
  by code_simp

lemma demo_token: "has_invalid_bounded_token (PStr ''case-1'') = False"
  by code_simp

lemma demo_texts:
  "validate_text_argument (Some ''nginx'') n = Inr (Some ''nginx'')"
  "validate_text_argument (Some ''run-1'') n = Inr (Some ''run-1'')"
  "validate_text_argument None n = Inr None"
  by code_simp+

lemma demo_header: "validate_header ''Accept: text/plain'' = Inr ()"
  by code_simp

lemma demo_timeouts: "validate_timeouts demo_config = Inr ()"
  by code_simp

lemma demo_validate: "validate_config demo_config = Inr (''h2'', ''https'')"
  by (simp add: validate_config_def demo_timeouts)
    (simp add: demo_config_def demo_normalize demo_url demo_texts demo_header demo_token
      validate_request_def has_line_control_def validate_stream_id_def has_invalid_stream_id_def
      validate_provenance_text_def provenance_text_fields_def validate_transport_case_id_def)

lemma demo_read:
  "read_bounded_regular_bytes (ce_root demo_env) [''run'', ''sidecar.json''] MAX_SIDECAR_BYTES (ce_os demo_env)
   = (Inr ''{\"alpn\": \"h2\"}'', (ce_os demo_env)\<lparr>next_fd := 6\<rparr>)"
  by (simp add: demo_env_def read_bounded_regular_bytes_def open_no_follow_file_def os_open_def
      open_answer_def fd_node_def dir_entry_def os_close_def read_checked_def MAX_SIDECAR_BYTES_def)

lemma demo_sidecar_json:
  "utf8_decode ''{\"alpn\": \"h2\"}'' = Inr ''{\"alpn\": \"h2\"}''"
  "json_loads ''{\"alpn\": \"h2\"}'' = Inr (PDict [(''alpn'', PStr ''h2'')])"
  "copy_sidecar [(''alpn'', PStr ''h2'')] = Inr [(''alpn'', PStr ''h2'')]"
  by code_simp+

lemma demo_sidecar: "load_config_sidecar demo_env demo_config = Inr ([(''alpn'', PStr ''h2'')], None)"
  by (simp add: load_config_sidecar_def demo_config_def load_observation_sidecar_def
      read_observation_sidecar_def decode_observation_sidecar_def demo_read demo_sidecar_json)

section \<open>Curl\<close>

definition demo_inspection :: curl_inspection where
  "demo_inspection =
     \<lparr>ci_executable = ''curl'', ci_version_text = ''curl 8.5.0'' @ NL @ ''Features: HTTP2 HTTP3'' @ NL,
      ci_version = Some (8, 5, 0), ci_features = [''HTTP2'', ''HTTP3''],
      ci_options = [''--cacert'', ''--connect-timeout'', ''--data-binary'', ''--fail-with-body'', ''--header'',
        ''--http1.1'', ''--http2'', ''--http2-prior-knowledge'', ''--http3-only'', ''--insecure'', ''--max-time'',
        ''--output'', ''--request'', ''--resolve'', ''--show-error'', ''--silent'', ''--write-out''],
      ci_version_returncode = Some 0, ci_help_returncode = Some 0, ci_error = None\<rparr>"

lemma demo_version:
  "parse_version (''curl 8.5.0'' @ NL @ ''Features: HTTP2 HTTP3'' @ NL) = Inr (Some (8, 5, 0))"
  "parse_features (''curl 8.5.0'' @ NL @ ''Features: HTTP2 HTTP3'' @ NL) = [''HTTP2'', ''HTTP3'']"
  by code_simp+

lemma demo_truncate:
  "truncate_text (''curl 8.5.0'' @ NL @ ''Features: HTTP2 HTTP3'' @ NL) = ''curl 8.5.0'' @ NL @ ''Features: HTTP2 HTTP3'' @ NL"
proof -
  have "utf8_length (''curl 8.5.0'' @ NL @ ''Features: HTTP2 HTTP3'' @ NL) = 33" by code_simp
  then show ?thesis by (simp add: truncate_text_def MAX_ARTIFACT_TEXT_BYTES_def del: append.simps)
qed

lemma demo_options: "parse_options (''--cacert --connect-timeout --data-binary --fail-with-body --header --http1.1 --http2 ''
        @ ''--http2-prior-knowledge --http3-only --insecure --max-time --output --request --resolve ''
        @ ''--show-error --silent --write-out'') = ci_options demo_inspection"
  by code_simp

lemma demo_inspect: "inspect_curl (ce_run demo_env) (cc_curl demo_config) = Inr demo_inspection"
  using demo_options
  by (simp add: inspect_curl_def demo_env_def demo_curl_def demo_version demo_truncate
      demo_config_def Let_def del: append.simps) (simp add: demo_inspection_def)

definition demo_preflight :: preflight where
  "demo_preflight =
     \<lparr>pf_status = ''READY'', pf_reason = None, pf_required_features = [''HTTP2''],
      pf_required_options = [''--fail-with-body'', ''--header'', ''--http2'', ''--max-time'', ''--output'', ''--request'',
        ''--show-error'', ''--silent'', ''--write-out''],
      pf_missing_features = [], pf_missing_options = [], pf_writeout_mode = ''json''\<rparr>"

lemma demo_preflight_curl: "preflight_curl ''h2'' demo_inspection demo_config = Inr demo_preflight"
  by code_simp

definition demo_command :: "string list" where
  "demo_command = [''curl'', ''--silent'', ''--show-error'', ''--fail-with-body'', ''--output'', ''/dev/null'',
     ''--request'', ''GET'', ''--max-time'', ''30'', ''--header'', ''Accept: text/plain'', ''--header'',
     ''X-MSConnector-Transport-Case: case-1'', ''--http2'', ''--write-out'', ''%{json}'' @ NL,
     ''https://example.test/health'']"

lemma demo_arguments: "curl_arguments demo_config ''--http2'' (writeout_format ''json'') = demo_command"
  by code_simp

lemma demo_build: "build_curl_command demo_config demo_preflight = Inr demo_command"
  using demo_arguments
  by (simp add: build_curl_command_def demo_validate PROTOCOL_FLAGS_def demo_preflight_def Let_def)
    (simp add: demo_command_def NL_def)

text \<open>The same probe with other secrets: credentials in the URL, another header and token.\<close>

definition demo_secret :: client_config where
  "demo_secret = demo_config\<lparr>cc_url := ''https://bob:pw@EXAMPLE.test/health'',
     cc_headers := [''Authorization: Bearer abc''], cc_transport_case_id := Some ''case-2''\<rparr>"

definition demo_secret_command :: "string list" where
  "demo_secret_command = [''curl'', ''--silent'', ''--show-error'', ''--fail-with-body'', ''--output'', ''/dev/null'',
     ''--request'', ''GET'', ''--max-time'', ''30'', ''--header'', ''Authorization: Bearer abc'', ''--header'',
     ''X-MSConnector-Transport-Case: case-2'', ''--http2'', ''--write-out'', ''%{json}'' @ NL,
     ''https://bob:pw@EXAMPLE.test/health'']"

lemma demo_secret_url: "same_target ''https://example.test/health'' ''https://bob:pw@EXAMPLE.test/health''"
  by code_simp

lemma demo_secret_parts:
  "validate_url ''https://bob:pw@EXAMPLE.test/health'' ''h2'' = Inr ''https''"
  "has_invalid_bounded_token (PStr ''case-2'') = False"
  "validate_header ''Authorization: Bearer abc'' = Inr ()"
  "validate_timeouts demo_secret = Inr ()"
  by code_simp+

lemma demo_secret_validate: "validate_config demo_secret = Inr (''h2'', ''https'')"
  by (simp add: validate_config_def demo_secret_parts)
    (simp add: demo_secret_def demo_config_def demo_normalize demo_texts demo_secret_parts
      validate_request_def has_line_control_def validate_stream_id_def has_invalid_stream_id_def
      validate_provenance_text_def provenance_text_fields_def validate_transport_case_id_def)

lemma demo_secret_build: "build_curl_command demo_secret demo_preflight = Inr demo_secret_command"
proof -
  have "curl_arguments demo_secret ''--http2'' (writeout_format ''json'') = demo_secret_command" by code_simp
  then show ?thesis
    by (simp add: build_curl_command_def demo_secret_validate PROTOCOL_FLAGS_def demo_preflight_def Let_def)
      (simp add: demo_secret_command_def NL_def)
qed

section \<open>The observation\<close>

definition demo_provenance :: dict where
  "demo_provenance = [(''connector'', PStr ''nginx''), (''run_id'', PStr ''run-1''),
     (''transport_case_id'', PStr ''case-1''),
     (''target_authority_sha256'', PStr (''sha256:'' @ sha256_hex ''https://example.test:443'')),
     (''stream_id'', PInt 1), (''alpn'', PStr ''h2'')]"

lemma demo_authority: "target_authority_sha256 ''https://example.test/health''
    = Some (''sha256:'' @ sha256_hex ''https://example.test:443'')"
proof -
  have u: "urlsplit ''https://example.test/health'' = Inr \<lparr>sr_scheme = ''https'', sr_netloc = ''example.test'',
      sr_path = ''/health'', sr_query = [], sr_fragment = []\<rparr>" by code_simp
  have h: "url_port \<lparr>sr_scheme = ''https'', sr_netloc = ''example.test'', sr_path = ''/health'', sr_query = [], sr_fragment = []\<rparr> = Inr None"
    "url_hostname \<lparr>sr_scheme = ''https'', sr_netloc = ''example.test'', sr_path = ''/health'', sr_query = [], sr_fragment = []\<rparr> = Some ''example.test''"
    "lower_str ''example.test'' = ''example.test''" "lower_str ''https'' = ''https''"
    "utf8_encode ''https://example.test:443'' = ''https://example.test:443''" "int_str 443 = ''443''"
    by code_simp+
  show ?thesis by (simp add: target_authority_sha256_def u h Let_def)
qed

lemma demo_provenance: "provenance demo_config [(''alpn'', PStr ''h2'')] = Inr demo_provenance"
proof -
  have t: "fullmatch BOUNDED_TOKEN ''case-1'' = True" by code_simp
  show ?thesis
    unfolding provenance_def demo_config_def
    by (simp add: provenance_text_fields_def demo_texts provenance_case_id_def t provenance_authority_def
      demo_authority provenance_upstream_def provenance_stream_def PROVENANCE_SIDECAR_FIELDS_def Let_def
      demo_provenance_def del: fullmatch.simps)
qed

definition demo_initial :: dict where
  "demo_initial = dict_update (dict_set (base_observation ''h2'') ''expected_transport'' (PStr ''tls_tcp'')) demo_provenance"

lemma demo_initial: "initial_observation ''h2'' (Some ''https'') demo_config [(''alpn'', PStr ''h2'')] = Inr demo_initial"
  by (simp add: initial_observation_def demo_provenance demo_initial_def expected_transport_def Let_def)

lemma demo_outcome:
  "parse_writeout ''{\"response_code\": 200, \"http_version\": \"2\", \"size_download\": 2, \"content_length_download\": 2}'' ''json''
   = Inr [(''http_status'', PInt 200), (''http_version'', PStr ''2''), (''downloaded_bytes'', PInt 2),
          (''content_length_download'', PInt 2)]"
  by code_simp

definition demo_observation :: dict where
  "demo_observation =
     [(''schema_version'', PInt 1), (''status'', PStr ''PASS''),
      (''requested_protocol'', PStr ''h2''), (''downstream_protocol'', PStr ''h2''),
      (''negotiated_protocol'', PStr ''h2''), (''transport'', PStr ''tls_tcp''), (''fallback_used'', PBool False),
      (''http_status'', PInt 200), (''downloaded_bytes'', PInt 2), (''content_length_download'', PInt 2),
      (''response_committed'', PBool True), (''client_first_body_byte_visible'', PBool True),
      (''response_complete'', PBool True), (''curl_exit_code'', PInt 0),
      (''transport_error'', PStr ''none'')] @ demo_provenance"

lemma demo_negotiated: "negotiated_protocol (PStr ''2'') ''h2'' ''https'' = PStr ''h2''"
  by code_simp

definition demo_applied :: dict where
  "demo_applied = apply_outcome demo_initial [(''http_status'', PInt 200), (''http_version'', PStr ''2''), (''downloaded_bytes'', PInt 2),
          (''content_length_download'', PInt 2)] 0 [] ''h2'' ''https'' demo_config [(''alpn'', PStr ''h2'')]"

lemma demo_applied: "dict_set (dict_pop demo_applied ''expected_transport'') ''status'' (PStr ''PASS'') = demo_observation"
  by (simp add: demo_applied_def apply_outcome_def demo_negotiated demo_initial_def base_observation_def demo_provenance_def
      demo_observation_def dict_pop_def Let_def num_pos_def num_le_def classify_transport_error_def returncode_transport_error_def
      derive_transport_def expected_transport_def)

lemma demo_applied_list: "demo_applied =
     [(''schema_version'', PInt 1), (''status'', PStr ''NOT_EXECUTED''),
      (''requested_protocol'', PStr ''h2''), (''downstream_protocol'', PStr ''h2''),
      (''negotiated_protocol'', PStr ''h2''), (''transport'', PStr ''tls_tcp''), (''fallback_used'', PBool False),
      (''http_status'', PInt 200), (''downloaded_bytes'', PInt 2), (''content_length_download'', PInt 2),
      (''response_committed'', PBool True), (''client_first_body_byte_visible'', PBool True),
      (''response_complete'', PBool True), (''curl_exit_code'', PInt 0),
      (''transport_error'', PStr ''none''), (''expected_transport'', PStr ''tls_tcp'')] @ demo_provenance"
  by (simp add: demo_applied_def apply_outcome_def demo_negotiated demo_initial_def base_observation_def demo_provenance_def
      Let_def num_pos_def num_le_def classify_transport_error_def returncode_transport_error_def
      derive_transport_def expected_transport_def)

lemma sha256_token_valid: "has_invalid_sha256_token (PStr (''sha256:'' @ sha256_hex s)) = False"
  using fullmatch_SHA256_TOKEN [of "''sha256:'' @ sha256_hex s"] length_sha256_hex [of s] sha256_hex_chars [of s]
  by (auto simp: has_invalid_sha256_token_def list_all_iff simp del: append.simps fullmatch.simps)

lemma demo_wf: "observation_wf demo_applied"
  unfolding observation_wf_def observation_fields_ok_iff demo_applied_list demo_provenance_def
  using sha256_token_valid [of "''https://example.test:443''"]
  by (simp add: one_of_def CANONICAL_PROTOCOLS_def CANONICAL_TRANSPORTS_def RAW_CONNECTION_ID_KEYS_def
      has_invalid_stream_id_def demo_token)

lemma demo_evidence: "pass_evidence demo_applied"
  unfolding pass_evidence_def demo_applied_list demo_provenance_def by (simp add: Let_def)

lemma demo_finalize: "finalize_status demo_applied ''h2'' = Inr (dict_set demo_applied ''status'' (PStr ''PASS''))"
proof -
  have v: "validate_protocol_observation demo_applied True = Inr []"
    using demo_wf demo_evidence by (simp add: validate_observation_iff) (simp add: demo_applied_list)
  have e: "evidence_gaps demo_applied = Inr ([], [])"
    using demo_evidence evidence_gaps_empty [of demo_applied] by (simp add: demo_applied_list)
  have "dget demo_applied ''fallback_used'' = PBool False" "dget demo_applied ''negotiated_protocol'' = PStr ''h2''"
    "dget demo_applied ''curl_exit_code'' = PInt 0"
    by (simp_all add: demo_applied_list)
  then show ?thesis using v e by (simp add: finalize_status_def in_int_set_def)
qed

section \<open>The run\<close>

definition demo_result :: client_run_result where
  "demo_result = \<lparr>rr_observation = demo_observation, rr_inspection = demo_inspection,
     rr_preflight = demo_preflight, rr_command = demo_command\<rparr>"

lemma demo_execute:
  "execute_primary_observation demo_env demo_config demo_command demo_preflight ''h2'' (Some ''https'')
     [(''alpn'', PStr ''h2'')] = Inr (dict_set demo_applied ''status'' (PStr ''PASS''))"
proof -
  have "ce_run demo_env call_primary demo_command
      = PDone 0 ''{\"response_code\": 200, \"http_version\": \"2\", \"size_download\": 2, \"content_length_download\": 2}'' []"
    by (simp add: demo_env_def demo_curl_def)
  moreover have "pf_writeout_mode demo_preflight = ''json''" by (simp add: demo_preflight_def)
  ultimately show ?thesis
    using demo_finalize by (simp add: execute_primary_observation_def demo_initial demo_outcome demo_applied_def)
qed

lemma demo_put: "\<exists>d'. put_text demo_env i p v d = (Inr (), d')"
proof -
  have "write_accepted (ce_writes demo_env i)"
    by (simp add: demo_env_def write_accepted_def demo_writes_def)
  then show ?thesis
    using atomic_write_ok_iff [of "ce_writes demo_env i" p v d] by (simp add: put_text_def Let_def)
qed

definition demo_command_text :: string where
  "demo_command_text =
     shlex_join [''curl'', ''--silent'', ''--show-error'', ''--fail-with-body'', ''--output'', ''/dev/null'',
       ''--request'', ''GET'', ''--max-time'', ''30'', ''--header'', ''[redacted]'', ''--header'',
       ''[redacted]'', ''--http2'', ''--write-out'', ''%{json}'' @ NL, ''https://example.test/health''] @ NL"

lemma demo_redacted: "redacted_command demo_command ''https://example.test/health'' = Inr demo_command_text"
proof -
  have "safe_url_for_command ''https://example.test/health'' = Inr ''https://example.test/health''"
    by code_simp
  then show ?thesis
    by (simp add: redacted_command_def demo_command_text_def demo_command_def REDACTED_OPTIONS_def
        startswith_def NL_def)
qed

lemma demo_printable: "json_printable (PDict demo_observation)"
proof -
  have "length (dec_str 1) = 1" "length (dec_str 200) = 3" "length (dec_str 2) = 1" "length (dec_str 0) = 1"
    by code_simp+
  then show ?thesis by (simp add: demo_observation_def demo_provenance_def)
qed

lemma demo_write: "\<exists>d'. write_artifacts demo_env demo_config demo_inspection demo_preflight demo_command
    demo_observation d = (Inr (), d')"
proof -
  let ?dir = "cc_artifact_dir demo_config"
  let ?rep = "features_report demo_inspection demo_preflight (if has_key demo_observation ''requested_protocol''
        then py_str (dget demo_observation ''requested_protocol'') else [])"
  obtain d1 where "put_text demo_env 0 (?dir @ [''client-version.txt'']) (truncate_text (ci_version_text demo_inspection)) d
      = (Inr (), d1)" using demo_put by blast
  moreover obtain d2 where "put_text demo_env 1 (?dir @ [''client-features.txt'']) ?rep d1 = (Inr (), d2)"
    using demo_put by blast
  moreover obtain d3 where "put_text demo_env 2 (?dir @ [''client-command.txt'']) demo_command_text d2 = (Inr (), d3)"
    using demo_put by blast
  moreover obtain d4 where "put_text demo_env 3 (?dir @ [''client-protocol-observation.json''])
      (json_document demo_observation @ NL) d3 = (Inr (), d4)"
    using demo_put by blast
  moreover have "demo_command \<noteq> []" "cc_url demo_config = ''https://example.test/health''"
    by (simp_all add: demo_command_def demo_config_def)
  moreover have "json_printable (PDict demo_observation)"
    by (rule demo_printable)
  ultimately show ?thesis
    unfolding write_artifacts_def Let_def put_json_cases
    by (simp add: sbind_def slift_def demo_redacted)
qed

lemma demo_run: "\<exists>d'. run_protocol_client demo_env demo_config d = (Inr demo_result, d')"
proof -
  obtain d' where w: "write_artifacts demo_env demo_config demo_inspection demo_preflight demo_command
    demo_observation d = (Inr (), d')"
    using demo_write by blast
  have pop: "dict_pop (dict_set demo_applied ''status'' (PStr ''PASS'')) ''expected_transport'' = demo_observation"
    by (simp add: demo_applied_list demo_observation_def dict_pop_def demo_provenance_def)
  have "run_followup_observation demo_env demo_config demo_inspection = Inr None"
    by (simp add: run_followup_observation_def demo_config_def)
  then have "finish_run demo_env demo_config demo_inspection demo_preflight demo_command demo_observation d
      = (Inr demo_result, d')"
    using w by (simp add: finish_run_def sbind_def slift_def sreturn_def demo_result_def)
  moreover have "validated_config_or_default demo_config = Inr (''h2'', Some ''https'', None)"
    by (simp add: validated_config_or_default_def demo_validate)
  moreover have "pf_status demo_preflight = ''READY''" by (simp add: demo_preflight_def)
  ultimately show ?thesis
    by (simp add: run_protocol_client_def sbind_def slift_def demo_inspect demo_sidecar
        demo_preflight_curl demo_build demo_execute pop)
qed

section \<open>A follow-up\<close>

text \<open>An HTTP/1.1 probe of the same host that is followed by a health request.\<close>

definition demo_plain :: client_config where
  "demo_plain = demo_config\<lparr>cc_url := ''http://example.test/health'', cc_protocol := ''http1'',
     cc_transport_case_id := None, cc_stream_id := None, cc_observation_sidecar := None,
     cc_followup_url := Some ''http://example.test/ready''\<rparr>"

definition demo_plain_env :: client_env where
  "demo_plain_env = demo_env\<lparr>ce_run := (\<lambda>i cmd.
     if i = call_followup
     then PDone 0 ''{\"response_code\": 204, \"http_version\": \"1.1\", \"size_download\": 0}'' []
     else demo_curl i cmd)\<rparr>"

definition demo_health :: client_config where
  "demo_health = demo_plain\<lparr>cc_url := ''http://example.test/ready'', cc_headers := [],
     cc_transaction_id := None, cc_rule_id := None, cc_phase := None\<rparr>"

lemma demo_health_configuration:
  "followup_configuration demo_plain ''http://example.test/ready'' (effective_followup_protocol demo_plain) = Inr demo_health"
  by (simp add: followup_configuration_def derive_followup_transport_case_id_def effective_followup_protocol_def
      demo_plain_def demo_health_def demo_config_def)

lemma demo_health_parts:
  "normalize_protocol ''http1'' = Inr ''http1''"
  "validate_url ''http://example.test/ready'' ''http1'' = Inr ''http''"
  "validate_timeouts demo_health = Inr ()"
  by code_simp+

lemma demo_health_validate: "validate_config demo_health = Inr (''http1'', ''http'')"
  by (simp add: validate_config_def demo_health_parts)
    (simp add: demo_health_def demo_plain_def demo_config_def demo_texts demo_health_parts
      validate_request_def has_line_control_def validate_stream_id_def
      validate_provenance_text_def provenance_text_fields_def validate_transport_case_id_def)

definition demo_health_preflight :: preflight where
  "demo_health_preflight = demo_preflight\<lparr>pf_required_features := [],
     pf_required_options := [''--fail-with-body'', ''--http1.1'', ''--max-time'', ''--output'', ''--request'',
        ''--show-error'', ''--silent'', ''--write-out'']\<rparr>"

lemma demo_health_preflight: "preflight_curl ''http1'' demo_inspection demo_health = Inr demo_health_preflight"
  by code_simp

lemma demo_health_build: "\<exists>cmd. build_curl_command demo_health demo_health_preflight = Inr cmd"
proof -
  have "''--http3'' \<notin> set (curl_arguments demo_health ''--http1.1'' (writeout_format ''json''))" by code_simp
  then show ?thesis
    by (simp add: build_curl_command_def demo_health_validate PROTOCOL_FLAGS_def demo_health_preflight_def
        demo_preflight_def Let_def)
qed

lemma demo_health_authority: "target_authority_sha256 ''http://example.test/ready''
    = Some (''sha256:'' @ sha256_hex ''http://example.test:80'')"
proof -
  have u: "urlsplit ''http://example.test/ready'' = Inr \<lparr>sr_scheme = ''http'', sr_netloc = ''example.test'',
      sr_path = ''/ready'', sr_query = [], sr_fragment = []\<rparr>" by code_simp
  have h: "url_port \<lparr>sr_scheme = ''http'', sr_netloc = ''example.test'', sr_path = ''/ready'', sr_query = [], sr_fragment = []\<rparr> = Inr None"
    "url_hostname \<lparr>sr_scheme = ''http'', sr_netloc = ''example.test'', sr_path = ''/ready'', sr_query = [], sr_fragment = []\<rparr> = Some ''example.test''"
    "lower_str ''example.test'' = ''example.test''" "lower_str ''http'' = ''http''"
    "utf8_encode ''http://example.test:80'' = ''http://example.test:80''" "int_str 80 = ''80''"
    by code_simp+
  show ?thesis by (simp add: target_authority_sha256_def u h Let_def)
qed

lemma demo_health_initial: "\<exists>o1. initial_observation ''http1'' (Some ''http'') demo_health [] = Inr o1"
  unfolding initial_observation_def provenance_def demo_health_def demo_plain_def demo_config_def
  by (simp add: provenance_text_fields_def demo_texts provenance_case_id_def provenance_authority_def
      demo_health_authority provenance_upstream_def provenance_stream_def Let_def)

lemma demo_health_outcome:
  "parse_writeout ''{\"response_code\": 204, \"http_version\": \"1.1\", \"size_download\": 0}'' ''json''
   = Inr [(''http_status'', PInt 204), (''http_version'', PStr ''1.1''), (''downloaded_bytes'', PInt 0),
          (''content_length_download'', PNone)]"
  by code_simp

lemma demo_plain_followup:
  "\<exists>f. run_followup_observation demo_plain_env demo_plain demo_inspection = Inr (Some f)
     \<and> dget f ''status'' = PStr ''PASS'' \<and> dget f ''requested_protocol'' = PStr ''http1''"
proof -
  obtain cmd where cmd: "build_curl_command demo_health demo_health_preflight = Inr cmd"
    using demo_health_build by blast
  obtain o1 where o1: "initial_observation ''http1'' (Some ''http'') demo_health [] = Inr o1"
    using demo_health_initial by blast
  have req: "dget o1 ''requested_protocol'' = PStr ''http1''"
    using o1 by (rule initial_observation_requested)
  have neg: "negotiated_protocol (PStr ''1.1'') ''http1'' ''http'' = PStr ''http1''" by code_simp
  have url: "cc_followup_url demo_plain = Some ''http://example.test/ready''" by (simp add: demo_plain_def)
  let ?out = "[(''http_status'', PInt 204), (''http_version'', PStr ''1.1''), (''downloaded_bytes'', PInt 0),
          (''content_length_download'', PNone)]"
  let ?obs = "finalize_followup_status (apply_outcome o1 ?out 0 [] ''http1'' ''http'' demo_health []) 0 ''http1''"
  have "execute_followup_observation demo_plain_env demo_health cmd demo_health_preflight ''http1'' ''http'' = Inr ?obs"
    by (simp add: execute_followup_observation_def o1 demo_plain_env_def demo_health_preflight_def demo_preflight_def
        demo_health_outcome)
  moreover have "pf_status demo_health_preflight = ''READY''"
    by (simp add: demo_health_preflight_def demo_preflight_def)
  ultimately have "run_followup_observation demo_plain_env demo_plain demo_inspection
      = Inr (Some (followup_artifact_observation ?obs))"
    by (simp add: run_followup_observation_def url demo_health_configuration demo_health_validate
        followup_request_def demo_health_preflight cmd)
  moreover have "dget ?obs ''status'' = PStr ''PASS''" "dget ?obs ''requested_protocol'' = PStr ''http1''"
    using req by (simp_all add: finalize_followup_status_def update_status_def neg apply_outcome_other OUTCOME_FIELDS_def)
  moreover have "''status'' \<in> set FOLLOWUP_FIELDS" "''requested_protocol'' \<in> set FOLLOWUP_FIELDS"
    by (simp_all add: FOLLOWUP_FIELDS_def)
  ultimately show ?thesis by (simp add: followup_artifact_get)
qed

end
