(* ===== verification/ClientProperties.thy ===== *)
theory ClientProperties
  imports ClientExamples
begin

text \<open>
  The properties of the protocol client, each with a witness on the concrete probe of
  \<^verbatim>\<open>ClientExamples\<close> where it has hypotheses.
\<close>

section \<open>Runs\<close>

text \<open>
  C1. Soundness of PASS: when a run returns an observation with status PASS, the
  configuration was valid, curl answered with exit code 0 or 22, the negotiated protocol
  is the forced one over the transport that belongs to it, no fallback is recorded, an H2,
  h2c or H3 observation carries a stream id and the configured correlation token, H2 and
  H3 carry their ALPN value, and H3 carries both QUIC observations.
\<close>

theorem run_pass_sound:
  assumes "run_protocol_client env config d = (Inr r, d')"
    and "dget (rr_observation r) ''status'' = PStr ''PASS''"
  shows "\<exists>p sch rc out err.
    validate_config config = Inr (p, sch)
    \<and> ce_run env call_primary (rr_command r) = PDone rc out err \<and> rc \<in> {0, 22}
    \<and> dget (rr_observation r) ''requested_protocol'' = PStr p
    \<and> dget (rr_observation r) ''negotiated_protocol'' = PStr p
    \<and> dget (rr_observation r) ''transport'' = PStr (expected_transport p sch)
    \<and> dget (rr_observation r) ''fallback_used'' = PBool False
    \<and> (p \<in> {''h2'', ''h2c'', ''h3''} \<longrightarrow> (\<exists>i\<ge>0. dget (rr_observation r) ''stream_id'' = PInt i)
         \<and> dget (rr_observation r) ''transport_case_id'' = opt_str (cc_transport_case_id config))
    \<and> (p \<in> {''h2'', ''h3''} \<longrightarrow> dget (rr_observation r) ''alpn'' = PStr p)
    \<and> (p = ''h3'' \<longrightarrow> dget (rr_observation r) ''quic_udp_observed'' = PBool True
         \<and> dget (rr_observation r) ''quic_connection_id_present'' = PBool True)"
  using run_returns [OF assms(1)]
proof
  assume "blocked_run env config d r d'"
  then have "dget (rr_observation r) ''status'' \<in> {PStr ''NOT_EXECUTED'', PStr ''BLOCKED''}"
    unfolding blocked_run_def using blocked_observation_facts(1) by fastforce
  with assms(2) show ?thesis by simp
next
  assume "\<exists>p sch sidecar obs. executed_run env config d r d' p sch sidecar obs"
  then obtain p sch sidecar obs where run: "executed_run env config d r d' p sch sidecar obs" by blast
  then have "validate_config config = Inr (p, sch)" by (simp add: executed_run_def)
  with executed_pass [OF run assms(2)] show ?thesis by blast
qed

theorem run_pass_sound_witness:
  "\<exists>d' p sch. run_protocol_client demo_env demo_config Map.empty = (Inr demo_result, d')
     \<and> dget demo_observation ''status'' = PStr ''PASS''
     \<and> validate_config demo_config = Inr (p, sch)
     \<and> dget demo_observation ''negotiated_protocol'' = PStr p
     \<and> dget demo_observation ''transport'' = PStr (expected_transport p sch)"
proof -
  obtain d' where run: "run_protocol_client demo_env demo_config Map.empty = (Inr demo_result, d')"
    using demo_run by blast
  have st: "dget (rr_observation demo_result) ''status'' = PStr ''PASS''"
    by (simp add: demo_result_def demo_observation_def)
  have "rr_observation demo_result = demo_observation" by (simp add: demo_result_def)
  with run_pass_sound [OF run st] run st show ?thesis by auto
qed

text \<open>
  C13. Every observation a run returns has one of the five statuses, only fields of the
  fixed vocabulary, and never a raw connection identifier. An observation of an executed
  command does not keep the local field \<open>expected_transport\<close>.
\<close>

theorem run_observation_vocabulary:
  assumes "run_protocol_client env config d = (Inr r, d')"
  shows "one_of OBSERVATION_STATUSES (dget (rr_observation r) ''status'')
    \<and> keys_in (''expected_transport'' # OBSERVATION_FIELDS) (rr_observation r)
    \<and> (\<forall>k\<in>set RAW_CONNECTION_ID_KEYS. \<not> has_key (rr_observation r) k)
    \<and> (rr_command r \<noteq> [] \<longrightarrow> \<not> has_key (rr_observation r) ''expected_transport'')"
proof -
  have raw: "\<forall>k\<in>set RAW_CONNECTION_ID_KEYS. \<not> has_key obs k"
    if "keys_in (''expected_transport'' # OBSERVATION_FIELDS) obs" for obs
  proof -
    have "set RAW_CONNECTION_ID_KEYS \<inter> set (''expected_transport'' # OBSERVATION_FIELDS) = {}"
      by (simp add: RAW_CONNECTION_ID_KEYS_def OBSERVATION_FIELDS_def BASE_FIELDS_def PROVENANCE_FIELDS_def
          PROVENANCE_SIDECAR_FIELDS_def FINAL_FIELDS_def)
    with that show ?thesis by (auto simp: keys_in_has_key)
  qed
  show ?thesis
    using run_returns [OF assms]
  proof
    assume "blocked_run env config d r d'"
    then obtain p sch sidecar st reason where "st \<in> {''NOT_EXECUTED'', ''BLOCKED''}" and "rr_command r = []"
      and b: "blocked_observation config p sch sidecar st reason = Inr (rr_observation r)"
      unfolding blocked_run_def by blast
    with blocked_observation_facts [OF b] raw show ?thesis
      by (auto simp: one_of_def OBSERVATION_STATUSES_def)
  next
    assume "\<exists>p sch sidecar obs. executed_run env config d r d' p sch sidecar obs"
    then obtain p sch sidecar obs where run: "executed_run env config d r d' p sch sidecar obs" by blast
    then have exec: "execute_primary_observation env config (rr_command r) (rr_preflight r) p (Some sch) sidecar = Inr obs"
      and ro: "rr_observation r = dict_pop obs ''expected_transport''" and "sch \<noteq> []"
      using executed_run_scheme [OF run] by (auto simp: executed_run_def)
    with execute_primary_status [OF exec] execute_primary_keys [OF exec]
    have "one_of OBSERVATION_STATUSES (dget (rr_observation r) ''status'')"
      "keys_in (''expected_transport'' # OBSERVATION_FIELDS) (rr_observation r)"
      by (simp_all add: ro)
    moreover have "\<not> has_key (rr_observation r) ''expected_transport''" by (simp add: ro)
    ultimately show ?thesis using raw by blast
  qed
qed

theorem run_observation_vocabulary_witness:
  "one_of OBSERVATION_STATUSES (dget (rr_observation demo_result) ''status'')
   \<and> \<not> has_key (rr_observation demo_result) ''expected_transport''"
proof -
  obtain d' where "run_protocol_client demo_env demo_config Map.empty = (Inr demo_result, d')"
    using demo_run by blast
  from run_observation_vocabulary [OF this] show ?thesis
    by (simp add: demo_result_def demo_command_def)
qed

text \<open>
  C12. Whenever a run returns, all four artifacts are on the disk with their complete
  contents: the bounded version text, the feature report, the redacted command (or the
  fixed text when nothing was executed) and the JSON text of the returned observation.
\<close>

theorem run_writes_artifacts:
  assumes "run_protocol_client env config d = (Inr r, d')"
  shows "d' (cc_artifact_dir config @ [''client-version.txt''])
      = Some (utf8_encode (truncate_text (ci_version_text (rr_inspection r))))
    \<and> d' (cc_artifact_dir config @ [''client-features.txt''])
      = Some (utf8_encode (features_report (rr_inspection r) (rr_preflight r)
          (if has_key (rr_observation r) ''requested_protocol''
           then py_str (dget (rr_observation r) ''requested_protocol'') else [])))
    \<and> (\<exists>ct. (if rr_command r \<noteq> [] then redacted_command (rr_command r) (cc_url config)
              else Inr (''not executed'' @ NL)) = Inr ct
         \<and> d' (cc_artifact_dir config @ [''client-command.txt'']) = Some (utf8_encode ct))
    \<and> d' (cc_artifact_dir config @ [''client-protocol-observation.json''])
      = Some (utf8_encode (json_document (rr_observation r) @ NL))"
proof -
  obtain d1 where w: "write_artifacts env config (rr_inspection r) (rr_preflight r) (rr_command r) (rr_observation r) d
      = (Inr (), d1)"
    and keep: "\<And>n. n \<in> set ARTIFACT_NAMES \<Longrightarrow> n \<noteq> ''client-followup-observation.json'' \<Longrightarrow>
      d' (cc_artifact_dir config @ [n]) = d1 (cc_artifact_dir config @ [n])"
    using run_returns_write [OF assms] by blast
  show ?thesis
    using write_artifacts_disk [OF w] by (simp add: keep)
qed

theorem run_writes_artifacts_witness:
  "\<exists>d'. run_protocol_client demo_env demo_config Map.empty = (Inr demo_result, d')
     \<and> d' [''out'', ''client-protocol-observation.json''] = Some (utf8_encode (json_document demo_observation @ NL))
     \<and> d' [''out'', ''client-command.txt''] = Some (utf8_encode demo_command_text)"
proof -
  obtain d' where run: "run_protocol_client demo_env demo_config Map.empty = (Inr demo_result, d')"
    using demo_run by blast
  have c: "cc_artifact_dir demo_config = [''out'']" "cc_url demo_config = ''https://example.test/health''"
    "rr_command demo_result = demo_command" "rr_observation demo_result = demo_observation" "demo_command \<noteq> []"
    by (simp_all add: demo_config_def demo_result_def demo_command_def)
  show ?thesis
    using run run_writes_artifacts [OF run] by (auto simp: c demo_redacted)
qed

text \<open>
  C14. Whether a run returns or raises, and whatever the file system refuses, it changes no
  file but its five artifacts (temporary files have names that start with a dot).
\<close>

theorem run_touches_only_artifacts:
  assumes "visible_path q"
    and "q \<notin> (\<lambda>n. cc_artifact_dir config @ [n]) ` set ARTIFACT_NAMES"
  shows "snd (run_protocol_client env config d) q = d q"
  using only_artifacts_run [of config env] assms by (auto simp: only_artifacts_def)

theorem run_touches_only_artifacts_witness:
  "snd (run_protocol_client demo_env demo_config [[''out'', ''notes.txt''] \<mapsto> ''keep'']) [''out'', ''notes.txt'']
     = Some ''keep''"
proof -
  have "visible_path [''out'', ''notes.txt'']" by (simp add: visible_path_def startswith_def)
  moreover have "[''out'', ''notes.txt''] \<notin> (\<lambda>n. cc_artifact_dir demo_config @ [n]) ` set ARTIFACT_NAMES"
    by (simp add: demo_config_def ARTIFACT_NAMES_def)
  ultimately show ?thesis
    by (subst run_touches_only_artifacts) simp_all
qed

section \<open>Status and validation\<close>

text \<open>
  C2. Fallback is an unconditional failure: when curl reports a known protocol other than
  the requested one, the final status is FAIL with the fallback reason, whatever the exit
  code, the sidecar or the rest of the observation say.
\<close>

theorem fallback_always_fails:
  assumes "negotiated_protocol (dget outcome ''http_version'') p sch \<notin> {PNone, PStr p}"
  shows "\<exists>obs'. finalize_status (apply_outcome obs outcome rc err p sch config sidecar) p = Inr obs'
    \<and> dget obs' ''status'' = PStr ''FAIL'' \<and> dget obs' ''reason'' = PStr ''protocol_fallback_observed''
    \<and> dget obs' ''fallback_used'' = PBool True \<and> dget obs' ''transport'' = PNone"
  using assms by (simp add: finalize_status_def derive_transport_def set_status_other)

theorem fallback_always_fails_witness:
  "\<exists>obs'. finalize_status (apply_outcome demo_initial [(''http_version'', PStr ''1.1'')] 0 [] ''h2'' ''https''
      demo_config []) ''h2'' = Inr obs'
    \<and> dget obs' ''status'' = PStr ''FAIL''"
proof -
  have "negotiated_protocol (PStr ''1.1'') ''h2'' ''https'' = PStr ''http1''" by code_simp
  then have "negotiated_protocol (dget [(''http_version'', PStr ''1.1'')] ''http_version'') ''h2'' ''https''
      \<notin> {PNone, PStr ''h2''}" by simp
  from fallback_always_fails [OF this] show ?thesis by blast
qed

text \<open>
  C20. The final status is PASS exactly when the requested protocol was negotiated, curl
  exited with 0 or 22, every field is canonical and well typed, no fallback is recorded
  and the evidence of the profile is complete.
\<close>

theorem finalize_status_pass_iff:
  assumes "finalize_status obs p = Inr obs'"
  shows "dget obs' ''status'' = PStr ''PASS'' \<longleftrightarrow>
    dget obs ''negotiated_protocol'' = PStr p \<and> in_int_set (dget obs ''curl_exit_code'') [0, 22] = Inr True
    \<and> observation_wf obs \<and> dget obs ''fallback_used'' = PBool False \<and> pass_evidence obs"
  using assms by (rule finalize_status_pass)

theorem finalize_status_pass_iff_witness:
  "dget (dict_set demo_applied ''status'' (PStr ''PASS'')) ''status'' = PStr ''PASS''
   \<and> observation_wf demo_applied \<and> pass_evidence demo_applied"
  using finalize_status_pass_iff [OF demo_finalize] by simp

text \<open>
  C7. The importable validator accepts an observation exactly when it satisfies the
  declarative reading: canonical protocols and transport, the type of every optional
  field, no raw connection identifier, and in strict mode no fallback and complete evidence.
\<close>

theorem validate_protocol_observation_iff:
  "validate_protocol_observation obs strict = Inr [] \<longleftrightarrow>
     observation_wf obs \<and> (strict \<longrightarrow> dget obs ''fallback_used'' = PBool False \<and> pass_evidence obs)"
  by (rule validate_observation_iff)

theorem validate_protocol_observation_iff_witness:
  "validate_protocol_observation demo_applied True = Inr []
   \<and> validate_protocol_observation [] True \<noteq> Inr []"
  using validate_protocol_observation_iff [of demo_applied True] validate_protocol_observation_iff [of "[]" True]
    demo_wf demo_evidence
  by (simp add: observation_wf_def one_of_def) (simp add: demo_applied_list)

text \<open>
  C28. The error class of a transfer is one of thirteen fixed words in every observation a run
  returns, whichever way it ended (curl answered, timed out, could not be started, or was
  never started), and in every follow-up artifact, which has no error class when the
  follow-up was skipped. So no text of curl's error stream or of an exception is persisted
  there.
\<close>

theorem transport_error_vocabulary:
  "(\<forall>r d'. run_protocol_client env config d = (Inr r, d') \<longrightarrow>
      dget (rr_observation r) ''transport_error'' \<in> PStr ` set TRANSPORT_ERRORS)
   \<and> (\<forall>f. run_followup_observation env config insp = Inr (Some f) \<longrightarrow>
      dget f ''transport_error'' \<in> insert PNone (PStr ` set TRANSPORT_ERRORS))"
  using run_transport_error followup_transport_error by blast

theorem transport_error_vocabulary_witness:
  "dget (rr_observation demo_result) ''transport_error'' \<in> PStr ` set TRANSPORT_ERRORS
   \<and> (\<exists>f. run_followup_observation demo_plain_env demo_plain demo_inspection = Inr (Some f)
        \<and> dget f ''transport_error'' \<in> insert PNone (PStr ` set TRANSPORT_ERRORS))"
proof -
  obtain d' where "run_protocol_client demo_env demo_config Map.empty = (Inr demo_result, d')"
    using demo_run by blast
  moreover obtain f where "run_followup_observation demo_plain_env demo_plain demo_inspection = Inr (Some f)"
    using demo_plain_followup by blast
  ultimately show ?thesis
    using transport_error_vocabulary [of demo_env demo_config Map.empty demo_inspection]
      transport_error_vocabulary [of demo_plain_env demo_plain Map.empty demo_inspection] by blast
qed

section \<open>The command\<close>

text \<open>
  C8. The command curl receives, read the way curl reads it: exactly one protocol selector,
  the one that forces the requested profile (never the fallback-capable \<open>--http3\<close>), exactly
  one target, the response body goes to the null device only, and every option it uses was
  found in curl's help by the preflight that allowed the run.
\<close>

theorem command_locked_down:
  assumes "build_curl_command config pf = Inr cmd" and "validate_config config = Inr (p, sch)"
    and "preflight_curl p insp config = Inr pf"
  shows "\<exists>flag. map_of PROTOCOL_FLAGS p = Some flag \<and> flag \<noteq> ''--http3''
    \<and> filter (\<lambda>(opt, v). opt \<in> set SELECTORS) (curl_parse (tl cmd)) = [(flag, [])]
    \<and> filter (\<lambda>(opt, v). opt = []) (curl_parse (tl cmd)) = [([], cc_url config)]
    \<and> filter (\<lambda>(opt, v). opt = ''--output'') (curl_parse (tl cmd)) = [(''--output'', ''/dev/null'')]
    \<and> (\<forall>(opt, v)\<in>set (curl_parse (tl cmd)). opt \<noteq> [] \<longrightarrow> lower_str opt \<in> set (ci_options insp))"
proof -
  obtain p' sch' flag where c: "validate_config config = Inr (p', sch')" "map_of PROTOCOL_FLAGS p' = Some flag"
    and parse: "curl_parse (tl cmd) =
      [(''--silent'', []), (''--show-error'', []), (''--fail-with-body'', []), (''--output'', ''/dev/null''),
       (''--request'', cc_request config), (''--max-time'', format_timeout (cc_timeout config))]
      @ optional_options config
      @ [(flag, []), (''--write-out'', writeout_format (pf_writeout_mode pf)), ([], cc_url config)]"
    using assms(1) by (rule build_curl_command_parse)
  have p: "p' = p" using c(1) assms(2) by simp
  note flag = protocol_flag_facts [OF c(2)]
  have f: "flag \<noteq> []" "flag \<noteq> ''--output''" using flag(3,4) by (auto simp: startswith_def VALUE_OPTIONS_def)
  have out: "filter (\<lambda>(opt, v). opt = ''--output'') (optional_options config) = []"
    by (auto simp: filter_empty_conv dest!: optional_options_names)
  have "filter (\<lambda>(opt, v). opt \<in> set SELECTORS) (curl_parse (tl cmd)) = [(flag, [])]"
    unfolding parse using flag(1) by (simp add: optional_options_selectors) (simp add: SELECTORS_def)
  moreover have "filter (\<lambda>(opt, v). opt = []) (curl_parse (tl cmd)) = [([], cc_url config)]"
    unfolding parse using f by (simp add: optional_options_named)
  moreover have "filter (\<lambda>(opt, v). opt = ''--output'') (curl_parse (tl cmd)) = [(''--output'', ''/dev/null'')]"
    unfolding parse using f by (simp add: out)
  moreover have "\<forall>(opt, v)\<in>set (curl_parse (tl cmd)). opt \<noteq> [] \<longrightarrow> lower_str opt \<in> set (ci_options insp)"
    using command_options_checked [OF assms] by blast
  ultimately show ?thesis using c(2) flag(2) by (auto simp: p)
qed

theorem command_locked_down_witness:
  "filter (\<lambda>(opt, v). opt \<in> set SELECTORS) (curl_parse (tl demo_command)) = [(''--http2'', [])]"
  using command_locked_down [OF demo_build demo_validate demo_preflight_curl]
  by (auto simp: PROTOCOL_FLAGS_def)

text \<open>
  C21. The command carries the correlation header of the configuration and no other header
  of that name, in any spelling: a caller cannot add or replace it.
\<close>

theorem command_single_correlation_header:
  assumes "build_curl_command config pf = Inr cmd"
  shows "filter (\<lambda>(opt, v). opt = ''--header'' \<and> header_name v = ''x-msconnector-transport-case'')
      (curl_parse (tl cmd))
    = (case cc_transport_case_id config of None \<Rightarrow> []
       | Some t \<Rightarrow> [(''--header'', ''X-MSConnector-Transport-Case: '' @ t)])"
  by (rule command_correlation_header [OF assms, unfolded TRANSPORT_CASE_HEADER_def])

theorem command_single_correlation_header_witness:
  "filter (\<lambda>(opt, v). opt = ''--header'' \<and> header_name v = ''x-msconnector-transport-case'')
      (curl_parse (tl demo_command)) = [(''--header'', ''X-MSConnector-Transport-Case: case-1'')]"
  using command_single_correlation_header [OF demo_build] by (simp add: demo_config_def)

text \<open>
  C9. The command artifact hides what it must. Two configurations that agree on the options,
  on the presence of a CA file, a body file and a token, on the number of headers and
  resolver entries, and on the scheme, host and port of the target, on whether it has a
  query and on its path as far as that is one of the health endpoints, render to the same
  text: header values, file names, resolver entries, tokens, user information, the contents
  of the query, the fragment and every other path do not show.
\<close>

theorem redaction_noninterference:
  assumes "same_public c e"
    and "build_curl_command c pf = Inr cmd" and "build_curl_command e pf = Inr cmd'"
    and "cc_curl c \<notin> {cc_url c, cc_url e}" and "cc_request c \<notin> {cc_url c, cc_url e}"
  shows "redacted_command cmd (cc_url c) = redacted_command cmd' (cc_url e)"
  using redacted_command_hides [OF assms(1-3)] assms(4,5) by auto

theorem redaction_noninterference_witness:
  "redacted_command demo_command ''https://example.test/health''
     = redacted_command demo_secret_command ''https://bob:pw@EXAMPLE.test/health''"
proof -
  have "same_public demo_config demo_secret"
    unfolding same_public_def using demo_secret_url by (simp add: demo_secret_def demo_config_def)
  moreover have "cc_curl demo_config \<notin> {cc_url demo_config, cc_url demo_secret}"
    "cc_request demo_config \<notin> {cc_url demo_config, cc_url demo_secret}"
    by (simp_all add: demo_secret_def demo_config_def)
  ultimately have "redacted_command demo_command (cc_url demo_config)
      = redacted_command demo_secret_command (cc_url demo_secret)"
    using redaction_noninterference demo_build demo_secret_build by blast
  then show ?thesis by (simp add: demo_config_def demo_secret_def)
qed

text \<open>
  C22. The command artifact is one shell line that \<open>shlex.split\<close> reads back as exactly the
  rendered words, as many as the executed command has.
\<close>

theorem redacted_command_round_trip:
  assumes "redacted_command cmd url = Inr t"
  shows "\<exists>ws. redact_values False url cmd = Inr ws \<and> shlex_split t = Inr ws \<and> length ws = length cmd"
proof -
  from assms obtain ws where ws: "redact_values False url cmd = Inr ws" and t: "t = shlex_join ws @ NL"
    by (auto simp: redacted_command_def rbind_eq_Inr)
  then show ?thesis
    using redact_values_length [OF ws] command_line.dec_enc [of ws] by simp
qed

theorem redacted_command_round_trip_witness:
  "\<exists>ws. shlex_split demo_command_text = Inr ws \<and> length ws = 18"
  using redacted_command_round_trip [OF demo_redacted] by (auto simp: demo_command_def)

text \<open>
  C23. A preflight is READY exactly when the inspection had no error and every feature and
  option of the profile, of the common set and of the configured extras is reported by curl.
\<close>

theorem preflight_ready_iff:
  assumes "normalize_protocol p = Inr q" and "map_of PROTOCOL_REQUIREMENTS q = Some (feats, opts)"
  shows "\<exists>pf. preflight_curl p insp config = Inr pf \<and>
    (pf_status pf = ''READY'' \<longleftrightarrow> ci_error insp = None
      \<and> (\<forall>f\<in>set feats. upper_str f \<in> set (ci_features insp))
      \<and> (\<forall>opt\<in>set (COMMON_CURL_OPTIONS @ opts @ optional_curl_options config).
            lower_str opt \<in> set (ci_options insp)))
    \<and> (pf_status pf = ''READY'' \<or> pf_status pf = ''BLOCKED'' \<and> pf_reason pf \<noteq> None)"
  using assms
  by (auto simp: preflight_curl_def Let_def filter_empty_conv split: option.splits if_splits)

theorem preflight_ready_iff_witness:
  "\<exists>pf. preflight_curl ''h2'' demo_inspection demo_config = Inr pf \<and> pf_status pf = ''READY''
     \<and> upper_str ''HTTP2'' \<in> set (ci_features demo_inspection)"
proof -
  have "map_of PROTOCOL_REQUIREMENTS ''h2'' = Some ([''HTTP2''], [''--http2''])"
    by (simp add: PROTOCOL_REQUIREMENTS_def)
  from preflight_ready_iff [OF demo_normalize this, of demo_inspection demo_config] demo_preflight_curl
  show ?thesis by (auto simp: demo_preflight_def)
qed

section \<open>The follow-up\<close>

text \<open>
  C24. The token of the follow-up request exists for every valid primary token, is itself a
  valid token, and is never the primary one, for any digest values.
\<close>

theorem followup_token_distinct:
  assumes "fullmatch BOUNDED_TOKEN p"
  shows "\<exists>t. derive_followup_transport_case_id (Some p) = Inr (Some t) \<and> fullmatch BOUNDED_TOKEN t \<and> t \<noteq> p"
  using assms by (rule followup_token)

theorem followup_token_distinct_witness:
  "\<exists>t. derive_followup_transport_case_id (Some ''case-1'') = Inr (Some t) \<and> t \<noteq> ''case-1''"
proof -
  have "fullmatch BOUNDED_TOKEN ''case-1''" by code_simp
  from followup_token_distinct [OF this] show ?thesis by blast
qed

text \<open>
  C25. The artifact of a follow-up has only the seventeen allowed fields. It says PASS only
  if a fresh request for the configured follow-up URL, without the caller's headers and
  body and with the derived token, ended with exit code 0 and a status from 200 to 399
  over the forced protocol.
\<close>

theorem followup_pass_sound:
  assumes "run_followup_observation env config insp = Inr (Some f)"
  shows "keys_in FOLLOWUP_FIELDS f
    \<and> (dget f ''status'' = PStr ''PASS'' \<longrightarrow>
        (\<exists>url followup p sch pf cmd out err st. cc_followup_url config = Some url \<and> cc_url followup = url
          \<and> cc_headers followup = [] \<and> cc_data_file followup = None
          \<and> derive_followup_transport_case_id (cc_transport_case_id config) = Inr (cc_transport_case_id followup)
          \<and> validate_config followup = Inr (p, sch) \<and> build_curl_command followup pf = Inr cmd
          \<and> ce_run env call_followup cmd = PDone 0 out err
          \<and> dget f ''http_status'' = PInt st \<and> 200 \<le> st \<and> st < 400
          \<and> dget f ''requested_protocol'' = PStr p \<and> dget f ''negotiated_protocol'' = PStr p
          \<and> dget f ''fallback_used'' = PBool False))"
proof (rule conjI, rule followup_keys [OF assms], rule impI)
  assume "dget f ''status'' = PStr ''PASS''"
  with assms show "\<exists>url followup p sch pf cmd out err st. cc_followup_url config = Some url \<and> cc_url followup = url
          \<and> cc_headers followup = [] \<and> cc_data_file followup = None
          \<and> derive_followup_transport_case_id (cc_transport_case_id config) = Inr (cc_transport_case_id followup)
          \<and> validate_config followup = Inr (p, sch) \<and> build_curl_command followup pf = Inr cmd
          \<and> ce_run env call_followup cmd = PDone 0 out err
          \<and> dget f ''http_status'' = PInt st \<and> 200 \<le> st \<and> st < 400
          \<and> dget f ''requested_protocol'' = PStr p \<and> dget f ''negotiated_protocol'' = PStr p
          \<and> dget f ''fallback_used'' = PBool False"
    by (rule followup_pass) blast
qed

theorem followup_pass_sound_witness:
  "\<exists>f. run_followup_observation demo_plain_env demo_plain demo_inspection = Inr (Some f)
     \<and> dget f ''status'' = PStr ''PASS'' \<and> keys_in FOLLOWUP_FIELDS f
     \<and> dget f ''negotiated_protocol'' = PStr ''http1''"
proof -
  obtain f where run: "run_followup_observation demo_plain_env demo_plain demo_inspection = Inr (Some f)"
    and f: "dget f ''status'' = PStr ''PASS''" "dget f ''requested_protocol'' = PStr ''http1''"
    using demo_plain_followup by blast
  from followup_pass_sound [OF run] f run show ?thesis by auto
qed

text \<open>
  C26. The authority hash is a SHA-256 token that depends on the scheme, the host and the
  port only: not on credentials, path, query or fragment, and a default port counts as
  the explicit one.
\<close>

theorem authority_hash_binding:
  assumes "urlsplit u = Inr a" and "urlsplit v = Inr b"
    and "url_port a = Inr m" and "url_port b = Inr n"
    and "sr_scheme a = sr_scheme b" and "url_hostname a = url_hostname b"
    and "effective_port a m = effective_port b n"
  shows "target_authority_sha256 u = target_authority_sha256 v
    \<and> (\<forall>h. target_authority_sha256 u = Some h \<longrightarrow> fullmatch SHA256_TOKEN h)"
proof -
  have "fullmatch SHA256_TOKEN (''sha256:'' @ sha256_hex x)" for x
    using sha256_token_valid [of x] by (simp add: has_invalid_sha256_token_def del: append.simps fullmatch.simps)
  moreover have "target_authority_sha256 u = target_authority_sha256 v"
    using assms by (simp add: target_authority_sha256_def effective_port_def Let_def)
  ultimately show ?thesis
    using assms
    by (auto simp: target_authority_sha256_def Let_def split: if_splits simp del: append.simps fullmatch.simps)
qed

theorem authority_hash_binding_witness:
  "target_authority_sha256 ''https://bob@Example.test/a?b'' = target_authority_sha256 ''https://example.test:443/health''"
proof -
  let ?a = "\<lparr>sr_scheme = ''https'', sr_netloc = ''bob@Example.test'', sr_path = ''/a'', sr_query = ''b'', sr_fragment = []\<rparr>"
  let ?b = "\<lparr>sr_scheme = ''https'', sr_netloc = ''example.test:443'', sr_path = ''/health'', sr_query = [], sr_fragment = []\<rparr>"
  have "urlsplit ''https://bob@Example.test/a?b'' = Inr ?a" "urlsplit ''https://example.test:443/health'' = Inr ?b"
    "url_port ?a = Inr None" "url_port ?b = Inr (Some 443)"
    "sr_scheme ?a = sr_scheme ?b" "url_hostname ?a = url_hostname ?b"
    "effective_port ?a None = effective_port ?b (Some 443)"
    by code_simp+
  from authority_hash_binding [OF this] show ?thesis by blast
qed

section \<open>Files\<close>

text \<open>
  C10. The bounded read succeeds exactly when the path, taken without following any link,
  names a readable regular file whose size and contents fit the bound, and then returns
  those contents. Whatever happens, every descriptor it opened is closed again.
\<close>

theorem bounded_read_correct:
  assumes "os_wf s"
  shows "(fst (read_bounded_regular_bytes root path maximum s) = Inr raw \<longleftrightarrow>
      path \<noteq> [] \<and> length raw \<le> maximum
      \<and> (\<exists>sz. resolve root path = Some (FReg True sz (Some raw)) \<and> sz \<le> maximum))
    \<and> open_fds (snd (read_bounded_regular_bytes root path maximum s)) = open_fds s"
  using read_bounded_refines [OF assms] read_spec_success [of root path maximum raw] by auto

theorem bounded_read_correct_witness:
  "fst (read_bounded_regular_bytes (FDir True [(''a'', FLink ''b''), (''b'', FReg True 2 (Some ''ok''))]) [''b''] 8
      \<lparr>next_fd = 3, open_fds = []\<rparr>) = Inr ''ok''
   \<and> fst (read_bounded_regular_bytes (FDir True [(''a'', FLink ''b''), (''b'', FReg True 2 (Some ''ok''))]) [''a''] 8
      \<lparr>next_fd = 3, open_fds = []\<rparr>) \<noteq> Inr ''ok''"
proof -
  have "os_wf \<lparr>next_fd = 3, open_fds = []\<rparr>" by (simp add: os_wf_def)
  from bounded_read_correct [OF this] show ?thesis by simp
qed

text \<open>
  C11. An artifact is replaced atomically: in every state the disk passes through, even when
  the process stops there, the file has its old or its complete new contents. It has the
  new ones exactly when the write returns, and a failed write leaves the old ones.
\<close>

theorem atomic_write_all_or_nothing:
  assumes "path \<noteq> []"
  shows "(\<forall>e\<in>set (snd (atomic_write_text a path v d)). e path \<in> {d path, Some (utf8_encode v)})
    \<and> (fst (atomic_write_text a path v d) = Inr () \<longrightarrow>
         final_disk (atomic_write_text a path v d) path = Some (utf8_encode v))
    \<and> ((\<exists>e. fst (atomic_write_text a path v d) = Inl e) \<longrightarrow>
         final_disk (atomic_write_text a path v d) path = d path)"
  using atomic_write_cases [OF assms] atomic_write_success [OF assms] atomic_write_failure [OF assms]
  by blast

theorem atomic_write_all_or_nothing_witness:
  "list_all (\<lambda>e. e [''out'', ''f''] \<in> {Some ''old'', Some (utf8_encode ''new'')})
     (snd (atomic_write_text (demo_writes\<lparr>wa_write := Some 1\<rparr>) [''out'', ''f''] ''new'' [[''out'', ''f''] \<mapsto> ''old'']))"
  using atomic_write_all_or_nothing [of "[''out'', ''f'']" "demo_writes\<lparr>wa_write := Some 1\<rparr>" "''new''"
      "[[''out'', ''f''] \<mapsto> ''old'']"]
  by (simp add: list_all_iff)

text \<open>
  C27. A loaded sidecar is exactly the JSON object of a regular file of at most 64 KiB that
  was reached without following a link, and all its fields are in the vocabulary and well
  typed. The read leaves no descriptor open.
\<close>

theorem sidecar_whitelisted:
  assumes "os_wf s" and "load_observation_sidecar root path s = (Inr sidecar, s')"
  shows "\<exists>sz raw tx loaded. resolve root path = Some (FReg True sz (Some raw)) \<and> length raw \<le> 65536
    \<and> utf8_decode raw = Inr tx \<and> json_loads tx = Inr (PDict loaded)
    \<and> map_of sidecar = map_of loaded \<and> sidecar_ok sidecar \<and> open_fds s' = open_fds s"
  using sidecar_load_facts [OF assms] .

theorem sidecar_whitelisted_witness:
  "map_of [(''alpn'', PStr ''h2'')] ''alpn'' = Some (PStr ''h2'') \<and> sidecar_ok [(''alpn'', PStr ''h2'')]"
proof -
  have "load_observation_sidecar (ce_root demo_env) [''run'', ''sidecar.json''] (ce_os demo_env)
      = (Inr [(''alpn'', PStr ''h2'')], (ce_os demo_env)\<lparr>next_fd := 6\<rparr>)"
    by (simp add: load_observation_sidecar_def read_observation_sidecar_def decode_observation_sidecar_def
        demo_read demo_sidecar_json)
  moreover have "os_wf (ce_os demo_env)" by (simp add: demo_env_def os_wf_def)
  ultimately have "sidecar_ok [(''alpn'', PStr ''h2'')]" using sidecar_whitelisted by blast
  then show ?thesis by simp
qed

section \<open>Errors that escape\<close>

text \<open>
  C35. The validator does not only report: a field that must be one of a set of texts and is
  a JSON array or object makes it raise \<open>TypeError\<close>, so a caller that relies on a list of
  errors gets an exception.
\<close>

theorem validator_raises_type_error:
  assumes "\<not> hashable (dget obs ''requested_protocol'')"
  shows "validate_protocol_observation obs strict = Inl TypeError"
  using assms
  by (simp add: validate_protocol_observation_def validate_observation_protocol_fields_def not_in_set_def
      in_str_set_def)

theorem validator_raises_type_error_witness:
  "validate_protocol_observation [(''requested_protocol'', PList [])] False = Inl TypeError"
  by (rule validator_raises_type_error) simp

text \<open>
  C33. A URL that \<open>urlsplit\<close> refuses is not turned into a NOT_EXECUTED observation: the run
  raises \<open>ValueError\<close> and writes nothing, although the other fields are valid.
\<close>

theorem malformed_url_escapes:
  assumes "urlsplit (cc_url config) = Inl ValueError"
    and "normalize_protocol (cc_protocol config) = Inr p" and "validate_timeouts config = Inr ()"
    and "validate_request (cc_request config) = Inr ()"
    and "inspect_curl (ce_run env) (cc_curl config) = Inr insp"
  shows "run_protocol_client env config d = (Inl ValueError, d)"
proof -
  have "validate_config config = Inl ValueError"
    using assms by (simp add: validate_config_def validate_url_def)
  then have "validated_config_or_default config = Inl ValueError"
    by (simp add: validated_config_or_default_def)
  with assms(5) show ?thesis by (simp add: run_protocol_client_def sbind_def slift_def)
qed

theorem malformed_url_escapes_witness:
  "run_protocol_client demo_env (demo_config\<lparr>cc_url := ''http://[''\<rparr>) Map.empty = (Inl ValueError, Map.empty)"
proof (rule malformed_url_escapes)
  show "urlsplit (cc_url (demo_config\<lparr>cc_url := ''http://[''\<rparr>)) = Inl ValueError" by code_simp
  show "normalize_protocol (cc_protocol (demo_config\<lparr>cc_url := ''http://[''\<rparr>)) = Inr ''h2''" by code_simp
  show "validate_timeouts (demo_config\<lparr>cc_url := ''http://[''\<rparr>) = Inr ()" by code_simp
  show "validate_request (cc_request (demo_config\<lparr>cc_url := ''http://[''\<rparr>)) = Inr ()" by code_simp
  show "inspect_curl (ce_run demo_env) (cc_curl (demo_config\<lparr>cc_url := ''http://[''\<rparr>)) = Inr demo_inspection"
    using demo_inspect by (simp add: demo_config_def)
qed

text \<open>
  C34. A run that returns had valid provenance: a correlation token that is not a bounded
  token makes every run raise (the path that should report the invalid configuration
  builds the same provenance again), so no artifact describes that outcome.
\<close>

theorem invalid_token_never_returns:
  assumes "cc_transport_case_id config = Some t" and "\<not> fullmatch BOUNDED_TOKEN t"
  shows "\<exists>e. fst (run_protocol_client env config d) = Inl e"
proof (rule ccontr)
  assume "\<nexists>e. fst (run_protocol_client env config d) = Inl e"
  then obtain r d' where "run_protocol_client env config d = (Inr r, d')"
    by (cases "run_protocol_client env config d"; cases "fst (run_protocol_client env config d)") auto
  then have "blocked_run env config d r d' \<or> (\<exists>p sch sidecar obs. executed_run env config d r d' p sch sidecar obs)"
    by (rule run_returns)
  then have "\<exists>sidecar prov. provenance config sidecar = Inr prov"
    by (auto simp: blocked_run_def blocked_observation_def initial_observation_def executed_run_def
        execute_primary_observation_def rbind_eq_Inr Let_def)
  with assms show False by (auto simp: provenance_def provenance_case_id_def rbind_eq_Inr)
qed

theorem invalid_token_never_returns_witness:
  "\<exists>e. fst (run_protocol_client demo_env (demo_config\<lparr>cc_transport_case_id := Some ''not a token''\<rparr>) Map.empty) = Inl e"
proof (rule invalid_token_never_returns)
  show "cc_transport_case_id (demo_config\<lparr>cc_transport_case_id := Some ''not a token''\<rparr>) = Some ''not a token''"
    by simp
  show "\<not> fullmatch BOUNDED_TOKEN ''not a token''" by code_simp
qed

end
