(* ===== verification/PayloadScan.thy ===== *)
theory PayloadScan
  imports PyJson
begin

text \<open>
  The contract that the payload scans of the evidence checkers share. A scan walks a JSON
  value with the path of the place it looks at, reports a member whose key is forbidden and
  a text that is forbidden, and descends into every member and item. Whatever the reports
  say, the scan is silent exactly when no forbidden key and no forbidden text occurs at any
  depth.
\<close>

section \<open>Occurrences\<close>

text \<open>The keys and the texts that occur in a value at any depth.\<close>

inductive occurs_key :: "pyval \<Rightarrow> string \<Rightarrow> bool" where
  own: "(k, v) \<in> set d \<Longrightarrow> occurs_key (PDict d) k"
| member: "(k, v) \<in> set d \<Longrightarrow> occurs_key v k' \<Longrightarrow> occurs_key (PDict d) k'"
| item: "v \<in> set xs \<Longrightarrow> occurs_key v k \<Longrightarrow> occurs_key (PList xs) k"

inductive_simps occurs_key_dict: "occurs_key (PDict d) k"
inductive_simps occurs_key_list: "occurs_key (PList xs) k"
inductive_cases occurs_key_elim: "occurs_key v k"

inductive occurs_text :: "pyval \<Rightarrow> string \<Rightarrow> bool" where
  here: "occurs_text (PStr s) s"
| member: "(k, v) \<in> set d \<Longrightarrow> occurs_text v s \<Longrightarrow> occurs_text (PDict d) s"
| item: "v \<in> set xs \<Longrightarrow> occurs_text v s \<Longrightarrow> occurs_text (PList xs) s"

inductive_simps occurs_text_dict: "occurs_text (PDict d) s"
inductive_simps occurs_text_list: "occurs_text (PList xs) s"
inductive_simps occurs_text_str: "occurs_text (PStr s') s"
inductive_cases occurs_text_elim: "occurs_text v s"

lemma occurs_atom:
  assumes "\<not> is_dict v" "\<not> is_list v"
  shows "\<not> occurs_key v k" "\<not> is_str v \<Longrightarrow> \<not> occurs_text v s"
  using assms by (auto elim: occurs_key_elim occurs_text_elim)

text \<open>The positions a list is scanned at.\<close>

lemma set_zip_upt: "(\<forall>(i, x)\<in>set (zip [0..<length xs] xs). P i x) \<longleftrightarrow> (\<forall>i<length xs. P i (xs ! i))"
  by (force simp: set_zip)

section \<open>Scans\<close>

locale payload_scan =
  fixes scan :: "pyval \<Rightarrow> string \<Rightarrow> string list"
    and bad_key :: "string \<Rightarrow> bool"
    and bad_text :: "string \<Rightarrow> bool"
  assumes scan_dict: "scan (PDict d) p = [] \<longleftrightarrow> (\<forall>(k, v)\<in>set d. \<not> bad_key k \<and> scan v (p @ ''.'' @ k) = [])"
    and scan_list: "scan (PList xs) p = [] \<longleftrightarrow>
      (\<forall>i<length xs. scan (xs ! i) (p @ ''['' @ int_str (int i) @ '']'') = [])"
    and scan_text: "scan (PStr s) p = [] \<longleftrightarrow> \<not> bad_text s"
    and scan_atom: "\<not> is_dict v \<Longrightarrow> \<not> is_list v \<Longrightarrow> \<not> is_str v \<Longrightarrow> scan v p = []"
begin

definition clean :: "pyval \<Rightarrow> bool" where
  "clean v \<longleftrightarrow> (\<forall>k. occurs_key v k \<longrightarrow> \<not> bad_key k) \<and> (\<forall>s. occurs_text v s \<longrightarrow> \<not> bad_text s)"

lemma clean_dict: "clean (PDict d) \<longleftrightarrow> (\<forall>(k, v)\<in>set d. \<not> bad_key k \<and> clean v)"
  unfolding clean_def occurs_key_dict occurs_text_dict by blast

lemma clean_list: "clean (PList xs) \<longleftrightarrow> (\<forall>v\<in>set xs. clean v)"
  unfolding clean_def occurs_key_list occurs_text_list by blast

lemma clean_text: "clean (PStr s) \<longleftrightarrow> \<not> bad_text s"
  by (auto simp: clean_def occurs_text_str occurs_atom)

lemma clean_atom: "\<not> is_dict v \<Longrightarrow> \<not> is_list v \<Longrightarrow> \<not> is_str v \<Longrightarrow> clean v"
  by (simp add: clean_def occurs_atom)

theorem scan_silent: "scan v p = [] \<longleftrightarrow> clean v"
proof (induction v arbitrary: p)
  case (PList xs)
  then show ?case unfolding scan_list clean_list by (metis in_set_conv_nth)
next
  case (PDict d)
  then have "scan v q = [] \<longleftrightarrow> clean v" if "(k, v) \<in> set d" for k v q
    using that by (fastforce simp: snds.simps)
  then show ?case unfolding scan_dict clean_dict by fast
qed (simp_all add: scan_text clean_text scan_atom clean_atom)

corollary scan_independent: "scan v p = [] \<longleftrightarrow> scan v q = []"
  by (simp add: scan_silent)

end

end
