(* ===== verification/CheckerText.thy ===== *)
theory CheckerText
  imports Observation BoundedFiles PyShlex PayloadScan
begin

text \<open>
  The first half of the evidence checker
  (\<^verbatim>\<open>src/ci/checks/protocol/check_protocol_evidence.py\<close>): reading an artifact, rejecting
  payload fields and unsafe text, and the checks of the three text artifacts (version
  banner, feature report, rendered command).
\<close>

section \<open>Artifacts and vocabulary\<close>

definition CLIENT_VERSION_ARTIFACT :: string where
  "CLIENT_VERSION_ARTIFACT = ''client-version.txt''"

definition CLIENT_FEATURES_ARTIFACT :: string where
  "CLIENT_FEATURES_ARTIFACT = ''client-features.txt''"

definition CLIENT_COMMAND_ARTIFACT :: string where
  "CLIENT_COMMAND_ARTIFACT = ''client-command.txt''"

definition PRIMARY_OBSERVATION_ARTIFACT :: string where
  "PRIMARY_OBSERVATION_ARTIFACT = ''client-protocol-observation.json''"

definition FOLLOWUP_ARTIFACT :: string where
  "FOLLOWUP_ARTIFACT = ''client-followup-observation.json''"

definition MAX_TEXT_BYTES :: nat where
  "MAX_TEXT_BYTES = 64 * 1024"

definition MAX_JSON_BYTES :: nat where
  "MAX_JSON_BYTES = 128 * 1024"

definition FORBIDDEN_PAYLOAD_KEYS :: "string list" where
  "FORBIDDEN_PAYLOAD_KEYS =
     [''body'', ''request_body'', ''response_body'', ''response_headers'', ''headers'', ''stdout'',
      ''stderr'', ''url'', ''uri'', ''connection_id'', ''quic_connection_id'', ''quic_cid'', ''cid'']"

definition FORBIDDEN_CAPTURE_OPTIONS :: "string list" where
  "FORBIDDEN_CAPTURE_OPTIONS =
     [''--dump-header'', ''--include'', ''--remote-header-name'', ''--remote-name'', ''--trace'',
      ''--trace-ascii'', ''--trace-time'', ''--verbose'', ''-D'', ''-O'', ''-i'', ''-J'', ''-v'']"

definition PROTOCOL_SELECTOR_OPTIONS :: "string list" where
  "PROTOCOL_SELECTOR_OPTIONS =
     [''--http1.0'', ''--http1.1'', ''--http2'', ''--http2-prior-knowledge'', ''--http3'', ''--http3-only'']"

definition REDACTED_COMMAND_VALUE_OPTIONS :: "string list" where
  "REDACTED_COMMAND_VALUE_OPTIONS = [''--header'', ''--data-binary'', ''--cacert'', ''--resolve'']"

definition REDACTED_COMMAND_VALUE :: string where
  "REDACTED_COMMAND_VALUE = ''[redacted]''"

definition SAFE_COMMAND_URL_PATHS :: "string list" where
  "SAFE_COMMAND_URL_PATHS =
     [''/'', ''/health'', ''/healthz'', ''/ready'', ''/readyz'', ''/[redacted-path]'']"

text \<open>
  The patterns. The anchored ones are used with \<open>fullmatch\<close>, where their \<open>^\<close> and \<open>$\<close>
  add nothing; the anchors of the searched ones are the zero-width conditions of their
  use.
\<close>

definition FORBIDDEN_TEXT_HEADERS :: rx where
  "FORBIDDEN_TEXT_HEADERS =
     RSeqs [RAlts [RLitI ''authorization'', RLitI ''proxy-authorization'', RLitI ''cookie'',
              RLitI ''set-cookie''],
            RStar (RCls is_space), RLit '':'']"

definition id_separator :: "char \<Rightarrow> bool" where
  "id_separator c \<longleftrightarrow> c = CHR ''_'' \<or> c = CHR ''.'' \<or> c = CHR ''-''"

definition RAW_CONNECTION_ID_TEXT :: rx where
  "RAW_CONNECTION_ID_TEXT =
     RSeqs [ROpt (RSeq (RLitI ''quic'') (ROpt (RCls id_separator))),
            RAlt (RSeqs [RLitI ''connection'', ROpt (RCls id_separator), RLitI ''id'']) (RLitI ''cid'')]"

definition RAW_CONNECTION_ID_ARGUMENT :: rx where
  "RAW_CONNECTION_ID_ARGUMENT = RSeq (ROpt (RLit ''--'')) RAW_CONNECTION_ID_TEXT"

text \<open>The end \<open>(?:=|:|$)\<close> of the last pattern.\<close>

definition argument_end :: "string \<Rightarrow> bool" where
  "argument_end s \<longleftrightarrow>
     at_end s \<or> (case s of [] \<Rightarrow> False | c # _ \<Rightarrow> c = CHR ''='' \<or> c = CHR '':'')"

definition SAFE_EXECUTABLE :: rx where
  "SAFE_EXECUTABLE = RRep 1 511 (RCls (\<lambda>c. \<not> is_ctl c))"

definition SAFE_VERSION :: rx where
  "SAFE_VERSION =
     RAlt (RLit ''unknown'')
       (RSeqs [RPlus (RCls is_digit), RLit ''.'', RPlus (RCls is_digit), RLit ''.'',
               RPlus (RCls is_digit)])"

definition feature_char :: "char \<Rightarrow> bool" where
  "feature_char c \<longleftrightarrow> is_upper_ascii c \<or> is_digit c \<or> c \<in> set ''_+.-''"

definition SAFE_FEATURE_LIST :: rx where
  "SAFE_FEATURE_LIST =
     ROpt (RSeq (RPlus (RCls feature_char)) (RStar (RSeq (RLit '','') (RPlus (RCls feature_char)))))"

definition option_tail_char :: "char \<Rightarrow> bool" where
  "option_tail_char c \<longleftrightarrow> is_lower_ascii c \<or> is_digit c \<or> c = CHR ''.'' \<or> c = CHR ''-''"

definition SAFE_OPTION :: rx where
  "SAFE_OPTION =
     RSeqs [RLit ''--'', RCls (\<lambda>c. is_lower_ascii c \<or> is_digit c), RStar (RCls option_tail_char)]"

definition SAFE_OPTION_LIST :: rx where
  "SAFE_OPTION_LIST = ROpt (RSeq SAFE_OPTION (RStar (RSeq (RLit '','') SAFE_OPTION)))"

definition SAFE_REASON :: rx where
  "SAFE_REASON =
     RAlt REps
       (RSeq (RCls (\<lambda>c. is_lower_ascii c \<or> is_digit c))
          (RUpTo 127 (RCls (\<lambda>c. is_lower_ascii c \<or> is_digit c \<or> c \<in> set ''_:-''))))"

definition FEATURE_REPORT_FIELDS :: "string list" where
  "FEATURE_REPORT_FIELDS =
     [''curl_executable'', ''curl_version'', ''protocol'', ''features'', ''required_features'',
      ''missing_features'', ''required_options'', ''missing_options'', ''preflight_status'',
      ''preflight_reason'', ''writeout_mode'']"

section \<open>Reading an artifact\<close>

text \<open>
  What the checker sees of the operating system: the tree behind the bounded reader and
  the answers of \<open>is_symlink\<close>, \<open>is_dir\<close> and \<open>exists\<close>, which follow links.
\<close>

record checker_env =
  ck_root :: fsnode
  ck_os :: os_state
  ck_is_symlink :: "fpath \<Rightarrow> bool"
  ck_is_dir :: "fpath \<Rightarrow> bool"
  ck_exists :: "fpath \<Rightarrow> bool"

definition read_text :: "checker_env \<Rightarrow> fpath \<Rightarrow> nat \<Rightarrow> (string option \<times> string list) res" where
  "read_text env path maximum =
     (case fst (read_bounded_regular_bytes (ck_root env) path maximum (ck_os env)) of
        Inl (BoundedFileReadError reason) \<Rightarrow>
          Inr (None,
               [(if reason = ''oversized'' then ''artifact exceeds bounded size: ''
                 else if reason = ''unavailable'' then ''unreadable artifact: ''
                 else ''missing or unsafe artifact: '') @ last path])
      | Inl OSError \<Rightarrow> Inr (None, [''unreadable artifact: '' @ last path])
      | Inl e \<Rightarrow> Inl e
      | Inr raw \<Rightarrow>
          (case utf8_decode raw of
             Inl UnicodeDecodeError \<Rightarrow> Inr (None, [''artifact is not UTF-8: '' @ last path])
           | Inl e \<Rightarrow> Inl e
           | Inr content \<Rightarrow> Inr (Some content, [])))"

definition read_json :: "checker_env \<Rightarrow> fpath \<Rightarrow> (dict option \<times> string list) res" where
  "read_json env path =
     rbind (read_text env path MAX_JSON_BYTES) (\<lambda>(content, errors).
       case content of
         None \<Rightarrow> Inr (None, errors)
       | Some s \<Rightarrow>
           (case json_loads s of
              Inl JSONDecodeError \<Rightarrow> Inr (None, [''artifact is not JSON: '' @ last path])
            | Inl e \<Rightarrow> Inl e
            | Inr (PDict d) \<Rightarrow> Inr (Some d, [])
            | Inr _ \<Rightarrow> Inr (None, [''artifact must be a JSON object: '' @ last path])))"

section \<open>Payload fields and unsafe text\<close>

definition payload_key :: "string \<Rightarrow> string" where
  "payload_key key = replace_char (CHR ''-'') ''_'' (lower_str (strip key))"

text \<open>The members of a dictionary or list with the path of each.\<close>

definition indexed :: "'a list \<Rightarrow> (nat \<times> 'a) list" where
  "indexed xs = zip [0..<length xs] xs"

function payload_errors :: "pyval \<Rightarrow> string \<Rightarrow> string list" where
  "payload_errors value path =
     (case value of
        PDict d \<Rightarrow>
          concat (map (\<lambda>(key, nested).
            let nested_path = path @ ''.'' @ key
            in err_if (payload_key key \<in> set FORBIDDEN_PAYLOAD_KEYS)
                 (nested_path @ '': forbidden payload or connection-ID field'')
               @ payload_errors nested nested_path) d)
      | PList xs \<Rightarrow>
          concat (map (\<lambda>(index, nested).
            payload_errors nested (path @ ''['' @ int_str (int index) @ '']'')) (indexed xs))
      | _ \<Rightarrow> [])"
  by pat_completeness auto
termination
  by (relation "measure (\<lambda>(v, p). size v)")
    (auto simp: less_Suc_eq_le indexed_def dest: set_zip_rightD
      intro: size_list_estimation' size_dict_value)

declare payload_errors.simps [simp del]

interpretation checker_payload: payload_scan payload_errors
    "\<lambda>k. payload_key k \<in> set FORBIDDEN_PAYLOAD_KEYS" "\<lambda>_. False"
proof
  show "payload_errors (PDict d) p = [] \<longleftrightarrow>
      (\<forall>(k, v)\<in>set d. \<not> payload_key k \<in> set FORBIDDEN_PAYLOAD_KEYS \<and> payload_errors v (p @ ''.'' @ k) = [])" for d p
    by (subst payload_errors.simps) (auto simp: Let_def)
  show "payload_errors (PList xs) p = [] \<longleftrightarrow>
      (\<forall>i<length xs. payload_errors (xs ! i) (p @ ''['' @ int_str (int i) @ '']'') = [])" for xs p
    using set_zip_upt [of xs "\<lambda>i x. payload_errors x (p @ ''['' @ int_str (int i) @ '']'') = []"]
    by (subst payload_errors.simps) (auto simp: indexed_def)
  show "payload_errors v p = []" if "\<not> is_dict v" "\<not> is_list v" for v p
    using that by (cases v) (simp_all add: payload_errors.simps)
  then show "payload_errors (PStr s) p = [] \<longleftrightarrow> \<not> False" for s p by simp
qed

definition text_safety_errors :: "string \<Rightarrow> string \<Rightarrow> string list" where
  "text_safety_errors content artifact =
     err_if (list_ex (\<lambda>c. c < CHR '' '' \<and> c \<noteq> CHR 0x0A \<and> c \<noteq> CHR 0x0D \<and> c \<noteq> CHR 0x09) content)
       (artifact @ '': control characters are forbidden'')
     @ err_if (search_from at_line_start (\<lambda>_. True) FORBIDDEN_TEXT_HEADERS None content)
         (artifact @ '': sensitive HTTP header text is forbidden'')
     @ err_if (search_from not_word_before not_word_after RAW_CONNECTION_ID_TEXT None content)
         (artifact @ '': raw connection-ID text is forbidden'')"

section \<open>The version banner and the feature report\<close>

text \<open>A subscript of a constant dictionary: \<open>KeyError\<close> for a missing key.\<close>

definition subscript :: "(string \<times> 'a) list \<Rightarrow> string \<Rightarrow> 'a res" where
  "subscript table key = (case map_of table key of None \<Rightarrow> Inl KeyError | Some v \<Rightarrow> Inr v)"

definition required_protocol_flag :: "string \<Rightarrow> string res" where
  "required_protocol_flag protocol =
     subscript [(''http1'', ''--http1.1''), (''h2'', ''--http2''), (''h2c'', ''--http2-prior-knowledge''),
                (''h3'', ''--http3-only'')] protocol"

definition required_protocol_feature :: "string \<Rightarrow> string option" where
  "required_protocol_feature protocol =
     map_of [(''h2'', ''HTTP2''), (''h2c'', ''HTTP2''), (''h3'', ''HTTP3'')] protocol"

text \<open>The banner pattern with its end \<open>(?:\s|$)\<close>.\<close>

definition VERSION_BANNER :: rx where
  "VERSION_BANNER =
     RSeqs [RLitI ''curl'', RPlus (RCls is_space), RPlus (RCls is_digit), RLit ''.'',
            RPlus (RCls is_digit), ROpt (RSeq (RLit ''.'') (RPlus (RCls is_digit)))]"

definition banner_end :: "string \<Rightarrow> bool" where
  "banner_end s \<longleftrightarrow> at_end s \<or> (case s of [] \<Rightarrow> False | c # _ \<Rightarrow> is_space c)"

definition validate_version_text :: "string \<Rightarrow> string list" where
  "validate_version_text version_text =
     (let lines = splitlines version_text
      in text_safety_errors version_text CLIENT_VERSION_ARTIFACT
         @ err_if (lines = [] \<or> \<not> match_then banner_end VERSION_BANNER (hd lines))
             (CLIENT_VERSION_ARTIFACT @ '' does not contain a curl version banner''))"

type_synonym report = "(string \<times> string) list"

fun parse_report_lines :: "string list \<Rightarrow> report \<Rightarrow> report \<times> string list" where
  "parse_report_lines [] values = (values, [])"
| "parse_report_lines (line # lines) values =
     (let (key, found, v) = partition_at (CHR ''='') line
      in if \<not> found then
           (let (values', errors) = parse_report_lines lines values
            in (values', (CLIENT_FEATURES_ARTIFACT @ '' contains a non key/value line'') # errors))
         else if key \<in> set (map fst values) then
           (let (values', errors) = parse_report_lines lines values
            in (values', (CLIENT_FEATURES_ARTIFACT @ '' repeats '' @ key) # errors))
         else parse_report_lines lines (values @ [(key, v)]))"

definition parse_feature_report :: "string \<Rightarrow> report \<times> string list" where
  "parse_feature_report features_text = parse_report_lines (splitlines features_text) []"

definition feature_schema_errors :: "report \<Rightarrow> string list \<times> bool" where
  "feature_schema_errors values =
     (let unknown = filter (\<lambda>k. k \<notin> set FEATURE_REPORT_FIELDS) (map fst values);
          missing = filter (\<lambda>k. k \<notin> set (map fst values)) FEATURE_REPORT_FIELDS
      in (err_if (unknown \<noteq> [])
            (CLIENT_FEATURES_ARTIFACT @ '' has unsupported fields: '' @ join_with '', '' (sorted_unique unknown))
          @ err_if (missing \<noteq> [])
              (CLIENT_FEATURES_ARTIFACT @ '' is missing fields: '' @ join_with '', '' (sorted_unique missing)),
          missing \<noteq> []))"

text \<open>A field of a report; the schema check has excluded a missing one.\<close>

definition field_of :: "report \<Rightarrow> string \<Rightarrow> string" where
  "field_of values key = (case map_of values key of None \<Rightarrow> [] | Some v \<Rightarrow> v)"

definition feature_value_errors :: "report \<Rightarrow> string list" where
  "feature_value_errors values =
     err_if (\<not> fullmatch SAFE_EXECUTABLE (field_of values ''curl_executable''))
       (CLIENT_FEATURES_ARTIFACT @ '' curl_executable is not a bounded executable path'')
     @ err_if (\<not> fullmatch SAFE_VERSION (field_of values ''curl_version''))
         (CLIENT_FEATURES_ARTIFACT @ '' curl_version is not bounded'')
     @ concat (map (\<lambda>field. err_if (\<not> fullmatch SAFE_FEATURE_LIST (field_of values field))
           (CLIENT_FEATURES_ARTIFACT @ '' '' @ field @ '' is not a bounded feature list''))
         [''features'', ''required_features'', ''missing_features''])
     @ concat (map (\<lambda>field. err_if (\<not> fullmatch SAFE_OPTION_LIST (field_of values field))
           (CLIENT_FEATURES_ARTIFACT @ '' '' @ field @ '' is not a bounded option list''))
         [''required_options'', ''missing_options''])"

text \<open>\<open>set(filter(None, values[field].split(",")))\<close>.\<close>

definition listed :: "report \<Rightarrow> string \<Rightarrow> string list" where
  "listed values field = filter (\<lambda>x. x \<noteq> []) (split_on (CHR '','') (field_of values field))"

definition feature_protocol_errors :: "report \<Rightarrow> string \<Rightarrow> bool \<Rightarrow> string list res" where
  "feature_protocol_errors values protocol require_correlation =
     rbind (required_protocol_flag protocol) (\<lambda>required_flag.
       Inr (err_if (field_of values ''protocol'' \<noteq> protocol)
              (CLIENT_FEATURES_ARTIFACT @ '' protocol differs from the selected profile'')
            @ err_if (field_of values ''preflight_status'' \<noteq> ''READY'')
                (CLIENT_FEATURES_ARTIFACT @ '' does not record a ready client preflight'')
            @ err_if (field_of values ''preflight_reason'' \<noteq> [])
                (CLIENT_FEATURES_ARTIFACT @ '' READY preflight must not have a reason'')
            @ err_if (field_of values ''writeout_mode'' \<notin> {''json'', ''fields''})
                (CLIENT_FEATURES_ARTIFACT @ '' has an invalid ready writeout mode'')
            @ (case required_protocol_feature protocol of
                 None \<Rightarrow> []
               | Some feature \<Rightarrow>
                   err_if (feature \<notin> set (listed values ''features''))
                     (CLIENT_FEATURES_ARTIFACT @ '' lacks the selected protocol feature'')
                   @ err_if (feature \<notin> set (listed values ''required_features''))
                       (CLIENT_FEATURES_ARTIFACT @ '' does not declare the selected protocol feature'')
                   @ err_if (feature \<in> set (listed values ''missing_features''))
                       (CLIENT_FEATURES_ARTIFACT @ '' reports the selected protocol feature as missing''))
            @ err_if (required_flag \<notin> set (listed values ''required_options''))
                (CLIENT_FEATURES_ARTIFACT @ '' does not declare the forced protocol option'')
            @ err_if (required_flag \<in> set (listed values ''missing_options''))
                (CLIENT_FEATURES_ARTIFACT @ '' reports the forced protocol option as missing'')
            @ err_if (require_correlation \<and> ''--header'' \<notin> set (listed values ''required_options''))
                (CLIENT_FEATURES_ARTIFACT @ '' does not declare the transport-correlation header option'')))"

definition validate_features_text :: "string \<Rightarrow> string \<Rightarrow> bool \<Rightarrow> string list res" where
  "validate_features_text features_text protocol require_correlation =
     (let (values, parse_errors) = parse_feature_report features_text;
          (schema_errors, has_missing_fields) = feature_schema_errors values;
          errors = text_safety_errors features_text CLIENT_FEATURES_ARTIFACT @ parse_errors @ schema_errors
      in if has_missing_fields then Inr errors
         else rbind (feature_protocol_errors values protocol require_correlation) (\<lambda>protocol_errors.
              Inr (errors @ feature_value_errors values @ protocol_errors)))"

section \<open>The rendered command\<close>

definition parse_command_arguments :: "string \<Rightarrow> string list \<times> string list" where
  "parse_command_arguments command =
     (let (arguments, errors) =
            (case shlex_split command of
               Inl _ \<Rightarrow> ([], [''client command is not shell-parseable''])
             | Inr arguments \<Rightarrow> (arguments, []))
      in (arguments, errors @ err_if (arguments = []) ''client command is empty''))"

text \<open>
  The checks of one argument and the one after it. The loop over the set of options
  returns at its first hit; no argument starts with two of the prefixes, so the order
  of the set does not matter.
\<close>

fun inline_redaction_error :: "string list \<Rightarrow> string \<Rightarrow> string option" where
  "inline_redaction_error [] argument = None"
| "inline_redaction_error (opt # opts) argument =
     (if startswith argument (opt @ ''='') \<and> argument \<noteq> opt @ ''='' @ REDACTED_COMMAND_VALUE
      then Some (''client command leaks the value for '' @ opt)
      else inline_redaction_error opts argument)"

definition redacted_option_error :: "string \<Rightarrow> string list \<Rightarrow> string option" where
  "redacted_option_error argument rest =
     (if argument \<in> set REDACTED_COMMAND_VALUE_OPTIONS then
        (if (case rest of [] \<Rightarrow> True | next_argument # _ \<Rightarrow> next_argument \<noteq> REDACTED_COMMAND_VALUE)
         then Some (''client command leaks the value for '' @ argument) else None)
      else inline_redaction_error REDACTED_COMMAND_VALUE_OPTIONS argument)"

fun command_argument_safety_errors :: "string list \<Rightarrow> string list" where
  "command_argument_safety_errors [] = []"
| "command_argument_safety_errors (argument # rest) =
     err_if (match_then argument_end RAW_CONNECTION_ID_ARGUMENT argument)
       ''client command contains a raw connection-ID argument''
     @ (case redacted_option_error argument rest of None \<Rightarrow> [] | Some e \<Rightarrow> [e])
     @ command_argument_safety_errors rest"

definition argument_url_errors :: "string \<Rightarrow> string list" where
  "argument_url_errors argument =
     (case urlsplit argument of
        Inl _ \<Rightarrow> [''client command contains a malformed URL'']
      | Inr parsed \<Rightarrow>
          if sr_scheme parsed \<notin> {''http'', ''https''} then []
          else err_if (url_username parsed \<noteq> None \<or> url_password parsed \<noteq> None)
                 ''client command contains URL userinfo''
               @ err_if (sr_path parsed \<notin> set SAFE_COMMAND_URL_PATHS)
                   ''client command contains an unredacted URL path''
               @ err_if (sr_query parsed \<notin> {'''', REDACTED_COMMAND_VALUE})
                   ''client command contains an unredacted URL query''
               @ err_if (sr_fragment parsed \<noteq> []) ''client command contains a URL fragment'')"

definition command_url_safety_errors :: "string list \<Rightarrow> string list" where
  "command_url_safety_errors arguments = concat (map argument_url_errors arguments)"

text \<open>
  The output destination named by one argument, whether the next argument was consumed,
  and the error.
\<close>

definition output_option_value :: "string list \<Rightarrow> string \<Rightarrow> string option \<times> bool \<times> string option" where
  "output_option_value rest opt =
     (case rest of
        [] \<Rightarrow> (None, False, Some (''client command has an '' @ opt @ '' option without a destination''))
      | v # _ \<Rightarrow> (Some v, True, None))"

definition output_option_destination ::
    "string \<Rightarrow> string list \<Rightarrow> string option \<times> bool \<times> string option" where
  "output_option_destination argument rest =
     (let (opt, separator, inline_value) = partition_at (CHR ''='') argument
      in if opt = ''--output'' then
           (if separator then (Some inline_value, False, None) else output_option_value rest opt)
         else if argument = ''-o'' then output_option_value rest argument
         else if startswith argument ''-o'' \<and> 2 < length argument
         then (Some (drop 2 argument), False, None)
         else (None, False, None))"

fun command_output_destinations :: "string list \<Rightarrow> string list \<times> string list" where
  "command_output_destinations [] = ([], [])"
| "command_output_destinations (argument # rest) =
     (let opt = fst (partition_at (CHR ''='') argument);
          capture = err_if (opt \<in> set FORBIDDEN_CAPTURE_OPTIONS)
                      (''client command contains payload-capture option '' @ opt);
          (destination, consumed, error) = output_option_destination argument rest;
          (destinations, errors) = command_output_destinations (if consumed then tl rest else rest)
      in case error of
           Some e \<Rightarrow> (destinations, capture @ [e] @ errors)
         | None \<Rightarrow>
             ((case destination of None \<Rightarrow> destinations | Some v \<Rightarrow> v # destinations), capture @ errors))"

definition command_output_safety_errors :: "string list \<Rightarrow> string list" where
  "command_output_safety_errors arguments =
     (let (destinations, errors) = command_output_destinations arguments
      in errors @ err_if (destinations \<noteq> [''/dev/null''])
           ''client command must use exactly one payload-free output destination'')"

definition command_policy_errors :: "string list \<Rightarrow> string \<Rightarrow> string list res" where
  "command_policy_errors arguments protocol =
     rbind (required_protocol_flag protocol) (\<lambda>required_flag.
       Inr (err_if (''--fail-with-body'' \<notin> set arguments)
              ''client command does not preserve a failed response observation''
            @ err_if (filter (\<lambda>a. a \<in> set PROTOCOL_SELECTOR_OPTIONS) arguments \<noteq> [required_flag])
                ''client command must use exactly one forced protocol selector''
            @ command_output_safety_errors arguments))"

definition validate_command :: "string \<Rightarrow> string \<Rightarrow> string list res" where
  "validate_command command protocol =
     (if command = ''not executed'' @ NL
      then Inr [''protocol evidence requires an executed managed-client command'']
      else (let (arguments, parse_errors) = parse_command_arguments command
            in rbind (command_policy_errors arguments protocol) (\<lambda>policy_errors.
               Inr (err_if (search_from at_line_start (\<lambda>_. True) FORBIDDEN_TEXT_HEADERS None command)
                      ''client command contains sensitive HTTP header text''
                    @ parse_errors @ command_argument_safety_errors arguments
                    @ command_url_safety_errors arguments @ policy_errors))))"

end
