(* ===== verification/CheckerEvidence.thy ===== *)
theory CheckerEvidence
  imports CheckerText
begin

text \<open>
  The second half of the evidence checker
  (\<^verbatim>\<open>src/ci/checks/protocol/check_protocol_evidence.py\<close>): the checks of the primary
  observation, of the independent follow-up and of the expected provenance, and
  \<open>validate_protocol_artifacts\<close>, which composes them for ordinary and for strict evidence.
\<close>

section \<open>Vocabulary\<close>

definition ALLOWED_OBSERVATION_FIELDS :: "string list" where
  "ALLOWED_OBSERVATION_FIELDS =
     [''schema_version'', ''status'', ''reason'', ''missing_evidence'', ''validation_errors'',
      ''connector'', ''integration_mode'', ''run_id'', ''transaction_id'', ''transport_case_id'',
      ''target_authority_sha256'', ''rule_id'', ''phase'', ''requested_protocol'',
      ''downstream_protocol'', ''upstream_protocol'', ''negotiated_protocol'', ''transport'',
      ''expected_transport'', ''alpn'', ''stream_id'', ''connection_reused'', ''quic_udp_observed'',
      ''quic_connection_id_present'', ''quic_version'', ''fallback_used'', ''stream_reset'',
      ''stream_reset_code'', ''http_status'', ''downloaded_bytes'', ''content_length_download'',
      ''response_committed'', ''client_first_body_byte_visible'', ''response_complete'',
      ''curl_exit_code'', ''transport_error'']"

definition ALLOWED_FOLLOWUP_FIELDS :: "string list" where
  "ALLOWED_FOLLOWUP_FIELDS =
     [''schema_version'', ''status'', ''reason'', ''connector'', ''integration_mode'', ''run_id'',
      ''transport_case_id'', ''target_authority_sha256'', ''requested_protocol'',
      ''downstream_protocol'', ''negotiated_protocol'', ''transport'', ''fallback_used'',
      ''http_status'', ''response_complete'', ''curl_exit_code'', ''transport_error'']"

text \<open>The arguments of \<open>validate_protocol_artifacts\<close>.\<close>

record checker_args =
  ca_protocol :: string
  ca_strict :: bool
  ca_connector :: "string option"
  ca_integration_mode :: "string option"
  ca_run_id :: "string option"
  ca_transaction_id :: "string option"
  ca_rule_id :: "string option"
  ca_phase :: "string option"
  ca_expected_client_status :: pyval
  ca_expected_stream_id :: pyval
  ca_expected_upstream_protocol :: "string option"
  ca_expected_transport_case_id :: "string option"

text \<open>\<open>", ".join(sorted(set(d) - S))\<close> under a prefix, when that set is not empty.\<close>

definition unsupported_fields :: "dict \<Rightarrow> string list \<Rightarrow> string \<Rightarrow> string list" where
  "unsupported_fields d S message =
     (let unknown = filter (\<lambda>k. k \<notin> set S) (map fst d)
      in err_if (unknown \<noteq> []) (message @ join_with '', '' (sorted_unique unknown)))"

definition invalid_schema_version :: "dict \<Rightarrow> bool" where
  "invalid_schema_version d \<longleftrightarrow>
     not_plain_int (dget d ''schema_version'') \<or> int_val (dget d ''schema_version'') \<noteq> 1"

definition match_errors :: "string option \<Rightarrow> pyval \<Rightarrow> string \<Rightarrow> string list" where
  "match_errors expected actual field =
     (case expected of None \<Rightarrow> []
      | Some e \<Rightarrow> err_if (py_str actual \<noteq> e) (field @ '' does not match expected provenance''))"

section \<open>Transfers and follow-ups\<close>

definition successful_transfer_errors :: "dict \<Rightarrow> bool \<Rightarrow> string list" where
  "successful_transfer_errors observation allow_http_error =
     (let exit_code = dget observation ''curl_exit_code'';
          outcomes = (if allow_http_error then [(0, ''none''), (22, ''http_response_error'')]
                      else [(0, ''none'')]);
          status = dget observation ''http_status''
      in (if not_plain_int exit_code then [''successful transfer requires an integer curl_exit_code'']
          else (case map_of outcomes (int_val exit_code) of
                  None \<Rightarrow> [''successful transfer has a failed curl_exit_code'']
                | Some outcome \<Rightarrow>
                    err_if (dget observation ''transport_error'' \<noteq> PStr outcome)
                      ''successful transfer transport_error contradicts curl_exit_code''))
         @ (if not_plain_int status \<or> \<not> (100 \<le> int_val status \<and> int_val status \<le> 999)
            then [''successful transfer requires a client-observed HTTP status'']
            else err_if (py_eq exit_code (PInt 22) \<and> int_val status < 400)
                   ''HTTP error transfer requires an error HTTP status''))"

definition followup_reason_errors :: "dict \<Rightarrow> string list" where
  "followup_reason_errors observation =
     concat (map (\<lambda>field.
       let v = dget observation field
       in err_if (v \<noteq> PNone \<and> (\<not> is_str v \<or> \<not> fullmatch SAFE_REASON (str_val v)))
            (''independent follow-up has an unsafe '' @ field))
     [''reason'', ''transport_error''])"

definition followup_type_errors :: "dict \<Rightarrow> string list" where
  "followup_type_errors observation =
     concat (map (\<lambda>field.
       err_if (has_key observation field \<and> \<not> is_bool (dget observation field))
         (''independent follow-up has an invalid '' @ field))
     [''response_complete'', ''fallback_used''])
     @ concat (map (\<lambda>field.
         err_if (dget observation field \<noteq> PNone \<and> not_plain_int (dget observation field))
           (''independent follow-up has an invalid '' @ field))
       [''http_status'', ''curl_exit_code''])"

definition followup_safety_errors :: "dict \<Rightarrow> string list" where
  "followup_safety_errors observation =
     unsupported_fields observation ALLOWED_FOLLOWUP_FIELDS ''follow-up has unsupported fields: ''
     @ payload_errors (PDict observation) ''followup''
     @ err_if (invalid_schema_version observation) ''independent follow-up has an invalid schema_version''
     @ followup_reason_errors observation
     @ followup_type_errors observation
     @ (if dget observation ''status'' = PStr ''PASS''
        then successful_transfer_errors observation False else [])"

definition followup_result_errors :: "dict \<Rightarrow> string \<Rightarrow> string list" where
  "followup_result_errors observation protocol =
     (let status = dget observation ''http_status''
      in err_if (dget observation ''status'' \<noteq> PStr ''PASS'') ''independent follow-up did not pass''
         @ err_if (dget observation ''requested_protocol'' \<noteq> PStr protocol)
             ''independent follow-up requested protocol differs''
         @ err_if (dget observation ''negotiated_protocol'' \<noteq> PStr protocol)
             ''independent follow-up negotiated protocol differs''
         @ err_if (dget observation ''fallback_used'' \<noteq> PBool False)
             ''independent follow-up used a fallback''
         @ err_if (not_plain_int status \<or> \<not> (200 \<le> int_val status \<and> int_val status < 400))
             ''independent follow-up has no healthy HTTP status'')"

definition followup_case_errors :: "dict \<Rightarrow> dict \<Rightarrow> string list res" where
  "followup_case_errors observation primary_observation =
     (let primary_case_id = dget primary_observation ''transport_case_id''
      in if \<not> is_str primary_case_id \<or> \<not> fullmatch BOUNDED_TOKEN (str_val primary_case_id)
         then Inr [''strict evidence requires a bounded primary transport_case_id'']
         else rbind (derive_followup_transport_case_id (Some (str_val primary_case_id))) (\<lambda>expected.
              Inr (err_if (dget observation ''transport_case_id'' \<noteq> opt_str expected)
                     ''independent follow-up has no distinct bound transport_case_id''
                   @ err_if (dget observation ''transport_case_id'' = primary_case_id)
                       ''independent follow-up reuses the primary transport_case_id'')))"

definition followup_correlation_errors :: "dict \<Rightarrow> dict \<Rightarrow> string list res" where
  "followup_correlation_errors observation primary_observation =
     (let authority_hash = dget primary_observation ''target_authority_sha256''
      in rbind (followup_case_errors observation primary_observation) (\<lambda>case_errors.
         Inr (case_errors
              @ (if \<not> is_str authority_hash \<or> \<not> fullmatch SHA256_TOKEN (str_val authority_hash)
                 then [''strict evidence requires a bounded primary target authority hash'']
                 else err_if (dget observation ''target_authority_sha256'' \<noteq> authority_hash)
                        ''independent follow-up target authority does not match primary observation''))))"

definition BOUND_FOLLOWUP_FIELDS :: "string list" where
  "BOUND_FOLLOWUP_FIELDS =
     [''requested_protocol'', ''downstream_protocol'', ''negotiated_protocol'', ''transport'',
      ''fallback_used'', ''connector'', ''integration_mode'', ''run_id'']"

definition followup_provenance_errors :: "dict \<Rightarrow> dict \<Rightarrow> string list" where
  "followup_provenance_errors observation primary_observation =
     concat (map (\<lambda>field.
       err_if (dget primary_observation field \<noteq> PNone
               \<and> \<not> py_eq (dget observation field) (dget primary_observation field))
         (''independent follow-up '' @ field @ '' does not match primary observation''))
     BOUND_FOLLOWUP_FIELDS)"

definition validate_followup :: "dict \<Rightarrow> string \<Rightarrow> dict \<Rightarrow> string list res" where
  "validate_followup observation protocol primary_observation =
     rbind (validate_protocol_observation observation False) (\<lambda>observation_errors.
     rbind (followup_correlation_errors observation primary_observation) (\<lambda>correlation_errors.
     Inr (followup_safety_errors observation @ observation_errors
          @ followup_result_errors observation protocol @ correlation_errors
          @ followup_provenance_errors observation primary_observation)))"

section \<open>Required artifacts\<close>

text \<open>The three texts in the order of \<open>REQUIRED_ARTIFACTS\<close>, then the observation.\<close>

record text_artifacts =
  ta_version :: "string option"
  ta_features :: "string option"
  ta_command :: "string option"

definition read_required_artifacts ::
    "checker_env \<Rightarrow> fpath \<Rightarrow> (text_artifacts \<times> dict option \<times> string list) res" where
  "read_required_artifacts env artifact_dir =
     rbind (read_text env (artifact_dir @ [CLIENT_VERSION_ARTIFACT]) MAX_TEXT_BYTES) (\<lambda>(version, e1).
     rbind (read_text env (artifact_dir @ [CLIENT_FEATURES_ARTIFACT]) MAX_TEXT_BYTES) (\<lambda>(features, e2).
     rbind (read_text env (artifact_dir @ [CLIENT_COMMAND_ARTIFACT]) MAX_TEXT_BYTES) (\<lambda>(command, e3).
     rbind (read_json env (artifact_dir @ [PRIMARY_OBSERVATION_ARTIFACT])) (\<lambda>(observation, e4).
     Inr (\<lparr>ta_version = version, ta_features = features, ta_command = command\<rparr>, observation,
          e1 @ e2 @ e3 @ e4)))))"

definition text_artifact_errors :: "text_artifacts \<Rightarrow> string \<Rightarrow> bool \<Rightarrow> string list res" where
  "text_artifact_errors texts protocol require_correlation =
     rbind (case ta_features texts of None \<Rightarrow> Inr []
            | Some features_text \<Rightarrow> validate_features_text features_text protocol require_correlation)
       (\<lambda>features_errors.
     rbind (case ta_command texts of None \<Rightarrow> Inr []
            | Some command \<Rightarrow> validate_command command protocol) (\<lambda>command_errors.
     Inr ((case ta_version texts of None \<Rightarrow> []
           | Some version_text \<Rightarrow> validate_version_text version_text)
          @ features_errors @ command_errors)))"

section \<open>The primary observation\<close>

definition primary_observation_errors :: "dict \<Rightarrow> checker_args \<Rightarrow> string list res" where
  "primary_observation_errors observation args =
     rbind (validate_protocol_observation observation (\<not> ca_strict args)) (\<lambda>observation_errors.
     Inr (unsupported_fields observation ALLOWED_OBSERVATION_FIELDS ''observation has unsupported fields: ''
          @ err_if (invalid_schema_version observation) ''observation has an invalid schema_version''
          @ payload_errors (PDict observation) ''observation''
          @ observation_errors
          @ err_if (dget observation ''requested_protocol'' \<noteq> PStr (ca_protocol args))
              ''requested_protocol differs from the selected profile''
          @ err_if (dget observation ''downstream_protocol'' \<noteq> PStr (ca_protocol args))
              ''downstream_protocol differs from the selected profile''
          @ match_errors (ca_connector args) (dget observation ''connector'') ''connector''
          @ match_errors (ca_integration_mode args) (dget observation ''integration_mode'')
              ''integration_mode''
          @ match_errors (ca_run_id args) (dget observation ''run_id'') ''run_id''
          @ match_errors (ca_transaction_id args) (dget observation ''transaction_id'') ''transaction_id''
          @ match_errors (ca_rule_id args) (dget observation ''rule_id'') ''rule_id''
          @ match_errors (ca_phase args) (dget observation ''phase'') ''phase''))"

definition expected_stream_errors :: "dict \<Rightarrow> pyval \<Rightarrow> string list" where
  "expected_stream_errors observation expected_stream_id =
     (if expected_stream_id = PNone then []
      else if not_plain_int expected_stream_id \<or> int_val expected_stream_id < 0
      then [''expected_stream_id must be a non-negative integer'']
      else err_if (\<not> py_eq (dget observation ''stream_id'') expected_stream_id)
             ''stream_id does not match expected provenance'')"

definition expected_upstream_errors :: "dict \<Rightarrow> string option \<Rightarrow> string list" where
  "expected_upstream_errors observation expected_upstream_protocol =
     (case expected_upstream_protocol of None \<Rightarrow> []
      | Some p \<Rightarrow>
          if p \<notin> set CANONICAL_PROTOCOLS then [''expected_upstream_protocol is not canonical'']
          else err_if (dget observation ''upstream_protocol'' \<noteq> PStr p)
                 ''upstream_protocol does not match expected provenance'')"

definition expected_transport_case_errors :: "dict \<Rightarrow> string option \<Rightarrow> string list" where
  "expected_transport_case_errors observation expected_transport_case_id =
     (case expected_transport_case_id of None \<Rightarrow> []
      | Some t \<Rightarrow>
          if \<not> fullmatch BOUNDED_TOKEN t then [''expected_transport_case_id is not a bounded token'']
          else err_if (dget observation ''transport_case_id'' \<noteq> PStr t)
                 ''transport_case_id does not match expected provenance'')"

definition expected_client_status_errors :: "dict \<Rightarrow> pyval \<Rightarrow> string list" where
  "expected_client_status_errors observation expected_client_status =
     (let observed_status = dget observation ''http_status''
      in if expected_client_status = PNone then []
         else if not_plain_int expected_client_status
                 \<or> \<not> (100 \<le> int_val expected_client_status \<and> int_val expected_client_status \<le> 999)
         then [''expected_client_status must be an HTTP status integer'']
         else if not_plain_int observed_status
         then [''client observation has no response status matching the visible host status'']
         else err_if (\<not> py_eq observed_status expected_client_status)
                ''client status does not match the visible host status'')"

definition expected_provenance_errors :: "dict \<Rightarrow> checker_args \<Rightarrow> string list" where
  "expected_provenance_errors observation args =
     expected_stream_errors observation (ca_expected_stream_id args)
     @ expected_upstream_errors observation (ca_expected_upstream_protocol args)
     @ expected_transport_case_errors observation (ca_expected_transport_case_id args)
     @ expected_client_status_errors observation (ca_expected_client_status args)"

section \<open>Ordinary and strict evidence\<close>

definition normal_evidence_errors :: "checker_env \<Rightarrow> dict \<Rightarrow> fpath \<Rightarrow> string list res" where
  "normal_evidence_errors env observation followup_path =
     rbind (if ck_exists env followup_path then
              rbind (read_json env followup_path) (\<lambda>(followup, followup_errors).
                Inr (followup_errors
                     @ (case followup of None \<Rightarrow> [] | Some f \<Rightarrow> followup_safety_errors f)))
            else Inr []) (\<lambda>followup_errors.
     Inr (err_if (dget observation ''status'' \<noteq> PStr ''PASS'') ''protocol client observation is not PASS''
          @ successful_transfer_errors observation True @ followup_errors))"

definition FAILURE_CATEGORIES :: "string list" where
  "FAILURE_CATEGORIES =
     [''timeout'', ''tls_failure'', ''h2_failure'', ''h3_failure'', ''protocol_failure'',
      ''client_or_network_failure'']"

definition failed_transfer_errors :: "dict \<Rightarrow> string list" where
  "failed_transfer_errors observation =
     (let exit_code = dget observation ''curl_exit_code'';
          observed_error = dget observation ''transport_error''
      in if not_plain_int exit_code \<or> int_val exit_code \<in> {0, 22}
         then [''strict evidence requires a failed integer curl_exit_code'']
         else (case returncode_transport_error (int_val exit_code) (dget observation ''http_status'') of
                 Some expected_error \<Rightarrow>
                   err_if (observed_error \<noteq> PStr expected_error)
                     ''strict evidence transport_error contradicts curl_exit_code''
               | None \<Rightarrow>
                   err_if (observed_error \<notin> PStr ` set FAILURE_CATEGORIES)
                     ''strict evidence requires a categorized transport failure''))"

definition STRICT_TRANSPORTS :: "(string \<times> string) list" where
  "STRICT_TRANSPORTS = [(''h2'', ''tls_tcp''), (''h2c'', ''tcp''), (''h3'', ''quic_udp'')]"

definition strict_primary_errors :: "dict \<Rightarrow> string \<Rightarrow> string list res" where
  "strict_primary_errors observation protocol =
     (let stream_id = dget observation ''stream_id'';
          observed_status = dget observation ''http_status''
      in rbind (subscript STRICT_TRANSPORTS protocol) (\<lambda>transport.
         Inr (err_if (dget observation ''status'' \<noteq> PStr ''FAIL'')
                ''strict evidence requires a client-observed failed transfer''
              @ failed_transfer_errors observation
              @ err_if (dget observation ''response_committed'' \<noteq> PBool True)
                  ''strict evidence requires response_committed=true''
              @ err_if (dget observation ''client_first_body_byte_visible'' \<noteq> PBool True)
                  ''strict evidence requires a client-visible first body byte''
              @ err_if (dget observation ''response_complete'' \<noteq> PBool False)
                  ''strict evidence requires an incomplete response''
              @ err_if (not_plain_int stream_id \<or> int_val stream_id < 0)
                  ''strict evidence requires a non-negative stream_id''
              @ err_if (not_plain_int observed_status
                        \<or> \<not> (100 \<le> int_val observed_status \<and> int_val observed_status \<le> 999))
                  ''strict evidence requires a client-observed response status''
              @ err_if (dget observation ''stream_reset'' \<noteq> PBool True)
                  ''strict evidence requires stream_reset=true''
              @ err_if (dget observation ''stream_reset_code'' \<in> {PNone, PStr ''''})
                  ''strict evidence requires a stream_reset_code''
              @ err_if (dget observation ''fallback_used'' \<noteq> PBool False)
                  ''strict evidence must not use a protocol fallback''
              @ err_if (dget observation ''negotiated_protocol'' \<noteq> PStr protocol)
                  ''strict evidence negotiated protocol differs''
              @ err_if (dget observation ''transport'' \<noteq> PStr transport)
                  ''strict evidence transport differs from the selected profile'')))"

definition strict_transport_errors :: "dict \<Rightarrow> string \<Rightarrow> string list" where
  "strict_transport_errors observation protocol =
     (if protocol = ''h2'' then
        err_if (dget observation ''alpn'' \<noteq> PStr ''h2'') ''strict HTTP/2 evidence requires alpn=h2''
      else if protocol = ''h3'' then
        err_if (dget observation ''alpn'' \<noteq> PStr ''h3'') ''strict HTTP/3 evidence requires alpn=h3''
        @ err_if (dget observation ''quic_udp_observed'' \<noteq> PBool True)
            ''strict HTTP/3 evidence requires QUIC/UDP observation''
        @ err_if (dget observation ''quic_connection_id_present'' \<noteq> PBool True)
            ''strict HTTP/3 evidence requires QUIC CID presence only''
        @ err_if (\<not> is_str (dget observation ''quic_version'') \<or> str_val (dget observation ''quic_version'') = [])
            ''strict HTTP/3 evidence requires quic_version''
      else [])"

definition strict_followup_errors :: "checker_env \<Rightarrow> fpath \<Rightarrow> string \<Rightarrow> dict \<Rightarrow> string list res" where
  "strict_followup_errors env followup_path protocol primary_observation =
     rbind (read_json env followup_path) (\<lambda>(followup, followup_errors).
       case followup of
         None \<Rightarrow> Inr followup_errors
       | Some f \<Rightarrow>
           rbind (validate_followup f protocol primary_observation) (\<lambda>errors.
             Inr (followup_errors @ errors)))"

definition validate_protocol_artifacts :: "checker_env \<Rightarrow> fpath \<Rightarrow> checker_args \<Rightarrow> string list res" where
  "validate_protocol_artifacts env artifact_dir args =
     (let protocol = ca_protocol args
      in if protocol \<notin> set CANONICAL_PROTOCOLS then Inr [''protocol is not canonical'']
         else if ca_strict args \<and> protocol \<notin> {''h2'', ''h2c'', ''h3''}
         then Inr [''strict protocol evidence is only valid for H2/H3'']
         else if ck_is_symlink env artifact_dir \<or> \<not> ck_is_dir env artifact_dir
         then Inr [''artifact directory is missing or unsafe'']
         else
           rbind (read_required_artifacts env artifact_dir) (\<lambda>(texts, observation, e1).
           rbind (text_artifact_errors texts protocol (ca_expected_transport_case_id args \<noteq> None)) (\<lambda>e2.
           case observation of
             None \<Rightarrow> Inr (sorted_unique (e1 @ e2))
           | Some obs \<Rightarrow>
               rbind (primary_observation_errors obs args) (\<lambda>e3.
               let e4 = expected_provenance_errors obs args;
                   followup_path = artifact_dir @ [FOLLOWUP_ARTIFACT]
               in if \<not> ca_strict args then
                    rbind (normal_evidence_errors env obs followup_path) (\<lambda>e5.
                      Inr (sorted_unique (e1 @ e2 @ e3 @ e4 @ e5)))
                  else
                    rbind (strict_primary_errors obs protocol) (\<lambda>e5.
                    rbind (strict_followup_errors env followup_path protocol obs) (\<lambda>e6.
                      Inr (sorted_unique (e1 @ e2 @ e3 @ e4 @ e5 @ strict_transport_errors obs protocol @ e6))))))))"

text \<open>
  \<open>main\<close> after argument parsing: the exit status, the lines on the output stream and the
  lines on the error stream. \<open>shown\<close> is the text of the directory as \<open>pathlib\<close> prints it.
\<close>

definition checker_main ::
    "checker_env \<Rightarrow> fpath \<Rightarrow> string \<Rightarrow> checker_args \<Rightarrow> (int \<times> string list \<times> string list) res" where
  "checker_main env artifact_dir shown args =
     rbind (validate_protocol_artifacts env artifact_dir args) (\<lambda>errors.
       Inr (if errors \<noteq> [] then (1, [], map (\<lambda>e. ''protocol-evidence: '' @ e) errors)
            else (0, [''protocol-evidence: pass artifact_dir='' @ shown], [])))"

end
