(* ===== verification/PyFloatFacts.thy ===== *)
theory PyFloatFacts
  imports PyFloat Complex_Main
begin

text \<open>
  Doubles have one representation each, rounding finds it, and the shortest representation
  is read back: 17 significant digits always determine a double.
\<close>

section \<open>Values as real numbers\<close>

definition ratio :: "int \<Rightarrow> int \<Rightarrow> real" where
  "ratio n d = real_of_int n / real_of_int d"

lemma powi_pos [simp]: "0 < (2 :: real) powi e" "0 < (10 :: real) powi e"
  by (simp_all add: zero_less_power_int)

lemma powi_step: "(b :: real) \<noteq> 0 \<Longrightarrow> b powi (e + 1) = b * b powi e"
  by (simp add: power_int_add)

lemma powi_nonneg: "0 \<le> e \<Longrightarrow> (b :: real) powi e = b ^ nat e"
  by (simp add: power_int_def)

lemma powi_neg: "e \<le> 0 \<Longrightarrow> (b :: real) powi e = 1 / b ^ nat (- e)"
  by (auto simp: power_int_def field_simps)

text \<open>A positive number has one exponent with a mantissa in a given binade or decade.\<close>

lemma scale_unique:
  fixes v b c :: real
  assumes "1 < b" "0 < c" and "c \<le> v / b powi i" "v / b powi i < b * c" and "c \<le> v / b powi j" "v / b powi j < b * c"
  shows "i = j"
proof -
  have False if "i < j" "c \<le> v / b powi j" "v / b powi i < b * c" for i j
  proof -
    have "b powi (i + 1) \<le> b powi j" using that(1) assms(1) by (intro power_int_increasing) auto
    then have "b * b powi i \<le> b powi j" using assms(1) by (simp add: powi_step)
    then have "c * (b * b powi i) \<le> c * b powi j" using assms(2) by simp
    moreover have "c * b powi j \<le> v" "v < b * c * b powi i"
      using that(2,3) assms(1) by (simp_all add: field_simps zero_less_power_int)
    ultimately show False by (simp add: algebra_simps)
  qed
  with assms show ?thesis by (meson linorder_neqE)
qed

text \<open>An integer less than one away from a number keeps its integer bounds.\<close>

lemma near_upper:
  assumes "\<bar>real_of_int m - s\<bar> < 1" and "s \<le> real_of_int c"
  shows "m \<le> c"
proof -
  have "real_of_int m < real_of_int c + 1" using assms by linarith
  then have "real_of_int m < real_of_int (c + 1)" by simp
  then show ?thesis by (simp only: of_int_less_iff)
qed

lemma near_lower:
  assumes "\<bar>real_of_int m - s\<bar> < 1" and "real_of_int c \<le> s"
  shows "c \<le> m"
  using near_upper [of "- m" "- s" "- c"] assms by (simp add: abs_minus_commute)

section \<open>Rounded division\<close>

lemma div_half_even_cases:
  assumes "0 < d"
  obtains r where "0 \<le> r" "r < d" "n = n div d * d + r"
    "div_half_even n d = (if 2 * r < d \<or> 2 * r = d \<and> n div d mod 2 = 0 then n div d else n div d + 1)"
proof
  show "0 \<le> n mod d" "n mod d < d" "n = n div d * d + n mod d" using assms by simp_all
qed (auto simp: div_half_even_def Let_def)

lemma div_half_even_near:
  assumes "\<bar>2 * (n - q * d)\<bar> < d"
  shows "div_half_even n d = q"
proof -
  have d: "0 < d" using assms by linarith
  obtain r where r: "0 \<le> r" "r < d" "n = n div d * d + r"
    and val: "div_half_even n d = (if 2 * r < d \<or> 2 * r = d \<and> n div d mod 2 = 0 then n div d else n div d + 1)"
    using div_half_even_cases [OF d] by blast
  define t where "t = n div d - q"
  define z where "z = t * d"
  have z: "n - q * d = z + r" using r(3) by (simp add: t_def z_def algebra_simps)
  have near: "- d < 2 * (z + r)" "2 * (z + r) < d" using assms unfolding z by linarith+
  have "d \<le> z" if "1 \<le> t" using that d mult_right_mono [of 1 t d] by (simp add: z_def)
  moreover have "z \<le> - 2 * d" if "t \<le> - 2" using that d mult_right_mono [of t "- 2" d] by (simp add: z_def)
  ultimately have "\<not> 1 \<le> t" "\<not> t \<le> - 2" using near r(1,2) by (auto simp del: mult_minus_left)
  then have "t = 0 \<or> t = - 1" by linarith
  then show ?thesis
  proof
    assume "t = 0"
    then show ?thesis using near val by (simp add: t_def z_def)
  next
    assume "t = - 1"
    then show ?thesis using near val by (simp add: t_def z_def)
  qed
qed

lemma div_half_even_error: "0 < d \<Longrightarrow> \<bar>2 * (div_half_even n d * d - n)\<bar> \<le> d"
proof -
  assume d: "0 < d"
  obtain r where r: "0 \<le> r" "r < d" "n = n div d * d + r"
    and val: "div_half_even n d = (if 2 * r < d \<or> 2 * r = d \<and> n div d mod 2 = 0 then n div d else n div d + 1)"
    using div_half_even_cases [OF d] by blast
  have "div_half_even n d * d - n = (if 2 * r < d \<or> 2 * r = d \<and> n div d mod 2 = 0 then - r else d - r)"
    using r(3) unfolding val by (simp add: algebra_simps)
  moreover have "\<bar>2 * (- r)\<bar> \<le> d" if "2 * r \<le> d" using that r(1) by linarith
  moreover have "\<bar>2 * (d - r)\<bar> \<le> d" if "d \<le> 2 * r" using that r(1,2) by (simp add: abs_le_iff)
  ultimately show ?thesis by (auto split: if_splits)
qed

lemma div_half_even_ratio: "0 < c \<Longrightarrow> div_half_even (n * c) (d * c) = div_half_even n d"
proof -
  assume c: "0 < c"
  have div: "(n * c) div (d * c) = n div d" using c by simp
  have mod: "(n * c) mod (d * c) = (n mod d) * c" by (simp add: mult.commute mod_mult_mult1)
  have lt: "2 * (x * c) < y * c \<longleftrightarrow> 2 * x < y" "y * c < 2 * (x * c) \<longleftrightarrow> y < 2 * x" for x y
    using c mult_less_cancel_right_pos [of c "2 * x" y] mult_less_cancel_right_pos [of c y "2 * x"]
    by (simp_all only: mult.assoc)
  show ?thesis unfolding div_half_even_def Let_def div mod lt ..
qed

lemma div_half_even_cross:
  assumes "0 < d" "0 < d'" "n * d' = n' * d"
  shows "div_half_even n d = div_half_even n' d'"
proof -
  have "div_half_even n d = div_half_even (n * d') (d * d')"
    by (rule div_half_even_ratio [OF assms(2), symmetric])
  also have "\<dots> = div_half_even (n' * d) (d' * d)" unfolding assms(3) by (simp only: mult.commute [of d d'])
  also have "\<dots> = div_half_even n' d'" using assms by (simp add: div_half_even_ratio)
  finally show ?thesis .
qed

text \<open>The integer nearest to a scaled ratio.\<close>

lemma div_half_even_nearest:
  assumes "0 < d" and "\<bar>ratio n d - real_of_int q\<bar> < 1 / 2"
  shows "div_half_even n d = q"
proof (rule div_half_even_near)
  have "\<bar>ratio n d - real_of_int q\<bar> * (2 * real_of_int d) < 1 / 2 * (2 * real_of_int d)"
    using assms by (intro mult_strict_right_mono) auto
  moreover have "\<bar>ratio n d - real_of_int q\<bar> * (2 * real_of_int d) = \<bar>(ratio n d - real_of_int q) * (2 * real_of_int d)\<bar>"
    using assms(1) by (simp add: abs_mult)
  moreover have "(ratio n d - real_of_int q) * (2 * real_of_int d) = real_of_int (2 * (n - q * d))"
    using assms(1) by (simp add: ratio_def field_simps)
  ultimately have "real_of_int \<bar>2 * (n - q * d)\<bar> < real_of_int d" by simp
  then show "\<bar>2 * (n - q * d)\<bar> < d" by (simp only: of_int_less_iff)
qed

lemma div_half_even_close: "0 < d \<Longrightarrow> \<bar>real_of_int (div_half_even n d) - ratio n d\<bar> \<le> 1 / 2"
proof -
  assume d: "0 < d"
  let ?x = "real_of_int (div_half_even n d) - ratio n d"
  have "real_of_int \<bar>2 * (div_half_even n d * d - n)\<bar> \<le> real_of_int d"
    using div_half_even_error [OF d] by (simp only: of_int_le_iff)
  moreover have "real_of_int (2 * (div_half_even n d * d - n)) = 2 * ?x * real_of_int d"
    using d by (simp add: ratio_def field_simps)
  ultimately have "\<bar>2 * ?x\<bar> * real_of_int d \<le> 1 * real_of_int d" using d by (simp add: abs_mult)
  then have "\<bar>2 * ?x\<bar> \<le> 1" using d by (simp only: mult_le_cancel_right_pos of_int_0_less_iff)
  then show ?thesis by (simp only: abs_mult) simp
qed

section \<open>The binade of a ratio\<close>

lemma bitlen_bounds: "0 < n \<Longrightarrow> 0 < bitlen n \<and> 2 ^ nat (bitlen n - 1) \<le> n \<and> n < 2 ^ nat (bitlen n)"
proof (induction n rule: bitlen.induct)
  case (1 n)
  show ?case
  proof (cases "n = 1")
    case True
    then show ?thesis by (simp add: bitlen.simps [of 1] bitlen.simps [of 0])
  next
    case False
    then have "0 < n div 2" using "1.prems" by linarith
    then have IH: "0 < bitlen (n div 2)" "2 ^ nat (bitlen (n div 2) - 1) \<le> n div 2" "n div 2 < 2 ^ nat (bitlen (n div 2))"
      using 1 by auto
    have b: "bitlen n = 1 + bitlen (n div 2)" using "1.prems" by (simp add: bitlen.simps [of n])
    have "nat (bitlen n - 1) = Suc (nat (bitlen (n div 2) - 1))" "nat (bitlen n) = Suc (nat (bitlen (n div 2)))"
      using IH(1) b by linarith+
    then show ?thesis using IH b by simp linarith
  qed
qed

lemma bitlen_powi:
  assumes "0 < n"
  shows "2 powi (bitlen n - 1) \<le> real_of_int n" "real_of_int n < 2 powi bitlen n"
proof -
  have b: "0 < bitlen n" "2 ^ nat (bitlen n - 1) \<le> n" "n < 2 ^ nat (bitlen n)" using bitlen_bounds [OF assms] by auto
  have "real_of_int (2 ^ nat (bitlen n - 1)) \<le> real_of_int n" "real_of_int n < real_of_int (2 ^ nat (bitlen n))"
    using b(2,3) by (simp_all only: of_int_le_iff of_int_less_iff)
  then show "2 powi (bitlen n - 1) \<le> real_of_int n" "real_of_int n < 2 powi bitlen n"
    using b(1) by (simp_all add: powi_nonneg)
qed

lemma ratio_scaled:
  assumes "0 < d"
  shows "0 \<le> e \<Longrightarrow> ratio n (d * b ^ nat e) = ratio n d / (real_of_int b powi e)"
    and "e \<le> 0 \<Longrightarrow> ratio (n * b ^ nat (- e)) d = ratio n d / (real_of_int b powi e)"
  by (simp_all add: ratio_def powi_nonneg powi_neg)

lemma floor_ratio: "\<lfloor>ratio n d\<rfloor> = n div d"
  unfolding ratio_def by (rule floor_divide_of_int_eq)

lemma scale_floor_ratio:
  assumes "0 < d"
  shows "scale_floor n d e = \<lfloor>ratio n d / 2 powi e\<rfloor>"
proof (cases "0 \<le> e")
  case True
  then show ?thesis
    using ratio_scaled(1) [OF assms True, of n 2] floor_ratio [of n "d * 2 ^ nat e"] by (simp add: scale_floor_def)
next
  case False
  then show ?thesis
    using ratio_scaled(2) [OF assms, of e n 2] floor_ratio [of "n * 2 ^ nat (- e)" d] by (simp add: scale_floor_def)
qed

lemma scale_div_nearest:
  assumes "0 < d" and "\<bar>ratio n d / 2 powi e - real_of_int q\<bar> < 1 / 2"
  shows "scale_div n d e = q"
  using assms ratio_scaled [of d e n 2] div_half_even_nearest [of "d * 2 ^ nat e" n q]
    div_half_even_nearest [of d "n * 2 ^ nat (- e)" q]
  by (simp add: scale_div_def)

definition binade :: "int \<Rightarrow> int \<Rightarrow> int" where
  "binade n d = (let e0 = bitlen n - bitlen d - 53 in if scale_floor n d e0 < 2 ^ 53 then e0 else e0 + 1)"

lemma binade_range:
  assumes "0 < n" "0 < d"
  shows "2 ^ 52 \<le> ratio n d / 2 powi binade n d" "ratio n d / 2 powi binade n d < 2 ^ 53"
proof -
  define e0 where "e0 = bitlen n - bitlen d - 53"
  let ?v = "ratio n d / 2 powi e0"
  have n: "2 powi (bitlen n - 1) \<le> real_of_int n" "real_of_int n < 2 powi bitlen n"
    and d: "2 powi (bitlen d - 1) \<le> real_of_int d" "real_of_int d < 2 powi bitlen d"
    using bitlen_powi assms by auto
  have e: "2 powi e0 * 2 powi bitlen d * 2 ^ 53 = (2 powi bitlen n :: real)"
    by (simp add: e0_def flip: power_int_add) (simp add: power_int_diff)
  have half: "(2 :: real) powi (bitlen x - 1) = 2 powi bitlen x / 2" for x by (simp add: power_int_diff)
  have pos: "0 < real_of_int d * 2 powi e0" using assms by simp
  have v: "?v = real_of_int n / (real_of_int d * 2 powi e0)" by (simp add: ratio_def)
  have lo: "2 ^ 52 \<le> ?v"
  proof -
    have "2 ^ 52 * (real_of_int d * 2 powi e0) \<le> 2 ^ 52 * (2 powi bitlen d * 2 powi e0)"
      using d(2) by (intro mult_left_mono mult_right_mono) auto
    also have "\<dots> = 2 powi bitlen n / 2" using e by (simp add: mult.commute mult.left_commute)
    also have "\<dots> \<le> real_of_int n" using n(1) half [of n] by simp
    finally show ?thesis unfolding v using pos by (simp add: pos_le_divide_eq)
  qed
  have hi: "?v < 2 ^ 54"
  proof -
    have "real_of_int n < 2 powi bitlen n" by (rule n(2))
    also have "\<dots> = 2 ^ 54 * ((2 powi bitlen d / 2) * 2 powi e0)" using e by (simp add: mult.commute mult.left_commute)
    also have "\<dots> \<le> 2 ^ 54 * (real_of_int d * 2 powi e0)"
      using d(1) half [of d] by (intro mult_left_mono mult_right_mono) auto
    finally show ?thesis unfolding v using pos by (simp add: pos_divide_less_eq)
  qed
  have s: "scale_floor n d e0 < 2 ^ 53 \<longleftrightarrow> ?v < 2 ^ 53"
    by (simp add: scale_floor_ratio [OF assms(2)] floor_less_iff)
  have "ratio n d / 2 powi (e0 + 1) = ?v / 2" by (simp add: powi_step)
  then show "2 ^ 52 \<le> ratio n d / 2 powi binade n d" "ratio n d / 2 powi binade n d < 2 ^ 53"
    using lo hi s by (auto simp: binade_def Let_def simp flip: e0_def)
qed

lemma binade_unique:
  assumes "0 < n" "0 < d" and "2 ^ 52 \<le> ratio n d / 2 powi e" "ratio n d / 2 powi e < 2 ^ 53"
  shows "binade n d = e"
  using scale_unique [of 2 "2 ^ 52" "ratio n d" "binade n d" e] binade_range [OF assms(1,2)] assms(3,4) by simp

section \<open>Doubles\<close>

text \<open>
  The representation of each double: 53 bits of mantissa unless the exponent is the least one,
  and one zero of each sign.
\<close>

fun is_double :: "pyfloat \<Rightarrow> bool" where
  "is_double (FFin m e) \<longleftrightarrow>
     m = 0 \<and> e = 0 \<or> 2 ^ 52 \<le> \<bar>m\<bar> \<and> \<bar>m\<bar> < 2 ^ 53 \<and> - 1074 \<le> e \<and> e \<le> 971
     \<or> 0 < \<bar>m\<bar> \<and> \<bar>m\<bar> < 2 ^ 52 \<and> e = - 1074"
| "is_double x \<longleftrightarrow> True"

definition rounded_at :: "int \<Rightarrow> int \<Rightarrow> int \<Rightarrow> pyfloat" where
  "rounded_at n d e =
     (let m = scale_div n d e; (m', e') = (if m = 2 ^ 53 then (2 ^ 52, e + 1) else (m, e))
      in if 971 < e' then FInf else if m' = 0 then FFin 0 0 else FFin m' e')"

lemma round_double_binade:
  "n \<noteq> 0 \<Longrightarrow> round_double n d = rounded_at n d (max (binade n d) (- 1074))"
  by (simp add: round_double_def rounded_at_def binade_def Let_def)

lemma round_double_zero [simp]: "round_double 0 d = FFin 0 0"
  by (simp add: round_double_def)

text \<open>Rounding depends on the number only.\<close>

lemma binade_ratio:
  assumes "0 < n" "0 < d" "0 < n'" "0 < d'" and "ratio n d = ratio n' d'"
  shows "binade n d = binade n' d'"
  by (rule binade_unique) (use assms binade_range [of n' d'] in auto)

lemma round_double_ratio:
  assumes "0 < n" "0 < d" "0 < n'" "0 < d'" and "ratio n d = ratio n' d'"
  shows "round_double n d = round_double n' d'"
proof -
  have "real_of_int (n * d') = real_of_int (n' * d)" using assms by (simp add: ratio_def field_simps)
  then have cross: "n * d' = n' * d" by (simp only: of_int_eq_iff)
  have swap: "n * c * d' = n' * c * d" for c using cross by (metis mult.assoc mult.commute)
  have "div_half_even (n * c) d = div_half_even (n' * c) d'" for c
    using div_half_even_cross [OF assms(2,4) swap] .
  moreover have "div_half_even n (d * c) = div_half_even n' (d' * c)" if "0 < c" for c
    using assms cross that by (intro div_half_even_cross) (simp_all flip: mult.assoc)
  ultimately have "scale_div n d e = scale_div n' d' e" for e by (simp add: scale_div_def)
  then show ?thesis using assms binade_ratio [OF assms] by (simp add: round_double_binade rounded_at_def)
qed

text \<open>What is close enough to a double rounds to it.\<close>

lemma round_double_near:
  assumes x: "is_double (FFin m e)" "0 < m" and n: "0 < n" "0 < d"
    and near: "\<bar>ratio n d - m * 2 powi e\<bar> \<le> m * 2 powi e / (2 * 10 ^ 16)"
  shows "round_double n d = FFin m e"
proof -
  let ?s = "ratio n d / 2 powi e"
  have m: "m < 2 ^ 53" "- 1074 \<le> e" "e \<le> 971" "2 ^ 52 \<le> m \<or> e = - 1074" using x by auto
  have "\<bar>ratio n d - m * 2 powi e\<bar> / 2 powi e \<le> m * 2 powi e / (2 * 10 ^ 16) / 2 powi e"
    by (rule divide_right_mono [OF near]) (simp add: less_imp_le)
  moreover have "\<bar>ratio n d - m * 2 powi e\<bar> / 2 powi e = \<bar>?s - m\<bar>"
  proof -
    have "\<bar>ratio n d - m * 2 powi e\<bar> / 2 powi e = \<bar>(ratio n d - m * 2 powi e) / 2 powi e\<bar>"
      by (simp add: abs_divide)
    then show ?thesis by (simp add: diff_divide_distrib)
  qed
  ultimately have s: "\<bar>?s - m\<bar> \<le> m / (2 * 10 ^ 16)" by simp
  have real_m: "real_of_int m \<le> 2 ^ 53 - 1" using m(1) by simp
  then have "m / (2 * 10 ^ 16) < (1 / 2 :: real)" by simp
  with s have close: "\<bar>?s - m\<bar> < 1 / 2" by linarith
  have div: "scale_div n d e = m" by (rule scale_div_nearest [OF n(2) close])
  show ?thesis
  proof (cases "max (binade n d) (- 1074) = e")
    case True
    then show ?thesis using n div m x(2) by (simp add: round_double_binade rounded_at_def)
  next
    case False
    have hi: "?s < 2 ^ 53" using close real_m by linarith
    have lo: "?s < 2 ^ 52"
    proof (rule ccontr)
      assume "\<not> ?s < 2 ^ 52"
      then have "binade n d = e" using n hi by (intro binade_unique) auto
      with False m(2) show False by simp
    qed
    have less: "binade n d < e"
    proof (rule ccontr)
      assume "\<not> binade n d < e"
      then have "2 powi e \<le> (2 :: real) powi binade n d" by (intro power_int_increasing) auto
      then have "2 ^ 52 * 2 powi e \<le> 2 ^ 52 * (2 :: real) powi binade n d" by simp
      also have "\<dots> \<le> ratio n d" using binade_range(1) [OF n] by (simp add: field_simps)
      finally have "2 ^ 52 \<le> ?s" by (simp add: field_simps)
      with lo show False by simp
    qed
    with False m(2) have e: "- 1074 < e" by linarith
    then have big: "2 ^ 52 \<le> m" using m(4) by simp
    have "\<bar>real_of_int m - ?s\<bar> < 1" using close by linarith
    then have "m \<le> 2 ^ 52" by (rule near_upper) (use lo in simp)
    then have m52: "m = 2 ^ 52" using big by simp
    have up: "ratio n d / 2 powi (e - 1) = 2 * ?s" by (simp add: power_int_diff)
    have "\<bar>?s - 2 ^ 52\<bar> < 1 / 4" using s unfolding m52 by simp
    moreover have "\<bar>2 * t - real_of_int (2 ^ 53)\<bar> < 1 / 2" if "\<bar>t - 2 ^ 52\<bar> < 1 / 4" for t :: real
    proof -
      have "2 * t - real_of_int (2 ^ 53) = 2 * (t - 2 ^ 52)" by simp
      then have "\<bar>2 * t - real_of_int (2 ^ 53)\<bar> = 2 * \<bar>t - 2 ^ 52\<bar>" by (simp only: abs_mult abs_numeral)
      then show ?thesis using that by simp
    qed
    ultimately have near2: "\<bar>2 * ?s - real_of_int (2 ^ 53)\<bar> < 1 / 2" by blast
    have "2 ^ 52 \<le> 2 * ?s" "2 * ?s < 2 ^ 53" using near2 lo by simp_all
    then have b: "binade n d = e - 1" using n up by (intro binade_unique) auto
    have "scale_div n d (e - 1) = 2 ^ 53"
      using near2 unfolding up [symmetric] by (rule scale_div_nearest [OF n(2)])
    then show ?thesis using n b e m m52 by (simp add: round_double_binade rounded_at_def)
  qed
qed

text \<open>Rounding gives doubles.\<close>

lemma scale_div_close:
  assumes "0 < d"
  shows "\<bar>real_of_int (scale_div n d e) - ratio n d / 2 powi e\<bar> \<le> 1 / 2"
proof (cases "0 \<le> e")
  case True
  then show ?thesis
    using div_half_even_close [of "d * 2 ^ nat e" n] ratio_scaled(1) [OF assms True, of n 2] assms
    by (simp add: scale_div_def)
next
  case False
  then show ?thesis
    using div_half_even_close [OF assms, of "n * 2 ^ nat (- e)"] ratio_scaled(2) [OF assms, of e n 2]
    by (simp add: scale_div_def)
qed

lemma round_double_is_double:
  assumes "0 \<le> n" "0 < d"
  shows "is_double (round_double n d)"
proof (cases "n = 0")
  case False
  then have n: "0 < n" using assms(1) by simp
  define e where "e = max (binade n d) (- 1074)"
  let ?s = "ratio n d / 2 powi e" and ?m = "scale_div n d e"
  have "binade n d \<le> e" by (simp add: e_def)
  then have "(2 :: real) powi binade n d \<le> 2 powi e" by (intro power_int_increasing) auto
  moreover have r: "0 < ratio n d" using n assms(2) by (simp add: ratio_def)
  ultimately have "?s \<le> ratio n d / 2 powi binade n d" by (intro divide_left_mono) auto
  then have s: "0 < ?s" "?s < 2 ^ 53" using binade_range(2) [OF n assms(2)] r by auto
  have close: "\<bar>real_of_int ?m - ?s\<bar> < 1" using scale_div_close [OF assms(2), of n e] by linarith
  have m: "0 \<le> ?m" "?m \<le> 2 ^ 53"
    by (rule near_lower [OF close], use s in simp) (rule near_upper [OF close], use s in simp)
  have big: "2 ^ 52 \<le> ?m" if "e \<noteq> - 1074"
  proof -
    have "e = binade n d" using that by (simp add: e_def)
    then have "2 ^ 52 \<le> ?s" using binade_range(1) [OF n assms(2)] by simp
    then show ?thesis by (intro near_lower [OF close]) simp
  qed
  have "- 1074 \<le> e" by (simp add: e_def)
  then show ?thesis
    using m big False by (auto simp: round_double_binade rounded_at_def Let_def simp flip: e_def)
qed simp

section \<open>Significant digits\<close>

lemma dec_str_bounds: "0 < n \<Longrightarrow> 10 ^ (length (dec_str n) - 1) \<le> n \<and> n < 10 ^ length (dec_str n)"
proof (induction n rule: dec_str.induct)
  case (1 n)
  show ?case
  proof (cases "n < 10")
    case True
    then show ?thesis using "1.prems" by (simp add: dec_str.simps [of n])
  next
    case False
    then have IH: "10 ^ (length (dec_str (n div 10)) - 1) \<le> n div 10" "n div 10 < 10 ^ length (dec_str (n div 10))"
      using 1 by auto
    obtain k where k: "length (dec_str (n div 10)) = Suc k" by (cases "length (dec_str (n div 10))") auto
    have "length (dec_str n) = Suc (Suc k)" using False k by (simp add: dec_str.simps [of n])
    then show ?thesis using IH unfolding k by simp linarith
  qed
qed

lemma dec_str_real:
  assumes "0 < n"
  shows "10 ^ length (dec_str n) / 10 \<le> real_of_int n" "real_of_int n < 10 ^ length (dec_str n)"
proof -
  obtain k where k: "length (dec_str n) = Suc k" by (cases "length (dec_str n)") auto
  have "real_of_int (10 ^ k) \<le> real_of_int n" "real_of_int n < real_of_int (10 ^ Suc k)"
    using dec_str_bounds [OF assms] unfolding k of_int_le_iff of_int_less_iff by simp_all
  then show "10 ^ length (dec_str n) / 10 \<le> real_of_int n" "real_of_int n < 10 ^ length (dec_str n)"
    by (simp_all add: k)
qed

lemma dec_floor_exp_range:
  assumes "0 < n" "0 < d"
  shows "1 \<le> ratio n d / 10 powi dec_floor_exp n d" "ratio n d / 10 powi dec_floor_exp n d < 10"
proof -
  define a b where "a = length (dec_str n)" and "b = length (dec_str d)"
  define k where "k = int a - int b"
  let ?v = "ratio n d / 10 powi k"
  have n: "10 ^ a / 10 \<le> real_of_int n" "real_of_int n < 10 ^ a"
    and d: "10 ^ b / 10 \<le> real_of_int d" "real_of_int d < 10 ^ b"
    unfolding a_def b_def using dec_str_real assms by auto
  have ka: "10 powi k * 10 ^ b = (10 ^ a :: real)" by (simp add: k_def power_int_diff)
  have pos: "0 < real_of_int d * 10 powi k" using assms(2) by simp
  have v: "?v = real_of_int n / (real_of_int d * 10 powi k)" by (simp add: ratio_def)
  have lo: "1 / 10 \<le> ?v"
  proof -
    have "1 / 10 * (real_of_int d * 10 powi k) \<le> 1 / 10 * (10 ^ b * 10 powi k)"
      using d(2) by (intro mult_left_mono mult_right_mono) auto
    also have "\<dots> = 10 ^ a / 10" using ka by (simp add: mult.commute)
    also have "\<dots> \<le> real_of_int n" by (rule n(1))
    finally show ?thesis unfolding v using pos by (simp only: pos_le_divide_eq)
  qed
  have hi: "?v < 10"
  proof -
    have "real_of_int n < 10 ^ a" by (rule n(2))
    also have "\<dots> = 10 * (10 ^ b / 10 * 10 powi k)" using ka by (simp add: mult.commute)
    also have "\<dots> \<le> 10 * (real_of_int d * 10 powi k)"
      using d(1) by (intro mult_left_mono mult_right_mono) auto
    finally show ?thesis unfolding v using pos by (simp only: pos_divide_less_eq)
  qed
  have test: "(if 0 \<le> k then d * 10 ^ nat k \<le> n else d \<le> n * 10 ^ nat (- k)) \<longleftrightarrow> 1 \<le> ?v"
  proof (cases "0 \<le> k")
    case True
    have "d * 10 ^ nat k \<le> n \<longleftrightarrow> real_of_int (d * 10 ^ nat k) \<le> real_of_int n" by (simp only: of_int_le_iff)
    also have "\<dots> \<longleftrightarrow> 1 \<le> ?v" unfolding v using pos True by (simp add: pos_le_divide_eq powi_nonneg)
    finally show ?thesis using True by simp
  next
    case False
    have "d \<le> n * 10 ^ nat (- k) \<longleftrightarrow> real_of_int d \<le> real_of_int (n * 10 ^ nat (- k))" by (simp only: of_int_le_iff)
    also have "\<dots> \<longleftrightarrow> 1 \<le> ?v"
      unfolding v using assms False by (simp add: pos_le_divide_eq powi_neg field_simps)
    finally show ?thesis using False by simp
  qed
  have x: "dec_floor_exp n d = (if 1 \<le> ?v then k else k - 1)"
    unfolding test [symmetric] by (simp add: dec_floor_exp_def Let_def k_def a_def b_def)
  have "ratio n d / 10 powi (k - 1) = 10 * ?v" by (simp add: power_int_diff)
  note down = this
  show "1 \<le> ratio n d / 10 powi dec_floor_exp n d" "ratio n d / 10 powi dec_floor_exp n d < 10"
  proof (atomize (full), cases "1 \<le> ?v")
    case True
    then have "dec_floor_exp n d = k" using x by (simp only: if_True)
    then show "1 \<le> ratio n d / 10 powi dec_floor_exp n d \<and> ratio n d / 10 powi dec_floor_exp n d < 10"
      using True hi by (simp only: simp_thms)
  next
    case False
    then have "dec_floor_exp n d = k - 1" using x by (simp only: if_False)
    moreover have "1 \<le> 10 * ?v" "10 * ?v < 10" using lo False by linarith+
    ultimately show "1 \<le> ratio n d / 10 powi dec_floor_exp n d \<and> ratio n d / 10 powi dec_floor_exp n d < 10"
      by (simp only: down simp_thms)
  qed
qed

lemma dec_scale_close:
  assumes "0 < d"
  shows "\<bar>real_of_int (dec_scale n d p) - ratio n d * 10 powi p\<bar> \<le> 1 / 2"
proof (cases "0 \<le> p")
  case True
  then have "ratio (n * 10 ^ nat p) d = ratio n d * 10 powi p" by (simp add: ratio_def powi_nonneg)
  then show ?thesis using div_half_even_close [OF assms, of "n * 10 ^ nat p"] True by (simp add: dec_scale_def)
next
  case False
  then have "ratio n (d * 10 ^ nat (- p)) = ratio n d * 10 powi p" by (simp add: ratio_def powi_neg)
  then show ?thesis using div_half_even_close [of "d * 10 ^ nat (- p)" n] assms False by (simp add: dec_scale_def)
qed

text \<open>\<open>k\<close> significant digits are \<open>k\<close> digits, and half a unit of the last one away at most.\<close>

lemma sig_digits_close:
  assumes "0 < n" "0 < d" "1 \<le> k" and "sig_digits k n d = (m, y)"
  shows "10 ^ (k - 1) \<le> m" "m < 10 ^ k"
    "\<bar>m * 10 powi (y - int k + 1) - ratio n d\<bar> \<le> ratio n d / (2 * 10 ^ (k - 1))"
proof -
  define x where "x = dec_floor_exp n d"
  define m0 where "m0 = dec_scale n d (int k - 1 - x)"
  let ?u = "10 powi (x - int k + 1) :: real"
  obtain j where k: "k = Suc j" using assms(3) by (cases k) auto
  have x: "1 \<le> ratio n d / 10 powi x" "ratio n d / 10 powi x < 10"
    using dec_floor_exp_range [OF assms(1,2)] by (simp_all add: x_def)
  have u: "?u = 10 powi x / 10 ^ j" by (simp add: k power_int_diff)
  have scaled: "ratio n d * 10 powi (int k - 1 - x) = 10 ^ j * (ratio n d / 10 powi x)"
    by (simp add: k power_int_diff)
  have close: "\<bar>real_of_int m0 - 10 ^ j * (ratio n d / 10 powi x)\<bar> \<le> 1 / 2"
    using dec_scale_close [OF assms(2), of n "int k - 1 - x"] unfolding scaled m0_def .
  then have close1: "\<bar>real_of_int m0 - 10 ^ j * (ratio n d / 10 powi x)\<bar> < 1" by linarith
  have "(10 :: real) ^ j * 1 \<le> 10 ^ j * (ratio n d / 10 powi x)" by (rule mult_left_mono [OF x(1)]) simp
  then have lo: "10 ^ j \<le> m0" by (intro near_lower [OF close1]) simp
  have "(10 :: real) ^ j * (ratio n d / 10 powi x) < 10 ^ j * 10" by (rule mult_strict_left_mono [OF x(2)]) simp
  then have hi: "m0 \<le> 10 ^ k" by (intro near_upper [OF close1]) (simp add: k)
  have my: "carry_digit k m0 x = (m, y)"
    using assms(4) by (simp add: sig_digits_def Let_def x_def m0_def)
  have pow: "(10 :: int) ^ j < 10 ^ k" by (simp add: k)
  show "10 ^ (k - 1) \<le> m" "m < 10 ^ k"
    using my lo hi pow by (auto simp: carry_digit_def k split: if_splits)
  have val: "m * 10 powi (y - int k + 1) = m0 * ?u"
    using my by (auto simp: carry_digit_def k power_int_add power_int_diff split: if_splits)
  have "\<bar>m0 * ?u - ratio n d\<bar> = \<bar>m0 - 10 ^ j * (ratio n d / 10 powi x)\<bar> * ?u"
  proof -
    have "m0 * ?u - ratio n d = (m0 - 10 ^ j * (ratio n d / 10 powi x)) * ?u"
      unfolding u by (simp add: field_simps)
    then show ?thesis by (simp add: abs_mult)
  qed
  also have "\<dots> \<le> 1 / 2 * ?u" using close by (intro mult_right_mono) auto
  also have "\<dots> \<le> ratio n d / (2 * 10 ^ j)" using x(1) unfolding u by (simp add: field_simps)
  finally show "\<bar>m * 10 powi (y - int k + 1) - ratio n d\<bar> \<le> ratio n d / (2 * 10 ^ (k - 1))"
    unfolding val by (simp add: k)
qed

text \<open>A decimal as a fraction.\<close>

lemma decimal_double_fraction:
  assumes "0 < ds"
  obtains n d where "decimal_double ds e = round_double n d" "0 < n" "0 < d" "ratio n d = ds * 10 powi e"
proof (cases "0 \<le> e")
  case True
  then show ?thesis using assms that [of "ds * 10 ^ nat e" 1]
    by (simp add: decimal_double_def ratio_def powi_nonneg)
next
  case False
  then show ?thesis using assms that [of ds "10 ^ nat (- e)"]
    by (simp add: decimal_double_def ratio_def powi_neg)
qed

lemma decimal_double_zero [simp]: "decimal_double 0 e = FFin 0 0"
  by (simp add: decimal_double_def)

lemma decimal_double_is_double: "0 \<le> ds \<Longrightarrow> is_double (decimal_double ds e)"
  by (simp add: decimal_double_def round_double_is_double)

text \<open>Digits may be moved between the mantissa and the exponent.\<close>

lemma decimal_double_shift:
  assumes "0 \<le> ds"
  shows "decimal_double (ds * 10 ^ j) e = decimal_double ds (e + int j)"
proof (cases "ds = 0")
  case False
  then have ds: "0 < ds" using assms by simp
  then have ds': "0 < ds * 10 ^ j" by simp
  obtain n d where a: "decimal_double (ds * 10 ^ j) e = round_double n d" "0 < n" "0 < d"
      "ratio n d = of_int (ds * 10 ^ j) * 10 powi e"
    by (rule decimal_double_fraction [OF ds'])
  obtain n' d' where b: "decimal_double ds (e + int j) = round_double n' d'" "0 < n'" "0 < d'"
      "ratio n' d' = ds * 10 powi (e + int j)"
    by (rule decimal_double_fraction [OF ds])
  have "ratio n d = ratio n' d'" unfolding a(4) b(4) by (simp add: power_int_add)
  then show ?thesis unfolding a(1) b(1) by (rule round_double_ratio [OF a(2,3) b(2,3)])
qed simp

lemma fin_frac_ratio:
  assumes "fin_frac (FFin m e) = Some (n, d)"
  shows "0 < d" "ratio n d = m * 2 powi e" "0 < m \<Longrightarrow> 0 < n"
  using assms by (auto simp: ratio_def powi_nonneg powi_neg split: if_splits)

lemma seventeen_digits:
  assumes "is_double (FFin m e)" "0 < m" and "fin_frac (FFin m e) = Some (n, d)" and "sig_digits 17 n d = (ds, y)"
  shows "decimal_double ds (y - 16) = FFin m e"
proof -
  note f = fin_frac_ratio [OF assms(3)]
  note c = sig_digits_close [OF f(3) [OF assms(2)] f(1) _ assms(4), simplified]
  have "0 < ds" using c(1) by linarith
  obtain n' d' where r: "decimal_double ds (y - 16) = round_double n' d'" "0 < n'" "0 < d'"
      "ratio n' d' = ds * 10 powi (y - 16)"
    by (rule decimal_double_fraction [OF \<open>0 < ds\<close>])
  show ?thesis
    unfolding r(1) by (rule round_double_near [OF assms(1,2) r(2,3)]) (use c(3) f(2) r(4) in simp)
qed

lemma if_pair_cases:
  "(if A then (a, b) else if B then p else q) = (x, y) \<Longrightarrow> A \<and> x = a \<and> y = b \<or> B \<and> p = (x, y) \<or> q = (x, y)"
  by (auto split: if_splits)

lemma shortest_digits:
  assumes "is_double (FFin m e)" "0 < m" and "fin_frac (FFin m e) = Some (n, d)"
    and "shortest ks n d (FFin m e) = (ds, y)" and "\<forall>k\<in>set ks. 1 \<le> k"
  shows "\<exists>k\<ge>1. 10 ^ (k - 1) \<le> ds \<and> ds < 10 ^ k \<and> decimal_double ds (y - int k + 1) = FFin m e"
  using assms(4,5)
proof (induction ks)
  case Nil
  then have s: "sig_digits 17 n d = (ds, y)" by simp
  note f = fin_frac_ratio [OF assms(3)]
  have "1 \<le> (17 :: nat)" by simp
  note c = this sig_digits_close(1,2) [OF f(3) [OF assms(2)] f(1) this s]
  have "y - int 17 + 1 = y - 16" by simp
  then have "decimal_double ds (y - int 17 + 1) = FFin m e" using seventeen_digits [OF assms(1-3) s] by (simp only:)
  with c show ?case by blast
next
  case (Cons k ks)
  note f = fin_frac_ratio [OF assms(3)]
  obtain m' y' where s: "sig_digits k n d = (m', y')" by (cases "sig_digits k n d")
  have k: "1 \<le> k" using Cons.prems(2) by simp
  then obtain j where j: "k = Suc j" by (cases k) auto
  note c = sig_digits_close(1,2) [OF f(3) [OF assms(2)] f(1) k s]
  have pos: "(0 :: int) < 10 ^ (k - 1)" by simp
  let ?here = "decimal_double m' (y' - int k + 1) = FFin m e"
  let ?above = "decimal_double (m' + 1) (y' - int k + 1) = FFin m e"
  have "(if ?here then (m', y') else if ?above then carry_digit k (m' + 1) y' else shortest ks n d (FFin m e)) = (ds, y)"
    using Cons.prems(1) by (simp only: shortest.simps s Let_def prod.case)
  from if_pair_cases [OF this]
  consider (here) ?here "ds = m'" "y = y'" | (above) ?above "carry_digit k (m' + 1) y' = (ds, y)"
    | (later) "shortest ks n d (FFin m e) = (ds, y)" by blast
  then show ?case
  proof cases
    case here
    then show ?thesis using c k by (intro exI [of _ k]) simp
  next
    case above
    show ?thesis
    proof (cases "m' + 1 = 10 ^ k")
      case True
      then have "ds = 10 ^ j" "y = y' + 1" using above(2) by (auto simp: carry_digit_def j)
      moreover have "decimal_double (10 ^ j * 10 ^ 1) (y' - int k + 1) = decimal_double (10 ^ j) (y' - int k + 1 + int 1)"
        by (rule decimal_double_shift) simp
      ultimately show ?thesis using above(1) True k
        by (intro exI [of _ k]) (simp add: j mult.commute add.commute)
    next
      case False
      then show ?thesis using above c k by (intro exI [of _ k]) (auto simp: carry_digit_def)
    qed
  next
    case later
    then show ?thesis using Cons by simp
  qed
qed

end
