(* ===== verification/PyJsonNumbers.thy ===== *)
theory PyJsonNumbers
  imports PyJson PyFloatFacts
begin

text \<open>
  \<open>json.loads\<close> reads a number back from the text \<open>json.dumps\<close> writes for it: integers up to
  the limit of digits, and every double with its sign.
\<close>

section \<open>Integers\<close>

definition stops :: "string \<Rightarrow> bool" where
  "stops r \<longleftrightarrow> (case r of [] \<Rightarrow> True | c # _ \<Rightarrow> c = CHR '','' \<or> c = CHR 0x0A)"

lemma stops_not_digit: "stops (c # r) \<Longrightarrow> \<not> is_digit c \<and> c \<noteq> CHR ''.'' \<and> c \<noteq> CHR ''e'' \<and> c \<noteq> CHR ''E''"
  by (auto simp: stops_def is_digit_def)

lemma span_digits_stop: "list_all is_digit ds \<Longrightarrow> stops r \<Longrightarrow> span_digits (ds @ r) = (ds, r)"
  using stops_not_digit by (cases r) (auto simp: span_digits_def list_all_iff takeWhile_append dropWhile_append)

lemma dec_str_head: "0 < n \<Longrightarrow> \<exists>c cs. dec_str n = c # cs \<and> c \<noteq> CHR ''0''"
proof (induction n rule: dec_str.induct)
  case (1 n)
  show ?case
  proof (cases "n < 10")
    case True
    then have "n \<in> set [1..9]" using "1.prems" by simp
    moreover have "list_all (\<lambda>n. digit_char n \<noteq> CHR ''0'') [1..9]" by code_simp
    ultimately show ?thesis using True by (simp add: dec_str.simps [of n] list_all_iff)
  next
    case False
    then have "0 < n div 10" by (simp add: pos_imp_zdiv_pos_iff)
    with 1 False obtain c cs where "dec_str (n div 10) = c # cs" "c \<noteq> CHR ''0''" by auto
    with False show ?thesis by (simp add: dec_str.simps [of n])
  qed
qed

lemma dec_str_0 [simp]: "dec_str 0 = ''0''"
proof -
  have "digit_char 0 = CHR ''0''" by code_simp
  then show ?thesis by (simp add: dec_str.simps [of 0])
qed

text \<open>The number scanner when only an integer part is there.\<close>

lemma scan_number_int:
  assumes "(if c = CHR ''0'' then ([c], cs) else span_digits (c # cs)) = (ip, r)"
    and "ip \<noteq> []" "length ip \<le> 4300" "stops r"
  shows "c \<noteq> CHR ''-'' \<Longrightarrow> scan_number (c # cs) = Inr (PInt (digits_val ip), r)"
    and "scan_number (CHR ''-'' # c # cs) = Inr (PInt (- digits_val ip), r)"
proof -
  have "r = [] \<or> (\<exists>d r'. r = d # r' \<and> d \<noteq> CHR ''.'' \<and> d \<noteq> CHR ''e'' \<and> d \<noteq> CHR ''E'')"
    using assms(4) stops_not_digit by (cases r) auto
  then show "c \<noteq> CHR ''-'' \<Longrightarrow> scan_number (c # cs) = Inr (PInt (digits_val ip), r)"
    and "scan_number (CHR ''-'' # c # cs) = Inr (PInt (- digits_val ip), r)"
    using assms(1-3) by (auto simp: scan_number_def Let_def case_prod_unfold)
qed

lemma scan_number_nat:
  assumes "0 \<le> n" "stops r" "length (dec_str n) \<le> 4300"
  shows "scan_number (dec_str n @ r) = Inr (PInt n, r)"
    and "scan_number (CHR ''-'' # dec_str n @ r) = Inr (PInt (- n), r)"
proof -
  obtain c cs where ds: "dec_str n = c # cs" by (cases "dec_str n") auto
  have digits: "list_all is_digit (c # cs)" using dec_str_digits [OF assms(1)] ds by (simp add: list_all_iff)
  then have c: "c \<noteq> CHR ''-''" by (auto simp: is_digit_def)
  have ip: "(if c = CHR ''0'' then ([c], cs @ r) else span_digits (c # cs @ r)) = (dec_str n, r)"
  proof (cases "n = 0")
    case True
    then show ?thesis using ds by simp
  next
    case False
    then have "c \<noteq> CHR ''0''" using dec_str_head [of n] ds assms(1) by auto
    then show ?thesis using span_digits_stop [OF digits assms(2)] ds by simp
  qed
  note scan_number_int [OF ip dec_str_nonempty assms(3,2)]
  with c assms(1) show "scan_number (dec_str n @ r) = Inr (PInt n, r)"
    "scan_number (CHR ''-'' # dec_str n @ r) = Inr (PInt (- n), r)"
    using digits_val_dec_str [OF assms(1)] by (simp_all add: ds)
qed

lemma no_literal:
  assumes "is_digit c"
  shows "scan_literal literals (c # s) = None" "scan_literal literals (CHR ''-'' # c # s) = None"
proof -
  have "c \<noteq> CHR ''n''" "c \<noteq> CHR ''t''" "c \<noteq> CHR ''f''" "c \<noteq> CHR ''N''" "c \<noteq> CHR ''I''" "c \<noteq> CHR ''-''"
    using assms by (auto simp: is_digit_def)
  then show "scan_literal literals (c # s) = None" "scan_literal literals (CHR ''-'' # c # s) = None"
    by (simp_all add: literals_def startswith_def)
qed

section \<open>Decimal texts\<close>

lemma span_digits_append:
  assumes "list_all is_digit ds" and "s = [] \<or> \<not> is_digit (hd s)"
  shows "span_digits (ds @ s) = (ds, s)"
  using assms by (cases s) (auto simp: span_digits_def list_all_iff takeWhile_append dropWhile_append)

text \<open>The exponent part: absent, or a sign and digits.\<close>

inductive exponent_text :: "string \<Rightarrow> int option \<Rightarrow> bool" where
  none: "exponent_text [] None"
| minus: "ds \<noteq> [] \<Longrightarrow> list_all is_digit ds \<Longrightarrow> exponent_text (CHR ''e'' # CHR ''-'' # ds) (Some (- digits_val ds))"
| plus: "ds \<noteq> [] \<Longrightarrow> list_all is_digit ds \<Longrightarrow> exponent_text (CHR ''e'' # CHR ''+'' # ds) (Some (digits_val ds))"

definition read_fraction :: "string \<Rightarrow> string \<times> string" where
  "read_fraction r =
     (case r of c # cs \<Rightarrow>
        if c = CHR ''.'' \<and> fst (span_digits cs) \<noteq> [] then span_digits cs else ([], r)
      | [] \<Rightarrow> ([], []))"

definition read_exp :: "string \<Rightarrow> int option \<times> string" where
  "read_exp r1 =
     (case r1 of c # cs \<Rightarrow>
        (let (eneg, u) = split_sign cs; (ds, r') = span_digits u
         in if (c = CHR ''e'' \<or> c = CHR ''E'') \<and> ds \<noteq> []
            then (Some (if eneg then - digits_val ds else digits_val ds), r')
            else (None, r1))
      | [] \<Rightarrow> (None, []))"

definition read_whole :: "string \<Rightarrow> string \<times> string" where
  "read_whole t =
     (case t of c # cs \<Rightarrow> if c = CHR ''0'' then ([c], cs) else span_digits t | [] \<Rightarrow> ([], []))"

lemma scan_number_parts:
  assumes "read_whole t = (ip, r)" "read_fraction r = (fp, r1)" "read_exp r1 = (ex, r2)"
    and "ip \<noteq> []" "fp \<noteq> [] \<or> ex \<noteq> None" and "t = [] \<or> hd t \<noteq> CHR ''-''"
  shows "scan_number t = Inr (PFloat (decimal_double (digits_val (ip @ fp))
      ((case ex of None \<Rightarrow> 0 | Some e \<Rightarrow> e) - int (length fp))), r2)"
    and "scan_number (CHR ''-'' # t) = Inr (PFloat (neg_float (decimal_double (digits_val (ip @ fp))
      ((case ex of None \<Rightarrow> 0 | Some e \<Rightarrow> e) - int (length fp)))), r2)"
proof -
  have "scan_number t = Inr (PFloat (decimal_double (digits_val (ip @ fp))
      ((case ex of None \<Rightarrow> 0 | Some e \<Rightarrow> e) - int (length fp))), r2)"
    if "t = c # cs" "c \<noteq> CHR ''-''" for c cs
    using assms that
    unfolding scan_number_def read_whole_def [symmetric] read_fraction_def [symmetric] read_exp_def [symmetric] by simp
  then show "scan_number t = Inr (PFloat (decimal_double (digits_val (ip @ fp))
      ((case ex of None \<Rightarrow> 0 | Some e \<Rightarrow> e) - int (length fp))), r2)"
    using assms(1,4,6) by (cases t) (simp_all add: read_whole_def)
  show "scan_number (CHR ''-'' # t) = Inr (PFloat (neg_float (decimal_double (digits_val (ip @ fp))
      ((case ex of None \<Rightarrow> 0 | Some e \<Rightarrow> e) - int (length fp)))), r2)"
    using assms
    unfolding scan_number_def read_whole_def [symmetric] read_fraction_def [symmetric] read_exp_def [symmetric] by simp
qed

definition fraction_text :: "string \<Rightarrow> string" where
  "fraction_text fp = (if fp = [] then [] else CHR ''.'' # fp)"

lemma scan_decimal:
  assumes ip: "ip \<noteq> []" "list_all is_digit ip" "ip = ''0'' \<or> hd ip \<noteq> CHR ''0''"
    and fp: "list_all is_digit fp" and ex: "exponent_text t ex" and r: "stops r" and float: "fp \<noteq> [] \<or> ex \<noteq> None"
  shows "scan_number (ip @ fraction_text fp @ t @ r) = Inr (PFloat (decimal_double (digits_val (ip @ fp))
      ((case ex of None \<Rightarrow> 0 | Some e \<Rightarrow> e) - int (length fp))), r)"
    and "scan_number (CHR ''-'' # ip @ fraction_text fp @ t @ r) = Inr (PFloat (neg_float
      (decimal_double (digits_val (ip @ fp)) ((case ex of None \<Rightarrow> 0 | Some e \<Rightarrow> e) - int (length fp)))), r)"
proof -
  have dot: "\<not> is_digit (CHR ''.'')" "\<not> is_digit (CHR ''e'')" by (simp_all add: is_digit_def)
  have stop: "r = [] \<or> \<not> is_digit (hd r)" using r stops_not_digit by (cases r) auto
  have tr: "t @ r = [] \<or> \<not> is_digit (hd (t @ r))" using ex stop dot by cases auto
  have dots: "t @ r = [] \<or> hd (t @ r) \<noteq> CHR ''.''" using ex r stops_not_digit by cases (cases r; auto)+
  have f: "fraction_text fp @ t @ r = [] \<or> \<not> is_digit (hd (fraction_text fp @ t @ r))"
    using tr dot by (auto simp: fraction_text_def)
  have whole: "read_whole (ip @ fraction_text fp @ t @ r) = (ip, fraction_text fp @ t @ r)"
    using ip span_digits_append [OF ip(2) f] by (cases ip) (auto simp: read_whole_def)
  have fraction: "read_fraction (fraction_text fp @ t @ r) = (fp, t @ r)"
    using span_digits_append [OF fp tr] dots by (cases "t @ r") (auto simp: read_fraction_def fraction_text_def)
  have exp: "read_exp (t @ r) = (ex, r)"
    using ex
  proof cases
    case none
    then show ?thesis using r stops_not_digit by (cases r) (auto simp: read_exp_def split_sign_def split: prod.splits)
  next
    case (minus ds)
    then show ?thesis using span_digits_append [OF minus(4) stop] by (simp add: read_exp_def split_sign_def)
  next
    case (plus ds)
    then show ?thesis using span_digits_append [OF plus(4) stop] by (simp add: read_exp_def split_sign_def)
  qed
  have head: "ip @ fraction_text fp @ t @ r = [] \<or> hd (ip @ fraction_text fp @ t @ r) \<noteq> CHR ''-''"
    using ip(1,2) by (cases ip) (auto simp: is_digit_def)
  note scan_number_parts [OF whole fraction exp ip(1) float head]
  then show "scan_number (ip @ fraction_text fp @ t @ r) = Inr (PFloat (decimal_double (digits_val (ip @ fp))
      ((case ex of None \<Rightarrow> 0 | Some e \<Rightarrow> e) - int (length fp))), r)"
    and "scan_number (CHR ''-'' # ip @ fraction_text fp @ t @ r) = Inr (PFloat (neg_float
      (decimal_double (digits_val (ip @ fp)) ((case ex of None \<Rightarrow> 0 | Some e \<Rightarrow> e) - int (length fp)))), r)"
    by simp_all
qed

section \<open>Layouts\<close>

lemma digits_val_zeros: "digits_val (s @ replicate j (CHR ''0'')) = digits_val s * 10 ^ j"
proof (induction j)
  case (Suc j)
  have "digit_val (CHR ''0'') = 0" by code_simp
  then show ?case
    using Suc digits_val_snoc [of "s @ replicate j (CHR ''0'')" "CHR ''0''"] by (simp add: replicate_append_same)
qed simp

lemma digits_val_leading: "digits_val (replicate j (CHR ''0'') @ s) = digits_val s"
proof -
  have "digit_val (CHR ''0'') = 0" by code_simp
  then have "foldl (\<lambda>n c. 10 * n + digit_val c) 0 (replicate j (CHR ''0'')) = 0" by (induction j) auto
  then show ?thesis by (simp add: digits_val_def)
qed

lemma drop_trailing_zeros_split:
  "\<exists>j. s = drop_trailing_zeros s @ replicate j (CHR ''0'')"
proof -
  have "takeWhile (\<lambda>c. c = CHR ''0'') (rev s) = replicate (length (takeWhile (\<lambda>c. c = CHR ''0'') (rev s))) (CHR ''0'')"
    by (intro replicate_eqI [symmetric, THEN sym]) (auto dest: set_takeWhileD)
  then have "rev s = replicate (length (takeWhile (\<lambda>c. c = CHR ''0'') (rev s))) (CHR ''0'') @ dropWhile (\<lambda>c. c = CHR ''0'') (rev s)"
    by (metis takeWhile_dropWhile_id)
  then have "s = drop_trailing_zeros s @ replicate (length (takeWhile (\<lambda>c. c = CHR ''0'') (rev s))) (CHR ''0'')"
    unfolding drop_trailing_zeros_def by (metis rev_append rev_replicate rev_rev_ident)
  then show ?thesis by blast
qed

text \<open>The digits of a positive number without the zeros at its end.\<close>

lemma trimmed_digits:
  assumes "0 < m"
  obtains c cs j where "drop_trailing_zeros (dec_str m) = c # cs" "c \<noteq> CHR ''0''" "list_all is_digit (c # cs)"
    "length (dec_str m) = Suc (length cs) + j" "m = digits_val (c # cs) * 10 ^ j"
proof -
  obtain c cs where d: "dec_str m = c # cs" "c \<noteq> CHR ''0''" using dec_str_head [OF assms] by blast
  obtain j where j: "dec_str m = drop_trailing_zeros (dec_str m) @ replicate j (CHR ''0'')"
    using drop_trailing_zeros_split by blast
  have "drop_trailing_zeros (dec_str m) \<noteq> []"
  proof
    assume "drop_trailing_zeros (dec_str m) = []"
    then have "dec_str m = replicate j (CHR ''0'')" using j by simp
    then show False using d by (cases j) auto
  qed
  then obtain cs' where t: "drop_trailing_zeros (dec_str m) = c # cs'" using j d by (cases "drop_trailing_zeros (dec_str m)") auto
  have "list_all is_digit (dec_str m)" using dec_str_digits [of m] assms by (simp add: list_all_iff)
  then have "list_all is_digit (c # cs')" using t list_all_append j by metis
  moreover have "digits_val (dec_str m) = m" using assms by simp
  then have "m = digits_val (c # cs') * 10 ^ j" using j t digits_val_zeros by metis
  moreover have "length (dec_str m) = Suc (length cs') + j" by (subst j) (simp add: t)
  ultimately show ?thesis using that t d(2) by blast
qed

lemma exponent_text_suffix: "exponent_text (exp_suffix x) (Some x)"
proof -
  define ds where "ds = (if length (dec_str \<bar>x\<bar>) < 2 then ''0'' @ dec_str \<bar>x\<bar> else dec_str \<bar>x\<bar>)"
  have "\<forall>c\<in>set (dec_str \<bar>x\<bar>). is_digit c" using dec_str_digits [of "\<bar>x\<bar>"] by simp
  moreover have "is_digit (CHR ''0'')" by (simp add: is_digit_def)
  ultimately have d: "ds \<noteq> []" "list_all is_digit ds" by (auto simp: ds_def list_all_iff)
  have v: "digits_val ds = \<bar>x\<bar>" using digits_val_leading [of 1 "dec_str \<bar>x\<bar>"] by (simp add: ds_def)
  have "exp_suffix x = CHR ''e'' # (if x < 0 then CHR ''-'' else CHR ''+'') # ds"
    by (simp add: exp_suffix_def Let_def ds_def)
  then show ?thesis using exponent_text.minus [OF d] exponent_text.plus [OF d] v by (cases "x < 0") simp_all
qed

text \<open>What a layout says: a decimal text whose value is that of the digits.\<close>

definition decimal_text :: "string \<Rightarrow> pyfloat \<Rightarrow> bool" where
  "decimal_text s x \<longleftrightarrow> (\<exists>ip fp t ex. s = ip @ fraction_text fp @ t \<and> ip \<noteq> [] \<and> list_all is_digit ip
     \<and> (ip = ''0'' \<or> hd ip \<noteq> CHR ''0'') \<and> list_all is_digit fp \<and> exponent_text t ex \<and> (fp \<noteq> [] \<or> ex \<noteq> None)
     \<and> x = decimal_double (digits_val (ip @ fp)) ((case ex of None \<Rightarrow> 0 | Some e \<Rightarrow> e) - int (length fp)))"

lemma decimal_textI:
  assumes "ip \<noteq> []" "list_all is_digit ip" "ip = ''0'' \<or> hd ip \<noteq> CHR ''0''" "list_all is_digit fp" "fp \<noteq> []"
  shows "decimal_text (ip @ ''.'' @ fp) (decimal_double (digits_val (ip @ fp)) (- int (length fp)))"
  unfolding decimal_text_def
  by (rule exI [of _ ip], rule exI [of _ fp], rule exI [of _ "[]"], rule exI [of _ None])
    (use assms exponent_text.none in \<open>simp add: fraction_text_def\<close>)

lemma decimal_text_scanned:
  assumes "decimal_text s x" "stops r"
  shows "scan_number (s @ r) = Inr (PFloat x, r)" "scan_number (CHR ''-'' # s @ r) = Inr (PFloat (neg_float x), r)"
proof -
  obtain ip fp t ex where s: "s = ip @ fraction_text fp @ t"
    and parts: "ip \<noteq> []" "list_all is_digit ip" "ip = ''0'' \<or> hd ip \<noteq> CHR ''0''" "list_all is_digit fp"
      "exponent_text t ex" "fp \<noteq> [] \<or> ex \<noteq> None"
    and x: "x = decimal_double (digits_val (ip @ fp)) ((case ex of None \<Rightarrow> 0 | Some e \<Rightarrow> e) - int (length fp))"
    using assms(1) unfolding decimal_text_def by blast
  note scan_decimal [OF parts(1-5) assms(2) parts(6)]
  then show "scan_number (s @ r) = Inr (PFloat x, r)" "scan_number (CHR ''-'' # s @ r) = Inr (PFloat (neg_float x), r)"
    unfolding s x append_assoc .
qed

lemma decimal_text_head:
  assumes "decimal_text s x"
  shows "\<exists>c cs. s = c # cs \<and> is_digit c"
proof -
  obtain ip u where "s = ip @ u" "ip \<noteq> []" "list_all is_digit ip" using assms unfolding decimal_text_def by blast
  then show ?thesis by (cases ip) auto
qed

lemma repr_layout_text:
  assumes "0 < m"
  shows "decimal_text (repr_layout m x) (decimal_double m (x - int (length (dec_str m)) + 1))"
proof -
  obtain c cs j where d: "drop_trailing_zeros (dec_str m) = c # cs" "c \<noteq> CHR ''0''" "list_all is_digit (c # cs)"
    "length (dec_str m) = Suc (length cs) + j" "m = digits_val (c # cs) * 10 ^ j"
    by (rule trimmed_digits [OF assms])
  define v where "v = digits_val (c # cs)"
  have v: "0 \<le> v" using assms d(5) by (simp add: v_def zero_less_mult_iff)
  have val: "decimal_double m (x - int (length (dec_str m)) + 1) = decimal_double v (x - int (length cs))"
  proof -
    have "decimal_double (v * 10 ^ j) (x - int (length (dec_str m)) + 1)
        = decimal_double v (x - int (length (dec_str m)) + 1 + int j)"
      by (rule decimal_double_shift [OF v])
    moreover have "x - int (length (dec_str m)) + 1 + int j = x - int (length cs)" using d(4) by simp
    ultimately show ?thesis using d(5) by (simp only: v_def)
  qed
  have zero: "is_digit (CHR ''0'')" by (simp add: is_digit_def)
  consider (exp) "x < - 4 \<or> 16 \<le> x" | (small) "- 4 \<le> x" "x < 0" | (pad) "0 \<le> x" "x < 16" "length (c # cs) \<le> Suc (nat x)"
    | (split) "0 \<le> x" "x < 16" "Suc (nat x) < length (c # cs)" by linarith
  then show ?thesis
  proof cases
    case exp
    then have "repr_layout m x = [c] @ fraction_text cs @ exp_suffix x"
      by (auto simp: repr_layout_def d(1) with_fraction_def fraction_text_def)
    moreover have "decimal_double (digits_val ([c] @ cs)) ((case Some x of None \<Rightarrow> 0 | Some e \<Rightarrow> e) - int (length cs))
        = decimal_double m (x - int (length (dec_str m)) + 1)"
      by (simp add: val v_def)
    ultimately show ?thesis
      unfolding decimal_text_def using d(2,3) exponent_text_suffix [of x]
      by (intro exI [of _ "[c]"] exI [of _ cs] exI [of _ "exp_suffix x"] exI [of _ "Some x"]) simp
  next
    case small
    let ?fp = "replicate (nat (- x - 1)) (CHR ''0'') @ c # cs"
    have "repr_layout m x = ''0'' @ ''.'' @ ?fp"
      using small by (simp add: repr_layout_def d(1) fixed_layout_def)
    moreover have "digits_val (''0'' @ ?fp) = v"
      using digits_val_leading [of "Suc (nat (- x - 1))" "c # cs"] by (simp add: v_def)
    moreover have "- int (length ?fp) = x - int (length cs)" using small by simp
    moreover have "list_all is_digit ?fp" using d(3) zero by (auto simp: list_all_iff)
    ultimately show ?thesis using decimal_textI [of "''0''" ?fp] zero by (simp only: val) simp
  next
    case pad
    define k where "k = Suc (nat x) - length (c # cs)"
    let ?ip = "(c # cs) @ replicate k (CHR ''0'')"
    have "repr_layout m x = ?ip @ ''.'' @ ''0''"
      using pad by (simp add: repr_layout_def d(1) fixed_layout_def k_def Let_def)
    moreover have "digits_val (?ip @ ''0'') = v * 10 ^ Suc k"
      using digits_val_zeros [of "c # cs" "Suc k"] by (simp add: v_def replicate_append_same)
    moreover have "decimal_double (v * 10 ^ Suc k) (- int (length ''0'')) = decimal_double v (x - int (length cs))"
    proof -
      have "- int (length ''0'') + int (Suc k) = x - int (length cs)" using pad by (simp add: k_def)
      then show ?thesis using decimal_double_shift [OF v, of "Suc k" "- int (length ''0'')"] by (simp only:)
    qed
    moreover have "list_all is_digit ?ip" using d(3) zero by (auto simp: list_all_iff)
    ultimately show ?thesis using decimal_textI [of ?ip "''0''"] d(2) zero by (simp only: val) simp
  next
    case split
    let ?k = "Suc (nat x)"
    have "repr_layout m x = take ?k (c # cs) @ ''.'' @ drop ?k (c # cs)"
      using split by (simp add: repr_layout_def d(1) fixed_layout_def Let_def)
    moreover have "- int (length (drop ?k (c # cs))) = x - int (length cs)" using split by simp
    moreover have "list_all is_digit (take ?k (c # cs))" "list_all is_digit (drop ?k (c # cs))"
      using d(3) by (auto simp: list_all_iff dest: in_set_takeD in_set_dropD)
    moreover have "digits_val (take ?k (c # cs) @ drop ?k (c # cs)) = v" unfolding append_take_drop_id by (simp add: v_def)
    ultimately show ?thesis
      using decimal_textI [of "take ?k (c # cs)" "drop ?k (c # cs)"] d(2) split by (simp only: val) simp
  qed
qed

section \<open>Doubles\<close>

lemma dec_str_length:
  assumes "10 ^ (k - 1) \<le> n" "n < 10 ^ k" "1 \<le> k"
  shows "length (dec_str n) = k"
proof -
  have pow: "(0 :: int) < 10 ^ (k - 1)" by simp
  then have b: "10 ^ (length (dec_str n) - 1) \<le> n" "n < 10 ^ length (dec_str n)"
    using dec_str_bounds [of n] assms(1) by linarith+
  have "(10 :: int) ^ (k - 1) < 10 ^ length (dec_str n)" "(10 :: int) ^ (length (dec_str n) - 1) < 10 ^ k"
    using assms b by linarith+
  then have "k - 1 < length (dec_str n)" "length (dec_str n) - 1 < k"
    by (simp_all add: power_strict_increasing_iff)
  then show ?thesis using assms(3) by linarith
qed

lemma float_repr_positive:
  assumes "is_double (FFin m e)" "0 < m"
  shows "decimal_text (float_repr (FFin m e)) (FFin m e)"
    and "float_repr (FFin (- m) e) = CHR ''-'' # float_repr (FFin m e)"
proof -
  obtain n d where f: "fin_frac (FFin m e) = Some (n, d)" by (cases "0 \<le> e") auto
  obtain ds y where s: "shortest [1..<18] n d (FFin m e) = (ds, y)" by (cases "shortest [1..<18] n d (FFin m e)")
  have "\<forall>k\<in>set [1..<18]. 1 \<le> k" by simp
  from shortest_digits [OF assms f s this]
  obtain k where k: "1 \<le> k" "10 ^ (k - 1) \<le> ds" "ds < 10 ^ k" "decimal_double ds (y - int k + 1) = FFin m e" by blast
  have "(0 :: int) < 10 ^ (k - 1)" by simp
  then have ds: "0 < ds" using k(2) by linarith
  have repr: "float_repr (FFin m e) = repr_layout ds y" "float_repr (FFin (- m) e) = CHR ''-'' # repr_layout ds y"
    using assms(2) f s by (simp_all add: float_repr_def del: fin_frac.simps shortest.simps)
  have "length (dec_str ds) = k" by (rule dec_str_length [OF k(2,3,1)])
  then show "decimal_text (float_repr (FFin m e)) (FFin m e)"
    using repr_layout_text [OF ds, of y] k(4) by (simp add: repr(1))
  show "float_repr (FFin (- m) e) = CHR ''-'' # float_repr (FFin m e)" by (simp add: repr)
qed

lemma decimal_text_zero: "decimal_text ''0.0'' (FFin 0 0)"
proof -
  have "is_digit (CHR ''0'')" "digits_val ''00'' = 0" by code_simp+
  then show ?thesis using decimal_textI [of "''0''" "''0''"] by simp
qed

text \<open>Every double is a literal, a decimal text or a decimal text with a sign.\<close>

lemma json_float_cases:
  assumes "is_double x"
  obtains "x \<in> {FNan, FInf, FNegInf}"
  | "decimal_text (json_float x) x"
  | y where "json_float x = CHR ''-'' # json_float y" "decimal_text (json_float y) y" "x = neg_float y"
proof (cases x)
  case (FFin m e)
  consider "m = 0" | "0 < m" | "m < 0" by linarith
  then show ?thesis
  proof cases
    case 1
    then have "x = FFin 0 0" using assms FFin by simp
    then show ?thesis using that(2) decimal_text_zero by (simp add: json_float_def float_repr_def)
  next
    case 2
    then show ?thesis using that(2) float_repr_positive(1) assms FFin by (simp add: json_float_def)
  next
    case 3
    have d: "is_double (FFin (- m) e)" using assms FFin by simp
    have x: "x = neg_float (FFin (- m) e)" using 3 FFin by (simp add: neg_float_def)
    have "json_float x = CHR ''-'' # json_float (FFin (- m) e)" "decimal_text (json_float (FFin (- m) e)) (FFin (- m) e)"
      using float_repr_positive [OF d] 3 FFin by (simp_all add: json_float_def)
    then show ?thesis using that(3) x by blast
  qed
next
  case FNegZero
  have "json_float FNegZero = CHR ''-'' # json_float (FFin 0 0)" by (simp add: json_float_def float_repr_def)
  moreover have "decimal_text (json_float (FFin 0 0)) (FFin 0 0)"
    using decimal_text_zero by (simp add: json_float_def float_repr_def)
  ultimately show ?thesis using that(3) FNegZero by (simp add: neg_float_def)
qed (use that(1) in simp_all)

lemma json_float_head:
  assumes "is_double x"
  shows "\<exists>c cs. json_float x = c # cs \<and> (is_digit c \<or> c \<in> {CHR ''-'', CHR ''N'', CHR ''I''})"
  using assms
proof (cases rule: json_float_cases)
  case 1
  then show ?thesis by (auto simp: json_float_def)
next
  case 2
  then show ?thesis using decimal_text_head by blast
qed simp

text \<open>The scanner of values on the text of a double.\<close>

lemma scan_value_number:
  assumes "is_digit c"
  shows "scan_value (Suc n) (c # s) = scan_number (c # s)"
    and "scan_value (Suc n) (CHR ''-'' # c # s) = scan_number (CHR ''-'' # c # s)"
proof -
  have "c \<noteq> CHR 0x22" "c \<noteq> CHR ''{''" "c \<noteq> CHR ''[''" using assms by (auto simp: is_digit_def)
  then show "scan_value (Suc n) (c # s) = scan_number (c # s)"
    "scan_value (Suc n) (CHR ''-'' # c # s) = scan_number (CHR ''-'' # c # s)"
    using no_literal [OF assms, of s] by simp_all
qed

lemma scan_json_float:
  assumes "is_double x" "stops r"
  shows "scan_value (Suc n) (json_float x @ r) = Inr (PFloat x, r)"
  using assms(1)
proof (cases rule: json_float_cases)
  case 1
  then show ?thesis by (auto simp: json_float_def literals_def startswith_def)
next
  case 2
  obtain c cs where c: "json_float x = c # cs" "is_digit c" using decimal_text_head [OF 2] by blast
  show ?thesis
    using decimal_text_scanned(1) [OF 2 assms(2)] scan_value_number(1) [OF c(2), of n "cs @ r"] by (simp add: c(1))
next
  case (3 y)
  obtain c cs where c: "json_float y = c # cs" "is_digit c" using decimal_text_head [OF 3(2)] by blast
  have "json_float x @ r = CHR ''-'' # c # cs @ r" by (simp add: 3(1) c(1))
  then show ?thesis
    using decimal_text_scanned(2) [OF 3(2) assms(2)] scan_value_number(2) [OF c(2), of n "cs @ r"] 3(3) c(1)
    by (simp del: scan_value.simps)
qed

end
