(* ===== verification/PyJsonFacts.thy ===== *)
theory PyJsonFacts
  imports PyJsonNumbers Codec "HOL-Library.Multiset"
begin

text \<open>
  \<open>json.loads\<close> inverts \<open>json.dumps\<close> with \<open>indent=2, sort_keys=True\<close> on every value it writes:
  the result is the value with the keys of each dictionary sorted. UTF-8 decoding inverts UTF-8 encoding.
\<close>

section \<open>Strings\<close>

lemma hex_val_hex_digit: "d < 16 \<Longrightarrow> hex_val (hex_digit d) = d \<and> is_hex (hex_digit d)"
proof -
  assume "d < 16"
  then have "d \<in> set [0..<16]" by simp
  moreover have "list_all (\<lambda>d. hex_val (hex_digit d) = d \<and> is_hex (hex_digit d)) [0..<16]" by code_simp
  ultimately show ?thesis by (simp only: list_all_iff)
qed

lemma char_halves: "char_of (16 * (of_char c div 16) + of_char c mod 16 :: nat) = c"
  by simp

lemma of_char_lt: "(of_char c :: nat) < 256"
  using of_char_mod_256 [of c, where ?'a = nat] by (metis mod_less_divisor zero_less_numeral)

lemma scan_string_char:
  "scan_string (json_char c @ s) = rbind (scan_string s) (\<lambda>(t, r). Inr (c # t, r))"
proof -
  have h: "(of_char c :: nat) div 16 < 16" "(of_char c :: nat) mod 16 < 16"
    using of_char_lt [of c] by (simp_all add: less_mult_imp_div_less)
  have z: "is_hex (CHR ''0'')" "hex_val (CHR ''0'') = 0" by code_simp+
  show ?thesis
    using hex_val_hex_digit [OF h(1)] hex_val_hex_digit [OF h(2)] z char_halves [of c]
    by (simp add: json_char_def simple_escape_def)
qed

lemma scan_string_json: "scan_string (concat (map json_char s) @ CHR 0x22 # r) = Inr (s, r)"
proof (induction s)
  case (Cons c s)
  then show ?case by (simp add: scan_string_char)
qed simp

section \<open>Values\<close>

text \<open>
  The values whose text is read back: no integer beyond the limit of the parser, and what
  every value of Python satisfies: no repeated key, and doubles in their representation.
\<close>

fun json_plain :: "pyval \<Rightarrow> bool" where
  "json_plain (PInt i) \<longleftrightarrow> length (dec_str \<bar>i\<bar>) \<le> 4300"
| "json_plain (PFloat x) \<longleftrightarrow> is_double x"
| "json_plain (PList xs) \<longleftrightarrow> list_all (\<lambda>x. json_plain x) xs"
| "json_plain (PDict d) \<longleftrightarrow> distinct (map fst d) \<and> list_all (\<lambda>kv. json_plain (snd kv)) d"
| "json_plain v \<longleftrightarrow> True"

fun represented :: "pyval \<Rightarrow> bool" where
  "represented (PFloat x) \<longleftrightarrow> is_double x"
| "represented (PList xs) \<longleftrightarrow> list_all (\<lambda>x. represented x) xs"
| "represented (PDict d) \<longleftrightarrow> distinct (map fst d) \<and> list_all (\<lambda>kv. represented (snd kv)) d"
| "represented v \<longleftrightarrow> True"

lemma json_plain_iff: "json_plain v \<longleftrightarrow> represented v \<and> json_printable v"
  by (induction v rule: json_plain.induct) (auto simp: list_all_iff)

text \<open>A value with the keys of every dictionary sorted.\<close>

fun canonical :: "pyval \<Rightarrow> pyval" where
  "canonical (PList xs) = PList (map (\<lambda>x. canonical x) xs)"
| "canonical (PDict d) = PDict (sort_key fst (map (\<lambda>kv. (fst kv, canonical (snd kv))) d))"
| "canonical v = v"

text \<open>A recursion depth that is enough for the scanner, and is at most the length of the text.\<close>

fun depth_need :: "pyval \<Rightarrow> nat" where
  "depth_need (PList xs) = 1 + sum_list (map (\<lambda>x. 1 + depth_need x) xs)"
| "depth_need (PDict d) = 1 + sum_list (map (\<lambda>kv. 1 + depth_need (snd kv)) d)"
| "depth_need v = 1"

lemma sort_key_map_fst:
  "sort_key fst (map (\<lambda>kv. (fst kv, g kv)) d) = map (\<lambda>kv. (fst kv, g kv)) (sort_key fst d)"
proof -
  have "insort_key fst (fst kv, g kv) (map (\<lambda>kv. (fst kv, g kv)) d)
      = map (\<lambda>kv. (fst kv, g kv)) (insort_key fst kv d)" for kv d
    by (induction d) auto
  then show ?thesis by (induction d) (auto simp: sort_key_def)
qed

lemma json_text_head: "\<exists>c cs. json_text n v = c # cs \<and> \<not> is_json_ws c \<and> c \<noteq> CHR '']'' \<and> c \<noteq> CHR ''}''"
  if "json_plain v"
proof -
  have digit: "is_digit c \<Longrightarrow> \<not> is_json_ws c \<and> c \<noteq> CHR '']'' \<and> c \<noteq> CHR ''}''" for c
    by (auto simp: is_digit_def is_json_ws_def)
  have "\<exists>c cs. dec_str i = c # cs \<and> is_digit c" if "0 \<le> i" for i
    using dec_str_digits [OF that] dec_str_nonempty [of i] by (cases "dec_str i") auto
  then have nat_head: "0 \<le> i \<Longrightarrow> \<exists>c cs. dec_str i = c # cs \<and> \<not> is_json_ws c \<and> c \<noteq> CHR '']'' \<and> c \<noteq> CHR ''}''" for i
    using digit by blast
  show ?thesis
  proof (cases v)
    case (PInt i)
    then show ?thesis using nat_head [of i] by (cases "i < 0") (auto simp: int_str_def is_json_ws_def)
  next
    case (PFloat x)
    then have "is_double x" using that by simp
    then obtain c cs where "json_float x = c # cs" "is_digit c \<or> c \<in> {CHR ''-'', CHR ''N'', CHR ''I''}"
      using json_float_head by blast
    then show ?thesis using PFloat digit [of c] by (auto simp: is_json_ws_def)
  qed (use that in \<open>auto simp: json_string_def is_json_ws_def\<close>)
qed

lemma skip_ws_indent: "\<not> is_json_ws c \<Longrightarrow> skip_ws (indent_line n @ c # s) = c # s"
proof -
  assume "\<not> is_json_ws c"
  moreover have "dropWhile is_json_ws (replicate k (CHR '' '') @ s) = dropWhile is_json_ws s" for k s
    by (induction k) (auto simp: is_json_ws_def)
  ultimately show ?thesis by (simp add: skip_ws_def indent_line_def NL_def is_json_ws_def)
qed

lemma skip_ws_text: "json_plain v \<Longrightarrow> skip_ws (json_text n v @ s) = json_text n v @ s"
  using json_text_head [of v n] by (auto simp: skip_ws_def)

lemma skip_indent_text: "json_plain v \<Longrightarrow> skip_ws (indent_line k @ json_text n v @ s) = json_text n v @ s"
  using json_text_head [of v n] skip_ws_indent by fastforce

definition scans :: "pyval \<Rightarrow> bool" where
  "scans v \<longleftrightarrow> (\<forall>n m r. depth_need v \<le> m \<longrightarrow> stops r \<longrightarrow>
     scan_value m (json_text n v @ r) = Inr (canonical v, r))"

lemma stops_simps [simp]: "stops (indent_line n @ r)" "stops (CHR '','' # r)"
  by (simp_all add: stops_def indent_line_def NL_def)

lemma scan_elements_join:
  assumes "xs \<noteq> []" and "\<forall>x\<in>set xs. json_plain x \<and> scans x"
    and "sum_list (map (\<lambda>x. 1 + depth_need x) xs) \<le> m"
  shows "scan_elements m (join_with ('','' @ indent_line k) (map (json_text k) xs) @ indent_line j @ '']'' @ r)
    = Inr (map canonical xs, r)"
  using assms
proof (induction xs arbitrary: m rule: list_nonempty_induct)
  case (single x)
  then obtain m' where "m = Suc m'" "depth_need x \<le> m'" by (cases m) auto
  moreover have "skip_ws (indent_line j @ CHR '']'' # r) = CHR '']'' # r"
    by (rule skip_ws_indent) (simp add: is_json_ws_def)
  ultimately show ?case using single by (simp add: scans_def)
next
  case (cons x xs)
  obtain m' where m: "m = Suc m'" "depth_need x \<le> m'" "sum_list (map (\<lambda>x. 1 + depth_need x) xs) \<le> m'"
    using cons.prems(2) by (cases m) auto
  define rest where "rest = join_with ('','' @ indent_line k) (map (json_text k) xs) @ indent_line j @ '']'' @ r"
  obtain y ys where xs: "xs = y # ys" using cons.hyps by (cases xs) auto
  have "\<exists>s. rest = json_text k y @ s" unfolding rest_def xs by (cases ys) auto
  then have skip: "skip_ws (indent_line k @ rest) = rest"
    using cons.prems(1) xs skip_indent_text by fastforce
  have text_eq: "join_with ('','' @ indent_line k) (map (json_text k) (x # xs)) @ indent_line j @ '']'' @ r
      = json_text k x @ CHR '','' # indent_line k @ rest"
    unfolding rest_def xs by simp
  have "scan_value m' (json_text k x @ CHR '','' # indent_line k @ rest)
      = Inr (canonical x, CHR '','' # indent_line k @ rest)"
    using cons.prems(1) m(2) by (simp add: scans_def)
  moreover have "scan_elements m' rest = Inr (map canonical xs, r)"
    unfolding rest_def using cons.prems(1) m(3) by (intro cons.IH) auto
  moreover have "skip_ws (CHR '','' # s) = CHR '','' # s" for s by (simp add: skip_ws_def is_json_ws_def)
  ultimately show ?case unfolding text_eq m(1) using skip by simp
qed

definition member_text :: "nat \<Rightarrow> string \<times> pyval \<Rightarrow> string" where
  "member_text k kv = json_string (fst kv) @ '': '' @ json_text k (snd kv)"

lemma dict_set_new: "k \<notin> set (map fst d) \<Longrightarrow> dict_set d k v = d @ [(k, v)]"
  by (induction d) auto

lemma scan_members_join:
  assumes "d \<noteq> []" and "\<forall>kv\<in>set d. json_plain (snd kv) \<and> scans (snd kv)"
    and "distinct (map fst (acc @ d))"
    and "sum_list (map (\<lambda>kv. 1 + depth_need (snd kv)) d) \<le> m"
  shows "scan_members m acc (join_with ('','' @ indent_line k) (map (member_text k) d) @ indent_line j @ ''}'' @ r)
    = Inr (acc @ map (\<lambda>kv. (fst kv, canonical (snd kv))) d, r)"
  using assms
proof (induction d arbitrary: m acc rule: list_nonempty_induct)
  case (single kv)
  obtain key v where kv: "kv = (key, v)" by (cases kv)
  obtain m' where m: "m = Suc m'" "depth_need v \<le> m'" using single.prems(3) kv by (cases m) auto
  have s: "scan_value m' (json_text k v @ indent_line j @ ''}'' @ r) = Inr (canonical v, indent_line j @ ''}'' @ r)"
    using single.prems(1) m(2) kv by (simp add: scans_def)
  have w: "skip_ws (CHR '':'' # t) = CHR '':'' # t" "skip_ws (CHR '' '' # t) = skip_ws t" for t
    by (simp_all add: skip_ws_def is_json_ws_def)
  have e: "skip_ws (indent_line j @ CHR ''}'' # r) = CHR ''}'' # r"
    by (rule skip_ws_indent) (simp add: is_json_ws_def)
  have "skip_ws (json_text k v @ indent_line j @ ''}'' @ r) = json_text k v @ indent_line j @ ''}'' @ r"
    using single.prems(1) kv by (intro skip_ws_text) simp
  with s e w show ?case
    using single.prems(2) kv m(1)
    by (simp add: member_text_def json_string_def scan_string_json dict_set_new)
next
  case (cons kv d)
  obtain key v where kv: "kv = (key, v)" by (cases kv)
  obtain m' where m: "m = Suc m'" "depth_need v \<le> m'" "sum_list (map (\<lambda>kv. 1 + depth_need (snd kv)) d) \<le> m'"
    using cons.prems(3) kv by (cases m) auto
  define rest where "rest = join_with ('','' @ indent_line k) (map (member_text k) d) @ indent_line j @ ''}'' @ r"
  obtain y ys where d: "d = y # ys" using cons.hyps by (cases d) auto
  have "\<exists>t. rest = CHR 0x22 # t" unfolding rest_def d by (cases ys) (auto simp: member_text_def json_string_def)
  then have skip: "skip_ws (indent_line k @ rest) = rest"
    by (auto simp: skip_ws_indent is_json_ws_def)
  have text_eq: "join_with ('','' @ indent_line k) (map (member_text k) (kv # d)) @ indent_line j @ ''}'' @ r
      = CHR 0x22 # concat (map json_char key) @ CHR 0x22 # CHR '':'' # CHR '' '' # json_text k v @ CHR '','' # indent_line k @ rest"
    unfolding rest_def d kv by (simp add: member_text_def json_string_def)
  have s: "scan_value m' (json_text k v @ CHR '','' # indent_line k @ rest)
      = Inr (canonical v, CHR '','' # indent_line k @ rest)"
    using cons.prems(1) m(2) kv by (simp add: scans_def)
  have IH: "scan_members m' (acc @ [(key, canonical v)]) rest
      = Inr ((acc @ [(key, canonical v)]) @ map (\<lambda>kv. (fst kv, canonical (snd kv))) d, r)"
    unfolding rest_def using cons.prems m(3) kv by (intro cons.IH) auto
  have w: "skip_ws (CHR '':'' # t) = CHR '':'' # t" "skip_ws (CHR '','' # t) = CHR '','' # t"
    "skip_ws (CHR '' '' # t) = skip_ws t" for t
    by (simp_all add: skip_ws_def is_json_ws_def)
  have "skip_ws (json_text k v @ CHR '','' # indent_line k @ rest) = json_text k v @ CHR '','' # indent_line k @ rest"
    using cons.prems(1) kv by (intro skip_ws_text) simp
  with s w IH skip show ?case
    unfolding text_eq m(1) using cons.prems(2) kv
    by (simp add: scan_string_json dict_set_new)
qed

lemma depth_need_pos: "0 < depth_need v"
  by (cases v) auto

lemma scansI:
  assumes "\<And>n m r. stops r \<Longrightarrow> depth_need v \<le> Suc m \<Longrightarrow>
     scan_value (Suc m) (json_text n v @ r) = Inr (canonical v, r)"
  shows "scans v"
  unfolding scans_def
proof (intro allI impI)
  fix n m :: nat and r
  assume "depth_need v \<le> m" "stops r"
  with assms depth_need_pos [of v] show "scan_value m (json_text n v @ r) = Inr (canonical v, r)"
    by (cases m) auto
qed

lemma scans_list:
  assumes "\<forall>x\<in>set xs. json_plain x \<and> scans x"
  shows "scans (PList xs)"
proof (cases "xs = []")
  case False
  show ?thesis
  proof (rule scansI)
    fix n m :: nat and r
    assume r: "stops r" and "depth_need (PList xs) \<le> Suc m"
    then have m: "sum_list (map (\<lambda>x. 1 + depth_need x) xs) \<le> m" by simp
    define body where "body = join_with ('','' @ indent_line (Suc n)) (map (json_text (Suc n)) xs)
        @ indent_line n @ '']'' @ r"
    obtain x ys where xs: "xs = x # ys" using False by (cases xs) auto
    have "\<exists>s. body = json_text (Suc n) x @ s" unfolding body_def xs by (cases ys) auto
    then obtain c cs where body: "body = c # cs" "\<not> is_json_ws c" "c \<noteq> CHR '']''"
      using json_text_head [of x "Suc n"] assms xs by auto
    have "scan_elements m body = Inr (map canonical xs, r)"
      unfolding body_def using False assms m by (intro scan_elements_join) auto
    moreover have "skip_ws (indent_line (Suc n) @ body) = c # cs"
      using skip_ws_indent body by simp
    moreover have "json_text n (PList xs) @ r = CHR ''['' # indent_line (Suc n) @ body"
      using False by (simp add: body_def)
    ultimately show "scan_value (Suc m) (json_text n (PList xs) @ r) = Inr (canonical (PList xs), r)"
      using body by simp
  qed
qed (auto intro!: scansI simp: skip_ws_def is_json_ws_def)

lemma scans_dict:
  assumes "\<forall>kv\<in>set d. json_plain (snd kv) \<and> scans (snd kv)" and "distinct (map fst d)"
  shows "scans (PDict d)"
proof (cases "d = []")
  case False
  define e where "e = sort_key fst d"
  have e: "set e = set d" "mset e = mset d" by (simp_all add: e_def)
  then have "e \<noteq> []" using False by force
  have "mset (map fst e) = mset (map fst d)" using e(2) by simp
  then have "distinct (map fst e)" using assms(2) mset_eq_imp_distinct_iff by blast
  have sum: "sum_list (map f e) = sum_list (map f d)" for f :: "string \<times> pyval \<Rightarrow> nat"
    using e(2) by (metis mset_map sum_mset_sum_list)
  show ?thesis
  proof (rule scansI)
    fix n m :: nat and r
    assume r: "stops r" and "depth_need (PDict d) \<le> Suc m"
    then have m: "sum_list (map (\<lambda>kv. 1 + depth_need (snd kv)) e) \<le> m"
      unfolding sum by simp
    define body where "body = join_with ('','' @ indent_line (Suc n)) (map (member_text (Suc n)) e)
        @ indent_line n @ ''}'' @ r"
    obtain kv ys where kv: "e = kv # ys" using \<open>e \<noteq> []\<close> by (cases e) auto
    obtain cs where body: "body = CHR 0x22 # cs"
      unfolding body_def kv by (cases ys) (auto simp: member_text_def json_string_def)
    have "scan_members m [] body = Inr ([] @ map (\<lambda>kv. (fst kv, canonical (snd kv))) e, r)"
      unfolding body_def using e \<open>e \<noteq> []\<close> \<open>distinct (map fst e)\<close> assms m
      by (intro scan_members_join) auto
    moreover have "skip_ws (indent_line (Suc n) @ body) = body"
      unfolding body by (intro skip_ws_indent) (simp add: is_json_ws_def)
    moreover have "json_text n (PDict d) @ r = CHR ''{'' # indent_line (Suc n) @ body"
      using False by (simp add: body_def sort_key_map_fst e_def member_text_def [abs_def] comp_def)
    moreover have "canonical (PDict d) = PDict (map (\<lambda>kv. (fst kv, canonical (snd kv))) e)"
      by (simp add: sort_key_map_fst e_def)
    ultimately show "scan_value (Suc m) (json_text n (PDict d) @ r) = Inr (canonical (PDict d), r)"
      using body by simp
  qed
qed (auto intro!: scansI simp: skip_ws_def is_json_ws_def)

lemma scans_int: "length (dec_str \<bar>i\<bar>) \<le> 4300 \<Longrightarrow> scans (PInt i)"
proof -
  assume len: "length (dec_str \<bar>i\<bar>) \<le> 4300"
  obtain c cs where c: "dec_str \<bar>i\<bar> = c # cs" by (cases "dec_str \<bar>i\<bar>") auto
  have d: "is_digit c" using dec_str_digits [of "\<bar>i\<bar>"] c by simp
  then have ne: "c \<noteq> CHR 0x22" "c \<noteq> CHR ''{''" "c \<noteq> CHR ''[''" by (auto simp: is_digit_def)
  show "scans (PInt i)"
    using no_literal [OF d] ne c len scan_number_nat [of "\<bar>i\<bar>"]
    by (intro scansI; cases "i < 0") (simp_all add: int_str_def)
qed

lemma scans_plain: "json_plain v \<Longrightarrow> scans v"
proof (induction v rule: json_plain.induct)
  case (1 i)
  then show ?case by (simp add: scans_int)
next
  case (2 x)
  then show ?case by (intro scansI) (simp add: scan_json_float del: scan_value.simps)
next
  case (3 xs)
  then show ?case by (intro scans_list) (auto simp: list_all_iff)
next
  case (4 d)
  then show ?case by (intro scans_dict) (auto simp: list_all_iff)
qed (intro scansI, simp add: literals_def startswith_def json_string_def scan_string_json)+

section \<open>The round trip\<close>

lemma join_length: "length (join_with sep xs) = sum_list (map length xs) + (length xs - 1) * length sep"
  by (induction sep xs rule: join_with.induct) auto

lemma sum_need_le:
  assumes "\<And>x. x \<in> set xs \<Longrightarrow> f x \<le> length (g x)" and "xs \<noteq> []"
  shows "1 + sum_list (map (\<lambda>x. 1 + f x) xs)
    \<le> length (join_with ('','' @ indent_line k) (map g xs)) + length (indent_line j) + 1"
proof -
  have "sum_list (map f xs) \<le> sum_list (map (\<lambda>x. length (g x)) xs)"
    using assms(1) by (induction xs) (auto simp: add_mono)
  moreover have "sum_list (map (\<lambda>x. 1 + f x) xs) = length xs + sum_list (map f xs)"
    by (induction xs) auto
  moreover have "length xs \<le> (length xs - 1) * length ('','' @ indent_line k) + 1"
    using assms(2) by (cases xs) (auto simp: indent_line_def NL_def)
  moreover have "1 \<le> length (indent_line j)" by (simp add: indent_line_def NL_def)
  ultimately show ?thesis by (simp add: join_length comp_def)
qed

lemma depth_need_le: "json_plain v \<Longrightarrow> depth_need v \<le> length (json_text n v)"
proof (induction v arbitrary: n rule: depth_need.induct)
  case (1 xs)
  show ?case
  proof (cases "xs = []")
    case False
    have "1 + sum_list (map (\<lambda>x. 1 + depth_need x) xs)
      \<le> length (join_with ('','' @ indent_line (Suc n)) (map (json_text (Suc n)) xs)) + length (indent_line n) + 1"
      using 1 False by (intro sum_need_le) (auto simp: list_all_iff)
    with False show ?thesis by simp
  qed simp
next
  case (2 d)
  show ?case
  proof (cases "d = []")
    case False
    define e where "e = sort_key fst d"
    have e: "set e = set d" "mset e = mset d" by (simp_all add: e_def)
    then have ne: "e \<noteq> []" using False by force
    have sum: "sum_list (map f e) = sum_list (map f d)" for f :: "string \<times> pyval \<Rightarrow> nat"
      using e(2) by (metis mset_map sum_mset_sum_list)
    have "1 + sum_list (map (\<lambda>kv. 1 + depth_need (snd kv)) e)
      \<le> length (join_with ('','' @ indent_line (Suc n)) (map (member_text (Suc n)) e)) + length (indent_line n) + 1"
    proof (rule sum_need_le)
      fix kv assume "kv \<in> set e"
      then have "depth_need (snd kv) \<le> length (json_text (Suc n) (snd kv))" using 2 e(1) by (auto simp: list_all_iff)
      then show "depth_need (snd kv) \<le> length (member_text (Suc n) kv)" by (simp add: member_text_def)
    qed (rule ne)
    moreover have "length (json_text n (PDict d)) = 2 + length (indent_line (Suc n)) + length (indent_line n)
        + length (join_with ('','' @ indent_line (Suc n)) (map (member_text (Suc n)) e))"
      using False by (simp add: sort_key_map_fst e_def member_text_def [abs_def] comp_def)
    ultimately show ?thesis unfolding depth_need.simps sum by simp
  qed simp
qed (auto simp: int_str_def json_string_def Suc_le_eq dest: json_float_head)

lemma json_loads_text:
  assumes "json_plain v"
  shows "json_loads (json_text n v) = Inr (canonical v)" and "json_loads (json_text n v @ NL) = Inr (canonical v)"
proof -
  have "scan_value m (json_text n v @ r) = Inr (canonical v, r)"
    if "length (json_text n v) \<le> m" "stops r" for m r
    using scans_plain [OF assms] depth_need_le [OF assms, of n] that by (simp add: scans_def)
  note scan = this
  have ws: "skip_ws (json_text n v) = json_text n v" "skip_ws (json_text n v @ NL) = json_text n v @ NL"
    using skip_ws_text [OF assms, of n "[]"] skip_ws_text [OF assms, of n NL] by simp_all
  have nl: "skip_ws [] = []" "skip_ws NL = []" by (simp_all add: skip_ws_def NL_def is_json_ws_def)
  show "json_loads (json_text n v) = Inr (canonical v)"
    unfolding json_loads_def ws
    using scan [of "2 * length (json_text n v) + 2" "[]"] nl by (simp add: stops_def del: scan_value.simps)
  show "json_loads (json_text n v @ NL) = Inr (canonical v)"
    unfolding json_loads_def ws
    using scan [of "2 * length (json_text n v @ NL) + 2" NL] nl
    by (simp add: stops_def NL_def del: scan_value.simps)
qed

text \<open>A lookup does not see the order of the keys.\<close>

lemma map_of_sort_key: "distinct (map fst d) \<Longrightarrow> map_of (sort_key fst d) = map_of d"
proof -
  assume d: "distinct (map fst d)"
  have "mset (map fst (sort_key fst d)) = mset (map fst d)" by simp
  then have "distinct (map fst (sort_key fst d))" using d mset_eq_imp_distinct_iff by blast
  with d show ?thesis using map_of_inject_set [of "sort_key fst d" d] by simp
qed

lemma canonical_lookup:
  assumes "distinct (map fst d)"
  shows "dget (dict_val (canonical (PDict d))) k = canonical (dget d k)"
    and "has_key (dict_val (canonical (PDict d))) k \<longleftrightarrow> has_key d k"
proof -
  let ?c = "map (\<lambda>kv. (fst kv, canonical (snd kv))) d"
  have "map_of (sort_key fst ?c) = map_of ?c" using assms by (intro map_of_sort_key) (simp add: o_def)
  moreover have "map_of ?c k = map_option canonical (map_of d k)" by (induction d) auto
  ultimately have m: "map_of (dict_val (canonical (PDict d))) k = map_option canonical (map_of d k)" by simp
  then show "dget (dict_val (canonical (PDict d))) k = canonical (dget d k)"
    by (simp add: dget_def split: option.splits)
  show "has_key (dict_val (canonical (PDict d))) k \<longleftrightarrow> has_key d k"
    using m by (simp add: has_key_map_of)
qed

section \<open>UTF-8\<close>

lemma utf8_decode_encode: "utf8_decode (utf8_encode s) = Inr s"
proof (induction s)
  case (Cons c s)
  show ?case
  proof (cases "c < CHR 0x80")
    case True
    then show ?thesis using Cons by (simp add: utf8_encode_def utf8_encode_char_def)
  next
    case False
    define k :: nat where "k = of_char c"
    have k: "128 \<le> k" "k < 256" using False of_char_lt [of c] by (simp_all add: k_def less_char_def)
    define a b where "a = (char_of (192 + k div 64) :: char)" and "b = (char_of (128 + k mod 64) :: char)"
    have ab: "of_char a = 192 + k div 64" "of_char b = 128 + k mod 64"
      using k by (simp_all add: a_def b_def less_mult_imp_div_less)
    have "k div 64 = 2 \<or> k div 64 = 3" using k by auto
    moreover have "char_of (194 :: nat) = CHR 0xC2" "char_of (195 :: nat) = CHR 0xC3" by code_simp+
    ultimately have a: "\<not> a < CHR 0x80" "a = CHR 0xC2 \<or> a = CHR 0xC3"
      using ab by (auto simp: less_char_def a_def)
    have "k mod 64 < 64" by simp
    then have b: "is_cont b" unfolding is_cont_def less_eq_char_def ab by simp
    have "char_of ((of_char a - 192) * 64 + (of_char b - 128 :: nat)) = c"
      unfolding ab by (simp add: k_def)
    moreover have "utf8_encode (c # s) = a # b # utf8_encode s"
      using False by (simp add: utf8_encode_def utf8_encode_char_def a_def b_def k_def)
    ultimately show ?thesis using a b Cons by auto
  qed
qed (simp add: utf8_encode_def)

section \<open>Oversized integers\<close>

text \<open>A decimal integer above the conversion limit is not a syntax error but a \<open>ValueError\<close>.\<close>

lemma json_loads_huge:
  assumes "list_all is_digit (c # cs)" "c \<noteq> CHR ''0''" "4300 < length (c # cs)"
  shows "json_loads (c # cs) = Inl ValueError"
proof -
  have d: "is_digit c" using assms(1) by simp
  then have c: "c \<noteq> CHR 0x22" "c \<noteq> CHR ''{''" "c \<noteq> CHR ''[''" "c \<noteq> CHR ''-''" "\<not> is_json_ws c"
    by (auto simp: is_digit_def is_json_ws_def)
  have "span_digits (c # cs) = (c # cs, [])"
    using span_digits_stop [OF assms(1), of "[]"] by (simp add: stops_def)
  then have "scan_number (c # cs) = Inl ValueError"
    using assms(2,3) c by (simp add: scan_number_def)
  then have "scan_value (Suc n) (c # cs) = Inl ValueError" for n
    using c no_literal(1) [OF d] by simp
  then show ?thesis
    using c by (simp add: json_loads_def skip_ws_def del: scan_value.simps)
qed

section \<open>Sizes\<close>

lemma length_utf8_encode: "length (utf8_encode s) \<le> 2 * length s"
  by (induction s) (auto simp: utf8_encode_def utf8_encode_char_def)

lemma length_json_string: "length (json_string s) \<le> 6 * length s + 2"
proof -
  have "length (json_char c) \<le> 6" for c by (simp add: json_char_def)
  then have "length (concat (map json_char s)) \<le> 6 * length s"
    by (induction s) (auto intro: order_trans [OF add_mono])
  then show ?thesis by (simp add: json_string_def)
qed

text \<open>A bound on the text of a value without items or members.\<close>

fun atom_size :: "pyval \<Rightarrow> nat" where
  "atom_size (PInt i) = length (int_str i)"
| "atom_size (PStr s) = 6 * length s + 2"
| "atom_size v = 5"

fun atom :: "pyval \<Rightarrow> bool" where
  "atom (PFloat x) \<longleftrightarrow> False"
| "atom (PList xs) \<longleftrightarrow> False"
| "atom (PDict d) \<longleftrightarrow> False"
| "atom v \<longleftrightarrow> True"

lemma length_json_atom: "atom v \<Longrightarrow> length (json_text n v) \<le> atom_size v"
  using length_json_string by (cases v) auto

lemma length_join_with: "length (join_with sep xs) \<le> sum_list (map (\<lambda>x. length x + length sep) xs)"
  by (induction sep xs rule: join_with.induct) auto

lemma length_json_flat:
  assumes "list_all (\<lambda>kv. atom (snd kv)) d"
  shows "length (utf8_encode (json_document d @ NL)) \<le>
    2 * (8 + sum_list (map (\<lambda>kv. 6 * length (fst kv) + atom_size (snd kv) + 8) d))"
proof -
  let ?f = "\<lambda>kv. json_string (fst kv) @ '': '' @ json_text 1 (snd kv)"
  let ?b = "sum_list (map (\<lambda>kv. 6 * length (fst kv) + atom_size (snd kv) + 8) d)"
  have "length (join_with ('','' @ indent_line 1) (map snd (sort_key fst (map (\<lambda>kv. (fst kv, ?f kv)) d))))
      \<le> sum_list (map (\<lambda>x. length x + 4) (map snd (sort_key fst (map (\<lambda>kv. (fst kv, ?f kv)) d))))"
    by (rule order_trans [OF length_join_with]) (simp add: indent_line_def NL_def)
  also have "\<dots> = sum_list (map (\<lambda>kv. length (?f kv) + 4) d)"
    by (simp add: sort_key_map_fst o_def flip: sum_mset_sum_list)
  also have "\<dots> \<le> ?b"
  proof (rule sum_list_mono)
    fix kv assume "kv \<in> set d"
    then have "length (json_text 1 (snd kv)) \<le> atom_size (snd kv)"
      using assms length_json_atom by (auto simp: list_all_iff)
    then show "length (?f kv) + 4 \<le> 6 * length (fst kv) + atom_size (snd kv) + 8"
      using length_json_string [of "fst kv"] by simp
  qed
  finally have "length (json_document d @ NL) \<le> 8 + ?b"
    by (simp add: json_document_def indent_line_def NL_def)
  then show ?thesis by (intro order_trans [OF length_utf8_encode mult_le_mono2])
qed

section \<open>Artifacts\<close>

text \<open>A JSON artifact is JSON text with a final line break, in UTF-8.\<close>

interpretation utf8: codec utf8_encode utf8_decode "\<lambda>_. True" "\<lambda>s. s"
  by unfold_locales (rule utf8_decode_encode)

interpretation json_line: codec "\<lambda>v. json_text 0 v @ NL" json_loads json_plain canonical
  by unfold_locales (rule json_loads_text)

interpretation json_artifact: stacked_codec "\<lambda>v. json_text 0 v @ NL" json_loads json_plain canonical
    utf8_encode utf8_decode ..

end
