(* ===== verification/CheckerFacts.thy ===== *)
theory CheckerFacts
  imports CheckerEvidence ObservationFacts PyJsonFacts
begin

text \<open>
  What an accepted artifact satisfies: every group of checks of the evidence checker
  returns no message exactly when a condition written without the checker's code holds.
\<close>

section \<open>Searching\<close>

definition last_char :: "char option \<Rightarrow> string \<Rightarrow> char option" where
  "last_char prev s = (if s = [] then prev else Some (last s))"

lemma search_from_lang:
  "search_from b k r prev s \<longleftrightarrow>
     (\<exists>pre u post. s = pre @ u @ post \<and> b (last_char prev pre) \<and> u \<in> lang r \<and> k post)"
proof (induction s arbitrary: prev)
  case Nil
  then show ?case by (auto simp: match_then_lang last_char_def)
next
  case (Cons c s)
  have "(\<exists>pre u post. c # s = pre @ u @ post \<and> b (last_char prev pre) \<and> u \<in> lang r \<and> k post) \<longleftrightarrow>
      (\<exists>u post. c # s = u @ post \<and> b prev \<and> u \<in> lang r \<and> k post)
      \<or> (\<exists>pre u post. s = pre @ u @ post \<and> b (last_char (Some c) pre) \<and> u \<in> lang r \<and> k post)"
    (is "?L \<longleftrightarrow> ?A \<or> ?B")
  proof
    assume ?L
    then obtain pre u post where "c # s = pre @ u @ post" "b (last_char prev pre)" "u \<in> lang r" "k post"
      by blast
    then show "?A \<or> ?B"
    proof (cases pre)
      case (Cons d ds)
      with \<open>c # s = _\<close> \<open>b _\<close> have "s = ds @ u @ post" "b (last_char (Some c) ds)"
        by (auto simp: last_char_def split: if_splits)
      with \<open>u \<in> lang r\<close> \<open>k post\<close> show ?thesis by blast
    qed (auto simp: last_char_def)
  next
    assume "?A \<or> ?B"
    then show ?L
    proof
      assume ?A
      then obtain u post where "c # s = [] @ u @ post" "b (last_char prev [])" "u \<in> lang r" "k post"
        by (auto simp: last_char_def)
      then show ?L by blast
    next
      assume ?B
      then obtain pre u post where "s = pre @ u @ post" "b (last_char (Some c) pre)" "u \<in> lang r" "k post"
        by blast
      then have "c # s = (c # pre) @ u @ post" "b (last_char prev (c # pre))"
        by (simp_all add: last_char_def split: if_splits)
      with \<open>u \<in> lang r\<close> \<open>k post\<close> show ?L by blast
    qed
  qed
  then show ?case by (simp add: Cons match_then_lang) blast
qed

section \<open>Reading\<close>

definition reads_text :: "checker_env \<Rightarrow> fpath \<Rightarrow> nat \<Rightarrow> string \<Rightarrow> bool" where
  "reads_text env path maximum s \<longleftrightarrow>
     (\<exists>raw. fst (read_bounded_regular_bytes (ck_root env) path maximum (ck_os env)) = Inr raw
        \<and> utf8_decode raw = Inr s)"

definition reads_object :: "checker_env \<Rightarrow> fpath \<Rightarrow> dict \<Rightarrow> bool" where
  "reads_object env path d \<longleftrightarrow>
     (\<exists>s. reads_text env path MAX_JSON_BYTES s \<and> json_loads s = Inr (PDict d))"

lemma read_text_ok:
  "read_text env path maximum = Inr (v, []) \<longleftrightarrow> (\<exists>s. v = Some s \<and> reads_text env path maximum s)"
  by (auto simp: read_text_def reads_text_def split: sum.splits exn.splits)

lemma read_text_some: "read_text env path maximum = Inr (Some s, e) \<Longrightarrow> e = []"
  by (auto simp: read_text_def split: sum.splits exn.splits if_splits)

lemma read_json_ok:
  "read_json env path = Inr (v, []) \<longleftrightarrow> (\<exists>d. v = Some d \<and> reads_object env path d)"
proof
  assume "read_json env path = Inr (v, [])"
  then obtain c e where c: "read_text env path MAX_JSON_BYTES = Inr (c, e)"
    and v: "(case c of None \<Rightarrow> Inr (None, e)
         | Some s \<Rightarrow> (case json_loads s of
              Inl JSONDecodeError \<Rightarrow> Inr (None, [''artifact is not JSON: '' @ last path])
            | Inl e \<Rightarrow> Inl e
            | Inr (PDict d) \<Rightarrow> Inr (Some d, [])
            | Inr _ \<Rightarrow> Inr (None, [''artifact must be a JSON object: '' @ last path]))) = Inr (v, [])"
    by (auto simp: read_json_def rbind_eq_Inr)
  show "\<exists>d. v = Some d \<and> reads_object env path d"
  proof (cases c)
    case None
    with c v show ?thesis using read_text_ok by fastforce
  next
    case (Some s)
    with c have "reads_text env path MAX_JSON_BYTES s" using read_text_some read_text_ok by blast
    then show ?thesis
      using v Some by (auto simp: reads_object_def split: sum.splits exn.splits pyval.splits)
  qed
next
  assume "\<exists>d. v = Some d \<and> reads_object env path d"
  then obtain d s where "v = Some d" "json_loads s = Inr (PDict d)"
    "read_text env path MAX_JSON_BYTES = Inr (Some s, [])"
    by (auto simp: reads_object_def read_text_ok)
  then show "read_json env path = Inr (v, [])" by (simp add: read_json_def)
qed

section \<open>Payload fields\<close>

definition payload_free :: "pyval \<Rightarrow> bool" where
  "payload_free v \<longleftrightarrow> (\<forall>k. occurs_key v k \<longrightarrow> payload_key k \<notin> set FORBIDDEN_PAYLOAD_KEYS)"

lemma payload_errors_Nil: "payload_errors v path = [] \<longleftrightarrow> payload_free v"
  by (simp add: checker_payload.scan_silent checker_payload.clean_def payload_free_def)

lemma payload_free_dict:
  "payload_free (PDict d) \<longleftrightarrow>
     (\<forall>(k, v)\<in>set d. payload_key k \<notin> set FORBIDDEN_PAYLOAD_KEYS \<and> payload_free v)"
  unfolding payload_free_def occurs_key_dict by blast

section \<open>Text artifacts\<close>

text \<open>The text has no occurrence of a pattern between two neighbours that satisfy conditions.\<close>

definition no_match :: "(char option \<Rightarrow> bool) \<Rightarrow> (string \<Rightarrow> bool) \<Rightarrow> rx \<Rightarrow> string \<Rightarrow> bool" where
  "no_match b k r s \<longleftrightarrow>
     (\<forall>pre u post. s = pre @ u @ post \<and> u \<in> lang r \<and> k post \<longrightarrow> \<not> b (last_char None pre))"

definition safe_text :: "string \<Rightarrow> bool" where
  "safe_text s \<longleftrightarrow>
     (\<forall>c\<in>set s. c < CHR '' '' \<longrightarrow> c \<in> {CHR 0x0A, CHR 0x0D, CHR 0x09})
     \<and> no_match at_line_start (\<lambda>_. True) FORBIDDEN_TEXT_HEADERS s
     \<and> no_match not_word_before not_word_after RAW_CONNECTION_ID_TEXT s"

lemma no_match_search: "no_match b k r s \<longleftrightarrow> \<not> search_from b k r None s"
  by (auto simp: no_match_def search_from_lang)

lemma text_safety_Nil: "text_safety_errors s artifact = [] \<longleftrightarrow> safe_text s"
  by (auto simp: text_safety_errors_def safe_text_def no_match_search list_ex_iff)

definition version_ok :: "string \<Rightarrow> bool" where
  "version_ok s \<longleftrightarrow> safe_text s \<and> splitlines s \<noteq> [] \<and>
     (\<exists>banner rest. hd (splitlines s) = banner @ rest \<and> banner \<in> lang VERSION_BANNER \<and> banner_end rest)"

lemma validate_version_Nil: "validate_version_text s = [] \<longleftrightarrow> version_ok s"
  by (auto simp: validate_version_text_def version_ok_def text_safety_Nil match_then_lang Let_def)

section \<open>The feature report\<close>

text \<open>A report whose lines are key/value pairs with distinct keys is read as those pairs.\<close>

lemma parse_report_lines_ok:
  "parse_report_lines lines acc = (values, []) \<Longrightarrow> distinct (map fst acc) \<Longrightarrow>
     \<exists>new. values = acc @ new \<and> distinct (map fst values)
       \<and> lines = map (\<lambda>(k, v). k @ ''='' @ v) new \<and> (\<forall>(k, v)\<in>set new. CHR ''='' \<notin> set k)"
proof (induction lines acc arbitrary: "values" rule: parse_report_lines.induct)
  case (2 line lines acc)
  obtain k f v where p: "partition_at (CHR ''='') line = (k, f, v)" by (cases "partition_at (CHR ''='') line")
  have f: "f" using "2.prems"(1) p by (auto split: prod.splits if_splits)
  have new: "k \<notin> set (map fst acc)" using "2.prems"(1) p f by (auto split: prod.splits if_splits)
  have rec: "parse_report_lines lines (acc @ [(k, v)]) = (values, [])"
    using "2.prems"(1) p f new by (auto split: prod.splits if_splits)
  have "distinct (map fst (acc @ [(k, v)]))" using new "2.prems"(2) by simp
  then obtain rest where "values = (acc @ [(k, v)]) @ rest" "distinct (map fst values)"
    "lines = map (\<lambda>(k, v). k @ ''='' @ v) rest" "\<forall>(k, v)\<in>set rest. CHR ''='' \<notin> set k"
    using "2.IH"(3) [OF p [symmetric] refl refl _ _ rec] f new by auto
  moreover have "line = k @ ''='' @ v \<and> CHR ''='' \<notin> set k"
    using partition_at_split [of "CHR ''=''" line] p f by simp
  ultimately show ?case by (intro exI [of _ "(k, v) # rest"]) auto
qed simp

text \<open>The lines a report is written as.\<close>

definition report_lines :: "report \<Rightarrow> string list" where
  "report_lines values = map (\<lambda>(k, v). k @ ''='' @ v) values"

definition report_wf :: "report \<Rightarrow> bool" where
  "report_wf values \<longleftrightarrow> distinct (map fst values) \<and> (\<forall>(k, v)\<in>set values. CHR ''='' \<notin> set k)"

lemma parse_report_lines_map:
  "distinct (map fst (acc @ new)) \<Longrightarrow> \<forall>(k, v)\<in>set new. CHR ''='' \<notin> set k \<Longrightarrow>
     parse_report_lines (report_lines new) acc = (acc @ new, [])"
proof (induction new arbitrary: acc)
  case (Cons kv new)
  obtain k v where kv: "kv = (k, v)" by (cases kv)
  have "partition_at (CHR ''='') (k @ ''='' @ v) = (k, True, v)"
    using Cons.prems(2) kv partition_at_append [of "CHR ''=''" k v] by simp
  moreover have "k \<notin> set (map fst acc)" using Cons.prems(1) kv by auto
  moreover have "parse_report_lines (report_lines new) (acc @ [(k, v)]) = ((acc @ [(k, v)]) @ new, [])"
    using Cons.prems kv by (intro Cons.IH) auto
  ultimately show ?case using kv by (simp add: report_lines_def)
qed (simp add: report_lines_def)

lemma parse_feature_report_ok:
  "parse_feature_report s = (values, []) \<longleftrightarrow> report_wf values \<and> splitlines s = report_lines values"
proof
  assume "parse_feature_report s = (values, [])"
  then show "report_wf values \<and> splitlines s = report_lines values"
    using parse_report_lines_ok [of "splitlines s" "[]" "values"]
    by (auto simp: parse_feature_report_def report_wf_def report_lines_def)
next
  assume "report_wf values \<and> splitlines s = report_lines values"
  then show "parse_feature_report s = (values, [])"
    using parse_report_lines_map [of "[]" "values"] by (simp add: parse_feature_report_def report_wf_def)
qed

definition report_bounded :: "report \<Rightarrow> bool" where
  "report_bounded values \<longleftrightarrow>
     fullmatch SAFE_EXECUTABLE (field_of values ''curl_executable'')
     \<and> fullmatch SAFE_VERSION (field_of values ''curl_version'')
     \<and> fullmatch SAFE_FEATURE_LIST (field_of values ''features'')
     \<and> fullmatch SAFE_FEATURE_LIST (field_of values ''required_features'')
     \<and> fullmatch SAFE_FEATURE_LIST (field_of values ''missing_features'')
     \<and> fullmatch SAFE_OPTION_LIST (field_of values ''required_options'')
     \<and> fullmatch SAFE_OPTION_LIST (field_of values ''missing_options'')"

definition report_ready :: "report \<Rightarrow> string \<Rightarrow> bool \<Rightarrow> bool" where
  "report_ready values protocol require_correlation \<longleftrightarrow>
     field_of values ''protocol'' = protocol
     \<and> field_of values ''preflight_status'' = ''READY''
     \<and> field_of values ''preflight_reason'' = []
     \<and> field_of values ''writeout_mode'' \<in> {''json'', ''fields''}
     \<and> (\<forall>feature. required_protocol_feature protocol = Some feature \<longrightarrow>
          feature \<in> set (listed values ''features'') \<and> feature \<in> set (listed values ''required_features'')
          \<and> feature \<notin> set (listed values ''missing_features''))
     \<and> (\<exists>flag. required_protocol_flag protocol = Inr flag
          \<and> flag \<in> set (listed values ''required_options'') \<and> flag \<notin> set (listed values ''missing_options''))
     \<and> (require_correlation \<longrightarrow> ''--header'' \<in> set (listed values ''required_options''))"

definition features_ok :: "string \<Rightarrow> string \<Rightarrow> bool \<Rightarrow> bool" where
  "features_ok s protocol require_correlation \<longleftrightarrow>
     safe_text s \<and>
     (\<exists>values. report_wf values \<and> splitlines s = report_lines values
        \<and> set (map fst values) = set FEATURE_REPORT_FIELDS
        \<and> report_bounded values \<and> report_ready values protocol require_correlation)"

lemma feature_value_Nil: "feature_value_errors values = [] \<longleftrightarrow> report_bounded values"
  by (simp add: feature_value_errors_def report_bounded_def)

lemma feature_protocol_Nil: "feature_protocol_errors values p corr = Inr [] \<longleftrightarrow> report_ready values p corr"
  unfolding feature_protocol_errors_def report_ready_def rbind_eq_Inr
  by (cases "required_protocol_feature p") auto

lemma filters_empty:
  "filter (\<lambda>k. k \<notin> set S) xs = [] \<and> filter (\<lambda>k. k \<notin> set xs) S = [] \<longleftrightarrow> set xs = set S"
  by (auto simp: filter_empty_conv)

lemma feature_schema_Nil:
  assumes "feature_schema_errors values = (e, m)"
  shows "e = [] \<longleftrightarrow> set (map fst values) = set FEATURE_REPORT_FIELDS" and "m \<Longrightarrow> e \<noteq> []"
proof -
  obtain m1 m2 where
    e: "e = err_if (filter (\<lambda>k. k \<notin> set FEATURE_REPORT_FIELDS) (map fst values) \<noteq> []) m1
          @ err_if (filter (\<lambda>k. k \<notin> set (map fst values)) FEATURE_REPORT_FIELDS \<noteq> []) m2"
    and m: "m \<longleftrightarrow> filter (\<lambda>k. k \<notin> set (map fst values)) FEATURE_REPORT_FIELDS \<noteq> []"
    using assms unfolding feature_schema_errors_def Let_def by blast
  show "e = [] \<longleftrightarrow> set (map fst values) = set FEATURE_REPORT_FIELDS"
    unfolding e filters_empty [symmetric] by simp
  show "m \<Longrightarrow> e \<noteq> []" unfolding e m by simp
qed

lemma rbind_append_Nil: "rbind m (\<lambda>x. Inr (ys @ x)) = Inr [] \<longleftrightarrow> ys = [] \<and> m = Inr []"
  by (auto simp: rbind_eq_Inr)

lemma validate_features_Nil: "validate_features_text s p corr = Inr [] \<longleftrightarrow> features_ok s p corr"
proof -
  obtain vals pe where parse: "parse_feature_report s = (vals, pe)" by (cases "parse_feature_report s")
  obtain se m where schema: "feature_schema_errors vals = (se, m)" by (cases "feature_schema_errors vals")
  have "validate_features_text s p corr =
      (if m then Inr (text_safety_errors s CLIENT_FEATURES_ARTIFACT @ pe @ se)
       else rbind (feature_protocol_errors vals p corr) (\<lambda>x.
         Inr ((text_safety_errors s CLIENT_FEATURES_ARTIFACT @ pe @ se) @ feature_value_errors vals @ x)))"
    using parse schema by (simp add: validate_features_text_def)
  then have "validate_features_text s p corr = Inr [] \<longleftrightarrow>
      safe_text s \<and> pe = [] \<and> se = [] \<and> report_bounded vals \<and> report_ready vals p corr"
    using feature_schema_Nil(2) [OF schema] rbind_append_Nil [of "feature_protocol_errors vals p corr"
        "(text_safety_errors s CLIENT_FEATURES_ARTIFACT @ pe @ se) @ feature_value_errors vals"]
    by (cases m) (simp_all add: text_safety_Nil feature_value_Nil feature_protocol_Nil)
  also have "\<dots> \<longleftrightarrow> features_ok s p corr"
    unfolding features_ok_def conj_assoc [symmetric] parse_feature_report_ok [symmetric] parse
    using feature_schema_Nil(1) [OF schema] by blast
  finally show ?thesis .
qed

section \<open>The rendered command\<close>

definition option_name :: "string \<Rightarrow> string" where
  "option_name a = fst (partition_at (CHR ''='') a)"

definition names_output :: "string \<Rightarrow> bool" where
  "names_output a \<longleftrightarrow> option_name a = ''--output'' \<or> startswith a ''-o''"

definition captures :: "string \<Rightarrow> bool" where
  "captures a \<longleftrightarrow> option_name a \<in> set FORBIDDEN_CAPTURE_OPTIONS"

definition quiet :: "string list \<Rightarrow> bool" where
  "quiet args \<longleftrightarrow> (\<forall>a\<in>set args. \<not> names_output a \<and> \<not> captures a)"

text \<open>Exactly one argument names an output, it is the null device, and nothing is captured.\<close>

definition discards_output :: "string list \<Rightarrow> bool" where
  "discards_output args \<longleftrightarrow>
     (\<exists>pre post. quiet pre \<and> quiet post
        \<and> (\<exists>a\<in>{''--output'', ''-o''}. args = pre @ [a, ''/dev/null''] @ post)
      \<or> quiet pre \<and> quiet post
        \<and> (\<exists>a\<in>{''--output=/dev/null'', ''-o/dev/null''}. args = pre @ [a] @ post))"

lemma option_name_simps [simp]:
  "option_name ''--output'' = ''--output''" "option_name ''-o'' = ''-o''"
  "option_name ''--output=/dev/null'' = ''--output''" "option_name ''-o/dev/null'' = ''-o/dev/null''"
  by (simp_all add: option_name_def)

lemma output_destination_cases:
  "output_option_destination a rest =
     (if \<not> names_output a then (None, False, None)
      else if a = ''--output'' \<or> a = ''-o'' then output_option_value rest a
      else if option_name a = ''--output'' then (Some (snd (snd (partition_at (CHR ''='') a))), False, None)
      else (Some (drop 2 a), False, None))"
proof -
  obtain n f v where p: "partition_at (CHR ''='') a = (n, f, v)" by (cases "partition_at (CHR ''='') a")
  have "startswith a ''-o'' \<and> a \<noteq> ''-o'' \<longrightarrow> 2 < length a"
    by (cases a; cases "tl a"; cases "tl (tl a)") (auto simp: startswith_def)
  moreover have "n = ''--output'' \<Longrightarrow> f \<longleftrightarrow> a \<noteq> ''--output''"
    using partition_at_split [OF p] by (cases f) auto
  moreover have "startswith ''-o'' ''-o''" by (simp add: startswith_def)
  moreover have "a = ''--output'' \<Longrightarrow> n = ''--output''" using p by simp
  ultimately show ?thesis
    using p by (auto simp: output_option_destination_def names_output_def option_name_def)
qed

definition capture_error :: "string \<Rightarrow> string list" where
  "capture_error a = err_if (captures a) (''client command contains payload-capture option '' @ option_name a)"

lemma capture_error_Nil [simp]: "capture_error a = [] \<longleftrightarrow> \<not> captures a"
  by (simp add: capture_error_def)

lemma destinations_step:
  "command_output_destinations (a # rest) =
     (let (destination, consumed, error) = output_option_destination a rest;
          (destinations, errors) = command_output_destinations (if consumed then tl rest else rest)
      in case error of
           Some e \<Rightarrow> (destinations, capture_error a @ [e] @ errors)
         | None \<Rightarrow>
             ((case destination of None \<Rightarrow> destinations | Some v \<Rightarrow> v # destinations),
              capture_error a @ errors))"
  by (simp only: command_output_destinations.simps Let_def capture_error_def captures_def option_name_def)

declare command_output_destinations.simps(2) [simp del]

lemma destinations_plain:
  "\<not> names_output a \<Longrightarrow> command_output_destinations (a # rest) =
     (fst (command_output_destinations rest), capture_error a @ snd (command_output_destinations rest))"
  by (simp add: destinations_step output_destination_cases split: prod.splits)

lemma output_names [simp]:
  "names_output ''--output''" "names_output ''-o''" "names_output ''--output=/dev/null''"
  "names_output ''-o/dev/null''" "\<not> captures ''--output''" "\<not> captures ''-o''"
  "\<not> captures ''--output=/dev/null''" "\<not> captures ''-o/dev/null''"
  by (simp_all add: names_output_def captures_def FORBIDDEN_CAPTURE_OPTIONS_def startswith_def)

lemma destinations_value:
  assumes "a = ''--output'' \<or> a = ''-o''"
  shows "command_output_destinations (a # v # rest) =
     (v # fst (command_output_destinations rest), snd (command_output_destinations rest))"
    and "snd (command_output_destinations [a]) \<noteq> []"
proof -
  have a: "names_output a" "capture_error a = []" using assms by auto
  have d: "output_option_destination a xs = output_option_value xs a" for xs
    using assms a by (simp only: output_destination_cases simp_thms if_True if_False)
  show "command_output_destinations (a # v # rest) =
     (v # fst (command_output_destinations rest), snd (command_output_destinations rest))"
    by (simp add: destinations_step d a output_option_value_def split: prod.splits)
  show "snd (command_output_destinations [a]) \<noteq> []"
    by (simp add: destinations_step d a output_option_value_def split: prod.splits)
qed

lemma destinations_inline:
  "names_output a \<Longrightarrow> a \<noteq> ''--output'' \<Longrightarrow> a \<noteq> ''-o'' \<Longrightarrow> command_output_destinations (a # rest) =
     ((if option_name a = ''--output'' then snd (snd (partition_at (CHR ''='') a)) else drop 2 a)
        # fst (command_output_destinations rest),
      capture_error a @ snd (command_output_destinations rest))"
  by (simp add: destinations_step output_destination_cases split: prod.splits)

lemma destinations_quiet: "command_output_destinations args = ([], []) \<longleftrightarrow> quiet args"
proof (induction args rule: command_output_destinations.induct)
  case (2 a rest)
  show ?case
  proof (cases "names_output a")
    case False
    have "command_output_destinations rest = ([], []) \<longleftrightarrow> quiet rest"
      using "2.IH" [OF refl refl] False by (simp add: output_destination_cases)
    with False show ?thesis by (auto simp: destinations_plain quiet_def prod_eq_iff)
  next
    case True
    then have "command_output_destinations (a # rest) \<noteq> ([], [])"
    proof (cases "a = ''--output'' \<or> a = ''-o''")
      case True
      then show ?thesis using destinations_value [of a] by (cases rest) auto
    next
      case False
      with True show ?thesis by (simp add: destinations_inline)
    qed
    with True show ?thesis by (auto simp: quiet_def)
  qed
qed (simp add: quiet_def)

lemma destinations_prefix: "quiet pre \<Longrightarrow> command_output_destinations (pre @ args) = command_output_destinations args"
  by (induction pre) (auto simp: quiet_def destinations_plain capture_error_def)

text \<open>An argument that names the null device inline.\<close>

lemma inline_null:
  assumes "names_output a" "a \<noteq> ''--output''" "a \<noteq> ''-o''"
    and "(if option_name a = ''--output'' then snd (snd (partition_at (CHR ''='') a)) else drop 2 a) = ''/dev/null''"
  shows "a = ''--output=/dev/null'' \<or> a = ''-o/dev/null''"
proof (cases "option_name a = ''--output''")
  case True
  obtain f where p: "partition_at (CHR ''='') a = (''--output'', f, ''/dev/null'')"
    using True assms(4) by (cases "partition_at (CHR ''='') a") (auto simp: option_name_def)
  show ?thesis using partition_at_split [OF p] by (cases f) auto
next
  case False
  then have "take 2 a = ''-o''" "drop 2 a = ''/dev/null''"
    using assms by (simp_all add: names_output_def startswith_def numeral_2_eq_2)
  then have "a = ''-o'' @ ''/dev/null''" by (metis append_take_drop_id)
  then show ?thesis by simp
qed

lemma destinations_discard:
  "command_output_destinations args = ([''/dev/null''], []) \<longleftrightarrow> discards_output args"
proof
  assume "discards_output args"
  then obtain pre post a where q: "quiet pre" "quiet post"
    and args: "(a = ''--output'' \<or> a = ''-o'') \<and> args = pre @ [a, ''/dev/null''] @ post
      \<or> (a = ''--output=/dev/null'' \<or> a = ''-o/dev/null'') \<and> args = pre @ [a] @ post"
    unfolding discards_output_def by blast
  have post: "command_output_destinations post = ([], [])" using q(2) destinations_quiet by blast
  from args show "command_output_destinations args = ([''/dev/null''], [])"
  proof (elim disjE conjE)
    assume "args = pre @ [a, ''/dev/null''] @ post" "a = ''--output''"
    then show ?thesis using q post by (simp add: destinations_prefix destinations_value)
  next
    assume "args = pre @ [a, ''/dev/null''] @ post" "a = ''-o''"
    then show ?thesis using q post by (simp add: destinations_prefix destinations_value)
  next
    assume "args = pre @ [a] @ post" "a = ''--output=/dev/null''"
    then show ?thesis
      using q post by (simp add: destinations_prefix destinations_inline capture_error_def)
  next
    assume "args = pre @ [a] @ post" "a = ''-o/dev/null''"
    then show ?thesis
      using q post by (simp add: destinations_prefix destinations_inline capture_error_def)
  qed
next
  assume "command_output_destinations args = ([''/dev/null''], [])"
  then show "discards_output args"
  proof (induction args)
    case (Cons a rest)
    consider "\<not> names_output a" | "a = ''--output'' \<or> a = ''-o''"
      | "names_output a" "a \<noteq> ''--output''" "a \<noteq> ''-o''" by blast
    then show ?case
    proof cases
      case 1
      with Cons.prems have c: "\<not> captures a" and d: "discards_output rest"
        by (auto simp: destinations_plain prod_eq_iff intro!: Cons.IH)
      have "quiet pre \<Longrightarrow> quiet (a # pre)" for pre using 1 c by (simp add: quiet_def)
      with d show ?thesis unfolding discards_output_def by (metis append_Cons)
    next
      case 2
      with Cons.prems destinations_value(2) [OF 2] obtain v rest' where rest: "rest = v # rest'"
        by (cases rest) auto
      with Cons.prems 2 have "v = ''/dev/null''" "quiet rest'"
        by (auto simp: destinations_value(1) [OF 2] prod_eq_iff destinations_quiet [symmetric])
      with 2 rest have "quiet []" "quiet rest'" "a \<in> {''--output'', ''-o''}" "a # rest = [] @ [a, ''/dev/null''] @ rest'"
        by (simp_all add: quiet_def)
      then show ?thesis unfolding discards_output_def by blast
    next
      case 3
      then have "quiet rest" and "a = ''--output=/dev/null'' \<or> a = ''-o/dev/null''"
        using Cons.prems inline_null [OF 3]
        by (simp_all add: destinations_inline destinations_quiet [symmetric] prod_eq_iff)
      moreover have "quiet []" by (simp add: quiet_def)
      ultimately show ?thesis unfolding discards_output_def by (metis append_Cons append_Nil insertCI)
    qed
  qed simp
qed

text \<open>No argument is a raw connection identifier, and every value of a secret option is redacted.\<close>

definition argument_hidden :: "string \<Rightarrow> string list \<Rightarrow> bool" where
  "argument_hidden a rest \<longleftrightarrow>
     \<not> match_then argument_end RAW_CONNECTION_ID_ARGUMENT a
     \<and> (a \<in> set REDACTED_COMMAND_VALUE_OPTIONS \<longrightarrow> (\<exists>more. rest = REDACTED_COMMAND_VALUE # more))
     \<and> (\<forall>opt\<in>set REDACTED_COMMAND_VALUE_OPTIONS. startswith a (opt @ ''='') \<longrightarrow>
          a = opt @ ''='' @ REDACTED_COMMAND_VALUE)"

definition arguments_hidden :: "string list \<Rightarrow> bool" where
  "arguments_hidden args \<longleftrightarrow> (\<forall>pre a rest. args = pre @ a # rest \<longrightarrow> argument_hidden a rest)"

lemma arguments_hidden_simps [simp]:
  "arguments_hidden []" "arguments_hidden (a # rest) \<longleftrightarrow> argument_hidden a rest \<and> arguments_hidden rest"
  unfolding arguments_hidden_def by (auto simp: Cons_eq_append_conv)

lemma inline_redaction_None:
  "inline_redaction_error opts a = None \<longleftrightarrow>
     (\<forall>opt\<in>set opts. startswith a (opt @ ''='') \<longrightarrow> a = opt @ ''='' @ REDACTED_COMMAND_VALUE)"
  by (induction opts) auto

lemma redacted_options_plain:
  "a \<in> set REDACTED_COMMAND_VALUE_OPTIONS \<Longrightarrow> CHR ''='' \<notin> set a"
  by (auto simp: REDACTED_COMMAND_VALUE_OPTIONS_def)

lemma startswith_equals: "startswith a (opt @ ''='') \<Longrightarrow> CHR ''='' \<in> set a"
  unfolding startswith_def by (metis in_set_conv_decomp in_set_takeD)

lemma redacted_option_None:
  "redacted_option_error a rest = None \<longleftrightarrow>
     (a \<in> set REDACTED_COMMAND_VALUE_OPTIONS \<longrightarrow> (\<exists>more. rest = REDACTED_COMMAND_VALUE # more))
     \<and> (\<forall>opt\<in>set REDACTED_COMMAND_VALUE_OPTIONS. startswith a (opt @ ''='') \<longrightarrow>
          a = opt @ ''='' @ REDACTED_COMMAND_VALUE)"
proof (cases "a \<in> set REDACTED_COMMAND_VALUE_OPTIONS")
  case True
  then have "\<not> startswith a (opt @ ''='')" for opt
    using redacted_options_plain startswith_equals by blast
  with True show ?thesis by (cases rest) (auto simp: redacted_option_error_def)
next
  case False
  then show ?thesis by (simp add: redacted_option_error_def inline_redaction_None)
qed

lemma argument_safety_Nil: "command_argument_safety_errors args = [] \<longleftrightarrow> arguments_hidden args"
proof (induction args)
  case (Cons a rest)
  have "(case redacted_option_error a rest of None \<Rightarrow> [] | Some e \<Rightarrow> [e]) = []
      \<longleftrightarrow> redacted_option_error a rest = None"
    by (simp split: option.splits)
  with Cons show ?case by (simp add: argument_hidden_def redacted_option_None conj_ac)
qed simp

definition url_safe :: "string \<Rightarrow> bool" where
  "url_safe a \<longleftrightarrow>
     (\<exists>parsed. urlsplit a = Inr parsed
        \<and> (sr_scheme parsed \<in> {''http'', ''https''} \<longrightarrow>
             url_username parsed = None \<and> url_password parsed = None
             \<and> sr_path parsed \<in> set SAFE_COMMAND_URL_PATHS
             \<and> sr_query parsed \<in> {'''', REDACTED_COMMAND_VALUE} \<and> sr_fragment parsed = []))"

lemma argument_url_Nil: "argument_url_errors a = [] \<longleftrightarrow> url_safe a"
  by (cases "urlsplit a") (simp_all add: argument_url_errors_def url_safe_def)

text \<open>The condition on the command artifact.\<close>

definition arguments_ok :: "string list \<Rightarrow> string \<Rightarrow> bool" where
  "arguments_ok args flag \<longleftrightarrow>
     arguments_hidden args \<and> (\<forall>a\<in>set args. url_safe a)
     \<and> ''--fail-with-body'' \<in> set args
     \<and> filter (\<lambda>a. a \<in> set PROTOCOL_SELECTOR_OPTIONS) args = [flag]
     \<and> discards_output args"

definition command_ok :: "string \<Rightarrow> string \<Rightarrow> bool" where
  "command_ok command protocol \<longleftrightarrow>
     command \<noteq> ''not executed'' @ NL
     \<and> no_match at_line_start (\<lambda>_. True) FORBIDDEN_TEXT_HEADERS command
     \<and> (\<exists>args flag. shlex_split command = Inr args \<and> required_protocol_flag protocol = Inr flag
          \<and> arguments_ok args flag)"

lemma output_safety_Nil: "command_output_safety_errors args = [] \<longleftrightarrow> discards_output args"
  by (cases "command_output_destinations args")
    (auto simp: command_output_safety_errors_def destinations_discard [symmetric])

lemma command_policy_Nil:
  "command_policy_errors args p = Inr [] \<longleftrightarrow>
     (\<exists>flag. required_protocol_flag p = Inr flag \<and> ''--fail-with-body'' \<in> set args
        \<and> filter (\<lambda>a. a \<in> set PROTOCOL_SELECTOR_OPTIONS) args = [flag] \<and> discards_output args)"
  by (auto simp: command_policy_errors_def rbind_eq_Inr output_safety_Nil)

lemma parse_arguments_ok:
  "parse_command_arguments command = (args, e) \<Longrightarrow>
     e = [] \<longleftrightarrow> shlex_split command = Inr args \<and> args \<noteq> []"
  by (auto simp: parse_command_arguments_def split: sum.splits)

lemma arguments_ok_nonempty: "arguments_ok args flag \<Longrightarrow> args \<noteq> []"
  by (auto simp: arguments_ok_def)

lemma validate_command_Nil: "validate_command command p = Inr [] \<longleftrightarrow> command_ok command p"
proof (cases "command = ''not executed'' @ NL")
  case False
  obtain args e where parse: "parse_command_arguments command = (args, e)"
    by (cases "parse_command_arguments command")
  define pre where "pre = err_if (search_from at_line_start (\<lambda>_. True) FORBIDDEN_TEXT_HEADERS None command)
      ''client command contains sensitive HTTP header text''
      @ e @ command_argument_safety_errors args @ command_url_safety_errors args"
  have "validate_command command p = rbind (command_policy_errors args p) (\<lambda>x. Inr (pre @ x))"
    using False parse by (simp add: validate_command_def pre_def)
  then have "validate_command command p = Inr [] \<longleftrightarrow> pre = [] \<and> command_policy_errors args p = Inr []"
    using rbind_append_Nil by metis
  also have "\<dots> \<longleftrightarrow> no_match at_line_start (\<lambda>_. True) FORBIDDEN_TEXT_HEADERS command \<and> e = []
      \<and> arguments_hidden args \<and> (\<forall>a\<in>set args. url_safe a) \<and> command_policy_errors args p = Inr []"
    by (auto simp: pre_def no_match_search argument_safety_Nil command_url_safety_errors_def argument_url_Nil)
  also have "\<dots> \<longleftrightarrow> no_match at_line_start (\<lambda>_. True) FORBIDDEN_TEXT_HEADERS command \<and> e = []
      \<and> (\<exists>flag. required_protocol_flag p = Inr flag \<and> arguments_ok args flag)"
    unfolding arguments_ok_def command_policy_Nil by blast
  also have "\<dots> \<longleftrightarrow> command_ok command p"
    unfolding command_ok_def parse_arguments_ok [OF parse]
    using False arguments_ok_nonempty parse
    by (auto simp: parse_command_arguments_def)
  finally show ?thesis .
qed (simp add: command_ok_def validate_command_def)

section \<open>Observations\<close>

lemma unsupported_Nil: "unsupported_fields d S m = [] \<longleftrightarrow> keys_in S d"
  by (auto simp: unsupported_fields_def Let_def filter_empty_conv keys_in_has_key has_key_def)

lemma schema_version_ok: "\<not> invalid_schema_version d \<longleftrightarrow> dget d ''schema_version'' = PInt 1"
  by (cases "dget d ''schema_version''") (auto simp: invalid_schema_version_def not_plain_int_def)

lemma match_errors_Nil: "match_errors e v f = [] \<longleftrightarrow> (\<forall>s. e = Some s \<longrightarrow> py_str v = s)"
  by (auto simp: match_errors_def split: option.splits)

text \<open>A status code the client saw, and a value that is an integer in a range.\<close>

definition int_in :: "int \<Rightarrow> int \<Rightarrow> pyval \<Rightarrow> bool" where
  "int_in lo hi v \<longleftrightarrow> (\<exists>i. v = PInt i \<and> lo \<le> i \<and> i \<le> hi)"

lemma int_in_plain: "int_in lo hi v \<longleftrightarrow> \<not> not_plain_int v \<and> lo \<le> int_val v \<and> int_val v \<le> hi"
  by (cases v) (auto simp: int_in_def not_plain_int_def)

text \<open>The transfer succeeded: the exit status and its category agree with the response status.\<close>

definition transfer_succeeded :: "dict \<Rightarrow> bool \<Rightarrow> bool" where
  "transfer_succeeded obs allow_http_error \<longleftrightarrow>
     int_in 100 999 (dget obs ''http_status'')
     \<and> (dget obs ''curl_exit_code'' = PInt 0 \<and> dget obs ''transport_error'' = PStr ''none''
        \<or> allow_http_error \<and> dget obs ''curl_exit_code'' = PInt 22
           \<and> dget obs ''transport_error'' = PStr ''http_response_error''
           \<and> int_in 400 999 (dget obs ''http_status''))"

lemma successful_transfer_Nil:
  "successful_transfer_errors obs allow = [] \<longleftrightarrow> transfer_succeeded obs allow"
proof (cases "dget obs ''curl_exit_code''")
  case (PInt i)
  show ?thesis
    unfolding transfer_succeeded_def successful_transfer_errors_def Let_def PInt
    by (cases "dget obs ''http_status''"; cases "i = 0"; cases "i = 22")
      (auto simp: not_plain_int_def int_in_def)
qed (simp_all add: successful_transfer_errors_def transfer_succeeded_def not_plain_int_def Let_def)

definition provenance_matches :: "dict \<Rightarrow> checker_args \<Rightarrow> bool" where
  "provenance_matches obs args \<longleftrightarrow>
     (\<forall>(expected, field)\<in>{(ca_connector args, ''connector''), (ca_integration_mode args, ''integration_mode''),
         (ca_run_id args, ''run_id''), (ca_transaction_id args, ''transaction_id''),
         (ca_rule_id args, ''rule_id''), (ca_phase args, ''phase'')}.
        \<forall>s. expected = Some s \<longrightarrow> py_str (dget obs field) = s)"

text \<open>What both kinds of evidence require of the observation itself.\<close>

definition primary_ok :: "dict \<Rightarrow> checker_args \<Rightarrow> bool" where
  "primary_ok obs args \<longleftrightarrow>
     keys_in ALLOWED_OBSERVATION_FIELDS obs \<and> dget obs ''schema_version'' = PInt 1
     \<and> payload_free (PDict obs) \<and> observation_wf obs
     \<and> (\<not> ca_strict args \<longrightarrow> dget obs ''fallback_used'' = PBool False \<and> pass_evidence obs)
     \<and> dget obs ''requested_protocol'' = PStr (ca_protocol args)
     \<and> dget obs ''downstream_protocol'' = PStr (ca_protocol args)
     \<and> provenance_matches obs args"

lemma rbind_split_Nil: "rbind m (\<lambda>x. Inr (ys @ x @ zs)) = Inr [] \<longleftrightarrow> ys = [] \<and> m = Inr [] \<and> zs = []"
  by (auto simp: rbind_eq_Inr)

lemma primary_observation_Nil: "primary_observation_errors obs args = Inr [] \<longleftrightarrow> primary_ok obs args"
proof -
  define ys where "ys = unsupported_fields obs ALLOWED_OBSERVATION_FIELDS ''observation has unsupported fields: ''
      @ err_if (invalid_schema_version obs) ''observation has an invalid schema_version''
      @ payload_errors (PDict obs) ''observation''"
  define zs where "zs = err_if (dget obs ''requested_protocol'' \<noteq> PStr (ca_protocol args))
              ''requested_protocol differs from the selected profile''
          @ err_if (dget obs ''downstream_protocol'' \<noteq> PStr (ca_protocol args))
              ''downstream_protocol differs from the selected profile''
          @ match_errors (ca_connector args) (dget obs ''connector'') ''connector''
          @ match_errors (ca_integration_mode args) (dget obs ''integration_mode'') ''integration_mode''
          @ match_errors (ca_run_id args) (dget obs ''run_id'') ''run_id''
          @ match_errors (ca_transaction_id args) (dget obs ''transaction_id'') ''transaction_id''
          @ match_errors (ca_rule_id args) (dget obs ''rule_id'') ''rule_id''
          @ match_errors (ca_phase args) (dget obs ''phase'') ''phase''"
  have y: "ys = [] \<longleftrightarrow> keys_in ALLOWED_OBSERVATION_FIELDS obs \<and> dget obs ''schema_version'' = PInt 1
      \<and> payload_free (PDict obs)"
    unfolding ys_def append_is_Nil_conv unsupported_Nil err_if_Nil schema_version_ok payload_errors_Nil ..
  have z: "zs = [] \<longleftrightarrow> dget obs ''requested_protocol'' = PStr (ca_protocol args)
      \<and> dget obs ''downstream_protocol'' = PStr (ca_protocol args) \<and> provenance_matches obs args"
    unfolding zs_def append_is_Nil_conv err_if_Nil match_errors_Nil provenance_matches_def by simp
  have "primary_observation_errors obs args
      = rbind (validate_protocol_observation obs (\<not> ca_strict args)) (\<lambda>x. Inr (ys @ x @ zs))"
    unfolding primary_observation_errors_def ys_def zs_def append_assoc ..
  then have "primary_observation_errors obs args = Inr [] \<longleftrightarrow>
      ys = [] \<and> validate_protocol_observation obs (\<not> ca_strict args) = Inr [] \<and> zs = []"
    by (simp only: rbind_split_Nil)
  then show ?thesis unfolding y z validate_observation_iff primary_ok_def by blast
qed

text \<open>The expectations the caller passes in.\<close>

definition expectations_met :: "dict \<Rightarrow> checker_args \<Rightarrow> bool" where
  "expectations_met obs args \<longleftrightarrow>
     (ca_expected_stream_id args \<noteq> PNone \<longrightarrow>
        (\<exists>i\<ge>0. ca_expected_stream_id args = PInt i \<and> py_eq (dget obs ''stream_id'') (PInt i)))
     \<and> (\<forall>p. ca_expected_upstream_protocol args = Some p \<longrightarrow>
          p \<in> set CANONICAL_PROTOCOLS \<and> dget obs ''upstream_protocol'' = PStr p)
     \<and> (\<forall>t. ca_expected_transport_case_id args = Some t \<longrightarrow>
          fullmatch BOUNDED_TOKEN t \<and> dget obs ''transport_case_id'' = PStr t)
     \<and> (ca_expected_client_status args \<noteq> PNone \<longrightarrow>
          int_in 100 999 (ca_expected_client_status args)
          \<and> dget obs ''http_status'' = ca_expected_client_status args)"

lemma expected_stream_Nil:
  "expected_stream_errors obs v = [] \<longleftrightarrow>
     (v \<noteq> PNone \<longrightarrow> (\<exists>i\<ge>0. v = PInt i \<and> py_eq (dget obs ''stream_id'') (PInt i)))"
  by (cases v) (auto simp: expected_stream_errors_def not_plain_int_def)

lemma expected_status_Nil:
  "expected_client_status_errors obs v = [] \<longleftrightarrow>
     (v \<noteq> PNone \<longrightarrow> int_in 100 999 v \<and> dget obs ''http_status'' = v)"
  by (cases v; cases "dget obs ''http_status''")
    (auto simp: expected_client_status_errors_def not_plain_int_def int_in_def Let_def split: if_splits)

lemma expected_provenance_Nil: "expected_provenance_errors obs args = [] \<longleftrightarrow> expectations_met obs args"
  unfolding expected_provenance_errors_def append_is_Nil_conv expected_stream_Nil expected_status_Nil
    expectations_met_def
  by (auto simp: expected_upstream_errors_def expected_transport_case_errors_def split: option.splits if_splits)

section \<open>The follow-up\<close>

definition followup_safe :: "dict \<Rightarrow> bool" where
  "followup_safe f \<longleftrightarrow>
     keys_in ALLOWED_FOLLOWUP_FIELDS f \<and> payload_free (PDict f) \<and> dget f ''schema_version'' = PInt 1
     \<and> (\<forall>k\<in>{''reason'', ''transport_error''}. dget f k = PNone
          \<or> (\<exists>s. dget f k = PStr s \<and> fullmatch SAFE_REASON s))
     \<and> (\<forall>k\<in>{''response_complete'', ''fallback_used''}. has_key f k \<longrightarrow> is_bool (dget f k))
     \<and> (\<forall>k\<in>{''http_status'', ''curl_exit_code''}. dget f k = PNone \<or> (\<exists>i. dget f k = PInt i))
     \<and> (dget f ''status'' = PStr ''PASS'' \<longrightarrow> transfer_succeeded f False)"

lemma followup_reason_Nil:
  "followup_reason_errors f = [] \<longleftrightarrow>
     (\<forall>k\<in>{''reason'', ''transport_error''}. dget f k = PNone
        \<or> (\<exists>s. dget f k = PStr s \<and> fullmatch SAFE_REASON s))"
proof -
  have "\<not> (v \<noteq> PNone \<and> (\<not> is_str v \<or> \<not> fullmatch SAFE_REASON (str_val v)))
      \<longleftrightarrow> v = PNone \<or> (\<exists>s. v = PStr s \<and> fullmatch SAFE_REASON s)" for v
    by (cases v) auto
  then show ?thesis by (simp only: followup_reason_errors_def Let_def) simp
qed

lemma followup_type_Nil:
  "followup_type_errors f = [] \<longleftrightarrow>
     (\<forall>k\<in>{''response_complete'', ''fallback_used''}. has_key f k \<longrightarrow> is_bool (dget f k))
     \<and> (\<forall>k\<in>{''http_status'', ''curl_exit_code''}. dget f k = PNone \<or> (\<exists>i. dget f k = PInt i))"
  unfolding followup_type_errors_def not_plain_int_PInt [symmetric] by simp

lemma followup_safety_Nil: "followup_safety_errors f = [] \<longleftrightarrow> followup_safe f"
  unfolding followup_safety_errors_def append_is_Nil_conv unsupported_Nil payload_errors_Nil err_if_Nil
    schema_version_ok followup_reason_Nil followup_type_Nil followup_safe_def
  by (cases "dget f ''status'' = PStr ''PASS''") (simp_all only: simp_thms if_True if_False successful_transfer_Nil conj_assoc)

text \<open>The follow-up is a healthy request of the same run, profile and authority with its own token.\<close>

definition followup_bound :: "dict \<Rightarrow> string \<Rightarrow> dict \<Rightarrow> bool" where
  "followup_bound f protocol obs \<longleftrightarrow>
     dget f ''status'' = PStr ''PASS''
     \<and> dget f ''requested_protocol'' = PStr protocol \<and> dget f ''negotiated_protocol'' = PStr protocol
     \<and> dget f ''fallback_used'' = PBool False \<and> int_in 200 399 (dget f ''http_status'')
     \<and> (\<exists>t t'. dget obs ''transport_case_id'' = PStr t \<and> fullmatch BOUNDED_TOKEN t
          \<and> derive_followup_transport_case_id (Some t) = Inr (Some t')
          \<and> dget f ''transport_case_id'' = PStr t' \<and> t' \<noteq> t)
     \<and> (\<exists>h. dget obs ''target_authority_sha256'' = PStr h \<and> fullmatch SHA256_TOKEN h
          \<and> dget f ''target_authority_sha256'' = PStr h)
     \<and> (\<forall>k\<in>set BOUND_FOLLOWUP_FIELDS. dget obs k \<noteq> PNone \<longrightarrow> py_eq (dget f k) (dget obs k))"

lemma derive_followup_some:
  "fullmatch BOUNDED_TOKEN t \<Longrightarrow> \<exists>t'. derive_followup_transport_case_id (Some t) = Inr (Some t')"
  by (simp add: derive_followup_transport_case_id_def has_invalid_bounded_token_def Let_def)

lemma followup_case_Nil:
  "followup_case_errors f obs = Inr [] \<longleftrightarrow>
     (\<exists>t t'. dget obs ''transport_case_id'' = PStr t \<and> fullmatch BOUNDED_TOKEN t
        \<and> derive_followup_transport_case_id (Some t) = Inr (Some t')
        \<and> dget f ''transport_case_id'' = PStr t' \<and> t' \<noteq> t)"
proof (cases "\<exists>t. dget obs ''transport_case_id'' = PStr t \<and> fullmatch BOUNDED_TOKEN t")
  case True
  then obtain t where t: "dget obs ''transport_case_id'' = PStr t" "fullmatch BOUNDED_TOKEN t" by blast
  then obtain t' where "derive_followup_transport_case_id (Some t) = Inr (Some t')"
    using derive_followup_some by blast
  with t show ?thesis by (auto simp: followup_case_errors_def)
next
  case False
  then have "\<not> is_str (dget obs ''transport_case_id'')
      \<or> \<not> fullmatch BOUNDED_TOKEN (str_val (dget obs ''transport_case_id''))"
    by (cases "dget obs ''transport_case_id''") auto
  with False show ?thesis by (auto simp: followup_case_errors_def Let_def)
qed

lemma followup_correlation_Nil:
  "followup_correlation_errors f obs = Inr [] \<longleftrightarrow>
     followup_case_errors f obs = Inr []
     \<and> (\<exists>h. dget obs ''target_authority_sha256'' = PStr h \<and> fullmatch SHA256_TOKEN h
          \<and> dget f ''target_authority_sha256'' = PStr h)"
  by (cases "dget obs ''target_authority_sha256''")
    (auto simp: followup_correlation_errors_def rbind_eq_Inr split: if_splits)

lemma followup_result_Nil:
  "followup_result_errors f p = [] \<longleftrightarrow>
     dget f ''status'' = PStr ''PASS''
     \<and> dget f ''requested_protocol'' = PStr p \<and> dget f ''negotiated_protocol'' = PStr p
     \<and> dget f ''fallback_used'' = PBool False \<and> int_in 200 399 (dget f ''http_status'')"
proof -
  have "int_in 200 399 v \<longleftrightarrow> \<not> (not_plain_int v \<or> \<not> (200 \<le> int_val v \<and> int_val v < 400))" for v
    by (auto simp: int_in_plain)
  then show ?thesis by (simp only: followup_result_errors_def Let_def append_is_Nil_conv err_if_Nil) simp
qed

lemma followup_provenance_Nil:
  "followup_provenance_errors f obs = [] \<longleftrightarrow>
     (\<forall>k\<in>set BOUND_FOLLOWUP_FIELDS. dget obs k \<noteq> PNone \<longrightarrow> py_eq (dget f k) (dget obs k))"
  by (auto simp: followup_provenance_errors_def)

lemma rbind_two_Nil:
  "rbind m (\<lambda>x. rbind n (\<lambda>y. Inr (a @ x @ b @ y @ c))) = Inr [] \<longleftrightarrow>
     m = Inr [] \<and> n = Inr [] \<and> a = [] \<and> b = [] \<and> c = []"
  by (auto simp: rbind_eq_Inr)

lemma validate_followup_Nil:
  "validate_followup f p obs = Inr [] \<longleftrightarrow> followup_safe f \<and> observation_wf f \<and> followup_bound f p obs"
  unfolding validate_followup_def rbind_two_Nil followup_safety_Nil followup_result_Nil
    followup_correlation_Nil followup_case_Nil followup_provenance_Nil validate_observation_iff followup_bound_def
  by (simp only: simp_thms conj_ac)

section \<open>Accepted evidence\<close>

text \<open>Ordinary evidence: a PASS whose transfer succeeded, and a safe follow-up if there is one.\<close>

definition normal_accepted :: "checker_env \<Rightarrow> dict \<Rightarrow> fpath \<Rightarrow> bool" where
  "normal_accepted env obs followup_path \<longleftrightarrow>
     dget obs ''status'' = PStr ''PASS'' \<and> transfer_succeeded obs True
     \<and> (ck_exists env followup_path \<longrightarrow> (\<exists>f. reads_object env followup_path f \<and> followup_safe f))"

lemma normal_evidence_Nil: "normal_evidence_errors env obs path = Inr [] \<longleftrightarrow> normal_accepted env obs path"
proof -
  define m where "m = (if ck_exists env path then
        rbind (read_json env path) (\<lambda>(followup, followup_errors).
          Inr (followup_errors @ (case followup of None \<Rightarrow> [] | Some f \<Rightarrow> followup_safety_errors f)))
      else Inr [])"
  have "normal_evidence_errors env obs path = rbind m (\<lambda>e. Inr
      ((err_if (dget obs ''status'' \<noteq> PStr ''PASS'') ''protocol client observation is not PASS''
        @ successful_transfer_errors obs True) @ e))"
    unfolding normal_evidence_errors_def m_def append_assoc ..
  then have "normal_evidence_errors env obs path = Inr [] \<longleftrightarrow>
      dget obs ''status'' = PStr ''PASS'' \<and> transfer_succeeded obs True \<and> m = Inr []"
    by (simp only: rbind_append_Nil append_is_Nil_conv err_if_Nil successful_transfer_Nil) simp
  moreover have "m = Inr [] \<longleftrightarrow>
      (ck_exists env path \<longrightarrow> (\<exists>f. reads_object env path f \<and> followup_safe f))"
  proof (cases "ck_exists env path")
    case True
    then have "m = Inr [] \<longleftrightarrow> (\<exists>v. read_json env path = Inr (v, [])
        \<and> (case v of None \<Rightarrow> [] | Some f \<Rightarrow> followup_safety_errors f) = [])"
      by (auto simp: m_def rbind_eq_Inr)
    then show ?thesis using True unfolding read_json_ok by (auto simp: followup_safety_Nil)
  qed (simp add: m_def)
  ultimately show ?thesis unfolding normal_accepted_def by simp
qed

text \<open>A transfer that failed with a category that fits its exit status.\<close>

definition transfer_failed :: "dict \<Rightarrow> bool" where
  "transfer_failed obs \<longleftrightarrow>
     (\<exists>rc. dget obs ''curl_exit_code'' = PInt rc \<and> rc \<noteq> 0 \<and> rc \<noteq> 22
        \<and> (case map_of CURL_RETURN_CODE_TRANSPORT_ERRORS rc of
             Some category \<Rightarrow> dget obs ''transport_error'' = PStr category
           | None \<Rightarrow> one_of FAILURE_CATEGORIES (dget obs ''transport_error'')))"

lemma failed_transfer_Nil: "failed_transfer_errors obs = [] \<longleftrightarrow> transfer_failed obs"
proof (cases "dget obs ''curl_exit_code''")
  case (PInt rc)
  have "v \<notin> PStr ` set S \<longleftrightarrow> \<not> one_of S v" for v S by (auto simp: one_of_def)
  then show ?thesis
    unfolding failed_transfer_errors_def transfer_failed_def Let_def PInt
    by (cases "rc = 0"; cases "rc = 22")
      (simp_all add: not_plain_int_def returncode_transport_error_def split: option.splits)
qed (simp_all add: failed_transfer_errors_def transfer_failed_def not_plain_int_def Let_def)

text \<open>Strict evidence: a committed, visibly partial response that the client saw reset.\<close>

definition strict_primary :: "dict \<Rightarrow> string \<Rightarrow> bool" where
  "strict_primary obs protocol \<longleftrightarrow>
     dget obs ''status'' = PStr ''FAIL'' \<and> transfer_failed obs
     \<and> dget obs ''response_committed'' = PBool True
     \<and> dget obs ''client_first_body_byte_visible'' = PBool True
     \<and> dget obs ''response_complete'' = PBool False
     \<and> (\<exists>i\<ge>0. dget obs ''stream_id'' = PInt i)
     \<and> int_in 100 999 (dget obs ''http_status'')
     \<and> dget obs ''stream_reset'' = PBool True
     \<and> dget obs ''stream_reset_code'' \<noteq> PNone \<and> dget obs ''stream_reset_code'' \<noteq> PStr ''''
     \<and> dget obs ''fallback_used'' = PBool False
     \<and> dget obs ''negotiated_protocol'' = PStr protocol
     \<and> (\<exists>transport. map_of STRICT_TRANSPORTS protocol = Some transport
          \<and> dget obs ''transport'' = PStr transport)"

lemma plain_nonneg: "\<not> (not_plain_int v \<or> int_val v < 0) \<longleftrightarrow> (\<exists>i\<ge>0. v = PInt i)"
  by (cases v) (auto simp: not_plain_int_def)

lemma plain_range: "\<not> (not_plain_int v \<or> \<not> (lo \<le> int_val v \<and> int_val v \<le> hi)) \<longleftrightarrow> int_in lo hi v"
  by (auto simp: int_in_plain)

lemma subscript_Inr: "subscript table k = Inr v \<longleftrightarrow> map_of table k = Some v"
  by (auto simp: subscript_def split: option.splits)

lemma strict_primary_Nil: "strict_primary_errors obs p = Inr [] \<longleftrightarrow> strict_primary obs p"
  unfolding strict_primary_errors_def Let_def rbind_eq_Inr subscript_Inr sum.inject append_is_Nil_conv err_if_Nil
    failed_transfer_Nil plain_nonneg plain_range strict_primary_def insert_iff
  unfolding empty_iff de_Morgan_disj not_not simp_thms
  by (cases "map_of STRICT_TRANSPORTS p") (simp_all only: option.inject option.distinct simp_thms conj_assoc)

definition strict_transport :: "dict \<Rightarrow> string \<Rightarrow> bool" where
  "strict_transport obs protocol \<longleftrightarrow>
     (protocol \<in> {''h2'', ''h3''} \<longrightarrow> dget obs ''alpn'' = PStr protocol)
     \<and> (protocol = ''h3'' \<longrightarrow>
          dget obs ''quic_udp_observed'' = PBool True \<and> dget obs ''quic_connection_id_present'' = PBool True
          \<and> (\<exists>v. dget obs ''quic_version'' = PStr v \<and> v \<noteq> []))"

lemma strict_transport_Nil: "strict_transport_errors obs p = [] \<longleftrightarrow> strict_transport obs p"
proof -
  have "\<not> (\<not> is_str v \<or> str_val v = []) \<longleftrightarrow> (\<exists>s. v = PStr s \<and> s \<noteq> [])" for v by (cases v) auto
  then show ?thesis
    unfolding strict_transport_errors_def strict_transport_def
    by (cases "p = ''h2''"; cases "p = ''h3''") simp_all
qed

definition strict_accepted :: "checker_env \<Rightarrow> dict \<Rightarrow> string \<Rightarrow> fpath \<Rightarrow> bool" where
  "strict_accepted env obs protocol followup_path \<longleftrightarrow>
     strict_primary obs protocol \<and> strict_transport obs protocol
     \<and> (\<exists>f. reads_object env followup_path f \<and> followup_safe f \<and> observation_wf f
          \<and> followup_bound f protocol obs)"

lemma strict_followup_Nil:
  "strict_followup_errors env path p obs = Inr [] \<longleftrightarrow>
     (\<exists>f. reads_object env path f \<and> followup_safe f \<and> observation_wf f \<and> followup_bound f p obs)"
proof -
  have "strict_followup_errors env path p obs = Inr [] \<longleftrightarrow>
      (\<exists>v. read_json env path = Inr (v, [])
         \<and> (case v of None \<Rightarrow> True | Some f \<Rightarrow> validate_followup f p obs = Inr []))"
    unfolding strict_followup_errors_def rbind_eq_Inr
    by (auto simp: rbind_eq_Inr split: option.splits)
  then show ?thesis unfolding read_json_ok validate_followup_Nil by auto
qed

text \<open>The artifacts a directory holds, each within its bound and readable.\<close>

definition artifacts_present :: "checker_env \<Rightarrow> fpath \<Rightarrow> string \<Rightarrow> string \<Rightarrow> string \<Rightarrow> dict \<Rightarrow> bool" where
  "artifacts_present env dir version features command obs \<longleftrightarrow>
     reads_text env (dir @ [CLIENT_VERSION_ARTIFACT]) MAX_TEXT_BYTES version
     \<and> reads_text env (dir @ [CLIENT_FEATURES_ARTIFACT]) MAX_TEXT_BYTES features
     \<and> reads_text env (dir @ [CLIENT_COMMAND_ARTIFACT]) MAX_TEXT_BYTES command
     \<and> reads_object env (dir @ [PRIMARY_OBSERVATION_ARTIFACT]) obs"

definition evidence_accepted :: "checker_env \<Rightarrow> fpath \<Rightarrow> checker_args \<Rightarrow> bool" where
  "evidence_accepted env dir args \<longleftrightarrow>
     (let protocol = ca_protocol args; followup_path = dir @ [FOLLOWUP_ARTIFACT]
      in protocol \<in> set CANONICAL_PROTOCOLS \<and> (ca_strict args \<longrightarrow> protocol \<noteq> ''http1'')
         \<and> \<not> ck_is_symlink env dir \<and> ck_is_dir env dir
         \<and> (\<exists>version features command obs.
              artifacts_present env dir version features command obs
              \<and> version_ok version
              \<and> features_ok features protocol (ca_expected_transport_case_id args \<noteq> None)
              \<and> command_ok command protocol
              \<and> primary_ok obs args \<and> expectations_met obs args
              \<and> (if ca_strict args then strict_accepted env obs protocol followup_path
                 else normal_accepted env obs followup_path)))"

lemma read_artifacts_ok:
  "read_required_artifacts env dir = Inr (texts, Some obs, []) \<longleftrightarrow>
     (\<exists>version features command.
        artifacts_present env dir version features command obs
        \<and> texts = \<lparr>ta_version = Some version, ta_features = Some features, ta_command = Some command\<rparr>)"
  (is "?L \<longleftrightarrow> ?R")
proof
  assume ?L
  then obtain v f c where
    "read_text env (dir @ [CLIENT_VERSION_ARTIFACT]) MAX_TEXT_BYTES = Inr (v, [])"
    "read_text env (dir @ [CLIENT_FEATURES_ARTIFACT]) MAX_TEXT_BYTES = Inr (f, [])"
    "read_text env (dir @ [CLIENT_COMMAND_ARTIFACT]) MAX_TEXT_BYTES = Inr (c, [])"
    "read_json env (dir @ [PRIMARY_OBSERVATION_ARTIFACT]) = Inr (Some obs, [])"
    "texts = \<lparr>ta_version = v, ta_features = f, ta_command = c\<rparr>"
    by (auto simp: read_required_artifacts_def rbind_eq_Inr)
  then show ?R unfolding read_text_ok read_json_ok artifacts_present_def by auto
next
  assume ?R
  then obtain version features command where
    "read_text env (dir @ [CLIENT_VERSION_ARTIFACT]) MAX_TEXT_BYTES = Inr (Some version, [])"
    "read_text env (dir @ [CLIENT_FEATURES_ARTIFACT]) MAX_TEXT_BYTES = Inr (Some features, [])"
    "read_text env (dir @ [CLIENT_COMMAND_ARTIFACT]) MAX_TEXT_BYTES = Inr (Some command, [])"
    "read_json env (dir @ [PRIMARY_OBSERVATION_ARTIFACT]) = Inr (Some obs, [])"
    "texts = \<lparr>ta_version = Some version, ta_features = Some features, ta_command = Some command\<rparr>"
    unfolding read_text_ok read_json_ok artifacts_present_def by auto
  then show ?L by (simp add: read_required_artifacts_def)
qed

lemma read_artifacts_missing: "read_required_artifacts env dir = Inr (texts, None, e) \<Longrightarrow> e \<noteq> []"
proof -
  assume "read_required_artifacts env dir = Inr (texts, None, e)"
  then obtain e1 e2 e3 e4 where "read_json env (dir @ [PRIMARY_OBSERVATION_ARTIFACT]) = Inr (None, e4)"
    "e = e1 @ e2 @ e3 @ e4"
    by (auto simp: read_required_artifacts_def rbind_eq_Inr)
  moreover from this have "e4 \<noteq> []" using read_json_ok by auto
  ultimately show "e \<noteq> []" by simp
qed

lemma text_artifacts_Nil:
  "text_artifact_errors \<lparr>ta_version = Some version, ta_features = Some features, ta_command = Some command\<rparr>
       p corr = Inr [] \<longleftrightarrow>
     version_ok version \<and> features_ok features p corr \<and> command_ok command p"
  by (auto simp: text_artifact_errors_def rbind_eq_Inr validate_version_Nil validate_features_Nil
      validate_command_Nil)

text \<open>The checks after the artifacts were read, as one list.\<close>

definition observation_errors :: "checker_env \<Rightarrow> fpath \<Rightarrow> checker_args \<Rightarrow> dict \<Rightarrow> string list res" where
  "observation_errors env dir args obs =
     rbind (primary_observation_errors obs args) (\<lambda>e3.
       if \<not> ca_strict args then
         rbind (normal_evidence_errors env obs (dir @ [FOLLOWUP_ARTIFACT])) (\<lambda>e5.
           Inr (e3 @ expected_provenance_errors obs args @ e5))
       else
         rbind (strict_primary_errors obs (ca_protocol args)) (\<lambda>e5.
         rbind (strict_followup_errors env (dir @ [FOLLOWUP_ARTIFACT]) (ca_protocol args) obs) (\<lambda>e6.
           Inr (e3 @ expected_provenance_errors obs args @ e5
                @ strict_transport_errors obs (ca_protocol args) @ e6))))"

lemma observation_errors_Nil:
  "observation_errors env dir args obs = Inr [] \<longleftrightarrow>
     primary_ok obs args \<and> expectations_met obs args
     \<and> (if ca_strict args then strict_accepted env obs (ca_protocol args) (dir @ [FOLLOWUP_ARTIFACT])
        else normal_accepted env obs (dir @ [FOLLOWUP_ARTIFACT]))"
proof (cases "ca_strict args")
  case True
  have "observation_errors env dir args obs = Inr [] \<longleftrightarrow>
      primary_observation_errors obs args = Inr [] \<and> expected_provenance_errors obs args = []
      \<and> strict_primary_errors obs (ca_protocol args) = Inr []
      \<and> strict_transport_errors obs (ca_protocol args) = []
      \<and> strict_followup_errors env (dir @ [FOLLOWUP_ARTIFACT]) (ca_protocol args) obs = Inr []"
    using True by (auto simp: observation_errors_def rbind_eq_Inr)
  then show ?thesis
    unfolding primary_observation_Nil expected_provenance_Nil strict_primary_Nil strict_transport_Nil
      strict_followup_Nil strict_accepted_def using True by (simp only: if_True conj_assoc)
next
  case False
  have "observation_errors env dir args obs = Inr [] \<longleftrightarrow>
      primary_observation_errors obs args = Inr [] \<and> expected_provenance_errors obs args = []
      \<and> normal_evidence_errors env obs (dir @ [FOLLOWUP_ARTIFACT]) = Inr []"
    using False by (auto simp: observation_errors_def rbind_eq_Inr)
  then show ?thesis
    unfolding primary_observation_Nil expected_provenance_Nil normal_evidence_Nil
    using False by (simp only: if_False conj_assoc)
qed

text \<open>A call that passes the first guards.\<close>

definition checkable :: "checker_env \<Rightarrow> fpath \<Rightarrow> checker_args \<Rightarrow> bool" where
  "checkable env dir args \<longleftrightarrow>
     ca_protocol args \<in> set CANONICAL_PROTOCOLS \<and> (ca_strict args \<longrightarrow> ca_protocol args \<noteq> ''http1'')
     \<and> \<not> ck_is_symlink env dir \<and> ck_is_dir env dir"

lemma validate_artifacts_checkable:
  assumes "checkable env dir args"
  shows "validate_protocol_artifacts env dir args =
     rbind (read_required_artifacts env dir) (\<lambda>(texts, observation, e1).
     rbind (text_artifact_errors texts (ca_protocol args) (ca_expected_transport_case_id args \<noteq> None)) (\<lambda>e2.
     case observation of
       None \<Rightarrow> Inr (sorted_unique (e1 @ e2))
     | Some obs \<Rightarrow> rbind (observation_errors env dir args obs) (\<lambda>e. Inr (sorted_unique (e1 @ e2 @ e)))))"
proof -
  have "\<not> (ca_strict args \<and> ca_protocol args \<notin> {''h2'', ''h2c'', ''h3''})"
    using assms by (auto simp: checkable_def CANONICAL_PROTOCOLS_def)
  moreover have "rbind (primary_observation_errors obs args) (\<lambda>e3.
      if \<not> ca_strict args then
        rbind (normal_evidence_errors env obs (dir @ [FOLLOWUP_ARTIFACT])) (\<lambda>e5.
          Inr (sorted_unique (e1 @ e2 @ e3 @ expected_provenance_errors obs args @ e5)))
      else
        rbind (strict_primary_errors obs (ca_protocol args)) (\<lambda>e5.
        rbind (strict_followup_errors env (dir @ [FOLLOWUP_ARTIFACT]) (ca_protocol args) obs) (\<lambda>e6.
          Inr (sorted_unique (e1 @ e2 @ e3 @ expected_provenance_errors obs args @ e5
                @ strict_transport_errors obs (ca_protocol args) @ e6)))))
    = rbind (observation_errors env dir args obs) (\<lambda>e. Inr (sorted_unique (e1 @ e2 @ e)))" for obs e1 e2
    by (cases "ca_strict args") (simp_all add: observation_errors_def rbind_assoc)
  ultimately show ?thesis
    using assms
    by (simp only: validate_protocol_artifacts_def checkable_def Let_def simp_thms if_False)
qed

lemma validate_artifacts_unchecked:
  assumes "\<not> checkable env dir args"
  shows "\<exists>e. validate_protocol_artifacts env dir args = Inr [e]"
proof -
  have "\<not> (ca_strict args \<longrightarrow> ca_protocol args \<noteq> ''http1'') \<Longrightarrow>
      ca_strict args \<and> ca_protocol args \<notin> {''h2'', ''h2c'', ''h3''}" by auto
  with assms show ?thesis
    unfolding validate_protocol_artifacts_def checkable_def Let_def by auto
qed

lemma validate_artifacts_iff:
  "validate_protocol_artifacts env dir args = Inr [] \<longleftrightarrow> evidence_accepted env dir args"
proof (cases "checkable env dir args")
  case True
  let ?corr = "ca_expected_transport_case_id args \<noteq> None"
  have "validate_protocol_artifacts env dir args = Inr [] \<longleftrightarrow>
      (\<exists>texts obs. read_required_artifacts env dir = Inr (texts, Some obs, [])
         \<and> text_artifact_errors texts (ca_protocol args) ?corr = Inr []
         \<and> observation_errors env dir args obs = Inr [])" (is "?V \<longleftrightarrow> ?C")
  proof
    assume ?V
    then obtain texts o1 e1 e2 where r: "read_required_artifacts env dir = Inr (texts, o1, e1)"
      and t: "text_artifact_errors texts (ca_protocol args) ?corr = Inr e2"
      and rest: "(case o1 of None \<Rightarrow> Inr (sorted_unique (e1 @ e2))
         | Some obs \<Rightarrow> rbind (observation_errors env dir args obs) (\<lambda>e. Inr (sorted_unique (e1 @ e2 @ e))))
         = Inr []"
      unfolding validate_artifacts_checkable [OF True] by (auto simp: rbind_eq_Inr)
    show ?C
    proof (cases o1)
      case None
      then show ?thesis using rest read_artifacts_missing r by auto
    next
      case (Some obs)
      then show ?thesis using rest r t by (auto simp: rbind_eq_Inr)
    qed
  next
    assume ?C
    then show ?V unfolding validate_artifacts_checkable [OF True] by auto
  qed
  also have "\<dots> \<longleftrightarrow> evidence_accepted env dir args"
    unfolding evidence_accepted_def Let_def observation_errors_Nil read_artifacts_ok
    using True text_artifacts_Nil unfolding checkable_def by blast
  finally show ?thesis .
next
  case False
  then obtain e where "validate_protocol_artifacts env dir args = Inr [e]"
    using validate_artifacts_unchecked by blast
  moreover have "\<not> evidence_accepted env dir args"
    using False unfolding evidence_accepted_def checkable_def Let_def by blast
  ultimately show ?thesis by simp
qed

section \<open>Artifacts on a tree\<close>

text \<open>A regular file within the bound is read as the text or the object it was written from.\<close>

lemma reads_textI:
  assumes "os_wf (ck_os env)" "path \<noteq> []"
    and "resolve (ck_root env) path = Some (FReg True n (Some (utf8_encode s)))"
    and "n \<le> maximum" "length (utf8_encode s) \<le> maximum"
  shows "reads_text env path maximum s"
  using assms read_spec_success [of "ck_root env" path maximum "utf8_encode s"]
  by (auto simp: reads_text_def read_bounded_refines(1) utf8.dec_enc)

lemma reads_objectI:
  assumes "os_wf (ck_os env)" "path \<noteq> []"
    and "resolve (ck_root env) path = Some (FReg True n (Some (utf8_encode (json_document d @ NL))))"
    and "n \<le> MAX_JSON_BYTES" "length (utf8_encode (json_document d @ NL)) \<le> MAX_JSON_BYTES"
    and "json_plain (PDict d)"
  shows "reads_object env path (dict_val (canonical (PDict d)))"
  using reads_textI [OF assms(1-5)] json_line.dec_enc [OF assms(6)]
  by (auto simp: reads_object_def json_document_def)

lemma canonical_sorted:
  assumes "sorted (map fst d)" "list_all (\<lambda>kv. atom (snd kv)) d"
  shows "canonical (PDict d) = PDict d"
proof -
  have "canonical v = v" if "atom v" for v using that by (cases v) auto
  then have "map (\<lambda>kv. (fst kv, canonical (snd kv))) d = d"
    using assms(2) by (simp add: list_all_iff map_idI)
  then show ?thesis using assms(1) by (simp add: sort_key_id_if_sorted)
qed

lemma reads_object_unique: "reads_object env path d \<Longrightarrow> reads_object env path d' \<Longrightarrow> d' = d"
  by (auto simp: reads_object_def reads_text_def)

end
