(* ===== verification/CheckerExamples.thy ===== *)
theory CheckerExamples
  imports CheckerFacts FollowupFacts
begin

text \<open>
  Two artifact directories that the evidence checker accepts: ordinary evidence of an
  HTTP/1.1 request, and strict evidence of an HTTP/2 response that was reset, with its
  follow-up. The properties of the checker are instantiated on them.
\<close>

section \<open>Directories\<close>

definition sample_node :: "string \<Rightarrow> fsnode" where
  "sample_node s = FReg True 0 (Some (utf8_encode s))"

definition sample_checker :: "(string \<times> string) list \<Rightarrow> checker_env" where
  "sample_checker files =
     \<lparr>ck_root = FDir True [(''out'', FDir True (map (\<lambda>(n, s). (n, sample_node s)) files))],
      ck_os = \<lparr>next_fd = 3, open_fds = []\<rparr>, ck_is_symlink = (\<lambda>p. False), ck_is_dir = (\<lambda>p. True),
      ck_exists = (\<lambda>p. last p \<in> fst ` set files)\<rparr>"

lemma sample_resolve:
  "resolve (ck_root (sample_checker files)) [''out'', n] = map_option sample_node (map_of files n)"
  by (simp add: sample_checker_def map_of_map split: option.splits)

lemma sample_reads_text:
  assumes "map_of files n = Some s" "length s \<le> 1000"
  shows "reads_text (sample_checker files) [''out'', n] MAX_TEXT_BYTES s"
proof (rule reads_textI)
  show "resolve (ck_root (sample_checker files)) [''out'', n] = Some (FReg True 0 (Some (utf8_encode s)))"
    using assms(1) by (simp only: sample_resolve sample_node_def option.map)
  show "length (utf8_encode s) \<le> MAX_TEXT_BYTES"
    using length_utf8_encode [of s] assms(2) by (simp add: MAX_TEXT_BYTES_def)
qed (simp_all add: sample_checker_def os_wf_def)

lemma sample_reads_object:
  assumes "map_of files n = Some (json_document d @ NL)"
    and "list_all (\<lambda>kv. atom (snd kv)) d" "json_plain (PDict d)" "sorted (map fst d)"
    and "sum_list (map (\<lambda>kv. 6 * length (fst kv) + atom_size (snd kv) + 8) d) \<le> 60000"
  shows "reads_object (sample_checker files) [''out'', n] d"
proof -
  have "reads_object (sample_checker files) [''out'', n] (dict_val (canonical (PDict d)))"
  proof (rule reads_objectI)
    show "resolve (ck_root (sample_checker files)) [''out'', n]
        = Some (FReg True 0 (Some (utf8_encode (json_document d @ NL))))"
      using assms(1) by (simp only: sample_resolve sample_node_def option.map)
    show "length (utf8_encode (json_document d @ NL)) \<le> MAX_JSON_BYTES"
      using length_json_flat [OF assms(2)] assms(5) by (simp add: MAX_JSON_BYTES_def)
  qed (use assms(3) in \<open>simp_all add: sample_checker_def os_wf_def\<close>)
  then show ?thesis using canonical_sorted [OF assms(4,2)] by simp
qed

definition sample_version :: string where
  "sample_version = ''curl 8.5.0 (x86_64)'' @ NL"

definition sample_report :: "string \<Rightarrow> string \<Rightarrow> string \<Rightarrow> string" where
  "sample_report protocol required options =
     concat (map (\<lambda>(k, v). k @ ''='' @ v @ NL)
       [(''curl_executable'', ''curl''), (''curl_version'', ''8.5.0''), (''protocol'', protocol),
        (''features'', ''HTTP2''), (''required_features'', required), (''missing_features'', ''''),
        (''required_options'', options), (''missing_options'', ''''),
        (''preflight_status'', ''READY''), (''preflight_reason'', ''''), (''writeout_mode'', ''json'')])"

definition sample_command :: "string \<Rightarrow> string" where
  "sample_command flag = ''curl --fail-with-body '' @ flag @ '' --output /dev/null https://example.test/'' @ NL"

definition sample_args :: "string \<Rightarrow> bool \<Rightarrow> checker_args" where
  "sample_args protocol strict =
     \<lparr>ca_protocol = protocol, ca_strict = strict, ca_connector = None, ca_integration_mode = None,
      ca_run_id = None, ca_transaction_id = None, ca_rule_id = None, ca_phase = None,
      ca_expected_client_status = PInt 200, ca_expected_stream_id = PNone,
      ca_expected_upstream_protocol = None, ca_expected_transport_case_id = None\<rparr>"

lemma sample_version_ok: "version_ok sample_version"
  unfolding validate_version_Nil [symmetric] by code_simp

section \<open>Ordinary evidence\<close>

definition sample_observation :: dict where
  "sample_observation =
     [(''curl_exit_code'', PInt 0), (''downstream_protocol'', PStr ''http1''), (''fallback_used'', PBool False),
      (''http_status'', PInt 200), (''negotiated_protocol'', PStr ''http1''),
      (''requested_protocol'', PStr ''http1''), (''response_complete'', PBool True),
      (''schema_version'', PInt 1), (''status'', PStr ''PASS''), (''transport'', PStr ''tls_tcp''),
      (''transport_error'', PStr ''none'')]"

definition sample_files :: "(string \<times> string) list" where
  "sample_files =
     [(CLIENT_VERSION_ARTIFACT, sample_version),
      (CLIENT_FEATURES_ARTIFACT, sample_report ''http1'' '''' ''--http1.1,--output''),
      (CLIENT_COMMAND_ARTIFACT, sample_command ''--http1.1''),
      (PRIMARY_OBSERVATION_ARTIFACT, json_document sample_observation @ NL)]"

lemmas artifact_names =
  CLIENT_VERSION_ARTIFACT_def CLIENT_FEATURES_ARTIFACT_def CLIENT_COMMAND_ARTIFACT_def
  PRIMARY_OBSERVATION_ARTIFACT_def FOLLOWUP_ARTIFACT_def

lemma sample_texts:
  "features_ok (sample_report ''http1'' '''' ''--http1.1,--output'') ''http1'' False"
  "command_ok (sample_command ''--http1.1'') ''http1''"
  unfolding validate_features_Nil [symmetric] validate_command_Nil [symmetric] by code_simp+

lemma sample_object: "reads_object (sample_checker sample_files) [''out'', PRIMARY_OBSERVATION_ARTIFACT] sample_observation"
proof (rule sample_reads_object)
  show "list_all (\<lambda>kv. atom (snd kv)) sample_observation" by (simp add: sample_observation_def)
  show "sorted (map fst sample_observation)" by code_simp
  show "json_plain (PDict sample_observation)" by code_simp
  show "sum_list (map (\<lambda>kv. 6 * length (fst kv) + atom_size (snd kv) + 8) sample_observation) \<le> 60000"
    by (simp add: sample_observation_def int_str_def dec_str.simps)
qed (simp add: sample_files_def artifact_names)

lemma sample_present:
  "artifacts_present (sample_checker sample_files) [''out''] sample_version
     (sample_report ''http1'' '''' ''--http1.1,--output'') (sample_command ''--http1.1'') sample_observation"
proof -
  have "length sample_version \<le> 1000" "length (sample_report ''http1'' '''' ''--http1.1,--output'') \<le> 1000"
    "length (sample_command ''--http1.1'') \<le> 1000"
    by (simp_all add: sample_version_def sample_report_def sample_command_def NL_def)
  then show ?thesis
    unfolding artifacts_present_def
    using sample_object by (auto intro!: sample_reads_text simp: sample_files_def artifact_names)
qed

lemma sample_primary:
  "primary_ok sample_observation (sample_args ''http1'' False)"
  "expectations_met sample_observation (sample_args ''http1'' False)"
  "transfer_succeeded sample_observation True"
  unfolding primary_observation_Nil [symmetric] expected_provenance_Nil [symmetric]
    successful_transfer_Nil [symmetric] by code_simp+

lemma sample_accepted: "evidence_accepted (sample_checker sample_files) [''out''] (sample_args ''http1'' False)"
proof -
  have "normal_accepted (sample_checker sample_files) sample_observation [''out'', FOLLOWUP_ARTIFACT]"
    using sample_primary(3)
    by (simp add: normal_accepted_def sample_observation_def sample_checker_def sample_files_def artifact_names)
  moreover have "ca_protocol (sample_args ''http1'' False) = ''http1''" "\<not> ca_strict (sample_args ''http1'' False)"
    "ca_expected_transport_case_id (sample_args ''http1'' False) = None" "''http1'' \<in> set CANONICAL_PROTOCOLS"
    "\<not> ck_is_symlink (sample_checker sample_files) [''out'']" "ck_is_dir (sample_checker sample_files) [''out'']"
    by (simp_all add: sample_args_def sample_checker_def CANONICAL_PROTOCOLS_def)
  ultimately show ?thesis
    unfolding evidence_accepted_def Let_def
    using sample_present sample_version_ok sample_texts sample_primary by auto
qed

section \<open>Strict evidence\<close>

definition sample_hash :: string where
  "sample_hash = ''sha256:'' @ replicate 64 (CHR ''a'')"

definition sample_reset :: dict where
  "sample_reset =
     [(''alpn'', PStr ''h2''), (''client_first_body_byte_visible'', PBool True), (''curl_exit_code'', PInt 92),
      (''downstream_protocol'', PStr ''h2''), (''fallback_used'', PBool False), (''http_status'', PInt 200),
      (''negotiated_protocol'', PStr ''h2''), (''requested_protocol'', PStr ''h2''),
      (''response_committed'', PBool True), (''response_complete'', PBool False), (''schema_version'', PInt 1),
      (''status'', PStr ''FAIL''), (''stream_id'', PInt 1), (''stream_reset'', PBool True),
      (''stream_reset_code'', PInt 8), (''target_authority_sha256'', PStr sample_hash),
      (''transport'', PStr ''tls_tcp''), (''transport_case_id'', PStr ''c1''),
      (''transport_error'', PStr ''h2_failure'')]"

definition sample_followup :: "string \<Rightarrow> dict" where
  "sample_followup token =
     [(''curl_exit_code'', PInt 0), (''downstream_protocol'', PStr ''h2''), (''fallback_used'', PBool False),
      (''http_status'', PInt 200), (''negotiated_protocol'', PStr ''h2''), (''requested_protocol'', PStr ''h2''),
      (''schema_version'', PInt 1), (''status'', PStr ''PASS''), (''target_authority_sha256'', PStr sample_hash),
      (''transport'', PStr ''tls_tcp''), (''transport_case_id'', PStr token), (''transport_error'', PStr ''none'')]"

definition sample_strict_files :: "string \<Rightarrow> (string \<times> string) list" where
  "sample_strict_files token =
     [(CLIENT_VERSION_ARTIFACT, sample_version),
      (CLIENT_FEATURES_ARTIFACT, sample_report ''h2'' ''HTTP2'' ''--http2,--output''),
      (CLIENT_COMMAND_ARTIFACT, sample_command ''--http2''),
      (PRIMARY_OBSERVATION_ARTIFACT, json_document sample_reset @ NL),
      (FOLLOWUP_ARTIFACT, json_document (sample_followup token) @ NL)]"

lemma sample_strict_texts:
  "features_ok (sample_report ''h2'' ''HTTP2'' ''--http2,--output'') ''h2'' False"
  "command_ok (sample_command ''--http2'') ''h2''"
  unfolding validate_features_Nil [symmetric] validate_command_Nil [symmetric] by code_simp+

lemma sample_reset_object:
  "reads_object (sample_checker (sample_strict_files token)) [''out'', PRIMARY_OBSERVATION_ARTIFACT] sample_reset"
proof (rule sample_reads_object)
  show "list_all (\<lambda>kv. atom (snd kv)) sample_reset" by (simp add: sample_reset_def)
  show "sorted (map fst sample_reset)" by code_simp
  show "json_plain (PDict sample_reset)" by code_simp
  show "sum_list (map (\<lambda>kv. 6 * length (fst kv) + atom_size (snd kv) + 8) sample_reset) \<le> 60000"
    by (simp add: sample_reset_def sample_hash_def int_str_def dec_str.simps)
qed (simp add: sample_strict_files_def artifact_names)

lemma sample_followup_object:
  assumes "length token \<le> 128"
  shows "reads_object (sample_checker (sample_strict_files token)) [''out'', FOLLOWUP_ARTIFACT] (sample_followup token)"
proof (rule sample_reads_object)
  have keys: "map fst (sample_followup token) = map fst (sample_followup [])" by (simp add: sample_followup_def)
  have "sorted (map fst (sample_followup []))" by code_simp
  then show "sorted (map fst (sample_followup token))" by (simp add: keys)
  show "list_all (\<lambda>kv. atom (snd kv)) (sample_followup token)" by (simp add: sample_followup_def)
  show "json_plain (PDict (sample_followup token))"
    by (simp add: sample_followup_def int_str_def dec_str.simps)
  show "sum_list (map (\<lambda>kv. 6 * length (fst kv) + atom_size (snd kv) + 8) (sample_followup token)) \<le> 60000"
    using assms by (simp add: sample_followup_def sample_hash_def int_str_def dec_str.simps)
qed (simp add: sample_strict_files_def artifact_names)

lemma sample_strict_primary:
  "primary_ok sample_reset (sample_args ''h2'' True)" "expectations_met sample_reset (sample_args ''h2'' True)"
  "strict_primary sample_reset ''h2''" "strict_transport sample_reset ''h2''"
  unfolding primary_observation_Nil [symmetric] expected_provenance_Nil [symmetric]
    strict_primary_Nil [symmetric] strict_transport_Nil [symmetric] by code_simp+

lemma sample_followup_wf:
  assumes "fullmatch BOUNDED_TOKEN token"
  shows "followup_safe (sample_followup token)" and "observation_wf (sample_followup token)"
proof -
  have fixed: "payload_errors (PDict (sample_followup token)) ''followup'' = payload_errors (PDict (sample_followup [])) ''followup''"
    by (simp add: sample_followup_def payload_errors.simps)
  have "payload_free (PDict (sample_followup []))" unfolding payload_errors_Nil [of _ "''followup''", symmetric] by code_simp
  then have payload: "payload_free (PDict (sample_followup token))"
    using fixed payload_errors_Nil by metis
  have "fullmatch SAFE_REASON ''none''" by code_simp
  then show "followup_safe (sample_followup token)"
    using payload
    by (simp add: followup_safe_def sample_followup_def transfer_succeeded_def int_in_def keys_in_def
        ALLOWED_FOLLOWUP_FIELDS_def)
  have "\<not> has_invalid_sha256_token (PStr sample_hash)" by code_simp
  then show "observation_wf (sample_followup token)"
    using assms unfolding observation_wf_def observation_fields_ok_iff
    by (simp add: sample_followup_def one_of_def CANONICAL_PROTOCOLS_def CANONICAL_TRANSPORTS_def
        has_invalid_bounded_token_iff RAW_CONNECTION_ID_KEYS_def)
qed

lemma sample_strict_accepted:
  "\<exists>token. evidence_accepted (sample_checker (sample_strict_files token)) [''out''] (sample_args ''h2'' True)"
proof -
  have c1: "fullmatch BOUNDED_TOKEN ''c1''" by code_simp
  then obtain token where t: "derive_followup_transport_case_id (Some ''c1'') = Inr (Some token)"
    "fullmatch BOUNDED_TOKEN token" "token \<noteq> ''c1''" using followup_token by blast
  then have len: "length token \<le> 128" by (auto simp: fullmatch_BOUNDED_TOKEN)
  let ?env = "sample_checker (sample_strict_files token)"
  have "fullmatch SHA256_TOKEN sample_hash" by code_simp
  then have bound: "followup_bound (sample_followup token) ''h2'' sample_reset"
    using t c1 unfolding followup_bound_def
    by (simp add: sample_followup_def sample_reset_def int_in_def BOUND_FOLLOWUP_FIELDS_def)
  have strict: "strict_accepted ?env sample_reset ''h2'' [''out'', FOLLOWUP_ARTIFACT]"
    unfolding strict_accepted_def
    using sample_strict_primary sample_followup_object [OF len] sample_followup_wf [OF t(2)] bound by blast
  have "length sample_version \<le> 1000" "length (sample_report ''h2'' ''HTTP2'' ''--http2,--output'') \<le> 1000"
    "length (sample_command ''--http2'') \<le> 1000"
    by (simp_all add: sample_version_def sample_report_def sample_command_def NL_def)
  then have "artifacts_present ?env [''out''] sample_version (sample_report ''h2'' ''HTTP2'' ''--http2,--output'')
      (sample_command ''--http2'') sample_reset"
    unfolding artifacts_present_def
    using sample_reset_object by (auto intro!: sample_reads_text simp: sample_strict_files_def artifact_names)
  moreover have "ca_protocol (sample_args ''h2'' True) = ''h2''" "ca_strict (sample_args ''h2'' True)"
    "ca_expected_transport_case_id (sample_args ''h2'' True) = None" "''h2'' \<in> set CANONICAL_PROTOCOLS"
    "\<not> ck_is_symlink ?env [''out'']" "ck_is_dir ?env [''out'']" "''h2'' \<noteq> ''http1''"
    by (simp_all add: sample_args_def sample_checker_def CANONICAL_PROTOCOLS_def)
  ultimately have "evidence_accepted ?env [''out''] (sample_args ''h2'' True)"
    unfolding evidence_accepted_def Let_def
    using strict sample_version_ok sample_strict_texts sample_strict_primary by auto
  then show ?thesis ..
qed

lemma sample_missing:
  assumes "map_of files n = None"
  shows "read_text (sample_checker files) [''out'', n] maximum
    = Inr (None, [''unreadable artifact: '' @ n])"
proof -
  have "os_wf (ck_os (sample_checker files))" by (simp add: sample_checker_def os_wf_def)
  moreover have "read_spec (ck_root (sample_checker files)) [''out'', n] maximum = Inl (BoundedFileReadError ''unavailable'')"
    using assms
    by (simp add: read_spec_def sample_checker_def open_answer_def dir_entry_def map_of_map bounded_file_read_reason_def)
  ultimately show ?thesis by (simp add: read_text_def read_bounded_refines(1))
qed

end
