(* ===== verification/CheckerProperties.thy ===== *)
theory CheckerProperties
  imports CheckerExamples ClientProperties
begin

text \<open>
  The theorems about the evidence checker: what an accepted directory holds, what it can
  never hold, and how the checker reports.
\<close>

section \<open>Acceptance\<close>

text \<open>
  C3. The checker accepts a directory exactly when the directory and its artifacts satisfy
  the declarative condition \<open>evidence_accepted\<close>: a canonical protocol, four bounded regular
  artifacts, a well-formed version banner and feature report that show the profile READY, a
  command with one selector and no visible secret, a payload-free observation of the selected
  profile with the expected provenance, and, for ordinary evidence, a PASS with a succeeded
  transfer or, for strict evidence, a visibly reset response with its healthy follow-up.
\<close>

theorem checker_accepts_iff:
  "validate_protocol_artifacts env dir args = Inr [] \<longleftrightarrow> evidence_accepted env dir args"
  by (rule validate_artifacts_iff)

text \<open>
  C6. Strict evidence means what it claims: the client itself saw a committed response with a
  first body byte, an incomplete body and a reset of its stream with a code, over the selected
  protocol without a fallback, and an independent follow-up of the same authority with a
  different token passed. The same directory is never accepted as ordinary evidence.
\<close>

theorem strict_evidence_sound:
  assumes "validate_protocol_artifacts env dir args = Inr []" and "ca_strict args"
  shows "(\<exists>obs f t t'. reads_object env (dir @ [PRIMARY_OBSERVATION_ARTIFACT]) obs
      \<and> reads_object env (dir @ [FOLLOWUP_ARTIFACT]) f
      \<and> ca_protocol args \<in> {''h2'', ''h2c'', ''h3''}
      \<and> dget obs ''negotiated_protocol'' = PStr (ca_protocol args) \<and> dget obs ''fallback_used'' = PBool False
      \<and> dget obs ''response_committed'' = PBool True \<and> dget obs ''client_first_body_byte_visible'' = PBool True
      \<and> dget obs ''response_complete'' = PBool False \<and> dget obs ''stream_reset'' = PBool True
      \<and> dget obs ''stream_reset_code'' \<noteq> PNone
      \<and> dget f ''status'' = PStr ''PASS'' \<and> dget f ''negotiated_protocol'' = PStr (ca_protocol args)
      \<and> dget f ''target_authority_sha256'' = dget obs ''target_authority_sha256''
      \<and> dget obs ''transport_case_id'' = PStr t \<and> dget f ''transport_case_id'' = PStr t' \<and> t' \<noteq> t)
    \<and> (\<forall>args'. validate_protocol_artifacts env dir args' = Inr [] \<longrightarrow> ca_strict args')"
proof (intro conjI allI impI)
  from assms obtain obs where o1: "reads_object env (dir @ [PRIMARY_OBSERVATION_ARTIFACT]) obs"
    and p: "ca_protocol args \<in> set CANONICAL_PROTOCOLS" "ca_protocol args \<noteq> ''http1''"
    and s: "strict_accepted env obs (ca_protocol args) (dir @ [FOLLOWUP_ARTIFACT])"
    unfolding validate_artifacts_iff evidence_accepted_def artifacts_present_def Let_def by auto
  then have fail: "dget obs ''status'' = PStr ''FAIL''" by (simp add: strict_accepted_def strict_primary_def)
  from o1 p s show "\<exists>obs f t t'. reads_object env (dir @ [PRIMARY_OBSERVATION_ARTIFACT]) obs
      \<and> reads_object env (dir @ [FOLLOWUP_ARTIFACT]) f
      \<and> ca_protocol args \<in> {''h2'', ''h2c'', ''h3''}
      \<and> dget obs ''negotiated_protocol'' = PStr (ca_protocol args) \<and> dget obs ''fallback_used'' = PBool False
      \<and> dget obs ''response_committed'' = PBool True \<and> dget obs ''client_first_body_byte_visible'' = PBool True
      \<and> dget obs ''response_complete'' = PBool False \<and> dget obs ''stream_reset'' = PBool True
      \<and> dget obs ''stream_reset_code'' \<noteq> PNone
      \<and> dget f ''status'' = PStr ''PASS'' \<and> dget f ''negotiated_protocol'' = PStr (ca_protocol args)
      \<and> dget f ''target_authority_sha256'' = dget obs ''target_authority_sha256''
      \<and> dget obs ''transport_case_id'' = PStr t \<and> dget f ''transport_case_id'' = PStr t' \<and> t' \<noteq> t"
    unfolding strict_accepted_def strict_primary_def followup_bound_def CANONICAL_PROTOCOLS_def by fastforce
  fix args' assume acc: "validate_protocol_artifacts env dir args' = Inr []"
  show "ca_strict args'"
  proof (rule ccontr)
    assume "\<not> ca_strict args'"
    then obtain obs' where o2: "reads_object env (dir @ [PRIMARY_OBSERVATION_ARTIFACT]) obs'"
      and "dget obs' ''status'' = PStr ''PASS''"
      using acc unfolding validate_artifacts_iff evidence_accepted_def artifacts_present_def Let_def
        normal_accepted_def by auto
    with fail show False using reads_object_unique [OF o1 o2] by simp
  qed
qed

theorem strict_evidence_sound_witness:
  "\<exists>token obs. reads_object (sample_checker (sample_strict_files token)) ([''out''] @ [PRIMARY_OBSERVATION_ARTIFACT]) obs
     \<and> dget obs ''stream_reset'' = PBool True
     \<and> validate_protocol_artifacts (sample_checker (sample_strict_files token)) [''out''] (sample_args ''h2'' False) \<noteq> Inr []"
proof -
  obtain token where a: "validate_protocol_artifacts (sample_checker (sample_strict_files token)) [''out'']
      (sample_args ''h2'' True) = Inr []"
    using sample_strict_accepted unfolding validate_artifacts_iff by blast
  have "ca_strict (sample_args ''h2'' True)" "\<not> ca_strict (sample_args ''h2'' False)" by (simp_all add: sample_args_def)
  then show ?thesis using strict_evidence_sound [OF a] by blast
qed

section \<open>Payload\<close>

text \<open>
  C16. A directory whose observation, or whose follow-up when it exists, has a payload field or
  a raw connection identifier at any depth is never accepted, in neither mode.
\<close>

theorem payload_never_accepted:
  assumes "reads_object env (dir @ [name]) d" and "occurs_key (PDict d) k"
    and "payload_key k \<in> set FORBIDDEN_PAYLOAD_KEYS"
    and "name = PRIMARY_OBSERVATION_ARTIFACT \<or> name = FOLLOWUP_ARTIFACT \<and> ck_exists env (dir @ [name])"
  shows "validate_protocol_artifacts env dir args \<noteq> Inr []"
proof
  assume "validate_protocol_artifacts env dir args = Inr []"
  then obtain obs where o1: "reads_object env (dir @ [PRIMARY_OBSERVATION_ARTIFACT]) obs" "payload_free (PDict obs)"
    and f: "if ca_strict args then strict_accepted env obs (ca_protocol args) (dir @ [FOLLOWUP_ARTIFACT])
       else normal_accepted env obs (dir @ [FOLLOWUP_ARTIFACT])"
    unfolding validate_artifacts_iff evidence_accepted_def artifacts_present_def primary_ok_def Let_def by auto
  from f have "ck_exists env (dir @ [FOLLOWUP_ARTIFACT]) \<Longrightarrow>
      \<exists>g. reads_object env (dir @ [FOLLOWUP_ARTIFACT]) g \<and> payload_free (PDict g)"
    by (auto simp: strict_accepted_def normal_accepted_def followup_safe_def split: if_splits)
  then obtain g where "reads_object env (dir @ [name]) g" "payload_free (PDict g)"
    using o1 assms(4) by blast
  then have "payload_free (PDict d)" using reads_object_unique assms(1) by blast
  then show False using assms(2,3) by (auto simp: payload_free_def)
qed

text \<open>A directory whose observation hides a payload field two levels down.\<close>

definition sample_leak :: dict where
  "sample_leak = [(''status'', PList [PDict [('' Response-Body'', PStr ''x'')]])]"

theorem payload_never_accepted_witness:
  "validate_protocol_artifacts (sample_checker [(PRIMARY_OBSERVATION_ARTIFACT, json_document sample_leak @ NL)])
     [''out''] (sample_args ''http1'' False) \<noteq> Inr []"
proof -
  let ?env = "sample_checker [(PRIMARY_OBSERVATION_ARTIFACT, json_document sample_leak @ NL)]"
  have len: "length (utf8_encode (json_document sample_leak @ NL)) < 1000" by code_simp
  have "reads_object ?env [''out'', PRIMARY_OBSERVATION_ARTIFACT] (dict_val (canonical (PDict sample_leak)))"
  proof (rule reads_objectI)
    show "resolve (ck_root ?env) [''out'', PRIMARY_OBSERVATION_ARTIFACT]
        = Some (FReg True 0 (Some (utf8_encode (json_document sample_leak @ NL))))"
      by (simp only: sample_resolve) (simp add: sample_node_def)
    show "length (utf8_encode (json_document sample_leak @ NL)) \<le> MAX_JSON_BYTES"
      using len by (simp add: MAX_JSON_BYTES_def)
  qed (simp_all add: sample_checker_def os_wf_def sample_leak_def)
  moreover have "canonical (PDict sample_leak) = PDict sample_leak" by code_simp
  ultimately have r: "reads_object ?env ([''out''] @ [PRIMARY_OBSERVATION_ARTIFACT]) sample_leak" by simp
  have "payload_key '' Response-Body'' \<in> set FORBIDDEN_PAYLOAD_KEYS" by code_simp
  moreover have "occurs_key (PDict sample_leak) '' Response-Body''"
    by (simp add: sample_leak_def occurs_key_dict occurs_key_list)
  ultimately show ?thesis using payload_never_accepted [OF r] by blast
qed

section \<open>Reports\<close>

lemma report_canonical:
  assumes "validate_protocol_artifacts env dir args = Inr errors"
  shows "sorted errors \<and> distinct errors"
proof (cases "checkable env dir args")
  case True
  then obtain e where "errors = sorted_unique e"
    using assms unfolding validate_artifacts_checkable [OF True]
    by (auto simp: rbind_eq_Inr split: option.splits)
  then show ?thesis by (simp add: sorted_sorted_unique distinct_sorted_unique)
next
  case False
  then show ?thesis using validate_artifacts_unchecked assms by fastforce
qed



text \<open>
  C30. The command exits with 0 exactly for an accepted directory, and then the pass line with
  that directory is all it prints. Otherwise it exits with 1, prints nothing on the output
  stream, and on the error stream one prefixed line for each message of the check, in their
  sorted order.
\<close>

theorem checker_exit_status:
  assumes "checker_main env dir shown args = Inr (code, out, err)"
  shows "(evidence_accepted env dir args \<and> code = 0
      \<and> out = [''protocol-evidence: pass artifact_dir='' @ shown] \<and> err = [])
    \<or> (\<not> evidence_accepted env dir args \<and> code = 1 \<and> out = []
      \<and> (\<exists>errors. validate_protocol_artifacts env dir args = Inr errors \<and> errors \<noteq> []
          \<and> sorted errors \<and> distinct errors \<and> err = map (\<lambda>e. ''protocol-evidence: '' @ e) errors))"
proof -
  obtain errors where e: "validate_protocol_artifacts env dir args = Inr errors"
    and c: "(code, out, err) = (if errors \<noteq> [] then (1, [], map (\<lambda>e. ''protocol-evidence: '' @ e) errors)
      else (0, [''protocol-evidence: pass artifact_dir='' @ shown], []))"
    using assms by (auto simp: checker_main_def rbind_eq_Inr)
  have "evidence_accepted env dir args \<longleftrightarrow> errors = []"
    using validate_artifacts_iff [of env dir args] e by auto
  moreover have "sorted errors \<and> distinct errors" using e by (rule report_canonical)
  ultimately show ?thesis using c e by (cases "errors = []") simp_all
qed

theorem checker_exit_status_witness:
  "checker_main (sample_checker sample_files) [''out''] ''/out'' (sample_args ''http1'' False)
     = Inr (0, [''protocol-evidence: pass artifact_dir=/out''], [])
   \<and> evidence_accepted (sample_checker sample_files) [''out''] (sample_args ''http1'' False)"
proof -
  have "validate_protocol_artifacts (sample_checker sample_files) [''out''] (sample_args ''http1'' False) = Inr []"
    using sample_accepted by (simp add: validate_artifacts_iff)
  then have m: "checker_main (sample_checker sample_files) [''out''] ''/out'' (sample_args ''http1'' False)
      = Inr (0, [''protocol-evidence: pass artifact_dir=/out''], [])"
    by (simp add: checker_main_def)
  with checker_exit_status [OF m] show ?thesis by simp
qed

section \<open>Errors that escape\<close>

text \<open>
  C31. The checker handles only the syntax error of the JSON reader: an observation artifact
  that is a decimal integer of more than 4300 digits makes it raise \<open>ValueError\<close> instead of
  reporting an artifact that is not a JSON object.
\<close>

theorem checker_huge_integer:
  assumes "checkable env dir args"
    and "\<forall>n\<in>{CLIENT_VERSION_ARTIFACT, CLIENT_FEATURES_ARTIFACT, CLIENT_COMMAND_ARTIFACT}.
      \<exists>r. read_text env (dir @ [n]) MAX_TEXT_BYTES = Inr r"
    and "reads_text env (dir @ [PRIMARY_OBSERVATION_ARTIFACT]) MAX_JSON_BYTES s"
    and "list_all is_digit s" "hd s \<noteq> CHR ''0''" "4300 < length s"
  shows "checker_main env dir shown args = Inl ValueError"
proof -
  obtain c cs where "s = c # cs" using assms(6) by (cases s) auto
  then have "json_loads s = Inl ValueError" using json_loads_huge [of c cs] assms(4-6) by simp
  then have "read_json env (dir @ [PRIMARY_OBSERVATION_ARTIFACT]) = Inl ValueError"
    using assms(3) read_text_ok by (force simp: read_json_def)
  then have "read_required_artifacts env dir = Inl ValueError"
    using assms(2) by (auto simp: read_required_artifacts_def)
  then show ?thesis by (simp add: checker_main_def validate_artifacts_checkable [OF assms(1)])
qed

theorem checker_huge_integer_witness:
  "checker_main (sample_checker [(PRIMARY_OBSERVATION_ARTIFACT, replicate 4301 (CHR ''1''))]) [''out''] ''/out''
     (sample_args ''http1'' False) = Inl ValueError"
proof (rule checker_huge_integer)
  let ?s = "replicate 4301 (CHR ''1'')"
  let ?env = "sample_checker [(PRIMARY_OBSERVATION_ARTIFACT, ?s)]"
  show "checkable ?env [''out''] (sample_args ''http1'' False)"
    by (simp add: checkable_def sample_args_def sample_checker_def CANONICAL_PROTOCOLS_def)
  show "\<forall>n\<in>{CLIENT_VERSION_ARTIFACT, CLIENT_FEATURES_ARTIFACT, CLIENT_COMMAND_ARTIFACT}.
      \<exists>r. read_text ?env ([''out''] @ [n]) MAX_TEXT_BYTES = Inr r"
    using sample_missing [of "[(PRIMARY_OBSERVATION_ARTIFACT, ?s)]"] by (simp add: artifact_names)
  show "reads_text ?env ([''out''] @ [PRIMARY_OBSERVATION_ARTIFACT]) MAX_JSON_BYTES ?s"
  proof (rule reads_textI)
    show "resolve (ck_root ?env) ([''out''] @ [PRIMARY_OBSERVATION_ARTIFACT]) = Some (FReg True 0 (Some (utf8_encode ?s)))"
      using sample_resolve [of "[(PRIMARY_OBSERVATION_ARTIFACT, ?s)]" PRIMARY_OBSERVATION_ARTIFACT]
      by (simp add: sample_node_def)
    show "length (utf8_encode ?s) \<le> MAX_JSON_BYTES"
      using length_utf8_encode [of ?s] by (simp add: MAX_JSON_BYTES_def)
  qed (simp_all add: sample_checker_def os_wf_def)
  show "list_all is_digit ?s" by (simp add: list_all_iff is_digit_def)
qed simp_all

end
