(* ===== verification/ClientChecker.thy ===== *)
theory ClientChecker
  imports CheckerFacts ClientFacts
begin

text \<open>
  The client as the producer of what the checker consumes: the observation of a run with
  status PASS meets every condition the checker has on a primary observation.
\<close>

section \<open>Flat observations\<close>

text \<open>No member of an observation is itself a dictionary or a list.\<close>

definition flat :: "dict \<Rightarrow> bool" where
  "flat d \<longleftrightarrow> (\<forall>(k, v)\<in>set d. \<not> is_dict v \<and> \<not> is_list v)"

lemma flat_Nil [simp]: "flat []"
  by (simp add: flat_def)

lemma flat_Cons [simp]: "flat ((k, v) # d) \<longleftrightarrow> \<not> is_dict v \<and> \<not> is_list v \<and> flat d"
  by (simp add: flat_def)

lemma flat_set [simp, intro]: "flat d \<Longrightarrow> \<not> is_dict v \<Longrightarrow> \<not> is_list v \<Longrightarrow> flat (dict_set d k v)"
  by (induction d k v rule: dict_set.induct) auto

lemma flat_update [simp, intro]: "flat d \<Longrightarrow> flat e \<Longrightarrow> flat (dict_update d e)"
  by (induction d e rule: dict_update.induct) auto

lemma flat_pop [simp, intro]: "flat d \<Longrightarrow> flat (dict_pop d k)"
  by (auto simp: flat_def dict_pop_def)

lemma flat_get: "flat d \<Longrightarrow> \<not> is_dict (dget d k) \<and> \<not> is_list (dget d k)"
  by (auto simp: flat_def dget_def split: option.splits dest!: map_of_SomeD)

lemma flat_payload_free:
  assumes "flat d" "keys_in S d" "list_all (\<lambda>k. payload_key k \<notin> set FORBIDDEN_PAYLOAD_KEYS) S"
  shows "payload_free (PDict d)"
  unfolding payload_free_dict
proof (clarify, intro conjI)
  fix k v assume kv: "(k, v) \<in> set d"
  with assms(2) have "k \<in> set S" by (force simp: keys_in_def)
  with assms(3) show "payload_key k \<notin> set FORBIDDEN_PAYLOAD_KEYS" by (simp add: list_all_iff)
  show "payload_free v" using kv assms(1) by (auto simp: flat_def payload_free_def occurs_atom)
qed

section \<open>Where the fields come from\<close>

lemma flat_provenance_texts: "provenance_texts fs acc = Inr d \<Longrightarrow> flat acc \<Longrightarrow> flat d"
proof (induction fs arbitrary: acc)
  case (Cons f fs)
  obtain name v where f: "f = (name, v)" by (cases f)
  with Cons.prems(1) obtain tx where
    "provenance_texts fs (case tx of None \<Rightarrow> acc | Some t \<Rightarrow> dict_set acc name (PStr t)) = Inr d"
    by (auto simp: rbind_eq_Inr)
  then show ?case using Cons.IH Cons.prems by (cases tx) auto
qed simp

lemma flat_sidecar: "sidecar_ok d \<Longrightarrow> flat d"
proof -
  have "\<not> is_dict v \<and> \<not> is_list v" if "sidecar_field_ok k v" for k v
    using that
    by (cases v) (auto simp: sidecar_field_ok_def has_invalid_stream_id_def has_invalid_bounded_token_def
        not_plain_int_def split: if_splits)
  then show "sidecar_ok d \<Longrightarrow> flat d" by (auto simp: sidecar_ok_def flat_def)
qed

lemma flat_copy_present: "flat sidecar \<Longrightarrow> flat acc \<Longrightarrow> flat (copy_present names sidecar acc)"
  by (induction names sidecar acc rule: copy_present.induct) (auto simp: flat_get)

lemma flat_provenance:
  assumes "provenance config sidecar = Inr prov" "flat sidecar"
  shows "flat prov"
proof -
  from assms(1) obtain f1 f2 f3 f4 where
    p1: "provenance_texts (provenance_text_fields config) [] = Inr f1"
    and p2: "provenance_case_id config f1 = Inr f2"
    and p3: "provenance_upstream config (provenance_authority config f2) = Inr f3"
    and p4: "provenance_stream config sidecar f3 = Inr f4"
    and d: "prov = copy_present PROVENANCE_SIDECAR_FIELDS sidecar f4"
    by (auto simp: provenance_def rbind_eq_Inr)
  have "flat f1" using flat_provenance_texts [OF p1] by simp
  then have "flat f2" using p2 by (auto simp: provenance_case_id_def split: option.splits if_splits)
  then have "flat f3"
    using p3 by (auto simp: provenance_upstream_def provenance_authority_def rbind_eq_Inr split: option.splits)
  then have "flat f4"
    using p4 flat_get [OF assms(2)] by (auto simp: provenance_stream_def Let_def split: if_splits option.splits)
  then show ?thesis unfolding d by (rule flat_copy_present [OF assms(2)])
qed

lemma flat_initial_observation:
  assumes "initial_observation p (Some sch) config sidecar = Inr obs" "flat sidecar"
  shows "flat obs"
proof -
  obtain prov where prov: "provenance config sidecar = Inr prov"
    and obs: "obs = with_quic p config sidecar (dict_update (dict_set (base_observation p)
        ''expected_transport'' (PStr (expected_transport p sch))) prov)"
    using assms(1) by (rule initial_observation_split)
  show ?thesis
    using flat_provenance [OF prov assms(2)]
    by (auto simp: obs with_quic_def base_observation_def)
qed

lemma coerce_status_flat:
  "coerce_status v = Inr s \<Longrightarrow> s = PNone \<or> int_in 100 999 s"
  using coerce_status_range by (fastforce simp: int_in_def)

lemma parse_writeout_flat:
  assumes "parse_writeout out mode = Inr outcome"
  shows "flat outcome" and "dget outcome ''http_status'' = PNone \<or> int_in 100 999 (dget outcome ''http_status'')"
proof -
  have "\<not> is_dict (parse_number v) \<and> \<not> is_list (parse_number v)" for v
    by (cases v) (auto simp: parse_number_def Let_def split: option.splits if_splits)
  moreover have "\<not> is_dict s \<and> \<not> is_list s" if "coerce_status v = Inr s" for v s
    using coerce_status_flat [OF that] by (auto simp: int_in_def)
  ultimately show "flat outcome"
    using assms by (auto simp: parse_writeout_def outcome_fields_def rbind_eq_Inr Let_def
        split: if_splits sum.splits exn.splits pyval.splits)
  show "dget outcome ''http_status'' = PNone \<or> int_in 100 999 (dget outcome ''http_status'')"
    using parse_writeout_ok [OF assms] by (auto simp: outcome_ok_def int_in_def)
qed

lemma flat_apply_outcome:
  assumes "flat obs" "flat out"
  shows "flat (apply_outcome obs out rc err p sch config sidecar)"
proof -
  have "\<not> is_dict (negotiated_protocol v p sch) \<and> \<not> is_list (negotiated_protocol v p sch)" for v
    by (auto simp: negotiated_protocol_def Let_def)
  moreover have "\<not> is_dict (derive_transport n p sch sidecar q) \<and> \<not> is_list (derive_transport n p sch sidecar q)" for n q
    by (auto simp: derive_transport_def)
  ultimately show ?thesis
    using assms flat_get [OF assms(2)] by (simp add: apply_outcome_def Let_def)
qed

section \<open>The observation of a PASS\<close>

text \<open>What the observation is made of, with everything the checker asks about.\<close>

lemma executed_pass_applied:
  assumes run: "executed_run env config d r d' p sch sidecar obs"
    and pass: "dget (rr_observation r) ''status'' = PStr ''PASS''"
  obtains o1 rc outcome err where "initial_observation p (Some sch) config sidecar = Inr o1"
    and "outcome_ok outcome" "flat outcome"
    and "observation_wf (apply_outcome o1 outcome rc err p sch config sidecar)"
    and "rc \<in> {0, 22}"
    and "rr_observation r = dict_pop (dict_set (apply_outcome o1 outcome rc err p sch config sidecar)
        ''status'' (PStr ''PASS'')) ''expected_transport''"
proof -
  have exec: "execute_primary_observation env config (rr_command r) (rr_preflight r) p (Some sch) sidecar = Inr obs"
    and ro: "rr_observation r = dict_pop obs ''expected_transport''"
    using run by (auto simp: executed_run_def)
  have sch: "sch \<noteq> []" using executed_run_scheme [OF run] by simp
  have st: "dget obs ''status'' = PStr ''PASS''" using pass ro by simp
  from exec sch show thesis
  proof (cases rule: execute_primary_cases)
    case (no_answer o1 st' reason upd)
    then have "''status'' \<notin> fst ` set upd" by auto
    then have "dget obs ''status'' = PStr st'" by (simp add: no_answer(3) dget_update_other)
    with st no_answer(2) show thesis by auto
  next
    case (answer o1 rc out err outcome)
    let ?A = "apply_outcome o1 outcome rc err p sch config sidecar"
    have "observation_wf ?A" "in_int_set (PInt rc) [0, 22] = Inr True"
      using finalize_status_pass [OF answer(4)] st by auto
    moreover have "obs = dict_set ?A ''status'' (PStr ''PASS'')"
      using answer(4) st unfolding finalize_status_def
      by (auto simp: rbind_eq_Inr split: if_splits)
    ultimately show thesis
      using that [OF answer(1) parse_writeout_ok [OF answer(3)] parse_writeout_flat(1) [OF answer(3)]] ro
      by (auto simp: in_int_set_def)
  qed
qed

lemma observation_wf_status:
  assumes "observation_wf a"
  shows "observation_wf (dict_pop (dict_set a ''status'' v) ''expected_transport'')"
proof -
  have "observation_field_ok ''status'' w" for w
    by (simp add: observation_field_ok_def RAW_CONNECTION_ID_KEYS_def)
  then show ?thesis using assms by (auto simp: observation_wf_def)
qed

lemma observation_vocabulary:
  "list_all (\<lambda>k. payload_key k \<notin> set FORBIDDEN_PAYLOAD_KEYS) OBSERVATION_FIELDS"
  "set OBSERVATION_FIELDS \<subseteq> set ALLOWED_OBSERVATION_FIELDS"
  by code_simp+

lemma executed_pass_primary_ok:
  assumes run: "executed_run env config d r d' p sch sidecar obs"
    and pass: "dget (rr_observation r) ''status'' = PStr ''PASS''"
    and args: "ca_protocol args = p" "provenance_matches (rr_observation r) args"
  shows "primary_ok (rr_observation r) args"
proof -
  obtain o1 rc outcome err where o1: "initial_observation p (Some sch) config sidecar = Inr o1"
    and out: "outcome_ok outcome" "flat outcome"
    and wf: "observation_wf (apply_outcome o1 outcome rc err p sch config sidecar)"
    and ro: "rr_observation r = dict_pop (dict_set (apply_outcome o1 outcome rc err p sch config sidecar)
        ''status'' (PStr ''PASS'')) ''expected_transport''"
    using executed_pass_applied [OF run pass] by metis
  let ?A = "apply_outcome o1 outcome rc err p sch config sidecar"
  have "sidecar_ok sidecar" using run load_config_sidecar_ok by (auto simp: executed_run_def)
  then have "flat (rr_observation r)"
    unfolding ro using flat_initial_observation [OF o1] flat_apply_outcome out(2) flat_sidecar by auto
  moreover have keys: "keys_in OBSERVATION_FIELDS (rr_observation r)"
  proof -
    have "set OUTCOME_FIELDS \<subseteq> set (''expected_transport'' # OBSERVATION_FIELDS)"
      "''status'' \<in> set (''expected_transport'' # OBSERVATION_FIELDS)"
      by (auto simp: OUTCOME_FIELDS_def OBSERVATION_FIELDS_def BASE_FIELDS_def)
    then have "keys_in (''expected_transport'' # OBSERVATION_FIELDS) (dict_set ?A ''status'' (PStr ''PASS''))"
      by (intro keys_in_set apply_outcome_keys initial_observation_keys [OF o1])
    then show ?thesis unfolding ro by (auto simp: keys_in_has_key)
  qed
  ultimately have "payload_free (PDict (rr_observation r))"
    using flat_payload_free observation_vocabulary(1) by blast
  moreover have "dget (rr_observation r) ''schema_version'' = PInt 1"
    "dget (rr_observation r) ''downstream_protocol'' = PStr p"
    using initial_observation_get [OF o1, of "''schema_version''"] initial_observation_get [OF o1, of "''downstream_protocol''"]
    by (simp_all add: ro apply_outcome_other OUTCOME_FIELDS_def BASE_FIELDS_def base_observation_def)
  moreover have "pass_evidence (rr_observation r)"
    using executed_pass [OF run pass] by (simp add: pass_evidence_def ro expected_transport_def)
  moreover have "keys_in ALLOWED_OBSERVATION_FIELDS (rr_observation r)"
    using keys_in_mono [OF keys observation_vocabulary(2)] .
  ultimately show ?thesis
    unfolding primary_ok_def
    using args executed_pass(2,5) [OF run pass] observation_wf_status [OF wf, of "PStr ''PASS''", folded ro] by simp
qed

lemma executed_pass_transfer:
  assumes run: "executed_run env config d r d' p sch sidecar obs"
    and pass: "dget (rr_observation r) ''status'' = PStr ''PASS''"
    and status: "dget (rr_observation r) ''http_status'' \<noteq> PNone"
    and error: "dget (rr_observation r) ''curl_exit_code'' = PInt 22 \<Longrightarrow>
      int_in 400 999 (dget (rr_observation r) ''http_status'')"
  shows "transfer_succeeded (rr_observation r) True"
proof -
  obtain o1 rc outcome err where out: "outcome_ok outcome" and rc: "rc \<in> {0, 22}"
    and ro: "rr_observation r = dict_pop (dict_set (apply_outcome o1 outcome rc err p sch config sidecar)
        ''status'' (PStr ''PASS'')) ''expected_transport''"
    using executed_pass_applied [OF run pass] by metis
  have s: "dget (rr_observation r) ''http_status'' = dget outcome ''http_status''"
    and c: "dget (rr_observation r) ''curl_exit_code'' = PInt rc"
    and t: "dget (rr_observation r) ''transport_error''
      = PStr (classify_transport_error rc err p (dget outcome ''http_status''))"
    by (simp_all add: ro)
  have "int_in 100 999 (dget outcome ''http_status'')"
    using out status s by (auto simp: outcome_ok_def int_in_def)
  then show ?thesis
    using rc error status unfolding transfer_succeeded_def s c t
    by (auto simp: classify_transport_error_def returncode_transport_error_def)
qed

end
