(* ===== verification/HardeningRecords.thy ===== *)
theory HardeningRecords
  imports PyJson PyRegex
begin

text \<open>
  The checks of one transport-hardening case
  (\<^verbatim>\<open>src/ci/checks/evidence/check_transport_hardening_evidence.py\<close>): the identity of a
  promoted case result, and its agreement with the event, the transport observation and
  the lifecycle record that it is bound to. Every input is a dictionary out of a JSON
  file, so a comparison or a membership test follows Python's rules for whatever value
  the file holds.
\<close>

section \<open>Values\<close>

text \<open>\<open>v or w\<close>, and \<open>d.get(k, v)\<close>.\<close>

definition py_or :: "pyval \<Rightarrow> pyval \<Rightarrow> pyval" where
  "py_or v w = (if truthy v then v else w)"

definition dget_default :: "dict \<Rightarrow> string \<Rightarrow> pyval \<Rightarrow> pyval" where
  "dget_default d k v = (if has_key d k then dget d k else v)"

text \<open>The values a \<open>for\<close> loop takes from a value; \<open>TypeError\<close> if it is not iterable.\<close>

definition iter_values :: "pyval \<Rightarrow> pyval list res" where
  "iter_values v =
     (case v of
        PList xs \<Rightarrow> Inr xs
      | PStr s \<Rightarrow> Inr (map (\<lambda>c. PStr [c]) s)
      | PDict d \<Rightarrow> Inr (map (\<lambda>kv. PStr (fst kv)) d)
      | _ \<Rightarrow> Inl TypeError)"

text \<open>\<open>v < i\<close> for an integer: \<open>TypeError\<close> for what is not a number.\<close>

definition less_than :: "pyval \<Rightarrow> int \<Rightarrow> bool res" where
  "less_than v i =
     (case num_val v of None \<Rightarrow> Inl TypeError | Some x \<Rightarrow> Inr (float_lt x (exact_int i)))"

text \<open>
  \<open>str.isdigit\<close> holds for the superscripts 178, 179 and 185 too, which \<open>int\<close> rejects.
\<close>

definition is_digit_char :: "char \<Rightarrow> bool" where
  "is_digit_char c \<longleftrightarrow> is_digit c \<or> c \<in> {CHR 0xB2, CHR 0xB3, CHR 0xB9}"

definition isdigit :: "string \<Rightarrow> bool" where
  "isdigit s \<longleftrightarrow> s \<noteq> [] \<and> list_all is_digit_char s"

definition rule_key :: "pyval \<Rightarrow> string option res" where
  "rule_key v =
     (case v of
        PInt i \<Rightarrow> Inr (Some (int_str i))
      | PStr s \<Rightarrow>
          if isdigit s
          then (if list_all is_digit s \<and> length s \<le> 4300 then Inr (Some (int_str (digits_val s)))
                else Inl ValueError)
          else Inr None
      | _ \<Rightarrow> Inr None)"

definition nonempty_token :: "pyval \<Rightarrow> bool" where
  "nonempty_token v \<longleftrightarrow> is_str v \<and> strip (str_val v) \<noteq> []"

definition is_hashed_connection_id :: "pyval \<Rightarrow> bool" where
  "is_hashed_connection_id v \<longleftrightarrow>
     is_str v \<and> fullmatch (RSeq (RLit ''sha256:'') (RRep 16 48 (RCls is_hex_lower))) (str_val v)"

definition case_id_of :: "dict \<Rightarrow> string" where
  "case_id_of r = str_or_empty (dget r ''case_id'')"

text \<open>The messages of a loop over field names that compares two dictionaries.\<close>

definition differing :: "string list \<Rightarrow> dict \<Rightarrow> dict \<Rightarrow> (string \<Rightarrow> string) \<Rightarrow> string list" where
  "differing fs a b message =
     concat (map (\<lambda>f. err_if (\<not> py_eq (dget a f) (dget b f)) (message f)) fs)"

definition RUN_FIELDS :: "string list" where
  "RUN_FIELDS = [''connector'', ''integration_mode'', ''run_id'']"

section \<open>Selection\<close>

definition is_transport_case :: "dict \<Rightarrow> dict option \<Rightarrow> bool" where
  "is_transport_case r c =
     (let source = (case c of Some d \<Rightarrow> if d \<noteq> [] then d else r | None \<Rightarrow> r)
      in (case c of Some d \<Rightarrow> d \<noteq> [] \<and> dget d ''transport_hardening'' = PBool True | None \<Rightarrow> False)
         \<or> startswith (str_or_empty (dget source ''group'')) ''full-lifecycle-transport'')"

definition transport_passes :: "dict list \<Rightarrow> (string \<times> dict) list \<Rightarrow> dict list" where
  "transport_passes records catalog =
     filter (\<lambda>r. dget r ''status'' = PStr ''PASS'' \<and> dget r ''live_executed'' = PBool True
                 \<and> is_transport_case r (map_of catalog (case_id_of r))) records"

definition strict_case :: "dict \<Rightarrow> bool" where
  "strict_case r \<longleftrightarrow>
     str_or_empty (dget r ''expected_result'') = ''connection_aborted_strict''
     \<or> startswith (case_id_of r) ''phase4_strict_''"

section \<open>The case result\<close>

definition transport_record_identity_errors :: "dict \<Rightarrow> string list" where
  "transport_record_identity_errors r =
     (let transport_case_id = dget r ''transport_case_id'';
          transaction_ids = dget r ''transaction_ids'';
          ids = list_val transaction_ids
      in (if \<not> nonempty_token transport_case_id
          then [''transport PASS requires a non-empty transport_case_id'']
          else err_if (transport_case_id \<noteq> PStr (case_id_of r))
                 ''transport PASS transport_case_id must equal case_id'')
         @ (if \<not> is_list transaction_ids \<or> ids = [] \<or> \<not> list_all nonempty_token ids
            then [''transport PASS requires one or more non-empty transaction_ids'']
            else err_if (\<not> distinct (map py_str ids)) ''transport PASS transaction_ids must be unique'')
         @ concat (map (\<lambda>f. err_if (dget r f = PNone) (''transport PASS requires '' @ f))
             [''requested_action'', ''actual_action'', ''transport_result''])
         @ err_if (dget r ''connection_id'' = PNone \<and> dget r ''stream_id'' = PNone)
             ''transport PASS requires connection_id or stream_id'')"

definition record_run_context_errors :: "dict \<Rightarrow> dict \<Rightarrow> string list" where
  "record_run_context_errors r manifest =
     differing RUN_FIELDS r manifest
       (\<lambda>f. case_id_of r @ '': case result '' @ f @ '' does not match canonical run'')"

section \<open>The event\<close>

definition event_run_context_errors :: "string \<Rightarrow> dict \<Rightarrow> dict \<Rightarrow> string list" where
  "event_run_context_errors case_id event manifest =
     differing RUN_FIELDS event manifest
       (\<lambda>f. case_id @ '': event '' @ f @ '' does not match canonical run'')"

definition event_correlation_errors :: "string \<Rightarrow> dict \<Rightarrow> dict \<Rightarrow> string \<Rightarrow> string list" where
  "event_correlation_errors case_id r event transaction_id =
     err_if (dget event ''transaction_id'' \<noteq> PStr transaction_id)
       (case_id @ '': event transaction_id does not match case result'')
     @ differing [''transport_case_id'', ''phase''] event r
         (\<lambda>f. case_id @ '': event '' @ f @ '' does not match case result'')"

fun rule_keys :: "pyval list \<Rightarrow> string option list res" where
  "rule_keys [] = Inr []"
| "rule_keys (v # vs) = rbind (rule_key v) (\<lambda>k. rbind (rule_keys vs) (\<lambda>ks. Inr (k # ks)))"

definition event_rule_errors :: "string \<Rightarrow> dict \<Rightarrow> dict \<Rightarrow> string list res" where
  "event_rule_errors case_id r event =
     rbind (rule_key (dget event ''rule_id'')) (\<lambda>event_rule.
     rbind (if event_rule = None then Inr [case_id @ '': event requires a concrete rule_id'']
            else rbind (iter_values (dget_default r ''observed_rule_ids'' (PList []))) (\<lambda>observed.
                 rbind (rule_keys observed) (\<lambda>keys.
                 Inr (err_if (event_rule \<notin> set keys)
                        (case_id @ '': event rule_id is absent from case result''))))) (\<lambda>e1.
     rbind (if dget r ''expected_rule_id'' = PNone then Inr []
            else rbind (rule_key (dget r ''expected_rule_id'')) (\<lambda>expected.
                 Inr (err_if (event_rule \<noteq> expected)
                        (case_id @ '': event rule_id does not match expected_rule_id'')))) (\<lambda>e2.
     Inr (e1 @ e2))))"

definition event_identity_errors :: "string \<Rightarrow> dict \<Rightarrow> dict \<Rightarrow> string list res" where
  "event_identity_errors case_id r event =
     rbind (event_rule_errors case_id r event) (\<lambda>rule_errors.
     Inr (concat (map (\<lambda>f. err_if (\<not> nonempty_token (dget event f))
             (case_id @ '': event requires a non-empty '' @ f)) [''event'', ''message_id''])
          @ rule_errors
          @ differing [''requested_action'', ''actual_action'', ''transport_result''] event r
              (\<lambda>f. case_id @ '': event '' @ f @ '' does not match case result'')
          @ concat (map (\<lambda>f.
              err_if (dget r f \<noteq> PNone \<and> \<not> py_eq (dget event f) (dget r f))
                (case_id @ '': event '' @ f @ '' does not match case result''))
            [''connection_id'', ''stream_id'', ''barrier_id''])))"

definition event_errors :: "dict \<Rightarrow> dict \<Rightarrow> dict \<Rightarrow> string \<Rightarrow> string list res" where
  "event_errors r event manifest transaction_id =
     rbind (event_identity_errors (case_id_of r) r event) (\<lambda>identity.
     Inr (event_run_context_errors (case_id_of r) event manifest
          @ event_correlation_errors (case_id_of r) r event transaction_id @ identity))"

section \<open>The transport observation\<close>

definition observation_canonical_errors ::
    "string \<Rightarrow> dict \<Rightarrow> dict \<Rightarrow> dict \<Rightarrow> string \<Rightarrow> string list res" where
  "observation_canonical_errors case_id r event obs transaction_id =
     (let record_protocol = py_or (dget r ''negotiated_protocol'') (dget r ''downstream_protocol'')
      in rbind (rule_key (dget obs ''rule_id'')) (\<lambda>observed_rule.
         rbind (rule_key (dget event ''rule_id'')) (\<lambda>event_rule.
         Inr (concat (map (\<lambda>(f, expected).
                err_if (\<not> py_eq (dget obs f) expected)
                  (case_id @ '': observation '' @ f @ '' does not match canonical evidence''))
                [(''case_id'', PStr case_id),
                 (''transport_case_id'', dget r ''transport_case_id''),
                 (''transaction_id'', PStr transaction_id),
                 (''phase'', dget r ''phase''),
                 (''event'', dget event ''event''),
                 (''message_id'', dget event ''message_id''),
                 (''requested_action'', dget r ''requested_action''),
                 (''actual_action'', dget r ''actual_action''),
                 (''transport_result'', dget r ''transport_result'')])
              @ err_if (observed_rule \<noteq> event_rule) (case_id @ '': observation rule_id does not match event'')
              @ err_if (record_protocol \<noteq> PNone \<and> \<not> py_eq (dget obs ''protocol'') record_protocol)
                  (case_id @ '': observation protocol does not match case result'')))))"

definition observation_identity_errors :: "string \<Rightarrow> dict \<Rightarrow> dict \<Rightarrow> dict \<Rightarrow> string list" where
  "observation_identity_errors case_id r event obs =
     concat (map (\<lambda>f.
       err_if (dget r f \<noteq> PNone \<and> \<not> py_eq (dget obs f) (dget r f))
         (case_id @ '': observation '' @ f @ '' does not match case result'')
       @ err_if (dget obs f \<noteq> PNone \<and> \<not> py_eq (dget event f) (dget obs f))
           (case_id @ '': observation '' @ f @ '' does not match event''))
     [''connection_id'', ''stream_id'', ''barrier_id''])
     @ err_if (dget obs ''connection_id'' = PNone \<and> dget obs ''stream_id'' = PNone)
         (case_id @ '': observation requires connection_id or stream_id'')"

definition observation_privacy_errors :: "string \<Rightarrow> dict \<Rightarrow> string list" where
  "observation_privacy_errors case_id obs =
     err_if (dget obs ''protocol'' = PStr ''h3'' \<and> dget obs ''connection_id'' \<noteq> PNone
             \<and> \<not> is_hashed_connection_id (dget obs ''connection_id''))
       (case_id @ '': observation may not retain a raw H3 connection_id'')
     @ err_if (dget obs ''eos_seen'' \<noteq> PNone \<and> \<not> py_eq (dget obs ''eos_seen'') (dget obs ''eos_received''))
         (case_id @ '': observation eos_seen disagrees with eos_received'')
     @ err_if (dget obs ''reset_code'' \<noteq> PNone \<and> dget obs ''stream_reset_code'' \<noteq> PNone
               \<and> \<not> py_eq (dget obs ''reset_code'') (dget obs ''stream_reset_code''))
         (case_id @ '': reset_code disagrees with stream_reset_code'')"

text \<open>The checks of one observation against the case and the event.\<close>

definition hardening_observation_errors :: "dict \<Rightarrow> dict \<Rightarrow> dict \<Rightarrow> string \<Rightarrow> string list res" where
  "hardening_observation_errors r event obs transaction_id =
     rbind (observation_canonical_errors (case_id_of r) r event obs transaction_id) (\<lambda>canonical_errors.
     Inr (canonical_errors
          @ observation_identity_errors (case_id_of r) r event obs
          @ observation_privacy_errors (case_id_of r) obs))"

section \<open>Strict cases\<close>

definition strict_common_errors :: "string \<Rightarrow> dict \<Rightarrow> dict \<Rightarrow> string list" where
  "strict_common_errors case_id r obs =
     err_if (dget obs ''response_committed'' \<noteq> PBool True)
       (case_id @ '': strict evidence requires response_committed=true'')
     @ err_if (dget obs ''first_byte_received'' \<noteq> PBool True)
         (case_id @ '': strict evidence requires first_byte_received=true'')
     @ err_if (dget obs ''eos_received'' \<noteq> PBool False)
         (case_id @ '': strict evidence requires eos_received=false'')
     @ err_if (dget obs ''host_survived'' \<noteq> PBool True)
         (case_id @ '': strict evidence requires host_survived=true'')
     @ err_if (dget obs ''followup_request_result'' \<noteq> PStr ''completed'')
         (case_id @ '': strict evidence requires a completed independent follow-up'')
     @ err_if (py_eq (dget r ''actual_status'') (PInt 403) \<or> py_eq (dget r ''visible_http_status'') (PInt 403))
         (case_id @ '': strict evidence must not claim a post-commit HTTP 403'')"

definition STRICT_CLIENT_RESULTS_HTTP1 :: "string list" where
  "STRICT_CLIENT_RESULTS_HTTP1 =
     [''premature_eof'', ''tcp_reset'', ''incomplete_content_length'', ''chunked_response_aborted'']"

definition strict_http1_errors :: "string \<Rightarrow> dict \<Rightarrow> dict \<Rightarrow> string list res" where
  "strict_http1_errors case_id r obs =
     rbind (in_str_set (dget obs ''client_result'') STRICT_CLIENT_RESULTS_HTTP1) (\<lambda>aborted.
     Inr (err_if (dget r ''actual_action'' \<noteq> PStr ''abort_connection'')
            (case_id @ '': HTTP/1 strict evidence requires actual_action=abort_connection'')
          @ err_if (dget r ''transport_result'' \<noteq> PStr ''connection_aborted'')
              (case_id @ '': HTTP/1 strict evidence requires transport_result=connection_aborted'')
          @ err_if (\<not> aborted) (case_id @ '': HTTP/1 strict evidence lacks a client-observed abort'')))"

definition strict_h2_or_h3_errors :: "string \<Rightarrow> dict \<Rightarrow> dict \<Rightarrow> string list" where
  "strict_h2_or_h3_errors case_id r obs =
     err_if (dget r ''actual_action'' \<noteq> PStr ''stream_reset'')
       (case_id @ '': H2/H3 strict evidence requires actual_action=stream_reset'')
     @ err_if (dget r ''transport_result'' \<noteq> PStr ''stream_reset'')
         (case_id @ '': H2/H3 strict evidence requires transport_result=stream_reset'')
     @ err_if (dget obs ''client_result'' \<noteq> PStr ''stream_reset'')
         (case_id @ '': H2/H3 strict evidence requires client_result=stream_reset'')
     @ err_if (dget obs ''stream_reset'' \<noteq> PBool True)
         (case_id @ '': H2/H3 strict evidence requires stream_reset=true'')
     @ err_if (dget obs ''reset_code'' = PNone \<and> dget obs ''stream_reset_code'' = PNone)
         (case_id @ '': H2/H3 strict evidence requires a reset code'')"

definition strict_errors :: "dict \<Rightarrow> dict \<Rightarrow> string list res" where
  "strict_errors r obs =
     (let case_id = case_id_of r; protocol = dget obs ''protocol''
      in if \<not> strict_case r then Inr []
         else if protocol = PStr ''http1''
         then rbind (strict_http1_errors case_id r obs) (\<lambda>e. Inr (strict_common_errors case_id r obs @ e))
         else rbind (in_str_set protocol [''h2'', ''h2c'', ''h3'']) (\<lambda>modern.
              Inr (strict_common_errors case_id r obs
                   @ (if modern then strict_h2_or_h3_errors case_id r obs
                      else [case_id @ '': strict evidence uses unsupported protocol '' @ py_repr protocol]))))"

section \<open>The lifecycle record\<close>

definition lifecycle_record_errors :: "dict \<Rightarrow> string \<Rightarrow> string list" where
  "lifecycle_record_errors r label =
     (let started = dget r ''transaction_started'';
          finished = dget r ''transaction_finished'';
          destroyed = dget r ''transaction_destroyed''
      in if \<not> is_int started \<or> \<not> is_int finished \<or> \<not> is_int destroyed
         then [label @ '': lifecycle singleton counters must be integers'']
         else err_if (int_val started < int_val finished)
                (label @ '': transaction_finished exceeds transaction_started'')
              @ err_if (int_val finished < int_val destroyed)
                  (label @ '': transaction_destroyed exceeds transaction_finished'')
              @ concat (map (\<lambda>f.
                  err_if (is_int (dget r f) \<and> int_val started < int_val (dget r f))
                    (label @ '': '' @ f @ '' requires a started transaction''))
                [''request_body_finished'', ''response_body_finished'', ''eos_seen'', ''intentional_abort'',
                 ''client_disconnect'', ''upstream_disconnect'', ''stream_reset'', ''timeout'']))"

text \<open>A write result that needs a positive counter in the lifecycle record.\<close>

definition write_counter_errors :: "string \<Rightarrow> dict \<Rightarrow> dict \<Rightarrow> string \<Rightarrow> string \<Rightarrow> string list res" where
  "write_counter_errors case_id obs lifecycle_record result counter =
     (if dget obs ''write_result'' \<noteq> PStr result then Inr []
      else rbind (less_than (dget_default lifecycle_record counter (PInt 0)) 1) (\<lambda>low.
           Inr (err_if low (case_id @ '': lifecycle '' @ counter @ '' does not match transport observation''))))"

definition lifecycle_observation_errors :: "string \<Rightarrow> dict \<Rightarrow> dict \<Rightarrow> dict \<Rightarrow> string list res" where
  "lifecycle_observation_errors case_id r obs lifecycle_record =
     rbind (write_counter_errors case_id obs lifecycle_record ''short_write'' ''short_writes'') (\<lambda>e1.
     rbind (write_counter_errors case_id obs lifecycle_record ''write_would_block'' ''write_would_block'') (\<lambda>e2.
     Inr (err_if (\<not> py_eq (dget obs ''eos_received'') (PBool (truthy (dget lifecycle_record ''eos_seen''))))
            (case_id @ '': lifecycle eos_seen does not match transport observation'')
          @ concat (map (\<lambda>(observation_field, lifecycle_field).
              err_if (dget obs observation_field = PBool True
                      \<and> \<not> py_eq (dget lifecycle_record lifecycle_field) (PInt 1))
                (case_id @ '': lifecycle '' @ lifecycle_field @ '' does not match transport observation''))
            [(''client_disconnected'', ''client_disconnect''),
             (''upstream_disconnected'', ''upstream_disconnect''), (''stream_reset'', ''stream_reset'')])
          @ e1 @ e2
          @ err_if (strict_case r \<and> \<not> py_eq (dget lifecycle_record ''intentional_abort'') (PInt 1))
              (case_id @ '': strict transport evidence requires intentional_abort=1''))))"

end
