(* ===== verification/HardeningBinding.thy ===== *)
theory HardeningBinding
  imports HardeningRecords
begin

text \<open>
  The run-level part of the transport-hardening checker
  (\<^verbatim>\<open>src/ci/checks/evidence/check_transport_hardening_evidence.py\<close>): the lifecycle
  counters, the inventory of a run, and the binding of every promoted case to exactly one
  event, one observation and one lifecycle record. The binding threads the sets of used
  events and observations through all transactions of all cases.
\<close>

section \<open>Counters\<close>

definition REQUIRED_LIFECYCLE_COUNTERS :: "string list" where
  "REQUIRED_LIFECYCLE_COUNTERS =
     [''transactions_started'', ''transactions_finished'', ''transactions_destroyed'',
      ''request_body_finishes'', ''response_body_finishes'', ''interventions_seen'',
      ''intentional_aborts'', ''unexpected_engine_errors'']"

definition required_counter_errors :: "dict \<Rightarrow> string list" where
  "required_counter_errors counters =
     concat (map (\<lambda>f. err_if (\<not> is_int (dget counters f) \<or> int_val (dget counters f) < 0)
         (''lifecycle_counters.'' @ f @ '' must be a non-negative integer''))
       REQUIRED_LIFECYCLE_COUNTERS)"

definition counter_value :: "dict \<Rightarrow> string \<Rightarrow> int" where
  "counter_value r f =
     (let v = dget_default r f (PInt 0)
      in if is_int v \<and> \<not> is_bool v \<and> 0 \<le> int_val v then int_val v else 0)"

definition sum_of :: "dict list \<Rightarrow> string \<Rightarrow> int" where
  "sum_of lifecycle_records f = sum_list (map (\<lambda>r. counter_value r f) lifecycle_records)"

text \<open>The number of records whose cleanup reason is in a set of texts.\<close>

fun cleanups_in :: "string list \<Rightarrow> dict list \<Rightarrow> int res" where
  "cleanups_in S [] = Inr 0"
| "cleanups_in S (r # rs) =
     rbind (in_str_set (dget r ''cleanup_reason'') S) (\<lambda>b.
     rbind (cleanups_in S rs) (\<lambda>n. Inr ((if b then 1 else 0) + n)))"

definition bound_counter_expectations :: "dict list \<Rightarrow> (string \<times> int) list res" where
  "bound_counter_expectations records =
     rbind (cleanups_in [''cancelled'', ''client_disconnected'', ''upstream_disconnected''] records) (\<lambda>cancels.
     rbind (cleanups_in [''strict_abort'', ''stream_reset''] records) (\<lambda>aborts.
     Inr [(''client_disconnects'', sum_of records ''client_disconnect''),
          (''upstream_disconnects'', sum_of records ''upstream_disconnect''),
          (''stream_resets'', sum_of records ''stream_reset''),
          (''timeouts'', sum_of records ''timeout''),
          (''short_writes'', sum_of records ''short_writes''),
          (''write_would_block'', sum_of records ''write_would_block''),
          (''cleanup_normal'',
           sum_list (map (\<lambda>r. if dget r ''cleanup_reason'' = PStr ''normal'' then 1 else 0) records)),
          (''cleanup_cancel'', cancels),
          (''cleanup_abort'', aborts),
          (''intentional_aborts'', sum_of records ''intentional_abort'')]))"

definition counter_lower_bounds :: "dict list \<Rightarrow> (string \<times> int) list" where
  "counter_lower_bounds records =
     [(''transactions_started'', sum_of records ''transaction_started''),
      (''transactions_finished'', sum_of records ''transaction_finished''),
      (''transactions_destroyed'', sum_of records ''transaction_destroyed''),
      (''request_body_finishes'', sum_of records ''request_body_finished''),
      (''response_body_finishes'', sum_of records ''response_body_finished''),
      (''intentional_aborts'', sum_of records ''intentional_abort'')]"

definition counter_errors :: "dict \<Rightarrow> dict list \<Rightarrow> bool \<Rightarrow> string list res" where
  "counter_errors counters lifecycle_records require_bound_counts =
     (let required = required_counter_errors counters;
          started = int_val (dget counters ''transactions_started'');
          finished = int_val (dget counters ''transactions_finished'');
          destroyed = int_val (dget counters ''transactions_destroyed'');
          order = err_if (\<not> (finished \<le> started \<and> destroyed \<le> finished))
                    ''lifecycle_counters transaction lifecycle is inconsistent''
      in if required \<noteq> [] then Inr required
         else if \<not> require_bound_counts then Inr order
         else if dget counters ''transport_counters_bound'' \<noteq> PBool True
         then Inr (order @ [''transport PASS requires lifecycle_counters.transport_counters_bound=true''])
         else rbind (bound_counter_expectations lifecycle_records) (\<lambda>expectations.
              Inr (order
                   @ concat (map (\<lambda>(f, expected).
                       err_if (\<not> py_eq (dget counters f) (PInt expected))
                         (''lifecycle_counters.'' @ f @ ''='' @ py_repr (dget counters f) @ '', expected ''
                          @ int_str expected @ '' from connection-lifecycle'')) expectations)
                   @ concat (map (\<lambda>(f, bound).
                       err_if (int_val (dget_default counters f (PInt (- 1))) < bound)
                         (''lifecycle_counters.'' @ f @ '' is below connection-lifecycle accounting''))
                     (counter_lower_bounds lifecycle_records)))))"

section \<open>Keys and records\<close>

type_synonym bind_key = "string \<times> string"

definition repr_key :: "bind_key \<Rightarrow> string" where
  "repr_key key = ''('' @ repr_str (fst key) @ '', '' @ repr_str (snd key) @ '')''"

definition observation_key :: "dict \<Rightarrow> bind_key" where
  "observation_key obs = (str_or_empty (dget obs ''case_id''), str_or_empty (dget obs ''transaction_id''))"

definition lifecycle_key :: "dict \<Rightarrow> bind_key" where
  "lifecycle_key r =
     (str_or_empty (dget r ''transport_case_id''), str_or_empty (dget r ''transaction_id''))"

text \<open>The items of a list that are dictionaries.\<close>

definition mapping_items :: "pyval list \<Rightarrow> dict list" where
  "mapping_items xs = map dict_val (filter is_dict xs)"

definition sidecar_mapping_records :: "dict option \<Rightarrow> string \<Rightarrow> dict list" where
  "sidecar_mapping_records payload field =
     (case payload of None \<Rightarrow> []
      | Some d \<Rightarrow> if d = [] then [] else mapping_items (list_val (dget d field)))"

text \<open>
  A loop over records that reports a key seen before, with the position in the list; the
  body adds the messages \<open>extra\<close> of each record in front of that report.
\<close>

fun duplicate_errors ::
    "(nat \<Rightarrow> dict \<Rightarrow> string list) \<Rightarrow> (nat \<Rightarrow> bind_key \<Rightarrow> string) \<Rightarrow> (dict \<Rightarrow> bind_key)
     \<Rightarrow> nat \<Rightarrow> bind_key set \<Rightarrow> dict list \<Rightarrow> string list" where
  "duplicate_errors extra message key i seen [] = []"
| "duplicate_errors extra message key i seen (r # rs) =
     extra i r @ err_if (key r \<in> seen) (message i (key r))
     @ duplicate_errors extra message key (Suc i) (insert (key r) seen) rs"

definition observation_label :: "nat \<Rightarrow> string" where
  "observation_label i = ''transport-observations['' @ int_str (int i) @ '']''"

definition lifecycle_label :: "nat \<Rightarrow> string" where
  "lifecycle_label i = ''connection-lifecycle['' @ int_str (int i) @ '']''"

definition duplicate_observation_errors :: "dict list \<Rightarrow> string list" where
  "duplicate_observation_errors observations =
     duplicate_errors (\<lambda>_ _. [])
       (\<lambda>i key. observation_label i @ '' duplicates case/transaction correlation '' @ repr_key key)
       observation_key 0 {} observations"

definition diagnostic_sidecar_errors :: "dict option \<Rightarrow> dict option \<Rightarrow> dict option \<Rightarrow> string list res" where
  "diagnostic_sidecar_errors observations lifecycle counters =
     (let observation_records = sidecar_mapping_records observations ''observations'';
          lifecycle_records = sidecar_mapping_records lifecycle ''records''
      in rbind (case counters of None \<Rightarrow> Inr []
                | Some c \<Rightarrow> counter_errors c lifecycle_records
                              (dget c ''transport_counters_bound'' = PBool True)) (\<lambda>e1.
         Inr (e1 @ duplicate_observation_errors observation_records
              @ duplicate_errors (\<lambda>i r. lifecycle_record_errors r (lifecycle_label i))
                  (\<lambda>i key. lifecycle_label i @ '' duplicates transport/transaction correlation '' @ repr_key key)
                  lifecycle_key 0 {} lifecycle_records)))"

definition transaction_count_ids :: "dict \<Rightarrow> string set \<times> string list" where
  "transaction_count_ids transaction_counts =
     (let count_ids = dget transaction_counts ''transaction_ids''; ids = list_val count_ids
      in if \<not> is_list count_ids \<or> \<not> list_all nonempty_token ids
         then ({}, [''transaction_counts.transaction_ids must contain bounded identifiers''])
         else (set (map py_str ids),
               err_if (\<not> py_eq (dget transaction_counts ''transactions_observed'') (PInt (int (length ids))))
                 ''transaction_counts does not match its transaction_ids''
               @ err_if (\<not> distinct (map py_str ids)) ''transaction_counts.transaction_ids must be unique''))"

text \<open>\<open>d[k] = v\<close> on a dictionary whose keys are pairs.\<close>

fun key_set :: "(bind_key \<times> dict) list \<Rightarrow> bind_key \<Rightarrow> dict \<Rightarrow> (bind_key \<times> dict) list" where
  "key_set [] k v = [(k, v)]"
| "key_set ((k', v') # d) k v = (if k' = k then (k, v) # d else (k', v') # key_set d k v)"

fun index_lifecycle ::
    "string set \<Rightarrow> nat \<Rightarrow> (bind_key \<times> dict) list \<Rightarrow> dict list \<Rightarrow> (bind_key \<times> dict) list \<times> string list" where
  "index_lifecycle count_id_set i by_key [] = (by_key, [])"
| "index_lifecycle count_id_set i by_key (r # rs) =
     (let key = lifecycle_key r;
          errors = lifecycle_record_errors r (lifecycle_label i)
            @ err_if (key \<in> fst ` set by_key)
                (lifecycle_label i @ '' duplicates transport/transaction correlation '' @ repr_key key)
            @ err_if (snd key \<notin> count_id_set)
                (lifecycle_label i @ '': transaction_id is absent from transaction_counts'');
          (by_key', rest) = index_lifecycle count_id_set (Suc i) (key_set by_key key r) rs
      in (by_key', errors @ rest))"

definition indexed_sidecar_errors ::
    "dict list \<Rightarrow> dict list \<Rightarrow> string set \<Rightarrow> (bind_key \<times> dict) list \<times> string list" where
  "indexed_sidecar_errors observation_records lifecycle_records count_id_set =
     (let (by_key, errors) = index_lifecycle count_id_set 0 [] lifecycle_records
      in (by_key, duplicate_observation_errors observation_records @ errors))"

section \<open>Binding\<close>

text \<open>The sets that the binding of one transaction updates.\<close>

record binding_state =
  used_event_indexes :: "nat set"
  used_observations :: "bind_key set"
  strict_lifecycle_keys :: "bind_key set"

definition numbered :: "'a list \<Rightarrow> (nat \<times> 'a) list" where
  "numbered xs = zip [0..<length xs] xs"

definition matching_transport_events :: "dict list \<Rightarrow> string \<Rightarrow> string \<Rightarrow> (nat \<times> dict) list" where
  "matching_transport_events events transport_case_id transaction_id =
     filter (\<lambda>(i, event). dget event ''transport_case_id'' = PStr transport_case_id
                          \<and> dget event ''transaction_id'' = PStr transaction_id) (numbered events)"

definition matching_transport_observations :: "dict list \<Rightarrow> string \<Rightarrow> string \<Rightarrow> string \<Rightarrow> dict list" where
  "matching_transport_observations observations case_id transport_case_id transaction_id =
     filter (\<lambda>obs. dget obs ''case_id'' = PStr case_id
                   \<and> dget obs ''transport_case_id'' = PStr transport_case_id
                   \<and> dget obs ''transaction_id'' = PStr transaction_id) observations"

text \<open>What the binding reads: the events, the observations, the lifecycle index and the counted ids.\<close>

record binding_inputs =
  bi_events :: "dict list"
  bi_observations :: "dict list"
  bi_lifecycle :: "(bind_key \<times> dict) list"
  bi_count_ids :: "string set"
  bi_manifest :: dict

definition transport_case_of :: "dict \<Rightarrow> string" where
  "transport_case_of r = str_or_empty (dget r ''transport_case_id'')"

text \<open>The part after the event was found, and the part after the observation was found.\<close>

definition bind_lifecycle ::
    "binding_inputs \<Rightarrow> dict \<Rightarrow> string \<Rightarrow> dict \<Rightarrow> string list \<Rightarrow> binding_state \<Rightarrow> (string list \<times> binding_state) res" where
  "bind_lifecycle inp r transaction_id obs errors st =
     (let key = (transport_case_of r, transaction_id)
      in case map_of (bi_lifecycle inp) key of
           None \<Rightarrow> Inr (errors @ [case_id_of r @ '': requires a matching connection-lifecycle record''], st)
         | Some lifecycle_record \<Rightarrow>
             rbind (lifecycle_observation_errors (case_id_of r) r obs lifecycle_record) (\<lambda>e.
               Inr (errors @ e,
                    if strict_case r
                    then st\<lparr>strict_lifecycle_keys := insert key (strict_lifecycle_keys st)\<rparr> else st)))"

definition bind_observation ::
    "binding_inputs \<Rightarrow> dict \<Rightarrow> string \<Rightarrow> dict \<Rightarrow> string list \<Rightarrow> binding_state \<Rightarrow> (string list \<times> binding_state) res" where
  "bind_observation inp r transaction_id event errors st =
     (case matching_transport_observations (bi_observations inp) (case_id_of r) (transport_case_of r)
             transaction_id of
        [obs] \<Rightarrow>
          (let key = (case_id_of r, transaction_id);
               reuse = err_if (key \<in> used_observations st) (case_id_of r @ '': reuses a transport observation'');
               st' = st\<lparr>used_observations := insert key (used_observations st)\<rparr>
           in rbind (hardening_observation_errors r event obs transaction_id) (\<lambda>e1.
              rbind (strict_errors r obs) (\<lambda>e2.
              bind_lifecycle inp r transaction_id obs (errors @ reuse @ e1 @ e2) st')))
      | _ \<Rightarrow> Inr (errors @ [case_id_of r @ '': requires exactly one matching transport observation''], st))"

definition transaction_correlation_errors ::
    "binding_inputs \<Rightarrow> dict \<Rightarrow> string \<Rightarrow> binding_state \<Rightarrow> (string list \<times> binding_state) res" where
  "transaction_correlation_errors inp r transaction_id st =
     (let absent = err_if (transaction_id \<notin> bi_count_ids inp)
            (case_id_of r @ '': transaction_id is absent from transaction_counts'')
      in case matching_transport_events (bi_events inp) (transport_case_of r) transaction_id of
           [(event_index, event)] \<Rightarrow>
             (let reuse = err_if (event_index \<in> used_event_indexes st)
                    (case_id_of r @ '': reuses an event claimed by another transport case'');
                  st' = st\<lparr>used_event_indexes := insert event_index (used_event_indexes st)\<rparr>
              in rbind (event_errors r event (bi_manifest inp) transaction_id) (\<lambda>e.
                 bind_observation inp r transaction_id event (absent @ reuse @ e) st'))
         | _ \<Rightarrow> Inr (absent @ [case_id_of r @ '': requires exactly one event for transport_case_id/transaction_id''],
                     st))"

fun bind_transactions ::
    "binding_inputs \<Rightarrow> dict \<Rightarrow> pyval list \<Rightarrow> binding_state \<Rightarrow> (string list \<times> binding_state) res" where
  "bind_transactions inp r [] st = Inr ([], st)"
| "bind_transactions inp r (t # ts) st =
     rbind (transaction_correlation_errors inp r (py_str t) st) (\<lambda>(e, st').
     rbind (bind_transactions inp r ts st') (\<lambda>(es, st'').
     Inr (e @ es, st'')))"

definition transaction_list :: "dict \<Rightarrow> pyval list" where
  "transaction_list r = list_val (dget r ''transaction_ids'')"

fun bind_passes :: "binding_inputs \<Rightarrow> dict list \<Rightarrow> binding_state \<Rightarrow> (string list \<times> binding_state) res" where
  "bind_passes inp [] st = Inr ([], st)"
| "bind_passes inp (r # rs) st =
     rbind (bind_transactions inp r (transaction_list r) st) (\<lambda>(e, st').
     rbind (bind_passes inp rs st') (\<lambda>(es, st'').
     Inr (record_run_context_errors r (bi_manifest inp)
          @ map (\<lambda>m. case_id_of r @ '': '' @ m) (transport_record_identity_errors r)
          @ e @ es, st'')))"

definition initial_binding :: binding_state where
  "initial_binding = \<lparr>used_event_indexes = {}, used_observations = {}, strict_lifecycle_keys = {}\<rparr>"

definition pass_correlation_errors :: "binding_inputs \<Rightarrow> dict list \<Rightarrow> (bind_key set \<times> string list) res" where
  "pass_correlation_errors inp passes =
     rbind (bind_passes inp passes initial_binding) (\<lambda>(errors, st).
       Inr (strict_lifecycle_keys st, errors))"

definition unbound_lifecycle_errors ::
    "(bind_key \<times> dict) list \<Rightarrow> dict list \<Rightarrow> dict list \<Rightarrow> bind_key set \<Rightarrow> string list" where
  "unbound_lifecycle_errors lifecycle_by_key passes observations strict_keys =
     (let pass_keys = set (concat (map (\<lambda>r. map (\<lambda>t. (transport_case_of r, py_str t)) (transaction_list r)) passes));
          by_key = rev (map (\<lambda>obs. (lifecycle_key obs, obs)) observations)
      in concat (map (\<lambda>(key, r).
           err_if (py_eq (dget r ''intentional_abort'') (PInt 1) \<and> key \<notin> strict_keys)
             ''connection-lifecycle intentional_abort lacks a matching strict transport event''
           @ err_if (py_eq (dget r ''stream_reset'') (PInt 1)
                     \<and> (key \<notin> pass_keys
                        \<or> (case map_of by_key key of None \<Rightarrow> True
                           | Some obs \<Rightarrow> dget obs ''transport_result'' \<noteq> PStr ''stream_reset'')))
               ''connection-lifecycle stream_reset lacks a matching transport case'') lifecycle_by_key))"

definition barrier_event_errors :: "dict \<Rightarrow> pyval \<Rightarrow> dict list \<Rightarrow> string list" where
  "barrier_event_errors r transaction_id barrier_events =
     (case filter (\<lambda>event. py_eq (dget event ''transport_case_id'') (dget r ''transport_case_id'')
                           \<and> py_eq (dget event ''transaction_id'') transaction_id) barrier_events of
        [barrier_event] \<Rightarrow>
          err_if (dget r ''barrier_id'' \<noteq> PNone
                  \<and> \<not> py_eq (dget barrier_event ''barrier_id'') (dget r ''barrier_id''))
            (case_id_of r @ '': barrier event barrier_id does not match case result'')
          @ concat (map (\<lambda>f. err_if (dget barrier_event f \<noteq> PBool True)
              (case_id_of r @ '': barrier event requires '' @ f @ ''=true''))
            [''client_first_byte_received'', ''first_byte_before_response_end'', ''response_committed''])
          @ err_if (dget barrier_event ''upstream_eos_sent_at_first_byte'' \<noteq> PBool False)
              (case_id_of r @ '': barrier event requires upstream_eos_sent_at_first_byte=false'')
      | _ \<Rightarrow> [case_id_of r @ '': requires exactly one matching barrier event''])"

definition requires_barrier :: "dict \<Rightarrow> bool" where
  "requires_barrier r \<longleftrightarrow>
     dget r ''barrier_id'' \<noteq> PNone
     \<or> str_or_empty (dget r ''expected_result'')
         \<in> {''first_byte_before_response_end'', ''no_full_response_buffering''}"

definition barrier_binding_errors :: "dict list \<Rightarrow> dict list \<Rightarrow> string list" where
  "barrier_binding_errors passes barrier_events =
     concat (map (\<lambda>r. if requires_barrier r
                      then concat (map (\<lambda>t. barrier_event_errors r t barrier_events) (transaction_list r))
                      else []) passes)"

end
