(* ===== verification/BaselinePayload.thy ===== *)
theory BaselinePayload
  imports PayloadScan
begin

text \<open>
  The shared primitives of the canonical evidence checkers: the payload and secret scan of
  \<^verbatim>\<open>src/ci/checks/catalog/no_crs_baseline.py\<close> (\<open>forbidden_payload_errors\<close>) and the object
  loader of \<^verbatim>\<open>src/ci/lib/no_crs_evidence_common.py\<close>.
\<close>

section \<open>Forbidden payload\<close>

definition FORBIDDEN_EVENT_KEYS :: "string list" where
  "FORBIDDEN_EVENT_KEYS =
     [''access_token'', ''api_key'', ''authorization'', ''body'', ''body_content'',
      ''proxy_authorization'', ''cookie'', ''set_cookie'', ''password'', ''passwd'', ''secret'',
      ''request_body'', ''response_body'', ''raw_body'', ''body_payload'', ''body_snippet'',
      ''blocked_body_marker'', ''intervention_log'', ''matched_value'', ''rule_message'',
      ''request_body_marker'', ''request_content'', ''refresh_token'', ''response_body_marker'',
      ''response_content'', ''payload'']"

definition BODY_METADATA_KEYS :: "string list" where
  "BODY_METADATA_KEYS =
     [''body_bytes'', ''body_bytes_seen'', ''body_bytes_inspected'', ''body_hash'', ''body_length'',
      ''body_size'', ''content_type'', ''request_body_size'', ''response_body_size'', ''truncated'']"

definition BODY_SENTINELS :: "string list" where
  "BODY_SENTINELS = [''no-crs-request-body-marker'', ''no-crs-response-body-marker'']"

definition normalized_key :: "string \<Rightarrow> string" where
  "normalized_key key = replace_char (CHR ''-'') ''_'' (lower_str (strip key))"

definition forbidden_key :: "string \<Rightarrow> bool" where
  "forbidden_key key \<longleftrightarrow>
     normalized_key key \<in> set FORBIDDEN_EVENT_KEYS \<and> normalized_key key \<notin> set BODY_METADATA_KEYS"

definition forbidden_string_payload_errors :: "string \<Rightarrow> string \<Rightarrow> string list" where
  "forbidden_string_payload_errors s location =
     map (\<lambda>_. location @ '': body payload sentinel is present'')
       (filter (\<lambda>sentinel. contains (lower_str s) sentinel) BODY_SENTINELS)"

function forbidden_payload_errors :: "pyval \<Rightarrow> string \<Rightarrow> string list" where
  "forbidden_payload_errors v location =
     (case v of
        PDict d \<Rightarrow>
          concat (map (\<lambda>(key, nested).
            err_if (forbidden_key key) (location @ ''.'' @ key @ '': forbidden payload/secret field'')
            @ forbidden_payload_errors nested (location @ ''.'' @ key)) d)
      | PList xs \<Rightarrow>
          concat (map (\<lambda>(index, nested).
            forbidden_payload_errors nested (location @ ''['' @ int_str (int index) @ '']''))
            (zip [0..<length xs] xs))
      | PStr s \<Rightarrow> forbidden_string_payload_errors s location
      | _ \<Rightarrow> [])"
  by pat_completeness auto
termination
  by (relation "measure (\<lambda>(v, p). size v)")
    (auto simp: less_Suc_eq_le dest: set_zip_rightD intro: size_list_estimation' size_dict_value)

declare forbidden_payload_errors.simps [simp del]

definition holds_sentinel :: "string \<Rightarrow> bool" where
  "holds_sentinel s \<longleftrightarrow> (\<exists>sentinel\<in>set BODY_SENTINELS. contains (lower_str s) sentinel)"

interpretation baseline_payload: payload_scan forbidden_payload_errors forbidden_key holds_sentinel
proof
  show "forbidden_payload_errors (PDict d) p = [] \<longleftrightarrow>
      (\<forall>(k, v)\<in>set d. \<not> forbidden_key k \<and> forbidden_payload_errors v (p @ ''.'' @ k) = [])" for d p
    by (subst forbidden_payload_errors.simps) auto
  show "forbidden_payload_errors (PList xs) p = [] \<longleftrightarrow>
      (\<forall>i<length xs. forbidden_payload_errors (xs ! i) (p @ ''['' @ int_str (int i) @ '']'') = [])" for xs p
    using set_zip_upt [of xs "\<lambda>i x. forbidden_payload_errors x (p @ ''['' @ int_str (int i) @ '']'') = []"]
    by (subst forbidden_payload_errors.simps) auto
  show "forbidden_payload_errors (PStr s) p = [] \<longleftrightarrow> \<not> holds_sentinel s" for s p
    by (subst forbidden_payload_errors.simps)
      (auto simp: forbidden_string_payload_errors_def holds_sentinel_def filter_empty_conv)
  show "forbidden_payload_errors v p = []" if "\<not> is_dict v" "\<not> is_list v" "\<not> is_str v" for v p
    using that by (cases v) (simp_all add: forbidden_payload_errors.simps)
qed

section \<open>Loading\<close>

text \<open>
  The outcome of a loader: the text of the exception it raised, or what it returned.
\<close>

type_synonym 'a loaded = "string + 'a"

definition load_json_object :: "(string \<Rightarrow> pyval loaded) \<Rightarrow> string \<Rightarrow> string \<Rightarrow> dict option \<times> string list" where
  "load_json_object load_json path label =
     (case load_json path of
        Inl exc \<Rightarrow> (None, [label @ '': cannot read JSON: '' @ exc])
      | Inr (PDict d) \<Rightarrow> (Some d, [])
      | Inr _ \<Rightarrow> (None, [label @ '': must be a JSON object'']))"

end
