(* ===== verification/HardeningRun.thy ===== *)
theory HardeningRun
  imports HardeningBinding BaselinePayload
begin

text \<open>
  The transport-hardening check of one run directory
  (\<^verbatim>\<open>src/ci/checks/evidence/check_transport_hardening_evidence.py\<close>): the artifacts named by
  the manifest, the validated inventory, and \<open>transport_hardening_errors\<close>. The functions of
  the canonical baseline that the check only calls (its loaders, the schema validator, the
  event contract, the base checks and the catalog) are fields of the view of a run.
\<close>

record run_view =
  rv_load_json :: "string \<Rightarrow> pyval loaded"
  rv_read_jsonl :: "string \<Rightarrow> dict list loaded"
  rv_is_symlink :: "string \<Rightarrow> bool"
  rv_is_file :: "string \<Rightarrow> bool"
  rv_sha256 :: "string \<Rightarrow> string res"
  rv_base_errors :: "string \<Rightarrow> string list res"
  rv_catalog :: "dict list res"
  rv_load_schema :: "string \<Rightarrow> pyval loaded"
  rv_json_schema_errors :: "pyval \<Rightarrow> dict \<Rightarrow> string \<Rightarrow> string list"
  rv_event_errors :: "dict \<Rightarrow> string \<Rightarrow> string \<Rightarrow> string \<Rightarrow> string list res"

section \<open>Artifacts\<close>

definition FULL_LIFECYCLE_ARTIFACT_PROFILE :: string where
  "FULL_LIFECYCLE_ARTIFACT_PROFILE = ''full_lifecycle''"

definition TRANSPORT_HARDENING_ARTIFACT_PATHS :: "(string \<times> string) list" where
  "TRANSPORT_HARDENING_ARTIFACT_PATHS =
     [(''client_log'', ''logs/client.log''),
      (''upstream_log'', ''logs/upstream.log''),
      (''transport_log'', ''logs/transport.log''),
      (''cleanup_log'', ''logs/cleanup.log''),
      (''transport_observations'', ''inventory/transport-observations.json''),
      (''connection_lifecycle'', ''inventory/connection-lifecycle.json''),
      (''barrier_events'', ''inventory/barrier-events.jsonl''),
      (''effective_config'', ''effective-config/manifest.json'')]"

definition ENGINE_LIFECYCLE_ARTIFACT_PATHS :: "(string \<times> string) list" where
  "ENGINE_LIFECYCLE_ARTIFACT_PATHS =
     [(''engine_version'', ''engine-version.txt''),
      (''engine_library_sha256'', ''engine-library-sha256.txt''),
      (''ruleset_sha256'', ''ruleset-sha256.txt''),
      (''transaction_counts'', ''transaction-counts.json''),
      (''lifecycle_counters'', ''lifecycle-counters.json'')]"

definition REQUIRED_TRANSPORT_ARTIFACTS :: "string list" where
  "REQUIRED_TRANSPORT_ARTIFACTS = map fst TRANSPORT_HARDENING_ARTIFACT_PATHS"

definition REQUIRED_ENGINE_ARTIFACTS :: "string list" where
  "REQUIRED_ENGINE_ARTIFACTS = [''transaction_counts'', ''lifecycle_counters'']"

definition load_object :: "run_view \<Rightarrow> string \<Rightarrow> string \<Rightarrow> dict option \<times> string list" where
  "load_object view path label = load_json_object (rv_load_json view) path label"

definition load_jsonl :: "run_view \<Rightarrow> string \<Rightarrow> string \<Rightarrow> dict list \<times> string list" where
  "load_jsonl view path label =
     (case rv_read_jsonl view path of
        Inl exc \<Rightarrow> ([], [label @ '': cannot read JSONL: '' @ exc])
      | Inr records \<Rightarrow> (records, []))"

definition artifact_path :: "run_view \<Rightarrow> dict \<Rightarrow> string \<Rightarrow> bool \<Rightarrow> (string option \<times> string list) res" where
  "artifact_path view manifest name required =
     (case map_of (TRANSPORT_HARDENING_ARTIFACT_PATHS @ ENGINE_LIFECYCLE_ARTIFACT_PATHS) name of
        None \<Rightarrow> Inr (None, [''unsupported transport artifact name: '' @ name])
      | Some expected_path \<Rightarrow>
          (let artifacts = dget manifest ''artifacts'';
               entry = dget (dict_val artifacts) name
           in if \<not> is_dict artifacts then Inr (None, [''manifest artifacts must be an object''])
              else if \<not> is_dict entry
              then Inr (None, err_if required (''manifest is missing transport artifact: '' @ name))
              else if dget (dict_val entry) ''path'' \<noteq> PStr expected_path
              then Inr (None, [''transport artifact '' @ name @ '' must use '' @ expected_path])
              else if dget (dict_val entry) ''state'' \<noteq> PStr ''produced''
              then Inr (None, err_if required (''transport artifact '' @ name @ '' must be produced''))
              else if rv_is_symlink view expected_path \<or> \<not> rv_is_file view expected_path
              then Inr (None, [''transport artifact '' @ name @ '' is missing or unsafe''])
              else if \<not> truthy (dget (dict_val entry) ''sha256'') then Inr (Some expected_path, [])
              else rbind (rv_sha256 view expected_path) (\<lambda>digest.
                   Inr (if dget (dict_val entry) ''sha256'' \<noteq> PStr digest
                        then (None, [''transport artifact '' @ name @ '' checksum mismatch''])
                        else (Some expected_path, [])))))"

definition identity_errors :: "dict \<Rightarrow> dict \<Rightarrow> string \<Rightarrow> string list" where
  "identity_errors payload manifest label =
     differing RUN_FIELDS payload manifest (\<lambda>f. label @ ''.'' @ f @ '' does not match canonical run'')"

definition schema_errors :: "run_view \<Rightarrow> dict \<Rightarrow> string \<Rightarrow> string \<Rightarrow> string list" where
  "schema_errors view payload schema_name label =
     (case rv_load_schema view schema_name of
        Inl exc \<Rightarrow> [label @ '': cannot load checked-in schema: '' @ exc]
      | Inr (PDict schema) \<Rightarrow>
          rv_json_schema_errors view (PDict payload) schema label
          @ forbidden_payload_errors (PDict payload) label
      | Inr _ \<Rightarrow> [label @ '': checked-in schema must be an object''])"

text \<open>The catalog by case identifier: a later case with the same identifier wins.\<close>

definition catalog_by_id :: "run_view \<Rightarrow> (string \<times> dict) list res" where
  "catalog_by_id view =
     rbind (rv_catalog view) (\<lambda>cases. Inr (rev (map (\<lambda>c. (case_id_of c, c)) cases)))"

fun inventory_paths ::
    "run_view \<Rightarrow> dict \<Rightarrow> bool \<Rightarrow> string list \<Rightarrow> ((string \<times> string option) list \<times> string list) res" where
  "inventory_paths view manifest required [] = Inr ([], [])"
| "inventory_paths view manifest required (name # names) =
     rbind (artifact_path view manifest name required) (\<lambda>(path, e).
     rbind (inventory_paths view manifest required names) (\<lambda>(paths, es).
     Inr ((name, path) # paths, e @ es)))"

definition path_of :: "(string \<times> string option) list \<Rightarrow> string \<Rightarrow> string option" where
  "path_of paths name = (case map_of paths name of Some p \<Rightarrow> p | None \<Rightarrow> None)"

definition h3_connection_id_errors :: "dict \<Rightarrow> string \<Rightarrow> string \<Rightarrow> string list" where
  "h3_connection_id_errors payload records_key label =
     concat (map (\<lambda>(index, item).
       err_if (is_dict item \<and> dget (dict_val item) ''protocol'' = PStr ''h3''
               \<and> dget (dict_val item) ''connection_id'' \<noteq> PNone
               \<and> \<not> is_hashed_connection_id (dget (dict_val item) ''connection_id''))
         (label @ ''.'' @ records_key @ ''['' @ int_str (int index)
          @ ''].connection_id: raw H3 connection identifiers are forbidden''))
     (numbered (list_val (dget payload records_key))))"

definition validated_inventory_object ::
    "run_view \<Rightarrow> string option \<Rightarrow> string \<Rightarrow> string \<Rightarrow> dict \<Rightarrow> dict option \<times> string list" where
  "validated_inventory_object view path label schema_name manifest =
     (case path of None \<Rightarrow> (None, [])
      | Some p \<Rightarrow>
          (let (payload, errors) = load_object view p label
           in (payload,
               errors @ (case payload of None \<Rightarrow> []
                         | Some d \<Rightarrow> schema_errors view d schema_name label @ identity_errors d manifest label))))"

definition barrier_event_contract_errors :: "run_view \<Rightarrow> dict \<Rightarrow> nat \<times> dict \<Rightarrow> string list res" where
  "barrier_event_contract_errors view manifest item =
     (let label = ''barrier-events['' @ int_str (int (fst item)) @ '']''
      in rbind (rv_event_errors view (snd item) label (str_or_empty (dget manifest ''connector''))
                  (str_or_empty (dget manifest ''integration_mode''))) (\<lambda>e.
         Inr (e @ differing RUN_FIELDS (snd item) manifest
                    (\<lambda>f. label @ ''.'' @ f @ '' does not match canonical run''))))"

definition validated_barrier_events ::
    "run_view \<Rightarrow> string option \<Rightarrow> dict \<Rightarrow> (dict list \<times> string list) res" where
  "validated_barrier_events view path manifest =
     (case path of None \<Rightarrow> Inr ([], [])
      | Some p \<Rightarrow>
          (let (events, errors) = load_jsonl view p ''barrier-events''
           in rbind (collect (barrier_event_contract_errors view manifest) (numbered events)) (\<lambda>es.
              Inr (events, errors @ es))))"

definition engine_inventory_payload ::
    "run_view \<Rightarrow> string option \<Rightarrow> string \<Rightarrow> dict \<Rightarrow> dict option \<times> string list" where
  "engine_inventory_payload view path name manifest =
     (case path of None \<Rightarrow> (None, [])
      | Some p \<Rightarrow>
          (let (payload, errors) = load_object view p name
           in (payload,
               errors @ (case payload of None \<Rightarrow> []
                         | Some d \<Rightarrow>
                             err_if (\<not> py_eq (dget d ''schema_version'') (PInt 1)
                                     \<or> \<not> py_eq (dget d ''connector'') (dget manifest ''connector''))
                               (name @ '' has invalid identity'')))))"

record inventory =
  iv_observations :: "dict option"
  iv_lifecycle :: "dict option"
  iv_barrier_events :: "dict list"
  iv_counters :: "dict option"
  iv_transaction_counts :: "dict option"

definition inventory_errors :: "run_view \<Rightarrow> dict \<Rightarrow> bool \<Rightarrow> (inventory \<times> string list) res" where
  "inventory_errors view manifest required =
     rbind (inventory_paths view manifest required
              (REQUIRED_TRANSPORT_ARTIFACTS @ REQUIRED_ENGINE_ARTIFACTS)) (\<lambda>(paths, e0).
     let (observations, e1) = validated_inventory_object view (path_of paths ''transport_observations'')
           ''transport-observations'' ''transport-observations.schema.json'' manifest;
         (lifecycle, e2) = validated_inventory_object view (path_of paths ''connection_lifecycle'')
           ''connection-lifecycle'' ''connection-lifecycle.schema.json'' manifest;
         (_, e3) = validated_inventory_object view (path_of paths ''effective_config'')
           ''effective-config'' ''effective-config.schema.json'' manifest;
         (counters, e5) = engine_inventory_payload view (path_of paths ''lifecycle_counters'')
           ''lifecycle_counters'' manifest;
         (transaction_counts, e6) = engine_inventory_payload view (path_of paths ''transaction_counts'')
           ''transaction_counts'' manifest
     in rbind (validated_barrier_events view (path_of paths ''barrier_events'') manifest) (\<lambda>(barrier_events, e4).
        Inr (\<lparr>iv_observations = observations, iv_lifecycle = lifecycle, iv_barrier_events = barrier_events,
              iv_counters = counters, iv_transaction_counts = transaction_counts\<rparr>,
             e0 @ e1
             @ (case observations of None \<Rightarrow> []
                | Some d \<Rightarrow> h3_connection_id_errors d ''observations'' ''transport-observations'')
             @ e2
             @ (case lifecycle of None \<Rightarrow> []
                | Some d \<Rightarrow> h3_connection_id_errors d ''records'' ''connection-lifecycle'')
             @ e3 @ e4 @ e5 @ e6)))"

section \<open>The check\<close>

text \<open>The binding of the promoted cases, once every sidecar is there.\<close>

definition bound_errors ::
    "dict list \<Rightarrow> dict list \<Rightarrow> dict \<Rightarrow> dict list \<Rightarrow> pyval list \<Rightarrow> pyval list \<Rightarrow> dict \<Rightarrow> dict \<Rightarrow> string list res" where
  "bound_errors passes events manifest barrier_events raw_observations raw_lifecycle counters transaction_counts =
     (let observation_records = mapping_items raw_observations;
          lifecycle_records = mapping_items raw_lifecycle;
          (count_id_set, count_errors) = transaction_count_ids transaction_counts;
          (lifecycle_by_key, sidecar_errors) =
            indexed_sidecar_errors observation_records lifecycle_records count_id_set
      in rbind (counter_errors counters lifecycle_records True) (\<lambda>e1.
         rbind (pass_correlation_errors
                  \<lparr>bi_events = events, bi_observations = observation_records, bi_lifecycle = lifecycle_by_key,
                   bi_count_ids = count_id_set, bi_manifest = manifest\<rparr> passes)
           (\<lambda>(strict_keys, correlation_errors).
         Inr (e1 @ count_errors @ sidecar_errors @ correlation_errors
              @ unbound_lifecycle_errors lifecycle_by_key passes observation_records strict_keys
              @ barrier_binding_errors passes barrier_events))))"

definition hardening_tail ::
    "run_view \<Rightarrow> dict \<Rightarrow> string list \<Rightarrow> dict list \<Rightarrow> dict list \<Rightarrow> string list res" where
  "hardening_tail view manifest errors passes events =
     rbind (inventory_errors view manifest (passes \<noteq> [])) (\<lambda>(iv, es).
     let errors' = errors @ es
     in if passes = [] then
          rbind (diagnostic_sidecar_errors (iv_observations iv) (iv_lifecycle iv) (iv_counters iv))
            (\<lambda>e. Inr (errors' @ e))
        else
          (case (iv_observations iv, iv_lifecycle iv, iv_counters iv, iv_transaction_counts iv) of
             (Some observations, Some lifecycle, Some counters, Some transaction_counts) \<Rightarrow>
               if \<not> is_list (dget observations ''observations'') \<or> \<not> is_list (dget lifecycle ''records'')
               then Inr (errors' @ [''transport sidecars have invalid records arrays''])
               else rbind (bound_errors passes events manifest (iv_barrier_events iv)
                             (list_val (dget observations ''observations'')) (list_val (dget lifecycle ''records''))
                             counters transaction_counts)
                      (\<lambda>e. Inr (errors' @ e))
           | _ \<Rightarrow> Inr errors'))"

definition transport_hardening_errors :: "run_view \<Rightarrow> string list res" where
  "transport_hardening_errors view =
     (let (result, result_errors) = load_object view ''result.json'' ''result.json'';
          (manifest_object, manifest_errors) = load_object view ''manifest.json'' ''manifest.json'';
          errors = result_errors @ manifest_errors
      in case (result, manifest_object) of
           (Some _, Some manifest) \<Rightarrow>
             if dget manifest ''artifact_profile'' \<noteq> PStr FULL_LIFECYCLE_ARTIFACT_PROFILE
             then Inr (errors @ [''transport-hardening checks require artifact_profile=full_lifecycle''])
             else
               rbind (rv_base_errors view (str_or_empty (dget manifest ''connector''))) (\<lambda>base_errors.
               let (records, record_errors) = load_jsonl view ''results.jsonl'' ''results.jsonl'';
                   (events, event_errors) = load_jsonl view ''events.jsonl'' ''events.jsonl''
               in rbind (catalog_by_id view) (\<lambda>catalog.
                  hardening_tail view manifest (errors @ base_errors @ record_errors @ event_errors)
                    (transport_passes records catalog) events))
         | _ \<Rightarrow> Inr errors)"

text \<open>\<open>main\<close> after argument parsing: the exit status and the lines on the error stream.\<close>

definition hardening_main :: "run_view \<Rightarrow> (int \<times> string list) res" where
  "hardening_main view =
     rbind (transport_hardening_errors view) (\<lambda>errors.
       Inr (if errors \<noteq> [] then (1, map (\<lambda>e. ''transport-hardening-evidence: '' @ e) errors) else (0, [])))"

end
