(* ===== verification/HardeningFacts.thy ===== *)
theory HardeningFacts
  imports HardeningRun
begin

text \<open>
  What a transport-hardening check without messages establishes: agreement of every
  promoted transaction with one event, one observation and one lifecycle record, no reuse
  of an event, counters that account for the lifecycle records, and no abort or reset that
  is not explained by a promoted case.
\<close>

section \<open>Agreement of one transaction\<close>

lemma differing_Nil: "differing fs a b m = [] \<longleftrightarrow> (\<forall>f\<in>set fs. py_eq (dget a f) (dget b f))"
  by (auto simp: differing_def)

definition agrees :: "string list \<Rightarrow> dict \<Rightarrow> dict \<Rightarrow> bool" where
  "agrees fs a b \<longleftrightarrow> (\<forall>f\<in>set fs. py_eq (dget a f) (dget b f))"

text \<open>The event is of this run and case, names a rule the case observed, and repeats its outcome.\<close>

definition event_bound :: "dict \<Rightarrow> dict \<Rightarrow> dict \<Rightarrow> string \<Rightarrow> bool" where
  "event_bound r event manifest t \<longleftrightarrow>
     agrees RUN_FIELDS event manifest
     \<and> dget event ''transaction_id'' = PStr t
     \<and> agrees [''transport_case_id'', ''phase'', ''requested_action'', ''actual_action'', ''transport_result''] event r
     \<and> nonempty_token (dget event ''event'') \<and> nonempty_token (dget event ''message_id'')
     \<and> (\<exists>k vs ks. rule_key (dget event ''rule_id'') = Inr (Some k)
          \<and> iter_values (dget_default r ''observed_rule_ids'' (PList [])) = Inr vs
          \<and> rule_keys vs = Inr ks \<and> Some k \<in> set ks
          \<and> (dget r ''expected_rule_id'' \<noteq> PNone \<longrightarrow> rule_key (dget r ''expected_rule_id'') = Inr (Some k)))
     \<and> (\<forall>f\<in>{''connection_id'', ''stream_id'', ''barrier_id''}.
          dget r f \<noteq> PNone \<longrightarrow> py_eq (dget event f) (dget r f))"

lemma event_rule_Nil:
  "event_rule_errors c r event = Inr [] \<longleftrightarrow>
     (\<exists>k vs ks. rule_key (dget event ''rule_id'') = Inr (Some k)
        \<and> iter_values (dget_default r ''observed_rule_ids'' (PList [])) = Inr vs
        \<and> rule_keys vs = Inr ks \<and> Some k \<in> set ks
        \<and> (dget r ''expected_rule_id'' \<noteq> PNone \<longrightarrow> rule_key (dget r ''expected_rule_id'') = Inr (Some k)))"
proof (cases "rule_key (dget event ''rule_id'')")
  case (Inr ko)
  show ?thesis
  proof (cases ko)
    case None
    with Inr show ?thesis by (auto simp: event_rule_errors_def rbind_eq_Inr)
  next
    case (Some k)
    with Inr show ?thesis
      by (cases "dget r ''expected_rule_id'' = PNone") (auto simp: event_rule_errors_def rbind_eq_Inr)
  qed
qed (simp add: event_rule_errors_def)

lemma event_errors_Nil: "event_errors r event manifest t = Inr [] \<longleftrightarrow> event_bound r event manifest t"
  unfolding event_errors_def event_identity_errors_def event_run_context_errors_def event_correlation_errors_def
    event_bound_def event_rule_Nil [of "case_id_of r" r event, symmetric] agrees_def
  by (auto simp: rbind_eq_Inr differing_Nil)

text \<open>The observation repeats the case and the event, has an identity and hides a QUIC one.\<close>

definition observation_bound :: "dict \<Rightarrow> dict \<Rightarrow> dict \<Rightarrow> string \<Rightarrow> bool" where
  "observation_bound r event obs t \<longleftrightarrow>
     dget obs ''case_id'' = PStr (case_id_of r) \<and> dget obs ''transaction_id'' = PStr t
     \<and> agrees [''transport_case_id'', ''phase'', ''requested_action'', ''actual_action'', ''transport_result''] obs r
     \<and> agrees [''event'', ''message_id''] obs event
     \<and> (\<exists>k. rule_key (dget obs ''rule_id'') = Inr k \<and> rule_key (dget event ''rule_id'') = Inr k)
     \<and> (let p = py_or (dget r ''negotiated_protocol'') (dget r ''downstream_protocol'')
        in p \<noteq> PNone \<longrightarrow> py_eq (dget obs ''protocol'') p)
     \<and> (\<forall>f\<in>{''connection_id'', ''stream_id'', ''barrier_id''}.
          (dget r f \<noteq> PNone \<longrightarrow> py_eq (dget obs f) (dget r f))
          \<and> (dget obs f \<noteq> PNone \<longrightarrow> py_eq (dget event f) (dget obs f)))
     \<and> (dget obs ''connection_id'' \<noteq> PNone \<or> dget obs ''stream_id'' \<noteq> PNone)
     \<and> (dget obs ''protocol'' = PStr ''h3'' \<longrightarrow> dget obs ''connection_id'' = PNone
          \<or> is_hashed_connection_id (dget obs ''connection_id''))"

lemma observation_errors_bound:
  assumes "hardening_observation_errors r event obs t = Inr []"
  shows "observation_bound r event obs t"
proof -
  have c: "observation_canonical_errors (case_id_of r) r event obs t = Inr []"
    and i: "observation_identity_errors (case_id_of r) r event obs = []"
    and p: "observation_privacy_errors (case_id_of r) obs = []"
    using assms by (auto simp: hardening_observation_errors_def rbind_eq_Inr)
  have "dget obs ''case_id'' = PStr (case_id_of r) \<and> dget obs ''transaction_id'' = PStr t
     \<and> agrees [''transport_case_id'', ''phase'', ''requested_action'', ''actual_action'', ''transport_result''] obs r
     \<and> agrees [''event'', ''message_id''] obs event
     \<and> (\<exists>k. rule_key (dget obs ''rule_id'') = Inr k \<and> rule_key (dget event ''rule_id'') = Inr k)
     \<and> (let p = py_or (dget r ''negotiated_protocol'') (dget r ''downstream_protocol'')
        in p \<noteq> PNone \<longrightarrow> py_eq (dget obs ''protocol'') p)"
    using c by (auto simp: observation_canonical_errors_def rbind_eq_Inr agrees_def Let_def)
  moreover have "(\<forall>f\<in>{''connection_id'', ''stream_id'', ''barrier_id''}.
          (dget r f \<noteq> PNone \<longrightarrow> py_eq (dget obs f) (dget r f))
          \<and> (dget obs f \<noteq> PNone \<longrightarrow> py_eq (dget event f) (dget obs f)))
     \<and> (dget obs ''connection_id'' \<noteq> PNone \<or> dget obs ''stream_id'' \<noteq> PNone)"
    using i by (auto simp: observation_identity_errors_def)
  moreover have "dget obs ''protocol'' = PStr ''h3'' \<longrightarrow> dget obs ''connection_id'' = PNone
          \<or> is_hashed_connection_id (dget obs ''connection_id'')"
    using p by (auto simp: observation_privacy_errors_def)
  ultimately show ?thesis unfolding observation_bound_def by blast
qed

text \<open>What strict evidence adds: a committed, incomplete response and a client-visible abort or reset.\<close>

definition strict_bound :: "dict \<Rightarrow> dict \<Rightarrow> bool" where
  "strict_bound r obs \<longleftrightarrow>
     dget obs ''response_committed'' = PBool True \<and> dget obs ''first_byte_received'' = PBool True
     \<and> dget obs ''eos_received'' = PBool False \<and> dget obs ''host_survived'' = PBool True
     \<and> dget obs ''followup_request_result'' = PStr ''completed''
     \<and> \<not> py_eq (dget r ''actual_status'') (PInt 403) \<and> \<not> py_eq (dget r ''visible_http_status'') (PInt 403)
     \<and> (dget obs ''protocol'' = PStr ''http1'' \<and> dget r ''actual_action'' = PStr ''abort_connection''
          \<and> dget r ''transport_result'' = PStr ''connection_aborted''
          \<and> (\<exists>s\<in>set STRICT_CLIENT_RESULTS_HTTP1. dget obs ''client_result'' = PStr s)
        \<or> (\<exists>p\<in>{''h2'', ''h2c'', ''h3''}. dget obs ''protocol'' = PStr p)
          \<and> dget r ''actual_action'' = PStr ''stream_reset'' \<and> dget r ''transport_result'' = PStr ''stream_reset''
          \<and> dget obs ''client_result'' = PStr ''stream_reset'' \<and> dget obs ''stream_reset'' = PBool True
          \<and> (dget obs ''reset_code'' \<noteq> PNone \<or> dget obs ''stream_reset_code'' \<noteq> PNone))"

lemma strict_common_Nil:
  "strict_common_errors c r obs = [] \<longleftrightarrow>
     dget obs ''response_committed'' = PBool True \<and> dget obs ''first_byte_received'' = PBool True
     \<and> dget obs ''eos_received'' = PBool False \<and> dget obs ''host_survived'' = PBool True
     \<and> dget obs ''followup_request_result'' = PStr ''completed''
     \<and> \<not> py_eq (dget r ''actual_status'') (PInt 403) \<and> \<not> py_eq (dget r ''visible_http_status'') (PInt 403)"
  by (simp add: strict_common_errors_def)

lemma strict_errors_bound:
  assumes "strict_errors r obs = Inr []" and "strict_case r"
  shows "strict_bound r obs"
proof (cases "dget obs ''protocol'' = PStr ''http1''")
  case True
  have "strict_common_errors (case_id_of r) r obs = []" and "strict_http1_errors (case_id_of r) r obs = Inr []"
    using assms True by (auto simp: strict_errors_def rbind_eq_Inr Let_def)
  then show ?thesis
    unfolding strict_bound_def strict_common_Nil
    using True by (auto simp: strict_http1_errors_def rbind_eq_Inr in_str_set_eq_True)
next
  case False
  have "\<exists>m. in_str_set (dget obs ''protocol'') [''h2'', ''h2c'', ''h3''] = Inr m
      \<and> strict_common_errors (case_id_of r) r obs = []
      \<and> m \<and> strict_h2_or_h3_errors (case_id_of r) r obs = []"
    using assms False by (auto simp: strict_errors_def rbind_eq_Inr Let_def split: if_splits)
  then show ?thesis
    unfolding strict_bound_def strict_common_Nil
    by (auto simp: strict_h2_or_h3_errors_def in_str_set_eq_True)
qed

section \<open>The binding as a state machine\<close>

text \<open>
  A promoted transaction is bound when exactly one event and one observation carry its
  keys, a lifecycle record exists, and all of them agree with the case result.
\<close>

definition transaction_bound :: "binding_inputs \<Rightarrow> dict \<Rightarrow> string \<Rightarrow> nat \<Rightarrow> dict \<Rightarrow> dict \<Rightarrow> dict \<Rightarrow> bool" where
  "transaction_bound inp r t i event obs lifecycle_record \<longleftrightarrow>
     t \<in> bi_count_ids inp
     \<and> matching_transport_events (bi_events inp) (transport_case_of r) t = [(i, event)]
     \<and> event_bound r event (bi_manifest inp) t
     \<and> matching_transport_observations (bi_observations inp) (case_id_of r) (transport_case_of r) t = [obs]
     \<and> observation_bound r event obs t
     \<and> (strict_case r \<longrightarrow> strict_bound r obs)
     \<and> map_of (bi_lifecycle inp) (transport_case_of r, t) = Some lifecycle_record
     \<and> lifecycle_observation_errors (case_id_of r) r obs lifecycle_record = Inr []"

text \<open>The state after one transaction has claimed an event, an observation and a lifecycle key.\<close>

definition claim :: "binding_state \<Rightarrow> dict \<Rightarrow> string \<Rightarrow> nat \<Rightarrow> binding_state" where
  "claim st r t i =
     \<lparr>used_event_indexes = insert i (used_event_indexes st),
      used_observations = insert (case_id_of r, t) (used_observations st),
      strict_lifecycle_keys =
        (if strict_case r then insert (transport_case_of r, t) (strict_lifecycle_keys st)
         else strict_lifecycle_keys st)\<rparr>"

inductive binds :: "binding_inputs \<Rightarrow> binding_state \<Rightarrow> (dict \<times> string) list \<Rightarrow> nat list \<Rightarrow> binding_state \<Rightarrow> bool"
  for inp where
  finish: "binds inp st [] [] st"
| step: "transaction_bound inp r t i event obs lifecycle_record \<Longrightarrow> i \<notin> used_event_indexes st \<Longrightarrow>
    (case_id_of r, t) \<notin> used_observations st \<Longrightarrow> binds inp (claim st r t i) cs is st' \<Longrightarrow>
    binds inp st ((r, t) # cs) (i # is) st'"

inductive_simps binds_Nil [simp]: "binds inp st [] is st'"
inductive_cases binds_Cons: "binds inp st (c # cs) is st'"

lemma binds_append:
  "binds inp st cs is st' \<Longrightarrow> binds inp st' ds js st'' \<Longrightarrow> binds inp st (cs @ ds) (is @ js) st''"
  by (induction rule: binds.induct) (auto intro: binds.step)

text \<open>No event and no observation is claimed twice; the claimed strict keys are those of strict cases.\<close>

lemma binds_invariant:
  assumes "binds inp st cs is st'"
  shows "length is = length cs \<and> distinct is \<and> set is \<inter> used_event_indexes st = {}
    \<and> used_event_indexes st' = used_event_indexes st \<union> set is
    \<and> distinct (map (\<lambda>(r, t). (case_id_of r, t)) cs)
    \<and> (\<lambda>(r, t). (case_id_of r, t)) ` set cs \<inter> used_observations st = {}
    \<and> strict_lifecycle_keys st' = strict_lifecycle_keys st
        \<union> {(transport_case_of r, t) | r t. (r, t) \<in> set cs \<and> strict_case r}"
  using assms
proof (induction rule: binds.induct)
  case (step r t i event obs lifecycle_record st cs "is" st')
  then have IH: "distinct is" "i \<notin> set is" "set is \<inter> used_event_indexes st = {}"
    "distinct (map (\<lambda>(r, t). (case_id_of r, t)) cs)"
    "(case_id_of r, t) \<notin> (\<lambda>(r, t). (case_id_of r, t)) ` set cs"
    "(\<lambda>(r, t). (case_id_of r, t)) ` set cs \<inter> used_observations st = {}"
    by (auto simp: claim_def)
  have "strict_lifecycle_keys st' = strict_lifecycle_keys (claim st r t i)
      \<union> {(transport_case_of r, t) | r t. (r, t) \<in> set cs \<and> strict_case r}"
    "used_event_indexes st' = used_event_indexes (claim st r t i) \<union> set is"
    using step.IH by blast+
  then have "strict_lifecycle_keys st' = strict_lifecycle_keys st
      \<union> {(transport_case_of r', t') | r' t'. (r', t') \<in> set ((r, t) # cs) \<and> strict_case r'}"
    "used_event_indexes st' = used_event_indexes st \<union> set (i # is)"
    by (auto simp: claim_def)
  with IH step show ?case by auto
qed auto

lemma binds_bound:
  "binds inp st cs is st' \<Longrightarrow>
     list_all2 (\<lambda>(r, t) i. \<exists>event obs lc. transaction_bound inp r t i event obs lc) cs is"
  by (induction rule: binds.induct) auto

lemma lifecycle_step:
  assumes "bind_lifecycle inp r t obs errors st = Inr ([], st')"
  shows "errors = [] \<and> (\<exists>lc. map_of (bi_lifecycle inp) (transport_case_of r, t) = Some lc
    \<and> lifecycle_observation_errors (case_id_of r) r obs lc = Inr []
    \<and> st' = (if strict_case r
        then st\<lparr>strict_lifecycle_keys := insert (transport_case_of r, t) (strict_lifecycle_keys st)\<rparr> else st))"
  using assms by (auto simp: bind_lifecycle_def Let_def rbind_eq_Inr split: option.splits)

lemma transaction_step:
  assumes "transaction_correlation_errors inp r t st = Inr ([], st')"
  shows "\<exists>i event obs lc. transaction_bound inp r t i event obs lc \<and> i \<notin> used_event_indexes st
    \<and> (case_id_of r, t) \<notin> used_observations st \<and> st' = claim st r t i"
proof -
  obtain i event where ev: "matching_transport_events (bi_events inp) (transport_case_of r) t = [(i, event)]"
    using assms by (auto simp: transaction_correlation_errors_def Let_def split: list.splits)
  define st1 where "st1 = st\<lparr>used_event_indexes := insert i (used_event_indexes st)\<rparr>"
  obtain e where e: "event_errors r event (bi_manifest inp) t = Inr e"
    and o1: "bind_observation inp r t event
        (err_if (t \<notin> bi_count_ids inp) (case_id_of r @ '': transaction_id is absent from transaction_counts'')
         @ err_if (i \<in> used_event_indexes st) (case_id_of r @ '': reuses an event claimed by another transport case'')
         @ e) st1 = Inr ([], st')"
    using assms ev by (auto simp: transaction_correlation_errors_def Let_def rbind_eq_Inr st1_def)
  obtain obs where obs: "matching_transport_observations (bi_observations inp) (case_id_of r) (transport_case_of r) t = [obs]"
    using o1 by (auto simp: bind_observation_def split: list.splits)
  obtain e1 e2 where e1: "hardening_observation_errors r event obs t = Inr e1" and e2: "strict_errors r obs = Inr e2"
    and l: "bind_lifecycle inp r t obs
        ((err_if (t \<notin> bi_count_ids inp) (case_id_of r @ '': transaction_id is absent from transaction_counts'')
         @ err_if (i \<in> used_event_indexes st) (case_id_of r @ '': reuses an event claimed by another transport case'')
         @ e) @ err_if ((case_id_of r, t) \<in> used_observations st1) (case_id_of r @ '': reuses a transport observation'')
         @ e1 @ e2) (st1\<lparr>used_observations := insert (case_id_of r, t) (used_observations st1)\<rparr>) = Inr ([], st')"
    using o1 obs by (auto simp: bind_observation_def Let_def rbind_eq_Inr)
  from lifecycle_step [OF l] obtain lc where
    clean: "t \<in> bi_count_ids inp" "i \<notin> used_event_indexes st" "e = []"
      "(case_id_of r, t) \<notin> used_observations st" "e1 = []" "e2 = []"
    and lc: "map_of (bi_lifecycle inp) (transport_case_of r, t) = Some lc"
      "lifecycle_observation_errors (case_id_of r) r obs lc = Inr []"
    and st': "st' = claim st r t i"
    by (auto simp: st1_def claim_def)
  have "transaction_bound inp r t i event obs lc"
    unfolding transaction_bound_def
    using ev obs lc clean e e1 e2 event_errors_Nil observation_errors_bound strict_errors_bound by blast
  with clean st' show ?thesis by blast
qed

definition claims :: "dict list \<Rightarrow> (dict \<times> string) list" where
  "claims passes = concat (map (\<lambda>r. map (\<lambda>t. (r, py_str t)) (transaction_list r)) passes)"

lemma transactions_bind:
  "bind_transactions inp r ts st = Inr ([], st') \<Longrightarrow>
     \<exists>is. binds inp st (map (\<lambda>t. (r, py_str t)) ts) is st'"
proof (induction ts arbitrary: st)
  case Nil
  then show ?case by auto
next
  case (Cons t ts)
  then obtain st1 where "transaction_correlation_errors inp r (py_str t) st = Inr ([], st1)"
    and rest: "bind_transactions inp r ts st1 = Inr ([], st')"
    by (auto simp: rbind_eq_Inr)
  then obtain i event obs lc where "transaction_bound inp r (py_str t) i event obs lc"
    "i \<notin> used_event_indexes st" "(case_id_of r, py_str t) \<notin> used_observations st" "st1 = claim st r (py_str t) i"
    using transaction_step by blast
  moreover obtain "is" where "binds inp st1 (map (\<lambda>t. (r, py_str t)) ts) is st'" using Cons.IH [OF rest] by blast
  ultimately show ?case by (auto intro: binds.step)
qed

lemma passes_bind:
  "bind_passes inp passes st = Inr ([], st') \<Longrightarrow>
     (\<exists>is. binds inp st (claims passes) is st')
     \<and> (\<forall>r\<in>set passes. transport_record_identity_errors r = [] \<and> record_run_context_errors r (bi_manifest inp) = [])"
proof (induction passes arbitrary: st)
  case Nil
  then show ?case by (auto simp: claims_def)
next
  case (Cons r rs)
  then obtain st1 where 1: "bind_transactions inp r (transaction_list r) st = Inr ([], st1)"
    and 2: "bind_passes inp rs st1 = Inr ([], st')"
    and 3: "transport_record_identity_errors r = []" "record_run_context_errors r (bi_manifest inp) = []"
    by (auto simp: rbind_eq_Inr)
  obtain "is" js where "binds inp st (map (\<lambda>t. (r, py_str t)) (transaction_list r)) is st1"
    "binds inp st1 (claims rs) js st'"
    using transactions_bind [OF 1] Cons.IH [OF 2] by blast
  then have "binds inp st (claims (r # rs)) (is @ js) st'" by (simp add: claims_def binds_append)
  with 3 Cons.IH [OF 2] show ?case by auto
qed

section \<open>Artifacts of a run\<close>

definition ARTIFACT_PATHS :: "(string \<times> string) list" where
  "ARTIFACT_PATHS = TRANSPORT_HARDENING_ARTIFACT_PATHS @ ENGINE_LIFECYCLE_ARTIFACT_PATHS"

lemma artifact_path_some:
  "artifact_path view manifest n required = Inr (Some p, e) \<Longrightarrow> e = [] \<and> map_of ARTIFACT_PATHS n = Some p"
  unfolding artifact_path_def Let_def ARTIFACT_PATHS_def [symmetric]
  by (auto simp: rbind_eq_Inr split: option.splits if_splits)

lemma artifact_path_none: "artifact_path view manifest n True = Inr (None, e) \<Longrightarrow> e \<noteq> []"
  unfolding artifact_path_def Let_def
  by (auto simp: rbind_eq_Inr split: option.splits if_splits)

lemma inventory_paths_clean:
  "inventory_paths view manifest True names = Inr (paths, []) \<Longrightarrow> n \<in> set names \<Longrightarrow>
     \<exists>p. path_of paths n = Some p \<and> map_of ARTIFACT_PATHS n = Some p"
proof (induction names arbitrary: paths)
  case (Cons m names)
  then obtain mp paths' where 1: "artifact_path view manifest m True = Inr (mp, [])"
    and 2: "inventory_paths view manifest True names = Inr (paths', [])" and 3: "paths = (m, mp) # paths'"
    by (auto simp: rbind_eq_Inr)
  obtain p where p: "mp = Some p" "map_of ARTIFACT_PATHS m = Some p"
    using 1 artifact_path_none [of view manifest m] artifact_path_some [of view manifest m] by (cases mp) auto
  show ?case
  proof (cases "n = m")
    case True
    with p 3 show ?thesis by (simp add: path_of_def)
  next
    case False
    with Cons.IH [OF 2] Cons.prems(2) 3 show ?thesis by (auto simp: path_of_def)
  qed
qed simp

lemma load_object_clean:
  "load_object view p label = (v, []) \<Longrightarrow> \<exists>d. v = Some d \<and> rv_load_json view p = Inr (PDict d)"
  by (auto simp: load_object_def load_json_object_def split: sum.splits pyval.splits)

lemma validated_object_clean:
  "validated_inventory_object view (Some p) label schema manifest = (v, []) \<Longrightarrow>
     \<exists>d. v = Some d \<and> rv_load_json view p = Inr (PDict d) \<and> schema_errors view d schema label = []
       \<and> agrees RUN_FIELDS d manifest"
  unfolding validated_inventory_object_def
  using load_object_clean [of view p label]
  by (auto simp: identity_errors_def differing_Nil agrees_def split: prod.splits option.splits)

lemma engine_payload_clean:
  "engine_inventory_payload view (Some p) label manifest = (v, []) \<Longrightarrow>
     \<exists>d. v = Some d \<and> rv_load_json view p = Inr (PDict d)"
  unfolding engine_inventory_payload_def
  using load_object_clean [of view p label] by (auto split: prod.splits option.splits)

text \<open>The sidecars of a run with a promoted case, as they were read.\<close>

definition sidecars :: "run_view \<Rightarrow> dict \<Rightarrow> dict \<Rightarrow> dict \<Rightarrow> dict \<Rightarrow> bool" where
  "sidecars view observations lifecycle counters transaction_counts \<longleftrightarrow>
     rv_load_json view ''inventory/transport-observations.json'' = Inr (PDict observations)
     \<and> rv_load_json view ''inventory/connection-lifecycle.json'' = Inr (PDict lifecycle)
     \<and> rv_load_json view ''lifecycle-counters.json'' = Inr (PDict counters)
     \<and> rv_load_json view ''transaction-counts.json'' = Inr (PDict transaction_counts)"

lemma artifact_paths_used:
  "map_of ARTIFACT_PATHS ''transport_observations'' = Some ''inventory/transport-observations.json''"
  "map_of ARTIFACT_PATHS ''connection_lifecycle'' = Some ''inventory/connection-lifecycle.json''"
  "map_of ARTIFACT_PATHS ''lifecycle_counters'' = Some ''lifecycle-counters.json''"
  "map_of ARTIFACT_PATHS ''transaction_counts'' = Some ''transaction-counts.json''"
  by (simp_all add: ARTIFACT_PATHS_def TRANSPORT_HARDENING_ARTIFACT_PATHS_def ENGINE_LIFECYCLE_ARTIFACT_PATHS_def)

lemma inventory_clean:
  assumes "inventory_errors view manifest True = Inr (iv, [])"
  shows "\<exists>observations lifecycle counters transaction_counts.
    iv_observations iv = Some observations \<and> iv_lifecycle iv = Some lifecycle
    \<and> iv_counters iv = Some counters \<and> iv_transaction_counts iv = Some transaction_counts
    \<and> sidecars view observations lifecycle counters transaction_counts"
proof -
  let ?names = "REQUIRED_TRANSPORT_ARTIFACTS @ REQUIRED_ENGINE_ARTIFACTS"
  obtain paths e0 where p0: "inventory_paths view manifest True ?names = Inr (paths, e0)"
    using assms by (auto simp: inventory_errors_def rbind_eq_Inr)
  obtain observations e1 where ob: "validated_inventory_object view (path_of paths ''transport_observations'')
      ''transport-observations'' ''transport-observations.schema.json'' manifest = (observations, e1)" by fastforce
  obtain lifecycle e2 where l: "validated_inventory_object view (path_of paths ''connection_lifecycle'')
      ''connection-lifecycle'' ''connection-lifecycle.schema.json'' manifest = (lifecycle, e2)" by fastforce
  obtain config e3 where cf: "validated_inventory_object view (path_of paths ''effective_config'')
      ''effective-config'' ''effective-config.schema.json'' manifest = (config, e3)" by fastforce
  obtain counters e5 where c: "engine_inventory_payload view (path_of paths ''lifecycle_counters'')
      ''lifecycle_counters'' manifest = (counters, e5)" by fastforce
  obtain counts e6 where t: "engine_inventory_payload view (path_of paths ''transaction_counts'')
      ''transaction_counts'' manifest = (counts, e6)" by fastforce
  have clean: "e0 = []" "e1 = []" "e2 = []" "e5 = []" "e6 = []"
    and iv: "iv_observations iv = observations" "iv_lifecycle iv = lifecycle" "iv_counters iv = counters"
      "iv_transaction_counts iv = counts"
    using assms by (auto simp: inventory_errors_def rbind_eq_Inr p0 ob l cf c t)
  note p = p0 [unfolded clean] and ob = ob [unfolded clean] and l = l [unfolded clean]
    and c = c [unfolded clean] and t = t [unfolded clean]
  have names: "''transport_observations'' \<in> set ?names" "''connection_lifecycle'' \<in> set ?names"
    "''lifecycle_counters'' \<in> set ?names" "''transaction_counts'' \<in> set ?names"
    by (simp_all add: REQUIRED_TRANSPORT_ARTIFACTS_def REQUIRED_ENGINE_ARTIFACTS_def
        TRANSPORT_HARDENING_ARTIFACT_PATHS_def)
  have paths: "path_of paths ''transport_observations'' = Some ''inventory/transport-observations.json''"
    "path_of paths ''connection_lifecycle'' = Some ''inventory/connection-lifecycle.json''"
    "path_of paths ''lifecycle_counters'' = Some ''lifecycle-counters.json''"
    "path_of paths ''transaction_counts'' = Some ''transaction-counts.json''"
    using inventory_paths_clean [OF p names(1)] inventory_paths_clean [OF p names(2)]
      inventory_paths_clean [OF p names(3)] inventory_paths_clean [OF p names(4)]
    by (simp_all add: artifact_paths_used)
  show ?thesis
    using validated_object_clean [OF ob [unfolded paths]] validated_object_clean [OF l [unfolded paths]]
      engine_payload_clean [OF c [unfolded paths]] engine_payload_clean [OF t [unfolded paths]]
    by (auto simp: sidecars_def iv)
qed

section \<open>Counters\<close>

lemma counter_value_nonneg: "0 \<le> counter_value r f"
  by (simp add: counter_value_def Let_def)

text \<open>The counters are ordered, equal the sums over the records, and bound what they may exceed.\<close>

definition counters_account :: "dict \<Rightarrow> dict list \<Rightarrow> bool" where
  "counters_account counters records \<longleftrightarrow>
     (\<forall>f\<in>set REQUIRED_LIFECYCLE_COUNTERS. is_int (dget counters f) \<and> 0 \<le> int_val (dget counters f))
     \<and> int_val (dget counters ''transactions_finished'') \<le> int_val (dget counters ''transactions_started'')
     \<and> int_val (dget counters ''transactions_destroyed'') \<le> int_val (dget counters ''transactions_finished'')
     \<and> dget counters ''transport_counters_bound'' = PBool True
     \<and> (\<forall>(counter, field)\<in>{(''client_disconnects'', ''client_disconnect''),
          (''upstream_disconnects'', ''upstream_disconnect''), (''stream_resets'', ''stream_reset''),
          (''timeouts'', ''timeout''), (''short_writes'', ''short_writes''),
          (''write_would_block'', ''write_would_block''), (''intentional_aborts'', ''intentional_abort'')}.
          py_eq (dget counters counter) (PInt (sum_of records field)))
     \<and> (\<forall>(counter, reasons)\<in>{(''cleanup_normal'', {''normal''}),
          (''cleanup_cancel'', {''cancelled'', ''client_disconnected'', ''upstream_disconnected''}),
          (''cleanup_abort'', {''strict_abort'', ''stream_reset''})}.
          py_eq (dget counters counter)
            (PInt (int (length (filter (\<lambda>r. dget r ''cleanup_reason'' \<in> PStr ` reasons) records)))))
     \<and> (\<forall>(counter, field)\<in>{(''transactions_started'', ''transaction_started''),
          (''transactions_finished'', ''transaction_finished''),
          (''transactions_destroyed'', ''transaction_destroyed''),
          (''request_body_finishes'', ''request_body_finished''),
          (''response_body_finishes'', ''response_body_finished'')}.
          sum_of records field \<le> int_val (dget counters counter))"

lemma required_counters_Nil:
  "required_counter_errors counters = [] \<longleftrightarrow>
     (\<forall>f\<in>set REQUIRED_LIFECYCLE_COUNTERS. is_int (dget counters f) \<and> 0 \<le> int_val (dget counters f))"
  by (auto simp: required_counter_errors_def not_less)

lemma is_int_present: "is_int (dget d k) \<Longrightarrow> has_key d k"
  using dget_absent by fastforce

lemma dget_default_int: "is_int (dget d k) \<Longrightarrow> dget_default d k v = dget d k"
  by (simp add: dget_default_def is_int_present)

lemma concat_err_if:
  "concat (map (\<lambda>(a, b). err_if (P a b) (m a b)) xs) = [] \<longleftrightarrow> (\<forall>(a, b)\<in>set xs. \<not> P a b)"
  by (induction xs) auto

lemma cleanups_in_length:
  "cleanups_in S rs = Inr n \<Longrightarrow> n = int (length (filter (\<lambda>r. dget r ''cleanup_reason'' \<in> PStr ` set S) rs))"
proof (induction rs arbitrary: n)
  case (Cons r rs)
  have "in_str_set v S = Inr b \<Longrightarrow> b \<longleftrightarrow> v \<in> PStr ` set S" for v b
    by (cases v) (auto simp: in_str_set_def split: if_splits)
  then show ?case using Cons by (auto simp: rbind_eq_Inr)
qed simp

lemma cleanup_normal_length:
  "sum_list (map (\<lambda>r. if dget r ''cleanup_reason'' = PStr ''normal'' then 1 else 0) rs)
     = int (length (filter (\<lambda>r. dget r ''cleanup_reason'' = PStr ''normal'') rs))"
  by (induction rs) auto

lemma counter_errors_account:
  assumes "counter_errors counters records True = Inr []"
  shows "counters_account counters records"
proof -
  have req: "required_counter_errors counters = []"
    using assms by (auto simp: counter_errors_def Let_def split: if_splits)
  have bound: "dget counters ''transport_counters_bound'' = PBool True"
    using assms req by (auto simp: counter_errors_def Let_def split: if_splits)
  obtain expectations where ex: "bound_counter_expectations records = Inr expectations"
    and order: "int_val (dget counters ''transactions_finished'') \<le> int_val (dget counters ''transactions_started'')
      \<and> int_val (dget counters ''transactions_destroyed'') \<le> int_val (dget counters ''transactions_finished'')"
    and eqs: "\<forall>(f, n)\<in>set expectations. py_eq (dget counters f) (PInt n)"
    and lows: "\<forall>(f, n)\<in>set (counter_lower_bounds records). n \<le> int_val (dget_default counters f (PInt (- 1)))"
    using assms req bound
    by (auto simp: counter_errors_def rbind_eq_Inr Let_def concat_err_if not_less simp del: concat_eq_Nil_conv)
  have ints: "\<forall>f\<in>set REQUIRED_LIFECYCLE_COUNTERS. is_int (dget counters f) \<and> 0 \<le> int_val (dget counters f)"
    using req required_counters_Nil by blast
  have sums: "\<forall>(counter, field)\<in>{(''client_disconnects'', ''client_disconnect''),
          (''upstream_disconnects'', ''upstream_disconnect''), (''stream_resets'', ''stream_reset''),
          (''timeouts'', ''timeout''), (''short_writes'', ''short_writes''),
          (''write_would_block'', ''write_would_block''), (''intentional_aborts'', ''intentional_abort'')}.
          py_eq (dget counters counter) (PInt (sum_of records field))"
    using ex eqs by (auto simp: bound_counter_expectations_def rbind_eq_Inr)
  have bounds: "\<forall>(counter, field)\<in>{(''transactions_started'', ''transaction_started''),
          (''transactions_finished'', ''transaction_finished''),
          (''transactions_destroyed'', ''transaction_destroyed''),
          (''request_body_finishes'', ''request_body_finished''),
          (''response_body_finishes'', ''response_body_finished'')}.
          sum_of records field \<le> int_val (dget counters counter)"
    using lows ints by (simp add: counter_lower_bounds_def REQUIRED_LIFECYCLE_COUNTERS_def dget_default_int)
  have cleanups: "\<forall>(counter, reasons)\<in>{(''cleanup_normal'', {''normal''}),
          (''cleanup_cancel'', {''cancelled'', ''client_disconnected'', ''upstream_disconnected''}),
          (''cleanup_abort'', {''strict_abort'', ''stream_reset''})}.
          py_eq (dget counters counter)
            (PInt (int (length (filter (\<lambda>r. dget r ''cleanup_reason'' \<in> PStr ` reasons) records))))"
  proof -
    obtain cancels aborts where
      c: "cleanups_in [''cancelled'', ''client_disconnected'', ''upstream_disconnected''] records = Inr cancels"
      and a: "cleanups_in [''strict_abort'', ''stream_reset''] records = Inr aborts"
      and e: "(''cleanup_cancel'', cancels) \<in> set expectations" "(''cleanup_abort'', aborts) \<in> set expectations"
        "(''cleanup_normal'', sum_list (map (\<lambda>r. if dget r ''cleanup_reason'' = PStr ''normal'' then 1 else 0) records))
          \<in> set expectations"
      using ex by (auto simp: bound_counter_expectations_def rbind_eq_Inr)
    show ?thesis
      using bspec [OF eqs e(1)] bspec [OF eqs e(2)] bspec [OF eqs e(3)]
        cleanups_in_length [OF c] cleanups_in_length [OF a]
      by (simp add: cleanup_normal_length)
  qed
  show ?thesis unfolding counters_account_def using ints order bound sums cleanups bounds by blast
qed

section \<open>Aborts and resets\<close>

lemma unbound_Nil:
  assumes "unbound_lifecycle_errors by_key passes observations strict_keys = []" and "(key, lc) \<in> set by_key"
  shows "py_eq (dget lc ''intentional_abort'') (PInt 1) \<Longrightarrow> key \<in> strict_keys"
    and "py_eq (dget lc ''stream_reset'') (PInt 1) \<Longrightarrow>
      (\<exists>r t. (r, t) \<in> set (claims passes) \<and> key = (transport_case_of r, t))
      \<and> (\<exists>obs\<in>set observations. lifecycle_key obs = key \<and> dget obs ''transport_result'' = PStr ''stream_reset'')"
proof -
  have "\<forall>x\<in>set by_key. (case x of (key, r) \<Rightarrow>
      \<not> (py_eq (dget r ''intentional_abort'') (PInt 1) \<and> key \<notin> strict_keys)
      \<and> \<not> (py_eq (dget r ''stream_reset'') (PInt 1)
         \<and> (key \<notin> set (concat (map (\<lambda>r. map (\<lambda>t. (transport_case_of r, py_str t)) (transaction_list r)) passes))
            \<or> (case map_of (rev (map (\<lambda>obs. (lifecycle_key obs, obs)) observations)) key of None \<Rightarrow> True
               | Some obs \<Rightarrow> dget obs ''transport_result'' \<noteq> PStr ''stream_reset''))))"
    using assms(1) by (auto simp: unbound_lifecycle_errors_def Let_def)
  from bspec [OF this assms(2)]
  show "py_eq (dget lc ''intentional_abort'') (PInt 1) \<Longrightarrow> key \<in> strict_keys"
    and "py_eq (dget lc ''stream_reset'') (PInt 1) \<Longrightarrow>
      (\<exists>r t. (r, t) \<in> set (claims passes) \<and> key = (transport_case_of r, t))
      \<and> (\<exists>obs\<in>set observations. lifecycle_key obs = key \<and> dget obs ''transport_result'' = PStr ''stream_reset'')"
    by (force simp: claims_def split: option.splits dest!: map_of_SomeD)+
qed

text \<open>The index holds every record whose key is not repeated.\<close>

lemma key_set_member: "(k, v) \<in> set (key_set d k v)"
  by (induction d k v rule: key_set.induct) auto

lemma key_set_other: "k' \<noteq> k \<Longrightarrow> (k', v') \<in> set d \<Longrightarrow> (k', v') \<in> set (key_set d k v)"
  by (induction d k v rule: key_set.induct) auto

lemma key_set_keys: "fst ` set (key_set d k v) = insert k (fst ` set d)"
  by (induction d k v rule: key_set.induct) auto

lemma index_lifecycle_keeps:
  "index_lifecycle ids i acc rs = (by_key, []) \<Longrightarrow> (k, v) \<in> set acc \<Longrightarrow> (k, v) \<in> set by_key"
proof (induction rs arbitrary: i acc)
  case (Cons r rs)
  then have new: "lifecycle_key r \<notin> fst ` set acc"
    and rec: "index_lifecycle ids (Suc i) (key_set acc (lifecycle_key r) r) rs = (by_key, [])"
    by (auto simp: Let_def split: prod.splits)
  then have "(k, v) \<in> set (key_set acc (lifecycle_key r) r)"
    using Cons.prems(2) by (intro key_set_other) (auto simp: rev_image_eqI)
  then show ?case using Cons.IH [OF rec] by blast
qed simp

lemma index_lifecycle_member:
  "index_lifecycle ids i acc rs = (by_key, []) \<Longrightarrow> r \<in> set rs \<Longrightarrow>
     (lifecycle_key r, r) \<in> set by_key \<and> snd (lifecycle_key r) \<in> ids
     \<and> (\<exists>j. lifecycle_record_errors r (lifecycle_label j) = [])"
proof (induction rs arbitrary: i acc)
  case (Cons r' rs)
  then have rec: "index_lifecycle ids (Suc i) (key_set acc (lifecycle_key r') r') rs = (by_key, [])"
    and clean: "lifecycle_record_errors r' (lifecycle_label i) = []" "snd (lifecycle_key r') \<in> ids"
    by (auto simp: Let_def split: prod.splits)
  show ?case
  proof (cases "r = r'")
    case True
    then show ?thesis using index_lifecycle_keeps [OF rec key_set_member] clean by blast
  next
    case False
    then show ?thesis using Cons.IH [OF rec] Cons.prems(2) by simp
  qed
qed simp

section \<open>A check without messages\<close>

text \<open>The promoted cases of a run with its manifest and its events, as they were read.\<close>

definition promoted :: "run_view \<Rightarrow> dict \<Rightarrow> dict list \<Rightarrow> dict list \<Rightarrow> bool" where
  "promoted view manifest events passes \<longleftrightarrow>
     rv_load_json view ''manifest.json'' = Inr (PDict manifest)
     \<and> rv_read_jsonl view ''events.jsonl'' = Inr events
     \<and> (\<exists>records catalog. rv_read_jsonl view ''results.jsonl'' = Inr records
          \<and> catalog_by_id view = Inr catalog \<and> passes = transport_passes records catalog)"

lemma promoted_unique:
  "promoted view m e p \<Longrightarrow> promoted view m' e' p' \<Longrightarrow> m' = m \<and> e' = e \<and> p' = p"
  by (auto simp: promoted_def)

text \<open>The inputs of the binding, from the sidecars.\<close>

definition sidecar_inputs :: "dict \<Rightarrow> dict list \<Rightarrow> dict \<Rightarrow> dict \<Rightarrow> dict \<Rightarrow> binding_inputs" where
  "sidecar_inputs manifest events observations lifecycle transaction_counts =
     (let observation_records = mapping_items (list_val (dget observations ''observations''));
          lifecycle_records = mapping_items (list_val (dget lifecycle ''records''));
          ids = fst (transaction_count_ids transaction_counts)
      in \<lparr>bi_events = events, bi_observations = observation_records,
          bi_lifecycle = fst (indexed_sidecar_errors observation_records lifecycle_records ids),
          bi_count_ids = ids, bi_manifest = manifest\<rparr>)"

definition hardening_accepted ::
    "run_view \<Rightarrow> dict \<Rightarrow> dict list \<Rightarrow> dict list \<Rightarrow> dict \<Rightarrow> dict \<Rightarrow> dict \<Rightarrow> dict \<Rightarrow> nat list \<Rightarrow> binding_state \<Rightarrow> bool" where
  "hardening_accepted view manifest events passes observations lifecycle counters counts is st \<longleftrightarrow>
     (let inp = sidecar_inputs manifest events observations lifecycle counts;
          records = mapping_items (list_val (dget lifecycle ''records''))
      in sidecars view observations lifecycle counters counts
         \<and> binds inp initial_binding (claims passes) is st
         \<and> (\<forall>r\<in>set passes. transport_record_identity_errors r = [] \<and> record_run_context_errors r manifest = [])
         \<and> counters_account counters records
         \<and> (\<exists>es. index_lifecycle (bi_count_ids inp) 0 [] records = (bi_lifecycle inp, es) \<and> es = [])
         \<and> unbound_lifecycle_errors (bi_lifecycle inp) passes (bi_observations inp) (strict_lifecycle_keys st) = [])"

lemma bound_errors_accepted:
  assumes "bound_errors passes events manifest barriers (list_val (dget observations ''observations''))
      (list_val (dget lifecycle ''records'')) counters counts = Inr []"
    and "sidecars view observations lifecycle counters counts"
  shows "\<exists>is st. hardening_accepted view manifest events passes observations lifecycle counters counts is st"
proof -
  let ?o = "mapping_items (list_val (dget observations ''observations''))"
  let ?l = "mapping_items (list_val (dget lifecycle ''records''))"
  obtain ids ce where ids: "transaction_count_ids counts = (ids, ce)" by fastforce
  obtain by_key ie where ix: "index_lifecycle ids 0 [] ?l = (by_key, ie)" by fastforce
  define inp where "inp = \<lparr>bi_events = events, bi_observations = ?o, bi_lifecycle = by_key, bi_count_ids = ids,
      bi_manifest = manifest\<rparr>"
  have inp: "inp = sidecar_inputs manifest events observations lifecycle counts"
    by (simp add: inp_def sidecar_inputs_def ids indexed_sidecar_errors_def ix)
  obtain st where c: "counter_errors counters ?l True = Inr []" and "ie = []"
    and b: "bind_passes inp passes initial_binding = Inr ([], st)"
    and u: "unbound_lifecycle_errors by_key passes ?o (strict_lifecycle_keys st) = []"
    using assms(1)
    by (auto simp: bound_errors_def ids indexed_sidecar_errors_def ix rbind_eq_Inr pass_correlation_errors_def
        inp_def Let_def)
  from passes_bind [OF b] obtain "is" where "binds inp initial_binding (claims passes) is st"
    and "\<forall>r\<in>set passes. transport_record_identity_errors r = [] \<and> record_run_context_errors r manifest = []"
    by (auto simp: inp_def)
  then have "hardening_accepted view manifest events passes observations lifecycle counters counts is st"
    unfolding hardening_accepted_def Let_def inp [symmetric]
    using assms(2) counter_errors_account [OF c] ix \<open>ie = []\<close> u by (simp add: inp_def)
  then show ?thesis by blast
qed

lemma tail_clean: "hardening_tail view manifest errors passes events = Inr [] \<Longrightarrow> errors = []"
  by (auto simp: hardening_tail_def rbind_eq_Inr Let_def split: option.splits if_splits)

lemma hardening_clean:
  assumes "transport_hardening_errors view = Inr []"
  shows "\<exists>manifest events passes. promoted view manifest events passes
    \<and> dget manifest ''artifact_profile'' = PStr FULL_LIFECYCLE_ARTIFACT_PROFILE
    \<and> (passes \<noteq> [] \<longrightarrow> (\<exists>observations lifecycle counters counts is st.
         hardening_accepted view manifest events passes observations lifecycle counters counts is st))"
proof -
  obtain res re where r: "load_object view ''result.json'' ''result.json'' = (res, re)" by fastforce
  obtain man me where m: "load_object view ''manifest.json'' ''manifest.json'' = (man, me)" by fastforce
  obtain records rce where rc: "load_jsonl view ''results.jsonl'' ''results.jsonl'' = (records, rce)" by fastforce
  obtain events eve where ev: "load_jsonl view ''events.jsonl'' ''events.jsonl'' = (events, eve)" by fastforce
  have "re = []" "me = []"
    using assms tail_clean [of view]
    by (auto simp: transport_hardening_errors_def r m rc ev rbind_eq_Inr Let_def
        split: option.splits if_splits dest!: tail_clean)
  then obtain result manifest where res: "res = Some result" "man = Some manifest"
    and mj: "rv_load_json view ''manifest.json'' = Inr (PDict manifest)"
    using load_object_clean r m by blast
  have profile: "dget manifest ''artifact_profile'' = PStr FULL_LIFECYCLE_ARTIFACT_PROFILE"
    using assms by (auto simp: transport_hardening_errors_def r m res Let_def split: if_splits)
  obtain base catalog where cat: "catalog_by_id view = Inr catalog"
    and tail: "hardening_tail view manifest (base @ rce @ eve) (transport_passes records catalog) events = Inr []"
    using assms profile \<open>re = []\<close> \<open>me = []\<close>
    by (auto simp: transport_hardening_errors_def r m res rc ev rbind_eq_Inr Let_def)
  define passes where "passes = transport_passes records catalog"
  have "rce = []" "eve = []"
    using tail_clean [OF tail] by simp_all
  then have "promoted view manifest events passes"
    using mj rc ev cat by (auto simp: promoted_def passes_def load_jsonl_def split: sum.splits)
  moreover have "\<exists>observations lifecycle counters counts is st.
         hardening_accepted view manifest events passes observations lifecycle counters counts is st"
    if ne: "passes \<noteq> []"
  proof -
    obtain iv es where ies: "inventory_errors view manifest True = Inr (iv, es)"
      using tail ne by (auto simp: hardening_tail_def passes_def [symmetric] rbind_eq_Inr)
    have "es = []"
      using tail ne
      by (cases "iv_observations iv"; cases "iv_lifecycle iv"; cases "iv_counters iv"; cases "iv_transaction_counts iv")
        (auto simp: hardening_tail_def passes_def [symmetric] ies rbind_eq_Inr Let_def split: if_splits)
    with ies have iv: "inventory_errors view manifest True = Inr (iv, [])" by simp
    from inventory_clean [OF this] obtain observations lifecycle counters counts where
      s: "iv_observations iv = Some observations" "iv_lifecycle iv = Some lifecycle"
        "iv_counters iv = Some counters" "iv_transaction_counts iv = Some counts"
      and sc: "sidecars view observations lifecycle counters counts" by blast
    have "bound_errors passes events manifest (iv_barrier_events iv) (list_val (dget observations ''observations''))
      (list_val (dget lifecycle ''records'')) counters counts = Inr []"
      using tail ne by (auto simp: hardening_tail_def passes_def [symmetric] iv s rbind_eq_Inr Let_def split: if_splits)
    from bound_errors_accepted [OF this sc] show ?thesis by blast
  qed
  ultimately show ?thesis using profile by blast
qed

section \<open>Using an accepted run\<close>

lemma sidecars_unique:
  "sidecars view o1 l1 c1 t1 \<Longrightarrow> sidecars view o2 l2 c2 t2 \<Longrightarrow> o2 = o1 \<and> l2 = l1 \<and> c2 = c1 \<and> t2 = t1"
  by (auto simp: sidecars_def)

lemma hardening_accepted_sidecars:
  "hardening_accepted view manifest events passes observations lifecycle counters counts is st \<Longrightarrow>
     sidecars view observations lifecycle counters counts"
  by (simp add: hardening_accepted_def Let_def)

lemma claims_nonempty:
  "r \<in> set passes \<Longrightarrow> transport_record_identity_errors r = [] \<Longrightarrow> \<exists>t. (r, t) \<in> set (claims passes)"
  by (force simp: claims_def transaction_list_def transport_record_identity_errors_def Let_def neq_Nil_conv
      split: if_splits)

end
