(* ===== verification/HardeningProperties.thy ===== *)
theory HardeningProperties
  imports HardeningFacts
begin

text \<open>
  The theorems about the transport-hardening check, and the run with one strict HTTP/2 case
  on which they are instantiated.
\<close>

section \<open>A run with one promoted case\<close>

definition demo_identity :: dict where
  "demo_identity = [(''connector'', PStr ''nginx''), (''integration_mode'', PStr ''native''), (''run_id'', PStr ''r1'')]"

definition demo_outcome_fields :: dict where
  "demo_outcome_fields =
     [(''transport_case_id'', PStr ''c1''), (''phase'', PInt 4), (''requested_action'', PStr ''deny''),
      (''actual_action'', PStr ''stream_reset''), (''transport_result'', PStr ''stream_reset''),
      (''stream_id'', PInt 1)]"

definition demo_case :: dict where
  "demo_case = demo_identity @ demo_outcome_fields @
     [(''case_id'', PStr ''c1''), (''status'', PStr ''PASS''), (''live_executed'', PBool True),
      (''group'', PStr ''full-lifecycle-transport''), (''expected_result'', PStr ''connection_aborted_strict''),
      (''transaction_ids'', PList [PStr ''t1'']), (''observed_rule_ids'', PList [PInt 100]),
      (''negotiated_protocol'', PStr ''h2'')]"

definition demo_event :: dict where
  "demo_event = demo_identity @ demo_outcome_fields @
     [(''transaction_id'', PStr ''t1''), (''event'', PStr ''intervention''), (''message_id'', PStr ''m1''),
      (''rule_id'', PStr ''100'')]"

definition demo_hardening_observation :: dict where
  "demo_hardening_observation = demo_outcome_fields @
     [(''case_id'', PStr ''c1''), (''transaction_id'', PStr ''t1''), (''event'', PStr ''intervention''),
      (''message_id'', PStr ''m1''), (''rule_id'', PInt 100), (''protocol'', PStr ''h2''),
      (''response_committed'', PBool True), (''first_byte_received'', PBool True),
      (''eos_received'', PBool False), (''host_survived'', PBool True),
      (''followup_request_result'', PStr ''completed''), (''client_result'', PStr ''stream_reset''),
      (''stream_reset'', PBool True), (''reset_code'', PInt 8)]"

definition demo_lifecycle_record :: dict where
  "demo_lifecycle_record =
     [(''transport_case_id'', PStr ''c1''), (''transaction_id'', PStr ''t1''), (''transaction_started'', PInt 1),
      (''transaction_finished'', PInt 1), (''transaction_destroyed'', PInt 1), (''intentional_abort'', PInt 1),
      (''stream_reset'', PInt 1), (''cleanup_reason'', PStr ''stream_reset'')]"

definition demo_observations :: dict where
  "demo_observations = demo_identity @ [(''observations'', PList [PDict demo_hardening_observation])]"

definition demo_lifecycle :: dict where
  "demo_lifecycle = demo_identity @ [(''records'', PList [PDict demo_lifecycle_record])]"

definition demo_counters :: dict where
  "demo_counters =
     [(''schema_version'', PInt 1), (''connector'', PStr ''nginx''), (''transactions_started'', PInt 1),
      (''transactions_finished'', PInt 1), (''transactions_destroyed'', PInt 1),
      (''request_body_finishes'', PInt 0), (''response_body_finishes'', PInt 0),
      (''interventions_seen'', PInt 1), (''intentional_aborts'', PInt 1), (''unexpected_engine_errors'', PInt 0),
      (''transport_counters_bound'', PBool True), (''client_disconnects'', PInt 0),
      (''upstream_disconnects'', PInt 0), (''stream_resets'', PInt 1), (''timeouts'', PInt 0),
      (''short_writes'', PInt 0), (''write_would_block'', PInt 0), (''cleanup_normal'', PInt 0),
      (''cleanup_cancel'', PInt 0), (''cleanup_abort'', PInt 1)]"

definition demo_counts :: dict where
  "demo_counts =
     [(''schema_version'', PInt 1), (''connector'', PStr ''nginx''), (''transaction_ids'', PList [PStr ''t1'']),
      (''transactions_observed'', PInt 1)]"

definition demo_manifest :: dict where
  "demo_manifest = demo_identity @
     [(''artifact_profile'', PStr ''full_lifecycle''),
      (''artifacts'', PDict (map (\<lambda>(n, p). (n, PDict [(''path'', PStr p), (''state'', PStr ''produced'')]))
         (TRANSPORT_HARDENING_ARTIFACT_PATHS @ ENGINE_LIFECYCLE_ARTIFACT_PATHS)))]"

definition demo_files :: "(string \<times> pyval) list" where
  "demo_files =
     [(''result.json'', PDict []), (''manifest.json'', PDict demo_manifest),
      (''inventory/transport-observations.json'', PDict demo_observations),
      (''inventory/connection-lifecycle.json'', PDict demo_lifecycle),
      (''effective-config/manifest.json'', PDict demo_identity),
      (''lifecycle-counters.json'', PDict demo_counters),
      (''transaction-counts.json'', PDict demo_counts)]"

definition demo_view :: run_view where
  "demo_view =
     \<lparr>rv_load_json = (\<lambda>p. case map_of demo_files p of None \<Rightarrow> Inl ''missing'' | Some v \<Rightarrow> Inr v),
      rv_read_jsonl = (\<lambda>p. if p = ''results.jsonl'' then Inr [demo_case]
                           else if p = ''events.jsonl'' then Inr [demo_event] else Inr []),
      rv_is_symlink = (\<lambda>p. False), rv_is_file = (\<lambda>p. True), rv_sha256 = (\<lambda>p. Inr []),
      rv_base_errors = (\<lambda>c. Inr []), rv_catalog = Inr [],
      rv_load_schema = (\<lambda>n. Inr (PDict [])), rv_json_schema_errors = (\<lambda>v s l. []),
      rv_event_errors = (\<lambda>e l c i. Inr [])\<rparr>"

lemma demo_promoted: "promoted demo_view demo_manifest [demo_event] [demo_case]"
proof -
  have "transport_passes [demo_case] [] = [demo_case]" by code_simp
  then show ?thesis by (simp add: promoted_def demo_view_def demo_files_def catalog_by_id_def)
qed

lemma demo_hardening: "transport_hardening_errors demo_view = Inr []"
  by code_simp

section \<open>Binding\<close>

text \<open>
  C4. A run that the check passes has every promoted transaction bound on its own: each
  transaction of each promoted case agrees with exactly one event, one observation and one
  lifecycle record, no two transactions share an event or an observation, and every promoted
  case has at least one transaction.
\<close>

theorem hardening_binding_unique:
  assumes "transport_hardening_errors view = Inr []" and "promoted view manifest events passes" and "passes \<noteq> []"
  shows "\<exists>observations lifecycle counters counts is.
    sidecars view observations lifecycle counters counts \<and> distinct is
    \<and> distinct (map (\<lambda>(r, t). (case_id_of r, t)) (claims passes))
    \<and> list_all2 (\<lambda>(r, t) i. \<exists>event obs lc.
         transaction_bound (sidecar_inputs manifest events observations lifecycle counts) r t i event obs lc)
       (claims passes) is
    \<and> (\<forall>r\<in>set passes. \<exists>t. (r, t) \<in> set (claims passes))"
proof -
  obtain observations lifecycle counters counts "is" st where
    acc: "hardening_accepted view manifest events passes observations lifecycle counters counts is st"
    using hardening_clean [OF assms(1)] promoted_unique [OF assms(2)] assms(3) by blast
  then have b: "binds (sidecar_inputs manifest events observations lifecycle counts) initial_binding (claims passes) is st"
    and s: "sidecars view observations lifecycle counters counts"
    and r: "\<forall>r\<in>set passes. transport_record_identity_errors r = []"
    by (simp_all add: hardening_accepted_def Let_def)
  have "\<forall>r\<in>set passes. \<exists>t. (r, t) \<in> set (claims passes)"
    using claims_nonempty r by blast
  moreover have "distinct is" "distinct (map (\<lambda>(r, t). (case_id_of r, t)) (claims passes))"
    using binds_invariant [OF b] by simp_all
  ultimately show ?thesis using s binds_bound [OF b] by (intro exI conjI)
qed

text \<open>The accepted run of one strict case.\<close>

theorem hardening_binding_unique_witness:
  "\<exists>observations lifecycle counts i event obs lc.
     transaction_bound (sidecar_inputs demo_manifest [demo_event] observations lifecycle counts)
       demo_case ''t1'' i event obs lc"
proof -
  have "claims [demo_case] = [(demo_case, ''t1'')]" by code_simp
  with hardening_binding_unique [OF demo_hardening demo_promoted]
  obtain observations lifecycle counts i event obs lc where
    "transaction_bound (sidecar_inputs demo_manifest [demo_event] observations lifecycle counts)
       demo_case ''t1'' i event obs lc"
    by (auto simp: list_all2_Cons1)
  then show ?thesis by blast
qed

section \<open>Aborts\<close>

text \<open>
  C15. A passed run with at least one promoted case explains its aborts: an intentional abort in
  a lifecycle record belongs to a transaction of a promoted strict case, and a stream reset
  belongs to a transaction of a promoted case whose observation reports that reset. (A run
  without a promoted case claims nothing; its sidecars are diagnostic, and the check accepts
  aborts and resets in them.)
\<close>

theorem hardening_aborts_explained:
  assumes "transport_hardening_errors view = Inr []" and "promoted view manifest events passes" and "passes \<noteq> []"
    and "sidecars view observations lifecycle counters counts"
    and "record \<in> set (mapping_items (list_val (dget lifecycle ''records'')))"
  shows "(py_eq (dget record ''intentional_abort'') (PInt 1) \<longrightarrow>
      (\<exists>r t. (r, t) \<in> set (claims passes) \<and> strict_case r \<and> lifecycle_key record = (transport_case_of r, t)))
    \<and> (py_eq (dget record ''stream_reset'') (PInt 1) \<longrightarrow>
      (\<exists>r t. (r, t) \<in> set (claims passes) \<and> lifecycle_key record = (transport_case_of r, t))
      \<and> (\<exists>obs\<in>set (mapping_items (list_val (dget observations ''observations''))).
           lifecycle_key obs = lifecycle_key record \<and> dget obs ''transport_result'' = PStr ''stream_reset''))"
proof -
  obtain "is" st where acc: "hardening_accepted view manifest events passes observations lifecycle counters counts is st"
    using hardening_clean [OF assms(1)] promoted_unique [OF assms(2)] sidecars_unique [OF assms(4)] assms(3)
    by (metis hardening_accepted_sidecars)
  define inp where "inp = sidecar_inputs manifest events observations lifecycle counts"
  have b: "binds inp initial_binding (claims passes) is st"
    and ix: "index_lifecycle (bi_count_ids inp) 0 [] (mapping_items (list_val (dget lifecycle ''records'')))
        = (bi_lifecycle inp, [])"
    and u: "unbound_lifecycle_errors (bi_lifecycle inp) passes (bi_observations inp) (strict_lifecycle_keys st) = []"
    using acc by (auto simp: hardening_accepted_def Let_def inp_def)
  have obs: "bi_observations inp = mapping_items (list_val (dget observations ''observations''))"
    by (simp add: inp_def sidecar_inputs_def Let_def)
  have keys: "strict_lifecycle_keys st = {(transport_case_of r, t) | r t. (r, t) \<in> set (claims passes) \<and> strict_case r}"
    using binds_invariant [OF b] by (simp add: initial_binding_def)
  have "(lifecycle_key record, record) \<in> set (bi_lifecycle inp)"
    using index_lifecycle_member [OF ix assms(5)] by simp
  note found = unbound_Nil [OF u this]
  show ?thesis using found unfolding keys obs by blast
qed

theorem hardening_aborts_explained_witness:
  "\<exists>r t. (r, t) \<in> set (claims [demo_case]) \<and> strict_case r
     \<and> lifecycle_key demo_lifecycle_record = (transport_case_of r, t)"
proof -
  have s: "sidecars demo_view demo_observations demo_lifecycle demo_counters demo_counts"
    by (simp add: sidecars_def demo_view_def demo_files_def)
  have m: "demo_lifecycle_record \<in> set (mapping_items (list_val (dget demo_lifecycle ''records'')))"
    by (simp add: demo_lifecycle_def demo_identity_def mapping_items_def)
  have "py_eq (dget demo_lifecycle_record ''intentional_abort'') (PInt 1)"
    by (simp add: demo_lifecycle_record_def)
  with hardening_aborts_explained [OF demo_hardening demo_promoted _ s m] show ?thesis by blast
qed

section \<open>Counters\<close>

text \<open>
  C18. The counters of a passed run with at least one promoted case account for its lifecycle
  records: the transport counters are exactly the sums over the records, the three cleanup
  counters are exactly the numbers of records whose cleanup reason is normal, one of the
  three cancellations, or one of the two aborts, transactions were destroyed at most as
  often as finished and finished at most as often as started, and the engine counters are
  not below what the records show.
\<close>

theorem hardening_counters_account:
  assumes "transport_hardening_errors view = Inr []" and "promoted view manifest events passes" and "passes \<noteq> []"
    and "sidecars view observations lifecycle counters counts"
  shows "counters_account counters (mapping_items (list_val (dget lifecycle ''records'')))"
proof -
  obtain "is" st where "hardening_accepted view manifest events passes observations lifecycle counters counts is st"
    using hardening_clean [OF assms(1)] promoted_unique [OF assms(2)] sidecars_unique [OF assms(4)] assms(3)
    by (metis hardening_accepted_sidecars)
  then show ?thesis by (simp add: hardening_accepted_def Let_def)
qed

theorem hardening_counters_account_witness:
  "int_val (dget demo_counters ''transactions_destroyed'') \<le> int_val (dget demo_counters ''transactions_started'')
   \<and> counters_account demo_counters (mapping_items (list_val (dget demo_lifecycle ''records'')))"
proof -
  have "sidecars demo_view demo_observations demo_lifecycle demo_counters demo_counts"
    by (simp add: sidecars_def demo_view_def demo_files_def)
  from hardening_counters_account [OF demo_hardening demo_promoted _ this] show ?thesis
    by (auto simp: counters_account_def)
qed

section \<open>Payload\<close>

text \<open>
  C19. The payload scan of the canonical evidence reports nothing exactly when no forbidden
  payload or secret field and no body sentinel occurs in the value, at any depth and under
  any name the scan is called with.
\<close>

theorem baseline_payload_scan:
  "forbidden_payload_errors v location = [] \<longleftrightarrow>
     (\<forall>k. occurs_key v k \<longrightarrow> \<not> forbidden_key k) \<and> (\<forall>s. occurs_text v s \<longrightarrow> \<not> holds_sentinel s)"
  by (simp add: baseline_payload.scan_silent baseline_payload.clean_def)

theorem baseline_payload_scan_witness:
  "forbidden_payload_errors (PList [PDict [(''Set-Cookie'', PStr ''x'')]]) ''event'' \<noteq> []"
proof -
  have "occurs_key (PList [PDict [(''Set-Cookie'', PStr ''x'')]]) ''Set-Cookie''"
    by (simp add: occurs_key_dict occurs_key_list)
  moreover have "forbidden_key ''Set-Cookie''" by code_simp
  ultimately show ?thesis
    using baseline_payload_scan [of "PList [PDict [(''Set-Cookie'', PStr ''x'')]]" "''event''"] by blast
qed

section \<open>Errors that escape\<close>

text \<open>
  C32. A rule identifier of superscript digits is a digit string for \<open>str.isdigit\<close> and not for
  \<open>int\<close>: the one event that carries it makes the binding of its transaction raise
  \<open>ValueError\<close> instead of reporting the identifier.
\<close>

theorem superscript_rule_id_raises:
  assumes "matching_transport_events (bi_events inp) (transport_case_of r) t = [(i, event)]"
    and "dget event ''rule_id'' = PStr s" and "isdigit s" and "\<not> list_all is_digit s"
  shows "transaction_correlation_errors inp r t st = Inl ValueError"
proof -
  have "rule_key (dget event ''rule_id'') = Inl ValueError" using assms(2-4) by (simp add: rule_key_def)
  then have "event_errors r event (bi_manifest inp) t = Inl ValueError"
    by (simp add: event_errors_def event_identity_errors_def event_rule_errors_def)
  then show ?thesis using assms(1) by (simp add: transaction_correlation_errors_def Let_def)
qed

theorem superscript_rule_id_raises_witness:
  "transaction_correlation_errors
     \<lparr>bi_events = [[(''transport_case_id'', PStr ''c1''), (''transaction_id'', PStr ''t1''), (''rule_id'', PStr [CHR 0xB2])]],
      bi_observations = [], bi_lifecycle = [], bi_count_ids = {}, bi_manifest = []\<rparr> demo_case ''t1'' initial_binding
   = Inl ValueError"
proof (rule superscript_rule_id_raises [where s = "[CHR 0xB2]" and i = 0])
  show "isdigit [CHR 0xB2]" "\<not> list_all is_digit [CHR 0xB2]" by code_simp+
  show "dget [(''transport_case_id'', PStr ''c1''), (''transaction_id'', PStr ''t1''), (''rule_id'', PStr [CHR 0xB2])]
      ''rule_id'' = PStr [CHR 0xB2]" by simp
qed (simp add: matching_transport_events_def numbered_def transport_case_of_def demo_case_def demo_identity_def
      demo_outcome_fields_def)

end
