(* ===== verification/Spec2Isabelle.thy ===== *)
theory Spec2Isabelle
  imports ClientProperties CheckerProperties ClientChecker HardeningProperties
begin

text \<open>
  \<^bold>\<open>Verification of the protocol evidence tools.\<close>

  \<^bold>\<open>The program.\<close> The repository tests connectors of a web application firewall and keeps
  evidence of every run. This development covers the tools that produce and judge the
  evidence of one protocol probe and of one hardening run:

  \<^item> the protocol client (\<^verbatim>\<open>src/ci/checks/protocol/protocol_client.py\<close>) probes a server with
    curl over one forced protocol and writes four artifacts, and a fifth for a follow-up;
  \<^item> the evidence checker (\<^verbatim>\<open>src/ci/checks/protocol/check_protocol_evidence.py\<close>) reads such a
    directory and accepts or rejects it as ordinary or as strict evidence;
  \<^item> the transport-hardening checker
    (\<^verbatim>\<open>src/ci/checks/evidence/check_transport_hardening_evidence.py\<close>) binds every promoted
    case of a run to its event, observation and lifecycle record;
  \<^item> the payload scan and the artifact tables both kinds of evidence share
    (\<^verbatim>\<open>src/ci/checks/catalog/no_crs_baseline.py\<close>, \<^verbatim>\<open>src/ci/lib/no_crs_evidence_common.py\<close>).

  \<^bold>\<open>Python.\<close> \<^verbatim>\<open>PyPrelude\<close> has the results \<open>exn + 'a\<close> (every exception the modelled code
  raises or lets through is a value), their composition and the string functions;
  \<^verbatim>\<open>PyFloat\<close> IEEE doubles as exact rationals; \<^verbatim>\<open>PyValue\<close> dynamic values, dictionaries with
  insertion order (the locale \<open>mapping_ops\<close> has their laws), equality, truth and hashing;
  \<^verbatim>\<open>PyRegex\<close> regular expressions by derivatives with their language; \<^verbatim>\<open>PyUrl\<close>, \<^verbatim>\<open>PyShlex\<close>,
  \<^verbatim>\<open>PyJson\<close> and \<^verbatim>\<open>PySha256\<close> the library functions the sources call. A text is a list of
  code points up to 255; a text with a larger one is the value \<open>OutsideModel\<close>. The limit of
  nested JSON values of the interpreter is not modelled. \<^verbatim>\<open>Codec\<close> is the contract of a
  writer and its reader; \<^verbatim>\<open>PyShlex\<close> (shell words) and \<^verbatim>\<open>PyJsonFacts\<close> (JSON, UTF-8 and both
  stacked) interpret it.

  \<^bold>\<open>The client.\<close> \<^verbatim>\<open>ClientConfig\<close> (configuration and validation), \<^verbatim>\<open>CurlInspect\<close> (inspection and
  preflight), \<^verbatim>\<open>BoundedFiles\<close> (the read without following links over a tree and a table of
  descriptors), \<^verbatim>\<open>ArtifactStore\<close> (atomic replacement: every disk the write passes through),
  \<^verbatim>\<open>Sidecar\<close>, \<^verbatim>\<open>CurlCommand\<close> (arguments and redaction), \<^verbatim>\<open>Observation\<close> (write-out, outcome,
  provenance, evidence gaps, validation, final status) and \<^verbatim>\<open>ClientRun\<close> (the run with all
  early returns as a state monad over the disk). Running curl, reading the clock and what
  the operating system answers to each step of a write are fields of the environment.
  \<^verbatim>\<open>ObservationFacts\<close>, \<^verbatim>\<open>CurlFacts\<close>, \<^verbatim>\<open>ClientFacts\<close> and \<^verbatim>\<open>FollowupFacts\<close> have the lemmas,
  \<^verbatim>\<open>ClientExamples\<close> a concrete probe, \<^verbatim>\<open>ClientProperties\<close> the theorems: what PASS means, that
  a fallback always fails, that the command is locked down and its rendering hides every
  secret, that a bounded read refines the lookup in the tree, that a write is all or
  nothing, that a run writes and touches its artifacts only, and which errors escape.

  \<^bold>\<open>The evidence checker.\<close> \<^verbatim>\<open>CheckerText\<close> (reading, payload and text scans, version banner,
  feature report, rendered command) and \<^verbatim>\<open>CheckerEvidence\<close> (observation, follow-up, expected
  provenance, ordinary and strict evidence, exit status). The directory is a tree behind
  the bounded reader and three predicates for what follows links. \<^verbatim>\<open>CheckerFacts\<close> shows for
  each group of checks that it is silent exactly when a condition holds that is written
  without the checker's code; together they are the specification \<open>evidence_accepted\<close>, which
  the checker refines. \<^verbatim>\<open>CheckerExamples\<close> has an accepted directory of each kind,
  \<^verbatim>\<open>CheckerProperties\<close> the theorems. \<^verbatim>\<open>ClientChecker\<close> and the theorems of this theory join
  client and checker.

  \<^bold>\<open>The hardening checker.\<close> \<^verbatim>\<open>HardeningRecords\<close> (one case and its event, observation and
  lifecycle record), \<^verbatim>\<open>HardeningBinding\<close> (counters and the binding, which threads the used
  events, observations and strict keys through all transactions) and \<^verbatim>\<open>HardeningRun\<close> (the
  inventory and the whole check). What the check takes from the rest of the baseline (base
  checks, catalog, schema validation, event contract, loaders, file digests) are fields of
  \<open>run_view\<close>; the theorems have no hypothesis on them. \<^verbatim>\<open>HardeningFacts\<close> reads a silent binding
  as a run of the step relation \<open>binds\<close> and proves its invariant by rule induction;
  \<^verbatim>\<open>HardeningProperties\<close> has the theorems and a run with one strict case.

  \<^bold>\<open>Payload scans.\<close> \<^verbatim>\<open>PayloadScan\<close> states the contract of a scan over a JSON value as a locale
  and proves once that a scan is silent exactly when nothing forbidden occurs at any depth;
  \<^verbatim>\<open>CheckerText\<close> and \<^verbatim>\<open>BaselinePayload\<close> interpret it for the two scans of the program.

  \<^bold>\<open>Bounds and fuel.\<close> The JSON scanner recurs with a bound of twice the length of the text plus
  two; every recursion consumes a character, and the round trip shows the bound is never
  reached on written texts. Everything else recurs structurally or with a measure.

  \<^bold>\<open>Not modelled.\<close> Argument parsing with argparse; the catalog, event contract, schema
  interpreter and normalisation of the baseline; the full-lifecycle and response-body
  checks; report generators, security and version checks; provisioning, builds and process
  control of the connector suite, which are input and output. Planned next: the schema
  interpreter and event contract of the baseline, then the full-lifecycle checker.
\<close>

section \<open>From the client to the checker\<close>

text \<open>
  C5. What the client calls PASS the checker accepts: the observation of a run that returned
  PASS, with a response status (at least 400 when curl ended with exit code 22, which curl
  uses for such answers only), passes every check the checker has on a primary observation
  and on the transfer of ordinary evidence, for the protocol and the provenance of that run.
\<close>

theorem client_pass_accepted:
  assumes "run_protocol_client env config d = (Inr r, d')"
    and "dget (rr_observation r) ''status'' = PStr ''PASS''"
    and "dget (rr_observation r) ''http_status'' \<noteq> PNone"
    and "dget (rr_observation r) ''curl_exit_code'' = PInt 22 \<Longrightarrow>
      int_in 400 999 (dget (rr_observation r) ''http_status'')"
    and "dget (rr_observation r) ''requested_protocol'' = PStr (ca_protocol args)"
    and "provenance_matches (rr_observation r) args"
  shows "primary_observation_errors (rr_observation r) args = Inr []
    \<and> successful_transfer_errors (rr_observation r) True = []"
  using run_returns [OF assms(1)]
proof
  assume "blocked_run env config d r d'"
  then have "dget (rr_observation r) ''status'' \<in> {PStr ''NOT_EXECUTED'', PStr ''BLOCKED''}"
    unfolding blocked_run_def using blocked_observation_facts(1) by fastforce
  with assms(2) show ?thesis by simp
next
  assume "\<exists>p sch sidecar obs. executed_run env config d r d' p sch sidecar obs"
  then obtain p sch sidecar obs where run: "executed_run env config d r d' p sch sidecar obs" by blast
  have "ca_protocol args = p" using executed_pass(2) [OF run assms(2)] assms(5) by simp
  then show ?thesis
    unfolding primary_observation_Nil successful_transfer_Nil
    using executed_pass_primary_ok [OF run assms(2) _ assms(6)] executed_pass_transfer [OF run assms(2-4)] by blast
qed

theorem client_pass_accepted_witness:
  "\<exists>p. primary_observation_errors demo_observation (sample_args p False) = Inr []
     \<and> successful_transfer_errors demo_observation True = []"
proof -
  obtain d' where run: "run_protocol_client demo_env demo_config Map.empty = (Inr demo_result, d')"
    using demo_run by blast
  have ro: "rr_observation demo_result = demo_observation" by (simp add: demo_result_def)
  obtain p where "dget demo_observation ''requested_protocol'' = PStr p"
    by (simp add: demo_observation_def)
  then have "dget (rr_observation demo_result) ''requested_protocol'' = PStr (ca_protocol (sample_args p False))"
    by (simp add: ro sample_args_def)
  then have "primary_observation_errors (rr_observation demo_result) (sample_args p False) = Inr []
    \<and> successful_transfer_errors (rr_observation demo_result) True = []"
    by (intro client_pass_accepted [OF run])
      (simp_all add: ro demo_observation_def provenance_matches_def sample_args_def)
  then show ?thesis by (auto simp: ro)
qed

text \<open>
  C17. An artifact survives the way from the client to the checker: whatever the client wrote
  without an error as JSON, numbers of every kind included, read by the checker from a tree
  that shows the written file within the bound, is one object with the same keys, and under
  each key the written value, with the keys of nested objects sorted. The value is any that
  stands for a value of Python: no dictionary has a key twice, and every float is a double.
\<close>

theorem artifact_round_trip:
  assumes "path \<noteq> []" and "fst (atomic_write_json a path v d) = Inr ()"
    and "resolve (ck_root env) path = Some (FReg True n (final_disk (atomic_write_json a path v d) path))"
    and "os_wf (ck_os env)" "n \<le> MAX_JSON_BYTES" "length (utf8_encode (json_document v @ NL)) \<le> MAX_JSON_BYTES"
    and "represented (PDict v)"
  shows "\<exists>v'. read_json env path = Inr (Some v', [])
    \<and> (\<forall>k. dget v' k = canonical (dget v k) \<and> (has_key v' k \<longleftrightarrow> has_key v k))"
proof -
  note written = atomic_write_json_success [OF assms(1,2)]
  have "json_plain (PDict v)" using assms(7) written(1) by (simp only: json_plain_iff)
  then have "reads_object env path (dict_val (canonical (PDict v)))"
    using reads_objectI [OF assms(4,1) _ assms(5,6)] assms(3) written(3) by simp
  then have "read_json env path = Inr (Some (dict_val (canonical (PDict v))), [])"
    by (simp add: read_json_ok)
  moreover have "distinct (map fst v)" using assms(7) by simp
  then have "dget (dict_val (canonical (PDict v))) k = canonical (dget v k)
      \<and> (has_key (dict_val (canonical (PDict v))) k \<longleftrightarrow> has_key v k)" for k
    using canonical_lookup [of v k] by simp
  ultimately show ?thesis by blast
qed

text \<open>An observation with a number that curl reported in its line of fields.\<close>

definition sample_transfer :: dict where
  "sample_transfer = [(''status'', PStr ''PASS''), (''downloaded_bytes'', parse_number (PStr ''1536.1''))]"

theorem artifact_round_trip_witness:
  "\<exists>v' x. read_json (sample_checker [(''f'', json_document sample_transfer @ NL)]) [''out'', ''f''] = Inr (Some v', [])
     \<and> dget v' ''status'' = PStr ''PASS'' \<and> dget v' ''downloaded_bytes'' = PFloat x"
proof -
  let ?env = "sample_checker [(''f'', json_document sample_transfer @ NL)]"
  let ?w = "atomic_write_json demo_writes [''out'', ''f''] sample_transfer Map.empty"
  have printable: "json_printable (PDict sample_transfer)" by code_simp
  have ok: "fst ?w = Inr ()"
    by (simp add: atomic_write_json_def json_dumps_def printable atomic_write_text_def fill_temporary_def
        demo_writes_def Let_def del: json_printable.simps)
  then have disk: "final_disk ?w [''out'', ''f''] = Some (utf8_encode (json_document sample_transfer @ NL))"
    by (rule atomic_write_json_success(3) [rotated]) simp
  have tree: "resolve (ck_root ?env) [''out'', ''f''] = Some (FReg True 0 (final_disk ?w [''out'', ''f'']))"
    using sample_resolve [of "[(''f'', json_document sample_transfer @ NL)]" "''f''"]
    by (simp add: sample_node_def disk)
  have os: "os_wf (ck_os ?env)" by (simp add: sample_checker_def os_wf_def)
  have rep: "represented (PDict sample_transfer)" by code_simp
  have "length (utf8_encode (json_document sample_transfer @ NL)) < 1000" by code_simp
  then have len: "length (utf8_encode (json_document sample_transfer @ NL)) \<le> MAX_JSON_BYTES"
    by (simp add: MAX_JSON_BYTES_def)
  have "dget sample_transfer ''status'' = PStr ''PASS''" by (simp add: sample_transfer_def)
  moreover have "case dget sample_transfer ''downloaded_bytes'' of PFloat x \<Rightarrow> True | _ \<Rightarrow> False" by code_simp
  then obtain x where "dget sample_transfer ''downloaded_bytes'' = PFloat x"
    by (cases "dget sample_transfer ''downloaded_bytes''") simp_all
  ultimately show ?thesis using artifact_round_trip [OF _ ok tree os _ len rep] by force
qed

end
